(* ===== verification/Prelude.thy ===== *)
theory Prelude
  imports Main "HOL-Library.Char_ord" "HOL-Library.List_Lexorder" "HOL-Library.Sublist"
begin

text \<open>
  What every component shares: computations that may raise (a sum, the raised error on the
  left), and the operations of Python's \<open>str\<close> that the sources use.  Text is a list of
  characters; where a Python operation looks at character classes (\<open>strip\<close>,
  \<open>lower\<close>, \<open>splitlines\<close>, \<open>isalnum\<close>) the model follows
  its behaviour on ASCII text.  Strings are ordered lexicographically by code point, as in Python.
\<close>

named_theorems res_simps \<open>unfolding computations that may raise\<close>
named_theorems res_elims \<open>inverting a computation that returned\<close>

section \<open>Computations that may raise\<close>

type_synonym ('e, 'a) res = "'e + 'a"

fun bindR :: "('e, 'a) res \<Rightarrow> ('a \<Rightarrow> ('e, 'b) res) \<Rightarrow> ('e, 'b) res" where
  "bindR (Inl e) f = Inl e"
| "bindR (Inr x) f = f x"

definition guardR :: "bool \<Rightarrow> 'e \<Rightarrow> ('e, unit) res" where
  "guardR b e = (if b then Inr () else Inl e)"

text \<open>\<open>check\<close> runs the continuation when the condition holds and raises otherwise.\<close>

definition check :: "bool \<Rightarrow> 'e \<Rightarrow> ('e, 'b) res \<Rightarrow> ('e, 'b) res" where
  "check b e k = (if b then k else Inl e)"

fun mapR :: "('a \<Rightarrow> ('e, 'b) res) \<Rightarrow> 'a list \<Rightarrow> ('e, 'b list) res" where
  "mapR f [] = Inr []"
| "mapR f (x # xs) = bindR (f x) (\<lambda>y. bindR (mapR f xs) (\<lambda>ys. Inr (y # ys)))"

fun is_ok :: "('e, 'a) res \<Rightarrow> bool" where
  "is_ok (Inl _) = False"
| "is_ok (Inr _) = True"

lemma bindR_Inr_iff [res_simps]:
  "bindR m f = Inr y \<longleftrightarrow> (\<exists>x. m = Inr x \<and> f x = Inr y)"
  by (cases m) auto

lemma bindR_Inl_iff:
  "bindR m f = Inl e \<longleftrightarrow> m = Inl e \<or> (\<exists>x. m = Inr x \<and> f x = Inl e)"
  by (cases m) auto

lemma check_Inr_iff [res_simps]: "check b e k = Inr y \<longleftrightarrow> b \<and> k = Inr y"
  by (simp add: check_def)

lemma check_True [simp]: "check True e k = k"
  by (simp add: check_def)

lemma check_False [simp]: "check False e k = Inl e"
  by (simp add: check_def)

lemma guardR_Inr_iff [res_simps]: "guardR b e = Inr y \<longleftrightarrow> b"
  by (simp add: guardR_def)

lemma is_ok_iff: "is_ok r \<longleftrightarrow> (\<exists>y. r = Inr y)"
  by (cases r) auto

lemma mapR_Inr_length: "mapR f xs = Inr ys \<Longrightarrow> length ys = length xs"
  by (induction xs arbitrary: ys) (auto simp: res_simps)

lemma mapR_Inr_nth:
  "mapR f xs = Inr ys \<longleftrightarrow> list_all2 (\<lambda>x y. f x = Inr y) xs ys"
proof (induction xs arbitrary: ys)
  case Nil
  then show ?case by auto
next
  case (Cons x xs)
  then show ?case by (cases ys) (auto simp: res_simps)
qed

section \<open>Python text\<close>

type_synonym str = string

definition nl :: char where "nl = CHR 0x0A"

text \<open>The ASCII part of \<open>str.isspace\<close>.\<close>

definition is_space :: "char \<Rightarrow> bool" where
  "is_space c \<longleftrightarrow> (let n = (of_char c :: nat) in n = 32 \<or> (9 \<le> n \<and> n \<le> 13) \<or> (28 \<le> n \<and> n \<le> 31))"

definition is_digit :: "char \<Rightarrow> bool" where
  "is_digit c \<longleftrightarrow> (let n = (of_char c :: nat) in 48 \<le> n \<and> n \<le> 57)"

definition is_lower_alpha :: "char \<Rightarrow> bool" where
  "is_lower_alpha c \<longleftrightarrow> (let n = (of_char c :: nat) in 97 \<le> n \<and> n \<le> 122)"

definition is_upper_alpha :: "char \<Rightarrow> bool" where
  "is_upper_alpha c \<longleftrightarrow> (let n = (of_char c :: nat) in 65 \<le> n \<and> n \<le> 90)"

definition is_alpha :: "char \<Rightarrow> bool" where
  "is_alpha c \<longleftrightarrow> is_lower_alpha c \<or> is_upper_alpha c"

definition is_alnum :: "char \<Rightarrow> bool" where
  "is_alnum c \<longleftrightarrow> is_alpha c \<or> is_digit c"

definition is_hex_lower :: "char \<Rightarrow> bool" where
  "is_hex_lower c \<longleftrightarrow> is_digit c \<or> (let n = (of_char c :: nat) in 97 \<le> n \<and> n \<le> 102)"

definition lower_char :: "char \<Rightarrow> char" where
  "lower_char c = (if is_upper_alpha c then char_of ((of_char c :: nat) + 32) else c)"

definition lower :: "str \<Rightarrow> str" where
  "lower s = map lower_char s"

definition lstrip :: "str \<Rightarrow> str" where
  "lstrip s = dropWhile is_space s"

definition rstrip :: "str \<Rightarrow> str" where
  "rstrip s = rev (dropWhile is_space (rev s))"

definition strip :: "str \<Rightarrow> str" where
  "strip s = rstrip (lstrip s)"

fun starts_with :: "'a list \<Rightarrow> 'a list \<Rightarrow> bool" where
  "starts_with [] s = True"
| "starts_with (p # ps) [] = False"
| "starts_with (p # ps) (c # s) \<longleftrightarrow> p = c \<and> starts_with ps s"

text \<open>\<open>s.find(p)\<close>, as an option.\<close>

fun find_sub :: "'a list \<Rightarrow> 'a list \<Rightarrow> nat option" where
  "find_sub p [] = (if p = [] then Some 0 else None)"
| "find_sub p (c # s) =
     (if starts_with p (c # s) then Some 0 else map_option Suc (find_sub p s))"

definition contains_sub :: "'a list \<Rightarrow> 'a list \<Rightarrow> bool" where
  "contains_sub p s \<longleftrightarrow> find_sub p s \<noteq> None"

text \<open>\<open>s.count(p)\<close> for a non-empty \<open>p\<close>: occurrences that do not overlap.\<close>

function count_sub :: "'a list \<Rightarrow> 'a list \<Rightarrow> nat" where
  "count_sub p s =
     (if p = [] then Suc (length s)
      else case s of [] \<Rightarrow> 0
           | c # cs \<Rightarrow> if starts_with p s then Suc (count_sub p (drop (length p) s))
                      else count_sub p cs)"
  by pat_completeness auto
termination
  by (relation "measure (\<lambda>(p, s). length s)") auto

declare count_sub.simps [simp del]

text \<open>\<open>s.partition(sep)\<close>: head, whether the separator was found, tail.\<close>

definition partition_sub :: "'a list \<Rightarrow> 'a list \<Rightarrow> 'a list \<times> bool \<times> 'a list" where
  "partition_sub sep s =
     (case find_sub sep s of None \<Rightarrow> (s, False, [])
      | Some i \<Rightarrow> (take i s, True, drop (i + length sep) s))"

text \<open>\<open>s.split(c)\<close> on a single character: never empty.\<close>

fun split_char :: "char \<Rightarrow> str \<Rightarrow> str list" where
  "split_char d [] = [[]]"
| "split_char d (c # s) =
     (if c = d then [] # split_char d s
      else case split_char d s of [] \<Rightarrow> [[c]] | l # ls \<Rightarrow> (c # l) # ls)"

fun join_with :: "str \<Rightarrow> str list \<Rightarrow> str" where
  "join_with d [] = []"
| "join_with d [l] = l"
| "join_with d (l # ls) = l @ d @ join_with d ls"

text \<open>The ASCII line boundaries of \<open>str.splitlines\<close>.\<close>

definition is_line_end :: "char \<Rightarrow> bool" where
  "is_line_end c \<longleftrightarrow> (let n = (of_char c :: nat) in (10 \<le> n \<and> n \<le> 13) \<or> (28 \<le> n \<and> n \<le> 30))"

fun splitlines_acc :: "str \<Rightarrow> str \<Rightarrow> str list" where
  "splitlines_acc acc [] = (if acc = [] then [] else [rev acc])"
| "splitlines_acc acc (c # s) =
     (if c = CHR 0x0D then
        (case s of [] \<Rightarrow> [rev acc]
         | d # s' \<Rightarrow> if d = CHR 0x0A then rev acc # splitlines_acc [] s'
                    else rev acc # splitlines_acc [] (d # s'))
      else if is_line_end c then rev acc # splitlines_acc [] s
      else splitlines_acc (c # acc) s)"

definition splitlines :: "str \<Rightarrow> str list" where
  "splitlines s = splitlines_acc [] s"

fun str_of_nat :: "nat \<Rightarrow> str" where
  "str_of_nat n = (if n < 10 then [char_of (48 + n)] else str_of_nat (n div 10) @ [char_of (48 + n mod 10)])"

declare str_of_nat.simps [simp del]

definition str_of_int :: "int \<Rightarrow> str" where
  "str_of_int i = (if i < 0 then CHR ''-'' # str_of_nat (nat (- i)) else str_of_nat (nat i))"

text \<open>\<open>sorted(set(xs))\<close>, and the order-preserving \<open>dict.fromkeys(xs)\<close>.\<close>

definition sorted_set :: "'a::linorder list \<Rightarrow> 'a list" where
  "sorted_set xs = sort (remdups xs)"

fun dedup_acc :: "'a list \<Rightarrow> 'a list \<Rightarrow> 'a list" where
  "dedup_acc seen [] = []"
| "dedup_acc seen (x # xs) =
     (if x \<in> set seen then dedup_acc seen xs else x # dedup_acc (x # seen) xs)"

definition dedup :: "'a list \<Rightarrow> 'a list" where
  "dedup xs = dedup_acc [] xs"

section \<open>Facts about text\<close>

lemma starts_with_append [simp]: "starts_with p (p @ s)"
  by (induction p) auto

lemma starts_with_iff: "starts_with p s \<longleftrightarrow> (\<exists>t. s = p @ t)"
  by (induction p s rule: starts_with.induct) auto

lemma find_sub_Some: "find_sub p s = Some i \<Longrightarrow> \<exists>t. s = take i s @ p @ t \<and> i \<le> length s"
proof (induction p s arbitrary: i rule: find_sub.induct)
  case (1 p)
  then show ?case by (auto split: if_splits)
next
  case (2 p c s)
  show ?case
  proof (cases "starts_with p (c # s)")
    case True
    with 2 show ?thesis by (auto simp: starts_with_iff)
  next
    case False
    with 2 obtain j where j: "find_sub p s = Some j" "i = Suc j" by auto
    with 2 False show ?thesis by auto
  qed
qed

lemma contains_sub_iff: "contains_sub p s \<longleftrightarrow> (\<exists>u v. s = u @ p @ v)"
proof
  assume "contains_sub p s"
  then obtain i where "find_sub p s = Some i" by (auto simp: contains_sub_def)
  then show "\<exists>u v. s = u @ p @ v" by (metis find_sub_Some)
next
  assume "\<exists>u v. s = u @ p @ v"
  then obtain u v where s: "s = u @ p @ v" by blast
  have "find_sub p (u @ p @ v) \<noteq> None"
  proof (induction u)
    case Nil
    show ?case
    proof (cases "p @ v")
      case Nil
      then show ?thesis by simp
    next
      case (Cons c t)
      then have "starts_with p (c # t)" by (metis starts_with_append)
      with Cons show ?thesis by simp
    qed
  next
    case (Cons c u)
    then show ?case by auto
  qed
  with s show "contains_sub p s" by (simp add: contains_sub_def)
qed

lemma split_char_not_Nil [simp]: "split_char d s \<noteq> []"
  by (cases s) (auto split: list.splits)

lemma join_split_char: "join_with [d] (split_char d s) = s"
proof (induction s)
  case Nil
  then show ?case by simp
next
  case (Cons c s)
  obtain l ls where ls: "split_char d s = l # ls" by (meson list.exhaust split_char_not_Nil)
  with Cons show ?case by (cases ls) auto
qed

lemma split_char_no_sep: "l \<in> set (split_char d s) \<Longrightarrow> d \<notin> set l"
proof (induction s arbitrary: l)
  case Nil
  then show ?case by simp
next
  case (Cons c s)
  then show ?case by (auto split: if_splits list.splits)
qed

lemma set_sorted_set [simp]: "set (sorted_set xs) = set xs"
  by (simp add: sorted_set_def)

lemma sorted_set_Nil_iff [simp]: "sorted_set xs = [] \<longleftrightarrow> xs = []"
  by (metis set_empty set_sorted_set)

lemma sorted_sorted_set [simp]: "sorted (sorted_set xs)"
  by (simp add: sorted_set_def)

lemma distinct_sorted_set [simp]: "distinct (sorted_set xs)"
  by (simp add: sorted_set_def)

lemma set_dedup_acc: "set (dedup_acc seen xs) = set xs - set seen"
  by (induction xs arbitrary: seen) auto

lemma distinct_dedup_acc: "distinct (dedup_acc seen xs)"
  by (induction xs arbitrary: seen) (auto simp: set_dedup_acc)

lemma set_dedup [simp]: "set (dedup xs) = set xs"
  by (simp add: dedup_def set_dedup_acc)

lemma distinct_dedup [simp]: "distinct (dedup xs)"
  by (simp add: dedup_def distinct_dedup_acc)

end
