(* ===== verification/Effects.thy ===== *)
theory Effects
  imports Prelude
begin

text \<open>
  Computations with a state that survives an exception, as in Python: a function from the state to
  the result (the raised error on the left) and the state it leaves.
\<close>

type_synonym ('w, 'e, 'a) st = "'w \<Rightarrow> ('e, 'a) res \<times> 'w"

definition retS :: "'a \<Rightarrow> ('w, 'e, 'a) st" where
  "retS x = (\<lambda>w. (Inr x, w))"

definition raiseS :: "'e \<Rightarrow> ('w, 'e, 'a) st" where
  "raiseS e = (\<lambda>w. (Inl e, w))"

definition bindS :: "('w, 'e, 'a) st \<Rightarrow> ('a \<Rightarrow> ('w, 'e, 'b) st) \<Rightarrow> ('w, 'e, 'b) st" where
  "bindS m f = (\<lambda>w. case m w of (Inl e, w') \<Rightarrow> (Inl e, w') | (Inr x, w') \<Rightarrow> f x w')"

definition thenS :: "('w, 'e, 'a) st \<Rightarrow> ('w, 'e, 'b) st \<Rightarrow> ('w, 'e, 'b) st" where
  "thenS m k = bindS m (\<lambda>_. k)"

definition getS :: "('w \<Rightarrow> 'a) \<Rightarrow> ('w, 'e, 'a) st" where
  "getS f = (\<lambda>w. (Inr (f w), w))"

definition modS :: "('w \<Rightarrow> 'w) \<Rightarrow> ('w, 'e, unit) st" where
  "modS f = (\<lambda>w. (Inr (), f w))"

definition liftR :: "('e, 'a) res \<Rightarrow> ('w, 'e, 'a) st" where
  "liftR r = (\<lambda>w. (r, w))"

definition checkS :: "bool \<Rightarrow> 'e \<Rightarrow> ('w, 'e, unit) st" where
  "checkS b e = (\<lambda>w. (if b then Inr () else Inl e, w))"

definition whenS :: "bool \<Rightarrow> ('w, 'e, unit) st \<Rightarrow> ('w, 'e, unit) st" where
  "whenS b m = (if b then m else retS ())"

fun forS :: "'x list \<Rightarrow> ('x \<Rightarrow> ('w, 'e, unit) st) \<Rightarrow> ('w, 'e, unit) st" where
  "forS [] f = retS ()"
| "forS (x # xs) f = thenS (f x) (forS xs f)"

text \<open>\<open>except\<close>: the handler sees the error and the state at the raise.\<close>

definition catchS :: "('w, 'e, 'a) st \<Rightarrow> ('e \<Rightarrow> ('w, 'e, 'a) st) \<Rightarrow> ('w, 'e, 'a) st" where
  "catchS m h = (\<lambda>w. case m w of (Inl e, w') \<Rightarrow> h e w' | (Inr x, w') \<Rightarrow> (Inr x, w'))"

section \<open>What a computation leaves alone\<close>

text \<open>\<open>quiet f m\<close>: the part \<open>f\<close> of the state is never changed by \<open>m\<close>, not even when it raises.\<close>

definition quiet :: "('w \<Rightarrow> 'p) \<Rightarrow> ('w, 'e, 'a) st \<Rightarrow> bool" where
  "quiet f m \<longleftrightarrow> (\<forall>w. f (snd (m w)) = f w)"

named_theorems quiet_intros \<open>computations that leave a part of the state alone\<close>

lemma quietD: "quiet f m \<Longrightarrow> m w = (r, w') \<Longrightarrow> f w' = f w"
  by (auto simp: quiet_def dest: spec [of _ w])

lemma quiet_retS [quiet_intros]: "quiet f (retS x)"
  by (simp add: quiet_def retS_def)

lemma quiet_raiseS [quiet_intros]: "quiet f (raiseS x)"
  by (simp add: quiet_def raiseS_def)

lemma quiet_getS [quiet_intros]: "quiet f (getS g)"
  by (simp add: quiet_def getS_def)

lemma quiet_liftR [quiet_intros]: "quiet f (liftR r)"
  by (simp add: quiet_def liftR_def)

lemma quiet_checkS [quiet_intros]: "quiet f (checkS b e)"
  by (simp add: quiet_def checkS_def)

lemma quiet_bindS [quiet_intros]: "quiet f m \<Longrightarrow> (\<And>x. quiet f (g x)) \<Longrightarrow> quiet f (bindS m g)"
  by (auto simp: quiet_def bindS_def split: prod.splits sum.splits) (metis snd_conv)+

lemma quiet_thenS [quiet_intros]: "quiet f m \<Longrightarrow> quiet f k \<Longrightarrow> quiet f (thenS m k)"
  by (simp add: thenS_def quiet_bindS)

lemma quiet_whenS [quiet_intros]: "(b \<Longrightarrow> quiet f m) \<Longrightarrow> quiet f (whenS b m)"
  by (simp add: whenS_def quiet_retS)

lemma quiet_forS [quiet_intros]: "(\<And>x. quiet f (g x)) \<Longrightarrow> quiet f (forS xs g)"
  by (induction xs) (auto intro: quiet_intros)

lemma quiet_if [quiet_intros]: "(b \<Longrightarrow> quiet f m) \<Longrightarrow> (\<not> b \<Longrightarrow> quiet f k) \<Longrightarrow> quiet f (if b then m else k)"
  by simp

lemma quiet_case_option [quiet_intros]:
  "(x = None \<Longrightarrow> quiet f m) \<Longrightarrow> (\<And>y. x = Some y \<Longrightarrow> quiet f (k y)) \<Longrightarrow>
   quiet f (case x of None \<Rightarrow> m | Some y \<Rightarrow> k y)"
  by (cases x) auto

lemma quiet_case_sum [quiet_intros]:
  "(\<And>y. x = Inl y \<Longrightarrow> quiet f (m y)) \<Longrightarrow> (\<And>y. x = Inr y \<Longrightarrow> quiet f (k y)) \<Longrightarrow>
   quiet f (case x of Inl y \<Rightarrow> m y | Inr y \<Rightarrow> k y)"
  by (cases x) auto

lemma quiet_case_prod [quiet_intros]:
  "(\<And>a b. x = (a, b) \<Longrightarrow> quiet f (m a b)) \<Longrightarrow> quiet f (case x of (a, b) \<Rightarrow> m a b)"
  by (cases x) auto

lemma quiet_let [quiet_intros]: "(\<And>y. quiet f (m y)) \<Longrightarrow> quiet f (let y = x in m y)"
  by simp

lemma quiet_catchS [quiet_intros]: "quiet f m \<Longrightarrow> (\<And>e. quiet f (h e)) \<Longrightarrow> quiet f (catchS m h)"
  by (auto simp: quiet_def catchS_def split: prod.splits sum.splits) (metis snd_conv)+

section \<open>Associativity\<close>

lemma bindS_bindS: "bindS (bindS m g) k = bindS m (\<lambda>x. bindS (g x) k)"
  by (rule ext) (auto simp: bindS_def split: prod.splits sum.splits)

lemma bindS_thenS: "bindS (thenS m g) k = thenS m (bindS g k)"
  unfolding thenS_def bindS_bindS ..

lemma thenS_bindS: "thenS (bindS m g) k = bindS m (\<lambda>x. thenS (g x) k)"
  unfolding thenS_def bindS_bindS ..

lemma thenS_thenS: "thenS (thenS m g) k = thenS m (thenS g k)"
  unfolding thenS_def bindS_bindS ..

lemma bindS_retS: "bindS (retS x) f = f x"
  by (rule ext) (simp add: bindS_def retS_def)

lemmas bind_normal = bindS_bindS bindS_thenS thenS_bindS thenS_thenS bindS_retS

section \<open>Inverting computations\<close>

lemma bindS_Inr:
  "bindS m f w = (Inr y, w'') \<longleftrightarrow> (\<exists>x w'. m w = (Inr x, w') \<and> f x w' = (Inr y, w''))"
  by (auto simp: bindS_def split: prod.splits sum.splits)

lemma bindS_cases:
  assumes "bindS m f w = (r, w'')"
  obtains e where "m w = (Inl e, w'')" "r = Inl e"
  | x w' where "m w = (Inr x, w')" "f x w' = (r, w'')"
  using assms by (auto simp: bindS_def split: prod.splits sum.splits)

text \<open>
  A computation that changed the part \<open>f\<close> of the state got past every step that leaves \<open>f\<close> alone.
\<close>

lemma bindS_moved:
  assumes "quiet f m" "bindS m g w = (r, w'')" "f w'' \<noteq> f w"
  obtains x w' where "m w = (Inr x, w')" "f w' = f w" "g x w' = (r, w'')"
  using assms(2)
proof (cases rule: bindS_cases)
  case (1 e)
  with quietD [OF assms(1)] assms(3) show ?thesis by blast
next
  case (2 x w')
  with quietD [OF assms(1)] that show ?thesis by blast
qed

lemma thenS_moved:
  assumes "quiet f m" "thenS m k w = (r, w'')" "f w'' \<noteq> f w"
  obtains x w' where "m w = (Inr x, w')" "f w' = f w" "k w' = (r, w'')"
  using assms(2) unfolding thenS_def by (rule bindS_moved [OF assms(1) _ assms(3)])

lemma runs_simps [simp]:
  "retS x w = (Inr x, w)" "getS g w = (Inr (g w), w)" "modS h w = (Inr (), h w)" "liftR r w = (r, w)"
  "raiseS e w = (Inl e, w)" "checkS b e w = (if b then Inr () else Inl e, w)"
  by (simp_all add: retS_def getS_def modS_def liftR_def raiseS_def checkS_def)

end
