(* ===== verification/Json.thy ===== *)
theory Json
  imports Prelude
begin

text \<open>
  What the sources use of Python's \<open>json\<close> module: the values \<open>json.loads\<close> returns, the
  canonical encoder \<open>json.dumps(..., ensure_ascii=False, sort_keys=True,
  separators=(",", ":"))\<close>, the indented one the artifact files use, and the decoder.  An
  object is an association list in insertion order, as a Python \<open>dict\<close> is.  A real number
  keeps the literal it was read from: the sources never compute with one.  Text is its UTF-8
  bytes, so characters outside ASCII pass through both directions unchanged.
\<close>

datatype json =
    JNull
  | JBool bool
  | JInt int
  | JReal string
  | JStr string
  | JArr "json list"
  | JObj "(string \<times> json) list"

section \<open>Access\<close>

definition keys :: "(string \<times> 'v) list \<Rightarrow> string list" where
  "keys kvs = map fst kvs"

text \<open>\<open>d.get(k)\<close> on a value known to be a dict: a missing key reads as \<open>None\<close>.\<close>

definition jget :: "(string \<times> json) list \<Rightarrow> string \<Rightarrow> json" where
  "jget kvs k = (case map_of kvs k of None \<Rightarrow> JNull | Some v \<Rightarrow> v)"

text \<open>\<open>d[k] = v\<close>: replaces in place, or appends.\<close>

fun dict_set :: "'k \<Rightarrow> 'v \<Rightarrow> ('k \<times> 'v) list \<Rightarrow> ('k \<times> 'v) list" where
  "dict_set k v [] = [(k, v)]"
| "dict_set k v ((k', v') # kvs) =
     (if k' = k then (k', v) # kvs else (k', v') # dict_set k v kvs)"

definition dict_of_pairs :: "('k \<times> 'v) list \<Rightarrow> ('k \<times> 'v) list" where
  "dict_of_pairs ps = fold (\<lambda>(k, v) d. dict_set k v d) ps []"

fun is_str :: "json \<Rightarrow> bool" where
  "is_str (JStr _) = True" | "is_str _ = False"

fun is_int :: "json \<Rightarrow> bool" where
  "is_int (JInt _) = True" | "is_int _ = False"

fun is_bool :: "json \<Rightarrow> bool" where
  "is_bool (JBool _) = True" | "is_bool _ = False"

fun as_str :: "json \<Rightarrow> string option" where
  "as_str (JStr s) = Some s" | "as_str _ = None"

fun as_int :: "json \<Rightarrow> int option" where
  "as_int (JInt i) = Some i" | "as_int _ = None"

text \<open>Python's truth value of a JSON value.\<close>

fun truthy :: "json \<Rightarrow> bool" where
  "truthy JNull = False"
| "truthy (JBool b) = b"
| "truthy (JInt i) = (i \<noteq> 0)"
| "truthy (JReal s) = (\<exists>c \<in> set (takeWhile (\<lambda>c. c \<noteq> CHR ''e'' \<and> c \<noteq> CHR ''E'') s). c \<notin> set ''-.0'')"
| "truthy (JStr s) = (s \<noteq> [])"
| "truthy (JArr xs) = (xs \<noteq> [])"
| "truthy (JObj kvs) = (kvs \<noteq> [])"

definition jopt_str :: "string option \<Rightarrow> json" where
  "jopt_str x = (case x of None \<Rightarrow> JNull | Some s \<Rightarrow> JStr s)"

definition jopt_int :: "int option \<Rightarrow> json" where
  "jopt_int x = (case x of None \<Rightarrow> JNull | Some i \<Rightarrow> JInt i)"

lemma map_of_dict_set [simp]: "map_of (dict_set k v kvs) = (map_of kvs)(k \<mapsto> v)"
  by (induction k v kvs rule: dict_set.induct) auto

lemma set_keys_dict_set: "set (map fst (dict_set k v kvs)) = insert k (set (map fst kvs))"
  by (induction k v kvs rule: dict_set.induct) auto

lemma distinct_dict_set:
  "distinct (map fst kvs) \<Longrightarrow> distinct (map fst (dict_set k v kvs))"
proof (induction k v kvs rule: dict_set.induct)
  case (2 k v k' v' kvs)
  then show ?case using set_keys_dict_set [of k v kvs] by auto
qed simp

lemma dict_set_fresh: "k \<notin> set (map fst kvs) \<Longrightarrow> dict_set k v kvs = kvs @ [(k, v)]"
  by (induction k v kvs rule: dict_set.induct) auto

lemma dict_of_pairs_distinct [simp]: "distinct (map fst ps) \<Longrightarrow> dict_of_pairs ps = ps"
proof -
  have "distinct (map fst (acc @ ps)) \<Longrightarrow>
      fold (\<lambda>(k, v) d. dict_set k v d) ps acc = acc @ ps" for acc :: "('a \<times> 'b) list"
  proof (induction ps arbitrary: acc)
    case Nil
    then show ?case by simp
  next
    case (Cons p ps)
    obtain k v where p: "p = (k, v)" by force
    with Cons.prems have "k \<notin> set (map fst acc)" by auto
    with p have "fold (\<lambda>(k, v) d. dict_set k v d) (p # ps) acc
        = fold (\<lambda>(k, v) d. dict_set k v d) ps (acc @ [p])"
      by (simp add: dict_set_fresh)
    also have "\<dots> = (acc @ [p]) @ ps"
      by (rule Cons.IH) (use Cons.prems in auto)
    finally show ?case by simp
  qed
  from this [of "[]"] show "distinct (map fst ps) \<Longrightarrow> dict_of_pairs ps = ps"
    by (simp add: dict_of_pairs_def)
qed

text \<open>Every Python \<open>dict\<close> has distinct keys.\<close>

fun wf_json :: "json \<Rightarrow> bool" where
  "wf_json (JArr xs) = (\<forall>x \<in> set xs. wf_json x)"
| "wf_json (JObj kvs) = (distinct (map fst kvs) \<and> (\<forall>p \<in> set kvs. wf_json (snd p)))"
| "wf_json _ = True"

lemma wf_json_jget: "wf_json (JObj kvs) \<Longrightarrow> wf_json (jget kvs k)"
  by (auto simp: jget_def split: option.splits dest!: map_of_SomeD)

section \<open>Encoding\<close>

definition hex_digit :: "nat \<Rightarrow> char" where
  "hex_digit n = (if n < 10 then char_of (48 + n) else char_of (87 + n))"

definition escape_char :: "char \<Rightarrow> string" where
  "escape_char c = (let n = (of_char c :: nat) in
     if n = 34 then [CHR 0x5C, CHR 0x22]
     else if n = 92 then [CHR 0x5C, CHR 0x5C]
     else if n = 10 then [CHR 0x5C, CHR ''n'']
     else if n = 13 then [CHR 0x5C, CHR ''r'']
     else if n = 9 then [CHR 0x5C, CHR ''t'']
     else if n = 12 then [CHR 0x5C, CHR ''f'']
     else if n = 8 then [CHR 0x5C, CHR ''b'']
     else if n < 32 then [CHR 0x5C, CHR ''u'', CHR ''0'', CHR ''0'', hex_digit (n div 16), hex_digit (n mod 16)]
     else [c])"

definition dumps_str :: "string \<Rightarrow> string" where
  "dumps_str s = CHR 0x22 # concat (map escape_char s) @ [CHR 0x22]"

text \<open>\<open>sort_keys=True\<close> sorts each object's items by key.\<close>

fun sort_keys :: "json \<Rightarrow> json" where
  "sort_keys (JArr xs) = JArr (map sort_keys xs)"
| "sort_keys (JObj kvs) = JObj (sort_key fst (map (\<lambda>(k, v). (k, sort_keys v)) kvs))"
| "sort_keys v = v"

fun dumps_plain :: "json \<Rightarrow> string" where
  "dumps_plain JNull = ''null''"
| "dumps_plain (JBool b) = (if b then ''true'' else ''false'')"
| "dumps_plain (JInt i) = str_of_int i"
| "dumps_plain (JReal s) = s"
| "dumps_plain (JStr s) = dumps_str s"
| "dumps_plain (JArr xs) = ''['' @ join_with '','' (map dumps_plain xs) @ '']''"
| "dumps_plain (JObj kvs) =
     ''{'' @ join_with '','' (map (\<lambda>(k, v). dumps_str k @ '':'' @ dumps_plain v) kvs) @ ''}''"

definition dumps :: "json \<Rightarrow> string" where
  "dumps v = dumps_plain (sort_keys v)"

text \<open>\<open>indent=2\<close>: one item per line, empty containers on one line.\<close>

definition pad :: "nat \<Rightarrow> string" where
  "pad n = nl # replicate n CHR '' ''"

fun dumps_ind :: "nat \<Rightarrow> json \<Rightarrow> string" where
  "dumps_ind n (JArr xs) =
     (if xs = [] then ''[]''
      else ''['' @ pad (n + 2) @ join_with ('','' @ pad (n + 2)) (map (dumps_ind (n + 2)) xs) @ pad n @ '']'')"
| "dumps_ind n (JObj kvs) =
     (if kvs = [] then ''{}''
      else ''{'' @ pad (n + 2)
             @ join_with ('','' @ pad (n + 2)) (map (\<lambda>(k, v). dumps_str k @ '': '' @ dumps_ind (n + 2) v) kvs)
             @ pad n @ ''}'')"
| "dumps_ind n v = dumps_plain v"

definition dumps_pretty :: "json \<Rightarrow> string" where
  "dumps_pretty v = dumps_ind 0 (sort_keys v)"

text \<open>The one-line form with default separators that the notification log uses.\<close>

fun dumps_line :: "json \<Rightarrow> string" where
  "dumps_line (JArr xs) = ''['' @ join_with '', '' (map dumps_line xs) @ '']''"
| "dumps_line (JObj kvs) =
     ''{'' @ join_with '', '' (map (\<lambda>(k, v). dumps_str k @ '': '' @ dumps_line v) kvs) @ ''}''"
| "dumps_line v = dumps_plain v"

text \<open>Equality of Python values read from JSON: objects compare without regard to order.\<close>

definition json_eq :: "json \<Rightarrow> json \<Rightarrow> bool" where
  "json_eq a b \<longleftrightarrow> sort_keys a = sort_keys b"

section \<open>Decoding\<close>

definition is_json_space :: "char \<Rightarrow> bool" where
  "is_json_space c \<longleftrightarrow> c = CHR '' '' \<or> c = CHR 0x09 \<or> c = CHR 0x0A \<or> c = CHR 0x0D"

definition skip_ws :: "string \<Rightarrow> string" where
  "skip_ws s = dropWhile is_json_space s"

definition hex_val :: "char \<Rightarrow> nat option" where
  "hex_val c = (let n = (of_char c :: nat) in
     if 48 \<le> n \<and> n \<le> 57 then Some (n - 48)
     else if 97 \<le> n \<and> n \<le> 102 then Some (n - 87)
     else if 65 \<le> n \<and> n \<le> 70 then Some (n - 55)
     else None)"

fun hex4 :: "string \<Rightarrow> (nat \<times> string) option" where
  "hex4 (a # b # c # d # s) =
     (case (hex_val a, hex_val b, hex_val c, hex_val d) of
        (Some i, Some j, Some k, Some l) \<Rightarrow> Some (((i * 16 + j) * 16 + k) * 16 + l, s)
      | _ \<Rightarrow> None)"
| "hex4 _ = None"

definition utf8_of :: "nat \<Rightarrow> string" where
  "utf8_of n =
     (if n < 128 then [char_of n]
      else if n < 2048 then [char_of (192 + n div 64), char_of (128 + n mod 64)]
      else if n < 65536 then
        [char_of (224 + n div 4096), char_of (128 + (n div 64) mod 64), char_of (128 + n mod 64)]
      else [char_of (240 + n div 262144), char_of (128 + (n div 4096) mod 64),
            char_of (128 + (n div 64) mod 64), char_of (128 + n mod 64)])"

text \<open>The escapes after a backslash: the characters meant, and the rest of the text.\<close>

definition unescape :: "string \<Rightarrow> (string \<times> string) option" where
  "unescape s =
     (case s of [] \<Rightarrow> None
      | c # r \<Rightarrow>
        let n = (of_char c :: nat) in
        if n = 34 \<or> n = 92 \<or> n = 47 then Some ([c], r)
        else if c = CHR ''n'' then Some ([CHR 0x0A], r)
        else if c = CHR ''r'' then Some ([CHR 0x0D], r)
        else if c = CHR ''t'' then Some ([CHR 0x09], r)
        else if c = CHR ''f'' then Some ([CHR 0x0C], r)
        else if c = CHR ''b'' then Some ([CHR 0x08], r)
        else if c = CHR ''u'' then
          (case hex4 r of None \<Rightarrow> None
           | Some (hi, r1) \<Rightarrow>
             if 55296 \<le> hi \<and> hi < 56320 \<and> starts_with [CHR 0x5C, CHR ''u''] r1 then
               (case hex4 (drop 2 r1) of
                  Some (lo, r2) \<Rightarrow>
                    if 56320 \<le> lo \<and> lo < 57344
                    then Some (utf8_of (65536 + (hi - 55296) * 1024 + (lo - 56320)), r2)
                    else Some (utf8_of hi, r1)
                | None \<Rightarrow> None)
             else Some (utf8_of hi, r1))
        else None)"

text \<open>The characters of a string literal up to its closing quote.  The fuel is the text's length.\<close>

fun parse_chars :: "nat \<Rightarrow> string \<Rightarrow> (string \<times> string) option" where
  "parse_chars 0 s = None"
| "parse_chars (Suc k) s =
     (case s of [] \<Rightarrow> None
      | c # r \<Rightarrow>
        if c = CHR 0x22 then Some ([], r)
        else if c = CHR 0x5C then
          (case unescape r of None \<Rightarrow> None
           | Some (cs, r') \<Rightarrow> map_option (\<lambda>(t, u). (cs @ t, u)) (parse_chars k r'))
        else if (of_char c :: nat) < 32 then None
        else map_option (\<lambda>(t, u). (c # t, u)) (parse_chars k r))"

definition digits_of :: "string \<Rightarrow> string \<times> string" where
  "digits_of s = (takeWhile is_digit s, dropWhile is_digit s)"

fun nat_of_digits :: "nat \<Rightarrow> string \<Rightarrow> nat" where
  "nat_of_digits acc [] = acc"
| "nat_of_digits acc (c # s) = nat_of_digits (acc * 10 + (of_char c - 48)) s"

text \<open>The fraction and exponent of a number: what they take, and the rest.\<close>

definition parse_frac :: "string \<Rightarrow> string \<times> string" where
  "parse_frac s =
     (case s of [] \<Rightarrow> ([], s)
      | c # r \<Rightarrow> if c = CHR ''.'' \<and> fst (digits_of r) \<noteq> [] then (c # fst (digits_of r), snd (digits_of r))
                else ([], s))"

definition parse_exp :: "string \<Rightarrow> string \<times> string" where
  "parse_exp s =
     (case s of [] \<Rightarrow> ([], s)
      | c # r \<Rightarrow>
        if c = CHR ''e'' \<or> c = CHR ''E'' then
          (let (sg, r') = (case r of [] \<Rightarrow> ([], r)
                           | d # q \<Rightarrow> if d = CHR ''+'' \<or> d = CHR ''-'' then ([d], q) else ([], r));
               (ds, r'') = digits_of r'
           in if ds = [] then ([], s) else (c # sg @ ds, r''))
        else ([], s))"

definition parse_number :: "string \<Rightarrow> (json \<times> string) option" where
  "parse_number s =
     (let (neg, r) = (case s of [] \<Rightarrow> (False, s) | c # q \<Rightarrow> if c = CHR ''-'' then (True, q) else (False, s));
          (ds, r1) = (case r of [] \<Rightarrow> ([], r) | c # q \<Rightarrow> if c = CHR ''0'' then ([c], q) else digits_of r)
      in if ds = [] then None
         else let (fr, r2) = parse_frac r1; (ex, r3) = parse_exp r2 in
           if fr = [] \<and> ex = [] then
             Some (JInt (if neg then - int (nat_of_digits 0 ds) else int (nat_of_digits 0 ds)), r1)
           else Some (JReal ((if neg then ''-'' else []) @ ds @ fr @ ex), r3))"

fun literal_of :: "(string \<times> json) list \<Rightarrow> string \<Rightarrow> (json \<times> string) option" where
  "literal_of [] s = None"
| "literal_of ((w, v) # ws) s = (if starts_with w s then Some (v, drop (length w) s) else literal_of ws s)"

definition literals :: "(string \<times> json) list" where
  "literals = [(''null'', JNull), (''true'', JBool True), (''false'', JBool False),
               (''NaN'', JReal ''NaN''), (''Infinity'', JReal ''Infinity''), (''-Infinity'', JReal ''-Infinity'')]"

text \<open>
  The value, array and object parsers.  \<open>h\<close> is the object hook: \<open>dict\<close> for the plain
  decoder (a repeated key keeps its last value), a check that refuses duplicates for the strict one.
\<close>

fun parse_value :: "((string \<times> json) list \<Rightarrow> json option) \<Rightarrow> nat \<Rightarrow> string \<Rightarrow> (json \<times> string) option"
and parse_items :: "((string \<times> json) list \<Rightarrow> json option) \<Rightarrow> nat \<Rightarrow> string \<Rightarrow> (json list \<times> string) option"
and parse_pairs :: "((string \<times> json) list \<Rightarrow> json option) \<Rightarrow> nat \<Rightarrow> string \<Rightarrow> ((string \<times> json) list \<times> string) option"
where
  "parse_value h 0 s = None"
| "parse_value h (Suc k) s =
     (case s of [] \<Rightarrow> None
      | c # r \<Rightarrow>
        if c = CHR 0x22 then map_option (\<lambda>(t, u). (JStr t, u)) (parse_chars (length s) r)
        else if c = CHR ''['' then
          (case skip_ws r of [] \<Rightarrow> None
           | d # q \<Rightarrow> if d = CHR '']'' then Some (JArr [], q)
                     else map_option (\<lambda>(xs, u). (JArr xs, u)) (parse_items h k (d # q)))
        else if c = CHR ''{'' then
          (case skip_ws r of [] \<Rightarrow> None
           | d # q \<Rightarrow>
             if d = CHR ''}'' then map_option (\<lambda>v. (v, q)) (h [])
             else (case parse_pairs h k (d # q) of None \<Rightarrow> None
                   | Some (ps, u) \<Rightarrow> map_option (\<lambda>v. (v, u)) (h ps)))
        else case literal_of literals s of Some p \<Rightarrow> Some p | None \<Rightarrow> parse_number s)"
| "parse_items h 0 s = None"
| "parse_items h (Suc k) s =
     (case parse_value h k s of None \<Rightarrow> None
      | Some (v, r) \<Rightarrow>
        (case skip_ws r of [] \<Rightarrow> None
         | d # q \<Rightarrow>
           if d = CHR '']'' then Some ([v], q)
           else if d = CHR '','' then map_option (\<lambda>(vs, u). (v # vs, u)) (parse_items h k (skip_ws q))
           else None))"
| "parse_pairs h 0 s = None"
| "parse_pairs h (Suc k) s =
     (case s of [] \<Rightarrow> None
      | c # r \<Rightarrow>
        if c \<noteq> CHR 0x22 then None
        else case parse_chars (length s) r of None \<Rightarrow> None
         | Some (key, r1) \<Rightarrow>
           (case skip_ws r1 of [] \<Rightarrow> None
            | d # r2 \<Rightarrow>
              if d \<noteq> CHR '':'' then None
              else case parse_value h k (skip_ws r2) of None \<Rightarrow> None
               | Some (v, r3) \<Rightarrow>
                 (case skip_ws r3 of [] \<Rightarrow> None
                  | e # q \<Rightarrow>
                    if e = CHR ''}'' then Some ([(key, v)], q)
                    else if e = CHR '','' then
                      map_option (\<lambda>(ps, u). ((key, v) # ps, u)) (parse_pairs h k (skip_ws q))
                    else None)))"

text \<open>Each call of a parser spends one unit on a shorter text or a shorter construct; twice the
  length of the text is always enough.\<close>

definition loads_with :: "((string \<times> json) list \<Rightarrow> json option) \<Rightarrow> string \<Rightarrow> json option" where
  "loads_with h s =
     (case parse_value h (2 * length s + 2) (skip_ws s) of
        Some (v, r) \<Rightarrow> if skip_ws r = [] then Some v else None
      | None \<Rightarrow> None)"

definition loads :: "string \<Rightarrow> json option" where
  "loads = loads_with (\<lambda>ps. Some (JObj (dict_of_pairs ps)))"

text \<open>\<open>object_pairs_hook=_unique_object\<close>.\<close>

definition loads_unique :: "string \<Rightarrow> json option" where
  "loads_unique = loads_with (\<lambda>ps. if distinct (map fst ps) then Some (JObj ps) else None)"

end
