(* ===== verification/Db.thy ===== *)
theory Db
  imports Effects Json
begin

text \<open>
  The tables of \<open>orchestrator/db.py\<close> that hold the lifecycle of a task.  A table is the list of
  its rows in insertion order.  Every statement computes the new tables and is accepted when
  they satisfy all the constraints of the DDL (keys, checks, references, the partial index that
  allows one running run per task); otherwise it raises an integrity error and changes nothing,
  which is what SQLite does statement by statement.  The trajectory table and the kanban tables
  have theories of their own.
\<close>

section \<open>Rows\<close>

record task_row =
  t_id :: string
  t_type :: string
  t_status :: string
  t_stop_reason :: "string option"
  t_current_stage :: string
  t_owner :: "string option"
  t_revision :: int
  t_profile_hash :: string
  t_input_hash :: string
  t_profile_snapshot_path :: string
  t_input_snapshot_path :: string
  t_artifact_dir :: string
  t_transitions_count :: int
  t_max_transitions :: int
  t_resume_allowance :: int
  t_lease_token :: "string option"
  t_created_at :: int
  t_updated_at :: int
  t_workspace_dir :: "string option"

record run_row =
  r_run_token :: string
  r_task_id :: string
  r_stage :: string
  r_cycle :: int
  r_attempt :: int
  r_owner :: string
  r_status :: string
  r_lease_token :: "string option"
  r_exit_code :: "int option"
  r_outcome :: "string option"
  r_log_path :: string
  r_manifest_path :: "string option"
  r_manifest_hash :: "string option"
  r_sealed :: bool
  r_model :: "string option"
  r_duration_ms :: "int option"
  r_usage_input :: json
  r_usage_output :: json
  r_usage_total :: json
  r_usage_unavailable :: "string option"
  r_preflight_status :: "string option"
  r_preflight_reason :: "string option"
  r_started_at :: int
  r_ended_at :: "int option"

record transition_row =
  x_task_id :: string
  x_seq :: int
  x_operation_id :: string
  x_run_token :: "string option"
  x_stage :: "string option"
  x_owner :: "string option"
  x_edge :: "string option"
  x_outcome :: "string option"
  x_from_status :: "string option"
  x_to_status :: string
  x_reason :: "string option"
  x_at :: int

record edge_row =
  e_task_id :: string
  e_edge :: string
  e_count :: int
  e_cap :: int

record notification_row =
  n_task_id :: string
  n_transition_seq :: int
  n_reason :: string
  n_message :: string
  n_created_at :: int

record quarantine_row =
  q_id :: string
  q_task_id :: "string option"
  q_request_path :: "string option"
  q_artifact_path :: "string option"
  q_reason :: string
  q_created_at :: int

record db =
  db_tasks :: "task_row list"
  db_runs :: "run_row list"
  db_transitions :: "transition_row list"
  db_edges :: "edge_row list"
  db_notifications :: "notification_row list"
  db_quarantine :: "quarantine_row list"

section \<open>The constraints of the DDL\<close>

definition TASK_STATUSES :: "string list" where
  "TASK_STATUSES = [''queued'', ''running'', ''waiting_user'', ''blocked'', ''done'', ''failed'', ''paused'']"

definition RUN_STATUSES :: "string list" where
  "RUN_STATUSES = [''running'', ''committed'', ''paused'', ''blocked'']"

definition DB_OWNERS :: "string list" where
  "DB_OWNERS = [''claude'', ''codex'']"

definition opt_all :: "('a \<Rightarrow> bool) \<Rightarrow> 'a option \<Rightarrow> bool" where
  "opt_all P x = (case x of None \<Rightarrow> True | Some y \<Rightarrow> P y)"

definition task_checks :: "task_row \<Rightarrow> bool" where
  "task_checks t \<longleftrightarrow> t_status t \<in> set TASK_STATUSES \<and> opt_all (\<lambda>ow. ow \<in> set DB_OWNERS) (t_owner t)
     \<and> 0 \<le> t_transitions_count t \<and> 0 < t_max_transitions t \<and> t_resume_allowance t \<in> set [0, 1]"

definition run_checks :: "run_row \<Rightarrow> bool" where
  "run_checks r \<longleftrightarrow> 0 < r_cycle r \<and> 0 < r_attempt r \<and> r_owner r \<in> set DB_OWNERS \<and> r_status r \<in> set RUN_STATUSES"

definition tasks_ok :: "db \<Rightarrow> bool" where
  "tasks_ok d \<longleftrightarrow> distinct (map t_id (db_tasks d)) \<and> list_all task_checks (db_tasks d)"

definition active_runs :: "db \<Rightarrow> run_row list" where
  "active_runs d = filter (\<lambda>r. r_status r = ''running'') (db_runs d)"

definition runs_ok :: "db \<Rightarrow> bool" where
  "runs_ok d \<longleftrightarrow> distinct (map r_run_token (db_runs d)) \<and> list_all run_checks (db_runs d)
     \<and> list_all (\<lambda>r. r_task_id r \<in> set (map t_id (db_tasks d))) (db_runs d)
     \<and> distinct (map (\<lambda>r. (r_task_id r, r_stage r, r_cycle r, r_attempt r)) (db_runs d))
     \<and> distinct (map r_task_id (active_runs d))"

definition transitions_ok :: "db \<Rightarrow> bool" where
  "transitions_ok d \<longleftrightarrow> distinct (map (\<lambda>x. (x_task_id x, x_seq x)) (db_transitions d))
     \<and> distinct (map x_operation_id (db_transitions d))
     \<and> list_all (\<lambda>x. x_task_id x \<in> set (map t_id (db_tasks d))
          \<and> opt_all (\<lambda>k. k \<in> set (map r_run_token (db_runs d))) (x_run_token x)) (db_transitions d)"

definition edges_ok :: "db \<Rightarrow> bool" where
  "edges_ok d \<longleftrightarrow> distinct (map (\<lambda>e. (e_task_id e, e_edge e)) (db_edges d))
     \<and> list_all (\<lambda>e. 0 \<le> e_count e \<and> 0 < e_cap e \<and> e_task_id e \<in> set (map t_id (db_tasks d))) (db_edges d)"

definition notifications_ok :: "db \<Rightarrow> bool" where
  "notifications_ok d \<longleftrightarrow> distinct (map (\<lambda>n. (n_task_id n, n_transition_seq n)) (db_notifications d))
     \<and> list_all (\<lambda>n. (n_task_id n, n_transition_seq n) \<in> set (map (\<lambda>x. (x_task_id x, x_seq x)) (db_transitions d)))
         (db_notifications d)"

definition quarantine_ok :: "db \<Rightarrow> bool" where
  "quarantine_ok d \<longleftrightarrow> distinct (map q_id (db_quarantine d))
     \<and> list_all (\<lambda>q. opt_all (\<lambda>i. i \<in> set (map t_id (db_tasks d))) (q_task_id q)) (db_quarantine d)"

definition db_ok :: "db \<Rightarrow> bool" where
  "db_ok d \<longleftrightarrow> tasks_ok d \<and> runs_ok d \<and> transitions_ok d \<and> edges_ok d \<and> notifications_ok d \<and> quarantine_ok d"

section \<open>Statements\<close>

datatype db_error = IntegrityError

text \<open>A statement that leaves the tables \<open>d\<close>.\<close>

definition stored :: "db \<Rightarrow> (db_error, db) res" where
  "stored d = (if db_ok d then Inr d else Inl IntegrityError)"

definition insert_task :: "task_row \<Rightarrow> db \<Rightarrow> (db_error, db) res" where
  "insert_task t d = stored (d\<lparr>db_tasks := db_tasks d @ [t]\<rparr>)"

definition insert_run :: "run_row \<Rightarrow> db \<Rightarrow> (db_error, db) res" where
  "insert_run r d = stored (d\<lparr>db_runs := db_runs d @ [r]\<rparr>)"

definition insert_transition_row :: "transition_row \<Rightarrow> db \<Rightarrow> (db_error, db) res" where
  "insert_transition_row x d = stored (d\<lparr>db_transitions := db_transitions d @ [x]\<rparr>)"

definition insert_edge :: "edge_row \<Rightarrow> db \<Rightarrow> (db_error, db) res" where
  "insert_edge e d = stored (d\<lparr>db_edges := db_edges d @ [e]\<rparr>)"

definition insert_notification :: "notification_row \<Rightarrow> db \<Rightarrow> (db_error, db) res" where
  "insert_notification n d = stored (d\<lparr>db_notifications := db_notifications d @ [n]\<rparr>)"

definition insert_quarantine :: "quarantine_row \<Rightarrow> db \<Rightarrow> (db_error, db) res" where
  "insert_quarantine q d = stored (d\<lparr>db_quarantine := db_quarantine d @ [q]\<rparr>)"

definition upd :: "('a \<Rightarrow> bool) \<Rightarrow> ('a \<Rightarrow> 'a) \<Rightarrow> 'a list \<Rightarrow> 'a list" where
  "upd P f xs = map (\<lambda>x. if P x then f x else x) xs"

text \<open>\<open>UPDATE ... WHERE P\<close>: the new tables and the row count.\<close>

definition update_tasks :: "(task_row \<Rightarrow> bool) \<Rightarrow> (task_row \<Rightarrow> task_row) \<Rightarrow> db \<Rightarrow> (db_error, db \<times> nat) res" where
  "update_tasks P f d =
     bindR (stored (d\<lparr>db_tasks := upd P f (db_tasks d)\<rparr>)) (\<lambda>d'. Inr (d', length (filter P (db_tasks d))))"

definition update_runs :: "(run_row \<Rightarrow> bool) \<Rightarrow> (run_row \<Rightarrow> run_row) \<Rightarrow> db \<Rightarrow> (db_error, db) res" where
  "update_runs P f d = stored (d\<lparr>db_runs := upd P f (db_runs d)\<rparr>)"

definition bump_edge :: "string \<Rightarrow> string \<Rightarrow> db \<Rightarrow> (db_error, db) res" where
  "bump_edge task_id edge d =
     stored (d\<lparr>db_edges := upd (\<lambda>e. e_task_id e = task_id \<and> e_edge e = edge) (\<lambda>e. e\<lparr>e_count := e_count e + 1\<rparr>) (db_edges d)\<rparr>)"

section \<open>Queries\<close>

definition find_task :: "db \<Rightarrow> string \<Rightarrow> task_row option" where
  "find_task d i = find (\<lambda>t. t_id t = i) (db_tasks d)"

definition find_run :: "db \<Rightarrow> string \<Rightarrow> run_row option" where
  "find_run d tok = find (\<lambda>r. r_run_token r = tok) (db_runs d)"

definition runs_of :: "db \<Rightarrow> string \<Rightarrow> run_row list" where
  "runs_of d i = filter (\<lambda>r. r_task_id r = i) (db_runs d)"

definition transitions_of :: "db \<Rightarrow> string \<Rightarrow> transition_row list" where
  "transitions_of d i = filter (\<lambda>x. x_task_id x = i) (db_transitions d)"

definition find_edge :: "db \<Rightarrow> string \<Rightarrow> string \<Rightarrow> edge_row option" where
  "find_edge d i edge = find (\<lambda>e. e_task_id e = i \<and> e_edge e = edge) (db_edges d)"

text \<open>\<open>SELECT COALESCE(MAX(seq),0)+1\<close>.\<close>

definition next_seq :: "db \<Rightarrow> string \<Rightarrow> int" where
  "next_seq d i = foldl max 0 (map x_seq (transitions_of d i)) + 1"

text \<open>\<open>ORDER BY started_at DESC, run_token DESC LIMIT 1\<close>.\<close>

fun latest_run :: "run_row list \<Rightarrow> run_row option" where
  "latest_run [] = None"
| "latest_run (r # rs) =
     (case latest_run rs of
        None \<Rightarrow> Some r
      | Some q \<Rightarrow> if r_started_at q < r_started_at r \<or> (r_started_at q = r_started_at r \<and> r_run_token q < r_run_token r)
                then Some r else Some q)"

definition empty_db :: db where
  "empty_db = \<lparr>db_tasks = [], db_runs = [], db_transitions = [], db_edges = [], db_notifications = [], db_quarantine = []\<rparr>"

section \<open>Facts about statements\<close>

lemma stored_Inr [simp]: "stored d = Inr d' \<longleftrightarrow> d' = d \<and> db_ok d"
  by (auto simp: stored_def)

lemma db_ok_empty: "db_ok empty_db"
  by (simp add: db_ok_def empty_db_def tasks_ok_def runs_ok_def active_runs_def transitions_ok_def edges_ok_def
      notifications_ok_def quarantine_ok_def)

lemma upd_simps [simp]: "upd P f [] = []" "upd P f (x # xs) = (if P x then f x else x) # upd P f xs"
  "upd P f (xs @ ys) = upd P f xs @ upd P f ys" "length (upd P f xs) = length xs"
  by (simp_all add: upd_def)

lemma upd_id: "(\<And>x. x \<in> set xs \<Longrightarrow> \<not> P x) \<Longrightarrow> upd P f xs = xs"
  by (induction xs) auto

lemma filter_upd: "(\<And>x. P x \<Longrightarrow> Q (f x) = Q x) \<Longrightarrow> filter Q (upd P f xs) = upd P f (filter Q xs)"
  by (induction xs) auto

lemma map_upd: "(\<And>x. P x \<Longrightarrow> g (f x) = g x) \<Longrightarrow> map g (upd P f xs) = map g xs"
  by (induction xs) auto

lemma find_map_upd:
  "(\<And>x. P x \<Longrightarrow> Q (f x) = Q x) \<Longrightarrow> find Q (upd P f xs) = map_option (\<lambda>x. if P x then f x else x) (find Q xs)"
  by (induction xs) auto

lemma find_append: "find P (xs @ ys) = (case find P xs of None \<Rightarrow> find P ys | Some x \<Rightarrow> Some x)"
  by (induction xs) auto

lemma find_SomeD: "find P xs = Some x \<Longrightarrow> P x \<and> x \<in> set xs"
  by (induction xs) (auto split: if_splits)

lemma find_task_id: "find_task d i = Some t \<Longrightarrow> t_id t = i \<and> t \<in> set (db_tasks d)"
  unfolding find_task_def by (drule find_SomeD) simp

lemma find_run_token: "find_run d tok = Some r \<Longrightarrow> r_run_token r = tok \<and> r \<in> set (db_runs d)"
  unfolding find_run_def by (drule find_SomeD) simp

lemma foldl_max: "foldl max (a::int) (xs @ [b]) = max (foldl max a xs) b"
  by simp

end
