(* ===== verification/Profile.thy ===== *)
theory Profile
  imports Json
begin

text \<open>
  \<open>orchestrator/profile.py\<close>: the stage machine a task is frozen with.  The validator takes a
  decoded value (from the YAML subset or from a JSON snapshot) and either raises or returns a
  \<open>Profile\<close>.  The invariant \<open>wf_profile\<close> says what a validated profile satisfies;
  the lemmas show that it is exactly what the validator accepts, and that rendering a profile
  and validating it again gives the same profile back.
\<close>

section \<open>Data\<close>

record stage =
  st_name :: string
  st_owner :: "string option"
  st_attempt_cap :: "int option"
  st_timeout :: "int option"
  st_prompt :: "string option"
  st_outcomes :: "(string \<times> string) list"
  st_terminal :: "string option"

record profile =
  pf_version :: int
  pf_type :: string
  pf_initial_stage :: string
  pf_max_transitions :: int
  pf_stages :: "(string \<times> stage) list"
  pf_edge_caps :: "(string \<times> int) list"

text \<open>Every \<open>ProfileError\<close> the module raises, with what its message carries.\<close>

datatype profile_error =
    RootNotMapping
  | KeysMismatch string "string list" "string list"
  | NotPositiveInt string
  | NotNonemptyString string
  | NotIdentifier string
  | StagesNotMapping
  | DuplicateStage string
  | StageNotMapping string
  | BadTerminal string
  | BadOwner string
  | OutcomesNotMapping string
  | NoTerminalStage
  | InitialMissing string
  | InitialTerminal
  | CapsNotMapping
  | EdgeTargetMissing string string
  | EdgeCapsMismatch "string list" "string list"
  | UnknownStage string
  | CannotRead string
  | SnapshotHashMismatch string string
  | SnapshotInvalidJson

definition TERMINAL_STATUSES :: "string list" where
  "TERMINAL_STATUSES = [''done'', ''failed'']"

definition OWNERS :: "string list" where
  "OWNERS = [''claude'', ''codex'']"

text \<open>\<open>IDENTIFIER_RE.fullmatch\<close>.\<close>

definition identifier_re :: "string \<Rightarrow> bool" where
  "identifier_re s \<longleftrightarrow>
     (case s of [] \<Rightarrow> False
      | c # cs \<Rightarrow> is_alpha c \<and> (\<forall>d \<in> set cs. is_alnum d \<or> d = CHR ''_'' \<or> d = CHR ''-''))"

section \<open>Operations\<close>

definition profile_stage :: "profile \<Rightarrow> string \<Rightarrow> (profile_error, stage) res" where
  "profile_stage p name =
     (case map_of (pf_stages p) name of None \<Rightarrow> Inl (UnknownStage name) | Some s \<Rightarrow> Inr s)"

definition edge_id :: "string \<Rightarrow> string \<Rightarrow> string" where
  "edge_id stage outcome = stage @ ''.'' @ outcome"

definition stage_to_dict :: "stage \<Rightarrow> json" where
  "stage_to_dict s =
     (if (case st_terminal s of None \<Rightarrow> False | Some t \<Rightarrow> t \<noteq> [])
      then JObj [(''terminal'', jopt_str (st_terminal s))]
      else JObj [(''owner'', jopt_str (st_owner s)),
                 (''attempt_cap'', jopt_int (st_attempt_cap s)),
                 (''timeout'', jopt_int (st_timeout s)),
                 (''prompt'', jopt_str (st_prompt s)),
                 (''outcomes'', JObj (map (\<lambda>(o', t). (o', JStr t)) (st_outcomes s)))])"

definition to_dict :: "profile \<Rightarrow> json" where
  "to_dict p = JObj
     [(''version'', JInt (pf_version p)),
      (''type'', JStr (pf_type p)),
      (''initial_stage'', JStr (pf_initial_stage p)),
      (''max_transitions'', JInt (pf_max_transitions p)),
      (''stages'', JObj (map (\<lambda>(n, s). (n, stage_to_dict s)) (pf_stages p))),
      (''edge_caps'', JObj (map (\<lambda>(e, c). (e, JInt c)) (pf_edge_caps p)))]"

section \<open>Validation\<close>

definition missing_keys :: "string list \<Rightarrow> (string \<times> 'v) list \<Rightarrow> string list" where
  "missing_keys expected kvs = sorted_set (filter (\<lambda>k. k \<notin> set (map fst kvs)) expected)"

definition extra_keys :: "string list \<Rightarrow> (string \<times> 'v) list \<Rightarrow> string list" where
  "extra_keys expected kvs = sorted_set (filter (\<lambda>k. k \<notin> set expected) (map fst kvs))"

definition exact_keys :: "(string \<times> json) list \<Rightarrow> string list \<Rightarrow> string \<Rightarrow> (profile_error, unit) res" where
  "exact_keys kvs expected location =
     guardR (missing_keys expected kvs = [] \<and> extra_keys expected kvs = [])
       (KeysMismatch location (missing_keys expected kvs) (extra_keys expected kvs))"

fun positive_int :: "json \<Rightarrow> string \<Rightarrow> (profile_error, int) res" where
  "positive_int (JInt i) location = (if i \<le> 0 then Inl (NotPositiveInt location) else Inr i)"
| "positive_int _ location = Inl (NotPositiveInt location)"

fun nonempty_string :: "json \<Rightarrow> string \<Rightarrow> (profile_error, string) res" where
  "nonempty_string (JStr s) location =
     (if strip s = [] then Inl (NotNonemptyString location) else Inr (strip s))"
| "nonempty_string _ location = Inl (NotNonemptyString location)"

definition identifier_str :: "json \<Rightarrow> string \<Rightarrow> (profile_error, string) res" where
  "identifier_str v location =
     bindR (nonempty_string v location)
       (\<lambda>t. check (identifier_re t) (NotIdentifier location) (Inr t))"

fun validate_outcomes ::
  "string \<Rightarrow> (string \<times> json) list \<Rightarrow> (string \<times> string) list \<Rightarrow> (profile_error, (string \<times> string) list) res" where
  "validate_outcomes name [] acc = Inr acc"
| "validate_outcomes name ((ro, rt) # rest) acc =
     bindR (identifier_str (JStr ro) (''stage '' @ name @ '' outcome''))
       (\<lambda>oc. bindR (nonempty_string rt (''stage '' @ name @ ''.'' @ oc @ '' target''))
         (\<lambda>target. validate_outcomes name rest (dict_set oc target acc)))"

text \<open>One iteration of the loop over \<open>raw_stages\<close>: the stage built from its mapping.\<close>

definition validate_stage :: "string \<Rightarrow> json \<Rightarrow> (profile_error, stage) res" where
  "validate_stage name raw =
     (case raw of
        JObj kvs \<Rightarrow>
          if ''terminal'' \<in> set (map fst kvs) then
            bindR (exact_keys kvs [''terminal''] (''stage '' @ name))
              (\<lambda>_. bindR (nonempty_string (jget kvs ''terminal'') (''stage '' @ name @ ''.terminal''))
                (\<lambda>t. check (t \<in> set TERMINAL_STATUSES) (BadTerminal name)
                  (Inr \<lparr>st_name = name, st_owner = None, st_attempt_cap = None, st_timeout = None,
                        st_prompt = None, st_outcomes = [], st_terminal = Some t\<rparr>)))
          else
            bindR (exact_keys kvs [''owner'', ''attempt_cap'', ''timeout'', ''prompt'', ''outcomes''] (''stage '' @ name))
              (\<lambda>_. bindR (nonempty_string (jget kvs ''owner'') (''stage '' @ name @ ''.owner''))
                (\<lambda>owner. check (owner \<in> set OWNERS) (BadOwner name)
                  (bindR (positive_int (jget kvs ''attempt_cap'') (''stage '' @ name @ ''.attempt_cap''))
                    (\<lambda>cap. bindR (positive_int (jget kvs ''timeout'') (''stage '' @ name @ ''.timeout''))
                      (\<lambda>timeout. bindR (nonempty_string (jget kvs ''prompt'') (''stage '' @ name @ ''.prompt''))
                        (\<lambda>prompt.
                          case jget kvs ''outcomes'' of
                            JObj os \<Rightarrow>
                              check (os \<noteq> []) (OutcomesNotMapping name)
                                (bindR (validate_outcomes name os [])
                                  (\<lambda>outcomes. Inr \<lparr>st_name = name, st_owner = Some owner,
                                     st_attempt_cap = Some cap, st_timeout = Some timeout,
                                     st_prompt = Some prompt, st_outcomes = outcomes, st_terminal = None\<rparr>))
                          | _ \<Rightarrow> Inl (OutcomesNotMapping name)))))))
      | _ \<Rightarrow> Inl (StageNotMapping name))"

fun validate_stages ::
  "(string \<times> json) list \<Rightarrow> (string \<times> stage) list \<Rightarrow> (profile_error, (string \<times> stage) list) res" where
  "validate_stages [] acc = Inr acc"
| "validate_stages ((rn, raw) # rest) acc =
     bindR (identifier_str (JStr rn) ''stage name'')
       (\<lambda>name. check (name \<notin> set (map fst acc)) (DuplicateStage name)
         (bindR (validate_stage name raw) (\<lambda>s. validate_stages rest (acc @ [(name, s)]))))"

text \<open>Every edge of the graph, in the order the loop meets it.\<close>

definition stage_edges :: "stage \<Rightarrow> (string \<times> string) list" where
  "stage_edges s = map (\<lambda>(oc, target). (edge_id (st_name s) oc, target)) (st_outcomes s)"

definition profile_edges :: "(string \<times> stage) list \<Rightarrow> (string \<times> string) list" where
  "profile_edges stages = concat (map (\<lambda>(n, s). stage_edges s) stages)"

fun check_targets :: "(string \<times> stage) list \<Rightarrow> (string \<times> string) list \<Rightarrow> (profile_error, unit) res" where
  "check_targets stages [] = Inr ()"
| "check_targets stages ((edge, target) # rest) =
     check (target \<in> set (map fst stages)) (EdgeTargetMissing edge target) (check_targets stages rest)"

fun validate_caps :: "(string \<times> json) list \<Rightarrow> (profile_error, (string \<times> int) list) res" where
  "validate_caps [] = Inr []"
| "validate_caps ((edge, v) # rest) =
     bindR (positive_int v (''edge cap '' @ edge))
       (\<lambda>c. bindR (validate_caps rest) (\<lambda>cs. Inr ((edge, c) # cs)))"

definition validate_graph ::
  "string \<Rightarrow> (string \<times> stage) list \<Rightarrow> json \<Rightarrow> (profile_error, (string \<times> int) list) res" where
  "validate_graph initial_stage stages raw_caps =
     check (\<exists>(n, s) \<in> set stages. st_terminal s \<noteq> None) NoTerminalStage
       (case map_of stages initial_stage of
          None \<Rightarrow> Inl (InitialMissing initial_stage)
        | Some s \<Rightarrow>
          check (st_terminal s = None) InitialTerminal
            (case raw_caps of
               JObj caps \<Rightarrow>
                 bindR (check_targets stages (profile_edges stages))
                   (\<lambda>_. let expected = map fst (profile_edges stages) in
                     check (missing_keys expected caps = [] \<and> extra_keys expected caps = [])
                       (EdgeCapsMismatch (missing_keys expected caps) (extra_keys expected caps))
                       (validate_caps caps))
             | _ \<Rightarrow> Inl CapsNotMapping))"

definition validate_profile :: "json \<Rightarrow> (profile_error, profile) res" where
  "validate_profile data =
     (case data of
        JObj kvs \<Rightarrow>
          bindR (exact_keys kvs [''version'', ''type'', ''initial_stage'', ''max_transitions'', ''stages'', ''edge_caps''] ''profile'')
            (\<lambda>_. bindR (positive_int (jget kvs ''version'') ''version'')
              (\<lambda>version. bindR (identifier_str (jget kvs ''type'') ''type'')
                (\<lambda>task_type. bindR (identifier_str (jget kvs ''initial_stage'') ''initial_stage'')
                  (\<lambda>initial_stage. bindR (positive_int (jget kvs ''max_transitions'') ''max_transitions'')
                    (\<lambda>max_transitions.
                      case jget kvs ''stages'' of
                        JObj raw_stages \<Rightarrow>
                          check (raw_stages \<noteq> []) StagesNotMapping
                            (bindR (validate_stages raw_stages [])
                              (\<lambda>stages. bindR (validate_graph initial_stage stages (jget kvs ''edge_caps''))
                                (\<lambda>edge_caps. Inr \<lparr>pf_version = version, pf_type = task_type,
                                   pf_initial_stage = initial_stage, pf_max_transitions = max_transitions,
                                   pf_stages = stages, pf_edge_caps = edge_caps\<rparr>)))
                      | _ \<Rightarrow> Inl StagesNotMapping)))))
      | _ \<Rightarrow> Inl RootNotMapping)"

text \<open>
  Reading a frozen snapshot: \<open>raw\<close> is what the file holds (\<open>None\<close>: reading it raised
  \<open>OSError\<close>), \<open>sha\<close> the hex digest function.
\<close>

definition profile_from_snapshot ::
  "(string \<Rightarrow> string) \<Rightarrow> string \<Rightarrow> string option \<Rightarrow> string \<Rightarrow> (profile_error, profile) res" where
  "profile_from_snapshot sha path raw expected_hash =
     (case raw of
        None \<Rightarrow> Inl (CannotRead path)
      | Some bytes \<Rightarrow>
        check (sha bytes = expected_hash) (SnapshotHashMismatch expected_hash (sha bytes))
          (case loads bytes of None \<Rightarrow> Inl SnapshotInvalidJson | Some data \<Rightarrow> validate_profile data))"

definition canonical_json :: "json \<Rightarrow> string" where
  "canonical_json data = dumps data"

section \<open>The invariant of a validated profile\<close>

definition stripped :: "string \<Rightarrow> bool" where
  "stripped s \<longleftrightarrow> s \<noteq> [] \<and> strip s = s"

definition wf_outcomes :: "(string \<times> string) list \<Rightarrow> bool" where
  "wf_outcomes os \<longleftrightarrow> distinct (map fst os) \<and> (\<forall>(oc, t) \<in> set os. identifier_re oc \<and> stripped t)"

definition wf_stage :: "string \<Rightarrow> stage \<Rightarrow> bool" where
  "wf_stage name s \<longleftrightarrow> st_name s = name \<and>
     (case st_terminal s of
        Some t \<Rightarrow> t \<in> set TERMINAL_STATUSES \<and> st_owner s = None \<and> st_attempt_cap s = None
                  \<and> st_timeout s = None \<and> st_prompt s = None \<and> st_outcomes s = []
      | None \<Rightarrow> (\<exists>ow cap tm pr. st_owner s = Some ow \<and> ow \<in> set OWNERS
                  \<and> st_attempt_cap s = Some cap \<and> 0 < cap \<and> st_timeout s = Some tm \<and> 0 < tm
                  \<and> st_prompt s = Some pr \<and> stripped pr)
                \<and> st_outcomes s \<noteq> [] \<and> wf_outcomes (st_outcomes s))"

definition wf_stages :: "(string \<times> stage) list \<Rightarrow> bool" where
  "wf_stages stages \<longleftrightarrow> distinct (map fst stages)
     \<and> (\<forall>(n, s) \<in> set stages. identifier_re n \<and> wf_stage n s)"

definition wf_profile :: "profile \<Rightarrow> bool" where
  "wf_profile p \<longleftrightarrow>
     0 < pf_version p \<and> identifier_re (pf_type p) \<and> 0 < pf_max_transitions p
   \<and> wf_stages (pf_stages p)
   \<and> (\<exists>(n, s) \<in> set (pf_stages p). st_terminal s \<noteq> None)
   \<and> (\<exists>s. map_of (pf_stages p) (pf_initial_stage p) = Some s \<and> st_terminal s = None)
   \<and> (\<forall>(e, t) \<in> set (profile_edges (pf_stages p)). t \<in> set (map fst (pf_stages p)))
   \<and> distinct (map fst (pf_edge_caps p))
   \<and> set (map fst (pf_edge_caps p)) = set (map fst (profile_edges (pf_stages p)))
   \<and> (\<forall>(e, c) \<in> set (pf_edge_caps p). 0 < c)"

lemma not_space_iff_alnum: "is_alnum c \<Longrightarrow> \<not> is_space c"
  by (auto simp: is_alnum_def is_alpha_def is_lower_alpha_def is_upper_alpha_def is_digit_def
      is_space_def Let_def)

lemma not_space_punct [simp]: "\<not> is_space CHR ''_''" "\<not> is_space CHR ''-''"
  by (simp_all add: is_space_def)

lemma dropWhile_idem: "dropWhile P (dropWhile P xs) = dropWhile P xs"
  by (induction xs) auto

lemma strip_no_space:
  assumes "s = [] \<or> (\<not> is_space (hd s) \<and> \<not> is_space (last s))"
  shows "strip s = s"
proof (cases s)
  case Nil
  then show ?thesis by (simp add: strip_def lstrip_def rstrip_def)
next
  case (Cons c cs)
  with assms have h: "\<not> is_space c" "\<not> is_space (last s)" by auto
  from Cons h(1) have "lstrip s = s" by (simp add: lstrip_def)
  moreover have "rev s = last s # tl (rev s)"
    using Cons by (metis hd_Cons_tl hd_rev list.distinct(1) rev_is_Nil_conv)
  then have "dropWhile is_space (rev s) = rev s"
    using h(2) by (metis dropWhile.simps(2))
  ultimately show ?thesis by (simp add: strip_def rstrip_def)
qed

lemma strip_ends: "strip s = [] \<or> (\<not> is_space (hd (strip s)) \<and> \<not> is_space (last (strip s)))"
proof (cases "strip s = []")
  case False
  let ?l = "lstrip s" and ?t = "rev (dropWhile is_space (rev (lstrip s)))"
  have eq: "strip s = ?t" by (simp add: strip_def rstrip_def)
  have "dropWhile is_space (rev ?l) \<noteq> []" using False eq by auto
  then have "\<not> is_space (hd (dropWhile is_space (rev ?l)))" by (rule hd_dropWhile [OF _])
  with False eq have l: "\<not> is_space (last (strip s))" by (simp add: last_rev)
  have "?l = ?t @ rev (takeWhile is_space (rev ?l))"
    by (metis rev_append rev_rev_ident takeWhile_dropWhile_id)
  then have "hd ?l = hd ?t" using False eq by (metis hd_append2)
  moreover have "?l \<noteq> []" using False eq by auto
  then have "\<not> is_space (hd ?l)" unfolding lstrip_def by (rule hd_dropWhile)
  ultimately show ?thesis using l eq by simp
qed simp

lemma strip_idem [simp]: "strip (strip s) = strip s"
  by (rule strip_no_space) (rule strip_ends)

lemma identifier_chars:
  "identifier_re s \<Longrightarrow> s \<noteq> [] \<and> (\<forall>c \<in> set s. is_alnum c \<or> c = CHR ''_'' \<or> c = CHR ''-'')"
  by (auto simp: identifier_re_def is_alnum_def split: list.splits)

lemma identifier_no_space: "identifier_re s \<Longrightarrow> c \<in> set s \<Longrightarrow> \<not> is_space c"
  by (metis identifier_chars not_space_iff_alnum not_space_punct)

lemma identifier_stripped: "identifier_re s \<Longrightarrow> stripped s"
  unfolding stripped_def
  by (metis hd_in_set identifier_chars identifier_no_space last_in_set strip_no_space)

lemma identifier_no_dot: "identifier_re s \<Longrightarrow> CHR ''.'' \<notin> set s"
  by (drule identifier_chars)
    (auto simp: is_alnum_def is_alpha_def is_lower_alpha_def is_upper_alpha_def is_digit_def Let_def)

lemma edge_id_inj:
  assumes "CHR ''.'' \<notin> set a" "CHR ''.'' \<notin> set b" "edge_id a x = edge_id b y"
  shows "a = b \<and> x = y"
proof -
  have pre: "takeWhile (\<lambda>c. c \<noteq> CHR ''.'') (edge_id u z) = u" if "CHR ''.'' \<notin> set u" for u z
    using that unfolding edge_id_def by (induction u) auto
  from pre [OF assms(1), of x] pre [OF assms(2), of y] assms(3) have "a = b" by simp
  with assms show ?thesis by (simp add: edge_id_def)
qed

section \<open>What the helpers accept\<close>

lemma positive_int_Inr [res_simps]: "positive_int v l = Inr i \<longleftrightarrow> v = JInt i \<and> 0 < i"
  by (cases v) auto

lemma nonempty_string_Inr [res_simps]:
  "nonempty_string v l = Inr t \<longleftrightarrow> (\<exists>s. v = JStr s \<and> strip s = t \<and> t \<noteq> [])"
  by (cases v) auto

lemma nonempty_string_stripped: "nonempty_string v l = Inr t \<Longrightarrow> stripped t"
  by (auto simp: res_simps stripped_def)

lemma nonempty_string_id: "stripped t \<Longrightarrow> nonempty_string (JStr t) l = Inr t"
  by (simp add: stripped_def)

lemma identifier_str_Inr [res_simps]:
  "identifier_str v l = Inr t \<longleftrightarrow> (\<exists>s. v = JStr s \<and> strip s = t \<and> identifier_re t)"
  by (auto simp: identifier_str_def res_simps identifier_re_def)

lemma identifier_str_id: "identifier_re t \<Longrightarrow> identifier_str (JStr t) l = Inr t"
  by (auto simp: res_simps dest: identifier_stripped simp: stripped_def)

lemma missing_keys_Nil: "missing_keys ks kvs = [] \<longleftrightarrow> set ks \<subseteq> set (map fst kvs)"
  by (auto simp: missing_keys_def filter_empty_conv)

lemma extra_keys_Nil: "extra_keys ks kvs = [] \<longleftrightarrow> set (map fst kvs) \<subseteq> set ks"
  by (auto simp: extra_keys_def filter_empty_conv)

lemma exact_keys_Inr [res_simps]:
  "exact_keys kvs ks l = Inr u \<longleftrightarrow> set (map fst kvs) = set ks"
  by (auto simp: exact_keys_def res_simps missing_keys_Nil extra_keys_Nil)

section \<open>A validated profile is well formed\<close>

lemma validate_outcomes_wf:
  "validate_outcomes n raw acc = Inr os \<Longrightarrow> wf_outcomes acc \<Longrightarrow> wf_outcomes os"
proof (induction n raw acc rule: validate_outcomes.induct)
  case (2 n ro rt rest acc)
  from "2.prems"(1) obtain oc t where
    oc: "identifier_str (JStr ro) (''stage '' @ n @ '' outcome'') = Inr oc" and
    t: "nonempty_string rt (''stage '' @ n @ ''.'' @ oc @ '' target'') = Inr t" and
    rest: "validate_outcomes n rest (dict_set oc t acc) = Inr os"
    by (auto simp: bindR_Inr_iff)
  have set: "set (dict_set oc t acc) \<subseteq> insert (oc, t) (set acc)"
    by (induction oc t acc rule: dict_set.induct) auto
  have "wf_outcomes (dict_set oc t acc)"
    using "2.prems"(2) set oc nonempty_string_stripped [OF t]
    by (fastforce simp: wf_outcomes_def identifier_str_Inr intro: distinct_dict_set)
  from "2.IH" [OF rest this] show ?case .
qed simp

lemma validate_outcomes_keys:
  "validate_outcomes n raw acc = Inr os \<Longrightarrow> raw \<noteq> [] \<or> acc \<noteq> [] \<Longrightarrow> os \<noteq> []"
proof (induction n raw acc rule: validate_outcomes.induct)
  case (2 n ro rt rest acc)
  have "dict_set k v kvs \<noteq> []" for k v and kvs :: "(string \<times> string) list"
    by (cases kvs) (auto split: if_splits)
  with 2 show ?case by (fastforce simp: bindR_Inr_iff)
qed simp

lemma validate_stage_wf:
  assumes "validate_stage n raw = Inr s"
  shows "wf_stage n s"
proof (cases raw)
  case (JObj kvs)
  show ?thesis
  proof (cases "''terminal'' \<in> set (map fst kvs)")
    case True
    with assms JObj show ?thesis
      by (auto simp: validate_stage_def bindR_Inr_iff check_Inr_iff wf_stage_def)
  next
    case False
    obtain os where os: "jget kvs ''outcomes'' = JObj os"
      using assms JObj False
      by (cases "jget kvs ''outcomes''") (simp_all add: validate_stage_def bindR_Inr_iff check_Inr_iff)
    from assms obtain ow cap tm pr outs where
      *: "ow \<in> set OWNERS" "positive_int (jget kvs ''attempt_cap'') (''stage '' @ n @ ''.attempt_cap'') = Inr cap"
        "positive_int (jget kvs ''timeout'') (''stage '' @ n @ ''.timeout'') = Inr tm"
        "nonempty_string (jget kvs ''prompt'') (''stage '' @ n @ ''.prompt'') = Inr pr"
        "os \<noteq> []" "validate_outcomes n os [] = Inr outs"
      and s: "s = \<lparr>st_name = n, st_owner = Some ow, st_attempt_cap = Some cap, st_timeout = Some tm,
                 st_prompt = Some pr, st_outcomes = outs, st_terminal = None\<rparr>"
      unfolding validate_stage_def JObj json.case if_not_P [OF False] os bindR_Inr_iff check_Inr_iff sum.inject
      by blast
    have "wf_outcomes outs"
      by (rule validate_outcomes_wf [OF *(6)]) (simp add: wf_outcomes_def)
    moreover have "outs \<noteq> []" using validate_outcomes_keys [OF *(6)] *(5) by simp
    moreover have "0 < cap" "0 < tm" "stripped pr"
      using *(2-4) nonempty_string_stripped by (auto simp: positive_int_Inr)
    ultimately show ?thesis using *(1) s by (simp add: wf_stage_def)
  qed
qed (use assms in \<open>auto simp: validate_stage_def\<close>)

lemma validate_stages_wf:
  "validate_stages raw acc = Inr stages \<Longrightarrow> wf_stages acc \<Longrightarrow> wf_stages stages"
proof (induction raw acc rule: validate_stages.induct)
  case (2 rn raw rest acc)
  then obtain n s where n: "identifier_str (JStr rn) ''stage name'' = Inr n" "n \<notin> set (map fst acc)"
    and s: "validate_stage n raw = Inr s" and rest: "validate_stages rest (acc @ [(n, s)]) = Inr stages"
    by (auto simp: bindR_Inr_iff check_Inr_iff)
  have "wf_stages (acc @ [(n, s)])"
    using "2.prems"(2) n validate_stage_wf [OF s] by (auto simp: wf_stages_def identifier_str_Inr)
  from "2.IH" [OF rest this] show ?case .
qed simp

lemma check_targets_Inr [res_simps]:
  "check_targets stages es = Inr u \<longleftrightarrow> (\<forall>(e, t) \<in> set es. t \<in> set (map fst stages))"
proof (induction es)
  case (Cons p es)
  obtain e t where p: "p = (e, t)" by force
  then show ?case using Cons by (simp add: check_Inr_iff)
qed simp

lemma validate_caps_Inr:
  "validate_caps raw = Inr cs \<longleftrightarrow> raw = map (\<lambda>(e, c). (e, JInt c)) cs \<and> (\<forall>(e, c) \<in> set cs. 0 < c)"
proof (induction raw arbitrary: cs)
  case Nil
  then show ?case by auto
next
  case (Cons r raw)
  obtain e v where "r = (e, v)" by force
  with Cons show ?case by (cases cs) (auto simp: res_simps)
qed

lemma keys_of_caps: "map fst (map (\<lambda>(e, c). (e, JInt c)) cs) = map fst cs"
  by auto

lemma keys_of_caps_image: "fst ` (\<lambda>x. case x of (e, c) \<Rightarrow> (e, JInt c)) ` A = fst ` A"
  by force

lemma caps_exact:
  "missing_keys ks kvs = [] \<and> extra_keys ks kvs = [] \<longleftrightarrow> set (map fst kvs) = set ks"
  unfolding missing_keys_Nil extra_keys_Nil by blast

lemma validate_graph_Inr:
  assumes "wf_json raw"
  shows "validate_graph i stages raw = Inr cs \<longleftrightarrow>
     raw = JObj (map (\<lambda>(e, c). (e, JInt c)) cs)
   \<and> (\<exists>(n, s) \<in> set stages. st_terminal s \<noteq> None)
   \<and> (\<exists>s. map_of stages i = Some s \<and> st_terminal s = None)
   \<and> (\<forall>(e, t) \<in> set (profile_edges stages). t \<in> set (map fst stages))
   \<and> distinct (map fst cs) \<and> set (map fst cs) = set (map fst (profile_edges stages))
   \<and> (\<forall>(e, c) \<in> set cs. 0 < c)" (is "_ = ?R")
proof
  assume "validate_graph i stages raw = Inr cs"
  then show ?R using assms
    by (auto simp: validate_graph_def check_Inr_iff bindR_Inr_iff check_targets_Inr caps_exact
        validate_caps_Inr keys_of_caps keys_of_caps_image Let_def split: option.splits json.splits
        simp del: map_map)
next
  assume R: ?R
  then obtain s where "map_of stages i = Some s" "st_terminal s = None" by blast
  with R show "validate_graph i stages raw = Inr cs"
    by (simp add: validate_graph_def check_Inr_iff bindR_Inr_iff check_targets_Inr caps_exact
        validate_caps_Inr keys_of_caps keys_of_caps_image Let_def del: map_map)
qed

lemma validate_profile_Inr:
  assumes "validate_profile (JObj kvs) = Inr p"
  obtains raw l where "0 < pf_version p" "identifier_re (pf_type p)" "0 < pf_max_transitions p"
    "jget kvs ''stages'' = JObj raw" "validate_stages raw [] = Inr (pf_stages p)"
    "validate_graph (pf_initial_stage p) (pf_stages p) (jget kvs ''edge_caps'') = Inr (pf_edge_caps p)"
proof -
  from assms obtain raw where raw: "jget kvs ''stages'' = JObj raw"
    by (cases "jget kvs ''stages''") (simp_all add: validate_profile_def bindR_Inr_iff)
  from assms obtain v t i m st ec where
    "positive_int (jget kvs ''version'') ''version'' = Inr v"
    "identifier_str (jget kvs ''type'') ''type'' = Inr t"
    "positive_int (jget kvs ''max_transitions'') ''max_transitions'' = Inr m"
    "validate_stages raw [] = Inr st" "validate_graph i st (jget kvs ''edge_caps'') = Inr ec"
    and p: "p = \<lparr>pf_version = v, pf_type = t, pf_initial_stage = i, pf_max_transitions = m,
                pf_stages = st, pf_edge_caps = ec\<rparr>"
    unfolding validate_profile_def json.case raw bindR_Inr_iff check_Inr_iff by blast
  then show thesis using raw that [of raw]
    by (auto simp: positive_int_Inr identifier_str_Inr)
qed

lemma validate_profile_wf_aux:
  assumes p: "validate_profile data = Inr p" and "wf_json data"
  shows "wf_profile p"
proof -
  from p obtain kvs where d: "data = JObj kvs"
    by (auto simp: validate_profile_def split: json.splits)
  have w: "wf_json (jget kvs ''edge_caps'')" using assms(2) d wf_json_jget by blast
  from p[unfolded d] obtain raw where
    *: "0 < pf_version p" "identifier_re (pf_type p)" "0 < pf_max_transitions p"
    and st: "validate_stages raw [] = Inr (pf_stages p)"
    and g: "validate_graph (pf_initial_stage p) (pf_stages p) (jget kvs ''edge_caps'') = Inr (pf_edge_caps p)"
    by (rule validate_profile_Inr)
  have "wf_stages (pf_stages p)"
    using validate_stages_wf [OF st] by (simp add: wf_stages_def)
  with * g show ?thesis unfolding validate_graph_Inr [OF w] wf_profile_def by blast
qed

section \<open>Rendering a well-formed profile and validating it again\<close>

lemma validate_outcomes_render:
  "wf_outcomes (acc @ os) \<Longrightarrow>
   validate_outcomes n (map (\<lambda>(oc, t). (oc, JStr t)) os) acc = Inr (acc @ os)"
proof (induction os arbitrary: acc)
  case (Cons p os)
  obtain oc t where p: "p = (oc, t)" by force
  from Cons.prems p have o: "oc \<notin> set (map fst acc)" "identifier_re oc" "stripped t"
    by (auto simp: wf_outcomes_def)
  then show ?case using Cons.IH [of "acc @ [p]"] Cons.prems p
    by (simp add: identifier_str_id stripped_def dict_set_fresh)
qed simp

lemma strip_words [simp]:
  "strip ''claude'' = ''claude''" "strip ''codex'' = ''codex''"
  "strip ''done'' = ''done''" "strip ''failed'' = ''failed''"
  by code_simp+

lemma validate_stage_render: "wf_stage n s \<Longrightarrow> validate_stage n (stage_to_dict s) = Inr s"
proof (cases "st_terminal s")
  case None
  assume w: "wf_stage n s"
  with None show ?thesis
    by (cases s) (auto simp: wf_stage_def validate_stage_def stage_to_dict_def exact_keys_def
        missing_keys_Nil extra_keys_Nil guardR_def jget_def jopt_str_def jopt_int_def
        nonempty_string_id validate_outcomes_render [of "[]", simplified] OWNERS_def stripped_def)
next
  case (Some t)
  assume w: "wf_stage n s"
  with Some show ?thesis
    by (cases s) (auto simp: wf_stage_def validate_stage_def stage_to_dict_def exact_keys_def
        missing_keys_Nil extra_keys_Nil guardR_def jget_def jopt_str_def TERMINAL_STATUSES_def)
qed

lemma validate_stages_render:
  "wf_stages (acc @ stages) \<Longrightarrow>
   validate_stages (map (\<lambda>(n, s). (n, stage_to_dict s)) stages) acc = Inr (acc @ stages)"
proof (induction stages arbitrary: acc)
  case (Cons p stages)
  obtain n s where p: "p = (n, s)" by force
  from Cons.prems p have "n \<notin> set (map fst acc)" "identifier_re n" "wf_stage n s"
    by (auto simp: wf_stages_def)
  then show ?case using Cons.IH [of "acc @ [p]"] Cons.prems p
    by (simp add: identifier_str_id validate_stage_render)
qed simp

lemma validate_render:
  assumes "wf_profile p"
  shows "validate_profile (to_dict p) = Inr p"
proof -
  let ?caps = "JObj (map (\<lambda>(e, c). (e, JInt c)) (pf_edge_caps p))"
  have w: "wf_json ?caps" using assms by (auto simp: wf_profile_def keys_of_caps simp del: map_map)
  have g: "validate_graph (pf_initial_stage p) (pf_stages p) ?caps = Inr (pf_edge_caps p)"
    unfolding validate_graph_Inr [OF w] using assms by (simp add: wf_profile_def)
  from assms obtain s where "map_of (pf_stages p) (pf_initial_stage p) = Some s"
    by (auto simp: wf_profile_def)
  then have i: "identifier_re (pf_initial_stage p)" and ne: "pf_stages p \<noteq> []"
    using assms by (auto simp: wf_profile_def wf_stages_def dest!: map_of_SomeD)
  have st: "validate_stages (map (\<lambda>(n, s). (n, stage_to_dict s)) (pf_stages p)) [] = Inr (pf_stages p)"
    using validate_stages_render [of "[]" "pf_stages p"] assms by (simp add: wf_profile_def)
  show ?thesis
    using assms i ne st g
    by (simp add: validate_profile_def to_dict_def exact_keys_def missing_keys_Nil extra_keys_Nil
        guardR_def jget_def wf_profile_def identifier_str_id)
qed

section \<open>Properties\<close>

text \<open>C36: Whatever value the validator accepts (any decoded mapping), the profile it returns
  satisfies the whole invariant of the stage machine: positive caps, known owners, an initial
  stage that exists and is not terminal, at least one terminal stage, every edge leading to a
  stage of the profile, and exactly one positive cap for every edge.  Rendering the profile with
  \<open>to_dict\<close> and validating that again returns the very same profile.\<close>

theorem validate_profile_sound:
  assumes "validate_profile data = Inr p" and "wf_json data"
  shows "wf_profile p \<and> validate_profile (to_dict p) = Inr p"
  using validate_profile_wf_aux [OF assms] validate_render by blast

text \<open>A small profile: a review that may ask for a correction.\<close>

definition sample_profile :: profile where
  "sample_profile =
     \<lparr>pf_version = 1, pf_type = ''bugfix'', pf_initial_stage = ''review'', pf_max_transitions = 6,
      pf_stages =
        [(''review'', \<lparr>st_name = ''review'', st_owner = Some ''claude'', st_attempt_cap = Some 2,
                       st_timeout = Some 60, st_prompt = Some ''Review.'',
                       st_outcomes = [(''ok'', ''end''), (''again'', ''fix'')], st_terminal = None\<rparr>),
         (''fix'', \<lparr>st_name = ''fix'', st_owner = Some ''codex'', st_attempt_cap = Some 2,
                    st_timeout = Some 60, st_prompt = Some ''Fix.'',
                    st_outcomes = [(''fixed'', ''review'')], st_terminal = None\<rparr>),
         (''end'', \<lparr>st_name = ''end'', st_owner = None, st_attempt_cap = None, st_timeout = None,
                    st_prompt = None, st_outcomes = [], st_terminal = Some ''done''\<rparr>)],
      pf_edge_caps = [(''review.ok'', 1), (''review.again'', 2), (''fix.fixed'', 2)]\<rparr>"

lemma validate_profile_sound_witness:
  "wf_profile sample_profile \<and> validate_profile (to_dict sample_profile) = Inr sample_profile"
proof (rule validate_profile_sound)
  show "validate_profile (to_dict sample_profile) = Inr sample_profile" by code_simp
  show "wf_json (to_dict sample_profile)" by code_simp
qed

end
