(* ===== verification/StageGraph.thy ===== *)
theory StageGraph
  imports Profile
begin

text \<open>
  The static questions \<open>controller.py\<close> asks of a frozen stage graph: the arity of a stage, the
  stages an execution can enter, whether a set of stages carries a cycle (a three-colour
  depth-first search with an explicit stack), and whether the convergence gate can score every
  loop.  A Python list used as a stack is kept with its top first, so \<open>pop()\<close> takes the head and
  \<open>extend\<close> puts the new elements, last one first, in front.

  The search is shown to decide the existence of a cycle, and the gate to decide that every
  loop an execution can enter contains both a branching and a correction stage.
\<close>

section \<open>Operations\<close>

datatype arity = Branching | Correction | Neither

text \<open>Truth of an optional text: \<open>None\<close> and the empty text are false.\<close>

definition opt_text_true :: "string option \<Rightarrow> bool" where
  "opt_text_true t = (case t of None \<Rightarrow> False | Some s \<Rightarrow> s \<noteq> [])"

definition stage_arity :: "profile \<Rightarrow> string \<Rightarrow> arity" where
  "stage_arity p name =
     (case profile_stage p name of
        Inl _ \<Rightarrow> Neither
      | Inr s \<Rightarrow>
        if opt_text_true (st_terminal s) then Neither
        else let count = length (st_outcomes s) in
          if 1 < count then Branching
          else if count = 1 then Correction
          else Neither)"

text \<open>The targets of a stage's outcomes; none for a name the profile does not have.\<close>

definition targets :: "profile \<Rightarrow> string \<Rightarrow> string list" where
  "targets p name = (case profile_stage p name of Inl _ \<Rightarrow> [] | Inr s \<Rightarrow> map snd (st_outcomes s))"

definition is_stage :: "profile \<Rightarrow> string \<Rightarrow> bool" where
  "is_stage p name \<longleftrightarrow> map_of (pf_stages p) name \<noteq> None"

definition unseen_stages :: "profile \<Rightarrow> string list \<Rightarrow> nat" where
  "unseen_stages p seen = length (filter (\<lambda>(n, s). n \<notin> set seen) (pf_stages p))"

lemma unseen_stages_less:
  assumes "is_stage p n" "n \<notin> set seen"
  shows "unseen_stages p (n # seen) < unseen_stages p seen"
proof -
  from assms(1) obtain s where s: "(n, s) \<in> set (pf_stages p)"
    by (auto simp: is_stage_def dest: map_of_SomeD)
  have "length (filter (\<lambda>(m, s). m \<notin> set (n # seen)) xs) < length (filter (\<lambda>(m, s). m \<notin> set seen) xs)"
    if "(n, s) \<in> set xs" for xs :: "(string \<times> stage) list"
  proof -
    have le: "length (filter (\<lambda>(m, s). m \<notin> set (n # seen)) ys) \<le> length (filter (\<lambda>(m, s). m \<notin> set seen) ys)"
      for ys :: "(string \<times> stage) list"
      by (induction ys) auto
    from that show ?thesis
    proof (induction xs)
      case (Cons x xs)
      then show ?case using assms(2) le [of xs] by auto
    qed simp
  qed
  with s show ?thesis by (simp add: unseen_stages_def)
qed

lemma unseen_stages_mono: "unseen_stages p (n # seen) \<le> unseen_stages p seen"
proof -
  have "length (filter (\<lambda>(m, s). m \<notin> set (n # seen)) ys) \<le> length (filter (\<lambda>(m, s). m \<notin> set seen) ys)"
    for ys :: "(string \<times> stage) list"
    by (induction ys) auto
  then show ?thesis by (simp add: unseen_stages_def)
qed

function reach_loop :: "profile \<Rightarrow> string list \<Rightarrow> string list \<Rightarrow> string list" where
  "reach_loop p seen [] = seen"
| "reach_loop p seen (name # frontier) =
     (if name \<in> set seen then reach_loop p seen frontier
      else if is_stage p name then reach_loop p (name # seen) (rev (targets p name) @ frontier)
      else reach_loop p (name # seen) frontier)"
  by pat_completeness auto
termination
proof (relation "measures [\<lambda>(p, seen, f). unseen_stages p seen, \<lambda>(p, seen, f). length f]",
    goal_cases)
  case (4 p seen name frontier)
  then show ?case using unseen_stages_mono [of p name seen] by (auto simp: le_less)
qed (auto simp: unseen_stages_less)

definition reachable_stages :: "profile \<Rightarrow> string list" where
  "reachable_stages p = reach_loop p [] [pf_initial_stage p]"

datatype colour = WHITE | GREY | BLACK

declare reach_loop.simps [simp del]

text \<open>\<open>successors(name)\<close>: the targets inside the node set.\<close>

definition successors :: "profile \<Rightarrow> string list \<Rightarrow> string \<Rightarrow> string list" where
  "successors p nodes name = filter (\<lambda>t. t \<in> set nodes) (targets p name)"

definition whites :: "(string \<times> colour) list \<Rightarrow> nat" where
  "whites c = length (filter (\<lambda>(n, k). k = WHITE) c)"

lemma whites_dict_set_less:
  "map_of c n = Some WHITE \<Longrightarrow> k \<noteq> WHITE \<Longrightarrow> whites (dict_set n k c) < whites c"
  by (induction n k c rule: dict_set.induct) (auto simp: whites_def split: if_splits)

lemma whites_dict_set_le: "k \<noteq> WHITE \<Longrightarrow> whites (dict_set n k c) \<le> whites c"
  by (induction n k c rule: dict_set.induct) (auto simp: whites_def split: if_splits)

text \<open>
  The inner loop, from a stack of frames: whether it returned \<open>True\<close>, and the colours.  A pending
  target always has a colour, because \<open>successors\<close> keeps only nodes.
\<close>

function dfs_loop ::
  "(string \<Rightarrow> string list) \<Rightarrow> (string \<times> string list) list \<Rightarrow> (string \<times> colour) list \<Rightarrow> bool \<times> (string \<times> colour) list"
where
  "dfs_loop succs [] colour = (False, colour)"
| "dfs_loop succs ((name, []) # stack) colour = dfs_loop succs stack (dict_set name BLACK colour)"
| "dfs_loop succs ((name, target # pending) # stack) colour =
     (if map_of colour target = Some GREY then (True, colour)
      else if map_of colour target = Some WHITE then
        dfs_loop succs ((target, rev (succs target)) # (name, pending) # stack) (dict_set target GREY colour)
      else dfs_loop succs ((name, pending) # stack) colour)"
  by pat_completeness auto
termination
proof (relation "measures [\<lambda>(f, st, c). whites c, \<lambda>(f, st, c). sum_list (map (\<lambda>(n, ps). Suc (length ps)) st)]",
    goal_cases)
  case (2 succs name stack colour)
  then show ?case using whites_dict_set_le [of BLACK name colour] by (auto simp: le_less)
qed (auto simp: whites_dict_set_less)

text \<open>The outer loop over the sorted roots.\<close>

fun cycle_roots :: "(string \<Rightarrow> string list) \<Rightarrow> string list \<Rightarrow> (string \<times> colour) list \<Rightarrow> bool" where
  "cycle_roots succs [] colour = False"
| "cycle_roots succs (root # roots) colour =
     (if map_of colour root \<noteq> Some WHITE then cycle_roots succs roots colour
      else let (found, colour') = dfs_loop succs [(root, rev (succs root))] (dict_set root GREY colour)
        in if found then True else cycle_roots succs roots colour')"

definition has_cycle :: "profile \<Rightarrow> string list \<Rightarrow> bool" where
  "has_cycle p nodes =
     cycle_roots (successors p nodes) (sorted_set nodes) (map (\<lambda>n. (n, WHITE)) (remdups nodes))"

definition gate_reachable :: "profile \<Rightarrow> bool" where
  "gate_reachable p =
     (let reachable = reachable_stages p;
          without_correction = filter (\<lambda>n. stage_arity p n \<noteq> Correction) reachable;
          without_branching = filter (\<lambda>n. stage_arity p n \<noteq> Branching) reachable
      in if has_cycle p without_correction then False else \<not> has_cycle p without_branching)"

section \<open>Walks through the graph\<close>

text \<open>\<open>walk p a xs b\<close>: an execution can go from \<open>a\<close> through \<open>xs\<close>, in this order, to \<open>b\<close>.\<close>

fun walk :: "profile \<Rightarrow> string \<Rightarrow> string list \<Rightarrow> string \<Rightarrow> bool" where
  "walk p a [] b \<longleftrightarrow> b \<in> set (targets p a)"
| "walk p a (x # xs) b \<longleftrightarrow> x \<in> set (targets p a) \<and> walk p x xs b"

definition reach_rel :: "profile \<Rightarrow> (string \<times> string) set" where
  "reach_rel p = {(a, b). b \<in> set (targets p a)}"

lemma reach_loop_spec:
  assumes "\<forall>a \<in> set seen. set (targets p a) \<subseteq> set seen \<union> set frontier"
  shows "set seen \<union> set frontier \<subseteq> set (reach_loop p seen frontier)
    \<and> (\<forall>a \<in> set (reach_loop p seen frontier). set (targets p a) \<subseteq> set (reach_loop p seen frontier))
    \<and> set (reach_loop p seen frontier) \<subseteq> (reach_rel p)\<^sup>* `` (set seen \<union> set frontier)"
  using assms
proof (induction p seen frontier rule: reach_loop.induct)
  case (1 p seen)
  then show ?case by (auto simp: reach_loop.simps)
next
  case (2 p seen name frontier)
  note reach_loop.simps [simp]
  consider "name \<in> set seen" | "name \<notin> set seen" "is_stage p name" | "name \<notin> set seen" "\<not> is_stage p name"
    by blast
  then show ?case
  proof cases
    case 1
    have "\<forall>a \<in> set seen. set (targets p a) \<subseteq> set seen \<union> set frontier" using 2(4) 1 by auto
    from 2(1) [OF 1 this] 1 show ?thesis by auto
  next
    case 2
    let ?f = "rev (targets p name) @ frontier"
    have "\<forall>a \<in> set (name # seen). set (targets p a) \<subseteq> set (name # seen) \<union> set ?f" using "2.prems" by auto
    note ih = "2.IH"(2) [OF 2 this]
    have "set (name # seen) \<union> set ?f \<subseteq> (reach_rel p)\<^sup>* `` (set seen \<union> set (name # frontier))"
      by (auto simp: reach_rel_def Image_def intro: r_into_rtrancl)
    then have "(reach_rel p)\<^sup>* `` (set (name # seen) \<union> set ?f) \<subseteq> (reach_rel p)\<^sup>* `` (set seen \<union> set (name # frontier))"
      by (meson rtrancl_trans Image_iff subset_iff)
    with ih 2 show ?thesis by auto
  next
    case 3
    then have t: "targets p name = []"
      by (auto simp: targets_def is_stage_def profile_stage_def split: option.splits)
    have "\<forall>a \<in> set (name # seen). set (targets p a) \<subseteq> set (name # seen) \<union> set frontier"
      using "2.prems" t by auto
    note ih = "2.IH"(3) [OF 3 this]
    with 3 show ?thesis by auto
  qed
qed

lemma reachable_stages_iff:
  "a \<in> set (reachable_stages p) \<longleftrightarrow> (pf_initial_stage p, a) \<in> (reach_rel p)\<^sup>*"
proof
  note spec = reach_loop_spec [of "[]" p "[pf_initial_stage p]", simplified]
  show "a \<in> set (reachable_stages p) \<Longrightarrow> (pf_initial_stage p, a) \<in> (reach_rel p)\<^sup>*"
    using spec by (auto simp: reachable_stages_def)
  assume "(pf_initial_stage p, a) \<in> (reach_rel p)\<^sup>*"
  then show "a \<in> set (reachable_stages p)"
  proof induction
    case base
    then show ?case using spec by (simp add: reachable_stages_def)
  next
    case (step y z)
    then show ?case using spec by (auto simp: reachable_stages_def reach_rel_def)
  qed
qed

section \<open>The depth-first search decides cycles\<close>

definition edges_in :: "(string \<Rightarrow> string list) \<Rightarrow> string set \<Rightarrow> (string \<times> string) set" where
  "edges_in succs N = {(a, b). a \<in> N \<and> b \<in> set (succs a)}"

definition blacks :: "(string \<times> colour) list \<Rightarrow> string set" where
  "blacks c = {n. map_of c n = Some BLACK}"

text \<open>
  Each frame keeps its pending targets; every other successor of it is black or the frame above.
\<close>

fun frames_ok :: "(string \<Rightarrow> string list) \<Rightarrow> string set \<Rightarrow> string set \<Rightarrow> (string \<times> string list) list \<Rightarrow> bool" where
  "frames_ok succs B up [] = True"
| "frames_ok succs B up ((n, ps) # st) \<longleftrightarrow>
     set ps \<union> up \<subseteq> set (succs n) \<and> set (succs n) \<subseteq> set ps \<union> B \<union> up \<and> frames_ok succs B {n} st"

definition dfs_inv ::
  "(string \<Rightarrow> string list) \<Rightarrow> string set \<Rightarrow> (string \<times> string list) list \<Rightarrow> (string \<times> colour) list \<Rightarrow> bool" where
  "dfs_inv succs N st c \<longleftrightarrow>
     dom (map_of c) = N \<and> (\<forall>n. map_of c n = Some GREY \<longleftrightarrow> n \<in> fst ` set st)
   \<and> distinct (map fst st) \<and> frames_ok succs (blacks c) {} st
   \<and> (\<forall>n \<in> blacks c. set (succs n) \<subseteq> blacks c)
   \<and> (\<forall>n \<in> blacks c. (n, n) \<notin> (edges_in succs N)\<^sup>+)"

lemma frames_ok_mono: "frames_ok succs B ab st \<Longrightarrow> B \<subseteq> B' \<Longrightarrow> frames_ok succs B' ab st"
  by (induction succs B ab st rule: frames_ok.induct) auto

lemma frames_ok_path:
  "frames_ok succs B {a} st \<Longrightarrow> fst ` set st \<subseteq> N \<Longrightarrow> n \<in> fst ` set st \<Longrightarrow> (n, a) \<in> (edges_in succs N)\<^sup>+"
proof (induction st arbitrary: a)
  case (Cons f st)
  obtain m ps where f: "f = (m, ps)" by force
  have e: "(m, a) \<in> edges_in succs N" using Cons.prems f by (auto simp: edges_in_def)
  show ?case
  proof (cases "n = m")
    case True
    then show ?thesis using e by auto
  next
    case False
    then have "(n, m) \<in> (edges_in succs N)\<^sup>+" using Cons f by auto
    then show ?thesis using e by (rule trancl_into_trancl)
  qed
qed simp

lemma blacks_dict_set: "blacks (dict_set n k c) = (if k = BLACK then insert n (blacks c) else blacks c - {n})"
  by (auto simp: blacks_def)

text \<open>A set closed under the edges keeps every walk that starts in it.\<close>

lemma closed_trancl:
  "(a, b) \<in> (edges_in succs N)\<^sup>+ \<Longrightarrow> a \<in> B \<Longrightarrow> \<forall>n \<in> B. set (succs n) \<subseteq> B \<Longrightarrow> b \<in> B"
  by (induction rule: trancl.induct) (auto simp: edges_in_def)

lemma dfs_inv_pop:
  assumes "dfs_inv succs N ((n, []) # st) c"
  shows "dfs_inv succs N st (dict_set n BLACK c)"
proof -
  let ?B = "insert n (blacks c)"
  from assms have g: "map_of c n = Some GREY" by (auto simp: dfs_inv_def)
  then have nb: "n \<notin> blacks c" by (auto simp: blacks_def)
  from assms have sn: "set (succs n) \<subseteq> blacks c" and fr: "frames_ok succs (blacks c) {n} st"
    and cl: "\<forall>m \<in> blacks c. set (succs m) \<subseteq> blacks c"
    and ac: "\<forall>m \<in> blacks c. (m, m) \<notin> (edges_in succs N)\<^sup>+"
    and d: "distinct (n # map fst st)" "dom (map_of c) = N"
    and gr: "\<forall>m. map_of c m = Some GREY \<longleftrightarrow> m = n \<or> m \<in> fst ` set st"
    by (auto simp: dfs_inv_def)
  have "(n, n) \<notin> (edges_in succs N)\<^sup>+"
  proof
    assume "(n, n) \<in> (edges_in succs N)\<^sup>+"
    then obtain m where "(n, m) \<in> edges_in succs N" "m = n \<or> (m, n) \<in> (edges_in succs N)\<^sup>+"
      by (metis tranclD rtranclD)
    then have "m \<in> blacks c" "m = n \<or> n \<in> blacks c"
      using sn closed_trancl [OF _ _ cl] by (auto simp: edges_in_def)
    with nb show False by auto
  qed
  moreover have "frames_ok succs ?B {} st"
    using fr by (cases st) (auto intro: frames_ok_mono)
  ultimately show ?thesis
    using sn cl ac d gr g by (auto simp: dfs_inv_def blacks_dict_set)
qed

lemma dfs_inv_skip:
  assumes "dfs_inv succs N ((n, t # ps) # st) c" "t \<in> blacks c"
  shows "dfs_inv succs N ((n, ps) # st) c"
  using assms by (auto simp: dfs_inv_def)

lemma dfs_inv_push:
  assumes "dfs_inv succs N ((n, t # ps) # st) c" "map_of c t = Some WHITE"
  shows "dfs_inv succs N ((t, rev (succs t)) # (n, ps) # st) (dict_set t GREY c)"
proof -
  from assms have "map_of c t \<noteq> Some GREY" "t \<notin> blacks c" "t \<in> N"
    by (auto simp: dfs_inv_def blacks_def)
  moreover from this assms(1) have "t \<noteq> n" "t \<notin> fst ` set st" by (auto simp: dfs_inv_def)
  ultimately show ?thesis using assms by (auto simp: dfs_inv_def blacks_dict_set)
qed

lemma dfs_inv_stack: "dfs_inv succs N st c \<Longrightarrow> fst ` set st \<subseteq> N"
  unfolding dfs_inv_def by (metis domI subsetI)

lemma dfs_inv_top:
  "dfs_inv succs N ((n, t # ps) # st) c \<Longrightarrow> \<forall>a. set (succs a) \<subseteq> N \<Longrightarrow> t \<in> N \<and> (n, t) \<in> edges_in succs N"
  using dfs_inv_stack [of succs N "(n, t # ps) # st" c] by (auto simp: dfs_inv_def edges_in_def)

lemma dfs_inv_colour:
  assumes "dfs_inv succs N st c" "t \<in> N"
  shows "map_of c t = Some GREY \<or> map_of c t = Some WHITE \<or> map_of c t = Some BLACK"
proof -
  from assms obtain k where "map_of c t = Some k" unfolding dfs_inv_def by blast
  then show ?thesis by (cases k) simp_all
qed

lemma dfs_inv_root:
  assumes "dfs_inv succs N [] c" "map_of c r = Some WHITE"
  shows "dfs_inv succs N [(r, rev (succs r))] (dict_set r GREY c)"
proof -
  from assms have "map_of c r \<noteq> Some GREY" "r \<notin> blacks c" "r \<in> N"
    by (auto simp: dfs_inv_def blacks_def)
  with assms show ?thesis by (auto simp: dfs_inv_def blacks_dict_set)
qed

lemma dfs_loop_spec:
  assumes "dfs_inv succs N st c" "\<forall>a. set (succs a) \<subseteq> N"
  shows "case dfs_loop succs st c of
      (True, c') \<Rightarrow> \<exists>v \<in> N. (v, v) \<in> (edges_in succs N)\<^sup>+
    | (False, c') \<Rightarrow> dfs_inv succs N [] c' \<and> blacks c \<union> fst ` set st \<subseteq> blacks c'"
  using assms
proof (induction succs st c rule: dfs_loop.induct)
  case (1 succs c)
  then show ?case by simp
next
  case (2 succs n st c)
  from 2(1) [OF dfs_inv_pop [OF 2(2)] 2(3)] show ?case
    by (auto simp: blacks_dict_set split: prod.splits bool.splits)
next
  case (3 succs n t ps st c)
  have nN: "fst ` set ((n, t # ps) # st) \<subseteq> N" by (rule dfs_inv_stack [OF 3(3)])
  have tN: "t \<in> N" and e: "(n, t) \<in> edges_in succs N" using dfs_inv_top [OF 3(3,4)] by simp_all
  consider "map_of c t = Some GREY" | "map_of c t = Some WHITE" | "map_of c t = Some BLACK"
    using dfs_inv_colour [OF 3(3) tN] by blast
  then show ?case
  proof cases
    case 1
    then have "t = n \<or> t \<in> fst ` set st" using 3(3) by (auto simp: dfs_inv_def)
    moreover have "frames_ok succs (blacks c) {n} st" using 3(3) by (simp add: dfs_inv_def)
    ultimately have "(t, t) \<in> (edges_in succs N)\<^sup>+"
      using frames_ok_path [of succs "blacks c" n st N t] nN e
      by (auto intro: trancl_into_trancl)
    with 1 tN show ?thesis by auto
  next
    case 2
    then have ng: "map_of c t \<noteq> Some GREY" by simp
    from 3(1) [OF ng 2 dfs_inv_push [OF 3(3) 2] 3(4)] 2 show ?thesis
      by (auto simp: blacks_dict_set blacks_def split: prod.splits bool.splits)
  next
    case b: 3
    then have ng: "map_of c t \<noteq> Some GREY" "map_of c t \<noteq> Some WHITE" by simp_all
    have "t \<in> blacks c" using b by (simp add: blacks_def)
    from 3(2) [OF ng dfs_inv_skip [OF 3(3) this] 3(4)] ng show ?thesis
      by (auto split: prod.splits bool.splits)
  qed
qed

lemma cycle_roots_spec:
  assumes "dfs_inv succs N [] c" "\<forall>a. set (succs a) \<subseteq> N" "set roots \<subseteq> N" "N - blacks c \<subseteq> set roots"
  shows "cycle_roots succs roots c \<longleftrightarrow> (\<exists>v \<in> N. (v, v) \<in> (edges_in succs N)\<^sup>+)"
  using assms
proof (induction succs roots c rule: cycle_roots.induct)
  case (1 succs c)
  then have "N \<subseteq> blacks c" by auto
  with 1 show ?case by (auto simp: dfs_inv_def)
next
  case (2 succs r roots c)
  have ng: "map_of c r \<noteq> Some GREY" using "2.prems"(1) by (auto simp: dfs_inv_def)
  show ?case
  proof (cases "map_of c r = Some WHITE")
    case False
    with ng dfs_inv_colour [OF "2.prems"(1), of r] "2.prems"(3) have "r \<in> blacks c"
      by (simp add: blacks_def)
    with 2 False show ?thesis by auto
  next
    case True
    let ?c = "dict_set r GREY c"
    have "r \<notin> blacks c" using True by (auto simp: blacks_def)
    have inv: "dfs_inv succs N [(r, rev (succs r))] ?c" by (rule dfs_inv_root [OF "2.prems"(1) True])
    obtain f c' where d: "dfs_loop succs [(r, rev (succs r))] ?c = (f, c')" by force
    note spec = dfs_loop_spec [OF inv "2.prems"(2), unfolded d]
    show ?thesis
    proof (cases f)
      case True
      with spec d \<open>map_of c r = Some WHITE\<close> show ?thesis by simp
    next
      case f: False
      with spec have i: "dfs_inv succs N [] c'" and b: "blacks c \<union> {r} \<subseteq> blacks c'"
        using \<open>r \<notin> blacks c\<close> by (auto simp: blacks_dict_set)
      have n: "N - blacks c' \<subseteq> set roots" using b "2.prems"(4) by auto
      have r: "set roots \<subseteq> N" using "2.prems"(3) by simp
      from True have "\<not> map_of c r \<noteq> Some WHITE" by simp
      from "2.IH"(2) [OF this d [symmetric] refl] show ?thesis
        using f i n r "2.prems"(2) True d by simp
    qed
  qed
qed

lemma has_cycle_edges:
  "has_cycle p nodes \<longleftrightarrow> (\<exists>v \<in> set nodes. (v, v) \<in> (edges_in (successors p nodes) (set nodes))\<^sup>+)"
proof -
  let ?c = "map (\<lambda>n. (n, WHITE)) (remdups nodes)"
  have m: "map_of ?c n = (if n \<in> set nodes then Some WHITE else None)" for n
    by (auto simp: map_of_map_restrict restrict_map_def)
  then have "dfs_inv (successors p nodes) (set nodes) [] ?c"
    by (auto simp: dfs_inv_def blacks_def dom_def)
  then show ?thesis unfolding has_cycle_def
    by (rule cycle_roots_spec) (auto simp: successors_def)
qed

lemma trancl_walk:
  "(a, b) \<in> (edges_in (successors p nodes) (set nodes))\<^sup>+ \<longleftrightarrow>
     a \<in> set nodes \<and> b \<in> set nodes \<and> (\<exists>xs. set xs \<subseteq> set nodes \<and> walk p a xs b)" (is "?L a \<longleftrightarrow> ?R a")
proof
  show "?L a \<Longrightarrow> ?R a"
  proof (induction rule: converse_trancl_induct)
    case (base y)
    then have "y \<in> set nodes \<and> b \<in> set nodes \<and> walk p y [] b" by (simp add: edges_in_def successors_def)
    then show ?case by (metis empty_set empty_subsetI)
  next
    case (step y z)
    then obtain xs where "set xs \<subseteq> set nodes" "walk p z xs b" by blast
    with step have "y \<in> set nodes \<and> b \<in> set nodes \<and> set (z # xs) \<subseteq> set nodes \<and> walk p y (z # xs) b"
      by (auto simp: edges_in_def successors_def)
    then show ?case by blast
  qed
  assume "?R a"
  then obtain xs where "a \<in> set nodes" "b \<in> set nodes" "set xs \<subseteq> set nodes" "walk p a xs b" by blast
  then show "?L a"
  proof (induction p a xs b rule: walk.induct)
    case (1 p a b)
    then show ?case by (auto simp: edges_in_def successors_def)
  next
    case (2 p a x xs b)
    then have "(a, x) \<in> edges_in (successors p nodes) (set nodes)" by (auto simp: edges_in_def successors_def)
    with 2 show ?case by (auto intro: trancl_into_trancl2)
  qed
qed

lemma has_cycle_walk:
  "has_cycle p nodes \<longleftrightarrow> (\<exists>v xs. insert v (set xs) \<subseteq> set nodes \<and> walk p v xs v)"
  unfolding has_cycle_edges trancl_walk by blast

lemma walk_reachable:
  "walk p a xs b \<Longrightarrow> (i, a) \<in> (reach_rel p)\<^sup>* \<Longrightarrow> \<forall>x \<in> insert b (set xs). (i, x) \<in> (reach_rel p)\<^sup>*"
proof (induction p a xs b rule: walk.induct)
  case (1 p a b)
  then show ?case by (auto simp: reach_rel_def intro: rtrancl_into_rtrancl)
next
  case (2 p a x xs b)
  then have "(i, x) \<in> (reach_rel p)\<^sup>*" by (auto simp: reach_rel_def intro: rtrancl_into_rtrancl)
  with 2 show ?case by auto
qed

lemma has_cycle_filter:
  "has_cycle p (filter Q (reachable_stages p)) \<longleftrightarrow>
     (\<exists>v xs. walk p v xs v \<and> v \<in> set (reachable_stages p) \<and> (\<forall>x \<in> insert v (set xs). Q x))"
proof -
  have *: "insert v (set xs) \<subseteq> set (reachable_stages p)"
    if "walk p v xs v" "v \<in> set (reachable_stages p)" for v xs
    using walk_reachable [OF that(1), of "pf_initial_stage p"] that(2) by (auto simp: reachable_stages_iff)
  have "insert v (set xs) \<subseteq> set (filter Q (reachable_stages p)) \<and> walk p v xs v \<longleftrightarrow>
      walk p v xs v \<and> v \<in> set (reachable_stages p) \<and> (\<forall>x \<in> insert v (set xs). Q x)" for v xs
    using * [of v xs] by auto
  then show ?thesis unfolding has_cycle_walk by (simp only:)
qed

section \<open>Properties\<close>

text \<open>C31: The explicit-stack, three-colour search answers \<open>True\<close> exactly when some walk along the
  outcomes returns to its start without leaving the node set.  In particular removing a node
  removes every cycle through it and no other.\<close>

theorem has_cycle_iff_closed_walk:
  "has_cycle p nodes \<longleftrightarrow> (\<exists>v xs. insert v (set xs) \<subseteq> set nodes \<and> walk p v xs v)"
  by (rule has_cycle_walk)

text \<open>C30: The gate accepts a profile exactly when no loop that an execution can enter from the
  initial stage lacks a branching stage or lacks a correction stage.\<close>

theorem gate_reachable_iff:
  "gate_reachable p \<longleftrightarrow>
     \<not> (\<exists>v xs. (pf_initial_stage p, v) \<in> (reach_rel p)\<^sup>* \<and> walk p v xs v
          \<and> \<not> {Branching, Correction} \<subseteq> stage_arity p ` insert v (set xs))"
proof -
  have "gate_reachable p \<longleftrightarrow>
      \<not> has_cycle p (filter (\<lambda>n. stage_arity p n \<noteq> Correction) (reachable_stages p))
    \<and> \<not> has_cycle p (filter (\<lambda>n. stage_arity p n \<noteq> Branching) (reachable_stages p))"
    by (simp add: gate_reachable_def Let_def)
  moreover have "(\<forall>x \<in> insert v (set xs). stage_arity p x \<noteq> k) \<longleftrightarrow> k \<notin> stage_arity p ` insert v (set xs)"
    for v xs k by blast
  ultimately show ?thesis unfolding has_cycle_filter reachable_stages_iff by blast
qed

end
