(* ===== verification/Envelope.thy ===== *)
theory Envelope
  imports Json
begin

text \<open>
  The interpretation envelope of \<open>orchestrator/runner.py\<close>: the six-axis record that an execution
  input carries between two marker lines.  Framing (\<open>envelope_block_text\<close>) fails closed: only a
  text with neither marker is a legacy text, and every other shape than one well-placed block is
  refused.  The schema check (\<open>validate_envelope\<close>) and the derivation of the allowed outcomes
  follow.  Python compares numbers across types (\<open>True == 1 == 1.0\<close>), so the version check does
  too; testing an unhashable value for membership of a frozen set raises, which is the
  \<open>EnvTypeError\<close> branch.
\<close>

section \<open>Data\<close>

definition HOLD_OUTCOME :: string where "HOLD_OUTCOME = ''needs_user_decision''"
definition HOLD_STOP_REASON :: string where "HOLD_STOP_REASON = ''user_decision_required''"
definition ENVELOPE_BEGIN :: string where "ENVELOPE_BEGIN = ''<!--ORCH-ENVELOPE-BEGIN-->''"
definition ENVELOPE_END :: string where "ENVELOPE_END = ''<!--ORCH-ENVELOPE-END-->''"
definition ENVELOPE_SCHEMA_VERSION :: int where "ENVELOPE_SCHEMA_VERSION = 1"

definition ENVELOPE_SET_AXES :: "string list" where
  "ENVELOPE_SET_AXES =
     [''semantic_change_surface'', ''task_owned_write_targets'', ''assurance_ceiling'',
      ''threat_model'', ''evidence_ceiling'']"

definition ENVELOPE_ENUM_AXIS :: string where "ENVELOPE_ENUM_AXIS = ''scope_expansion_policy''"

definition ENVELOPE_AXES :: "string list" where
  "ENVELOPE_AXES = ENVELOPE_SET_AXES @ [ENVELOPE_ENUM_AXIS]"

definition ENVELOPE_STATES :: "string list" where
  "ENVELOPE_STATES = [''declared'', ''semantically_silent'', ''unresolved'']"

definition ENVELOPE_AXIS_KEYS :: "string list" where
  "ENVELOPE_AXIS_KEYS = [''state'', ''value'', ''default_applied'', ''source'']"

definition ENVELOPE_SOURCE_DEFAULT :: string where "ENVELOPE_SOURCE_DEFAULT = ''safe_default''"

definition ENVELOPE_MEMBER_SOURCES :: "string list" where
  "ENVELOPE_MEMBER_SOURCES = [''requirement_sources'', ENVELOPE_SOURCE_DEFAULT, ''engine_owned'']"

definition SCOPE_EXPANSION_USER_DECISION :: string where
  "SCOPE_EXPANSION_USER_DECISION = ''user_decision''"

datatype envelope_error =
    MarkerCount nat nat
  | EndPrecedesBegin
  | NotFinalPosition
  | EnvelopeInvalidJson
  | EnvelopeNotObject
  | UnsupportedSchemaVersion json
  | AxesMismatch "string list" "string list"
  | AxisNotObject string
  | AxisKeys string
  | AxisUnknownState string json
  | AxisUnresolved string
  | AxisDefaultNotBool string
  | AxisDefaultNotSilent string
  | AxisSilentNoDefault string
  | WriteTargetsNotDeclared
  | BadScopePolicy
  | BadScopeSource json
  | AxisValueNotStrings string
  | AxisValueRepeats string
  | AxisSourceKeys string
  | AxisMemberSource string string json
  | AxisAllDefaults string
  | EnvTypeError

section \<open>Comparing decoded values\<close>

text \<open>
  The value of a real literal as \<open>m * 10 ^ e\<close>.  Equality with an integer compares the decimal
  values; the rounding of a literal with more digits than a double holds is not modelled.
\<close>

definition real_parts :: "string \<Rightarrow> int \<times> int" where
  "real_parts s =
     (let neg = (case s of [] \<Rightarrow> False | c # q \<Rightarrow> c = CHR ''-'');
          r = (if neg then tl s else s);
          m = takeWhile (\<lambda>c. c \<noteq> CHR ''e'' \<and> c \<noteq> CHR ''E'') r;
          ex = drop (Suc (length m)) r;
          ip = takeWhile (\<lambda>c. c \<noteq> CHR ''.'') m;
          fp = drop (Suc (length ip)) m;
          eneg = (case ex of [] \<Rightarrow> False | c # q \<Rightarrow> c = CHR ''-'');
          ev = int (nat_of_digits 0 (filter is_digit ex));
          mant = int (nat_of_digits 0 (ip @ fp))
      in (if neg then - mant else mant, (if eneg then - ev else ev) - int (length fp)))"

definition real_eq_int :: "string \<Rightarrow> int \<Rightarrow> bool" where
  "real_eq_int s i =
     (if s = ''NaN'' \<or> s = ''Infinity'' \<or> s = ''-Infinity'' then False
      else let (m, e) = real_parts s in
        if 0 \<le> e then m * 10 ^ nat e = i else m = i * 10 ^ nat (- e))"

text \<open>\<open>v == i\<close> for an integer \<open>i\<close>.\<close>

fun eq_int :: "json \<Rightarrow> int \<Rightarrow> bool" where
  "eq_int (JInt j) i = (j = i)"
| "eq_int (JBool b) i = ((if b then 1 else 0) = i)"
| "eq_int (JReal s) i = real_eq_int s i"
| "eq_int _ i = False"

text \<open>\<open>v in frozenset(names)\<close>: lists and dicts are not hashable, so the test raises on them.\<close>

fun in_frozenset :: "'e \<Rightarrow> json \<Rightarrow> string list \<Rightarrow> ('e, bool) res" where
  "in_frozenset te (JStr s) names = Inr (s \<in> set names)"
| "in_frozenset te (JArr _) names = Inl te"
| "in_frozenset te (JObj _) names = Inl te"
| "in_frozenset te _ names = Inr False"

text \<open>A list of strings all satisfying \<open>ok\<close>, or \<open>None\<close>.\<close>

fun str_items :: "(string \<Rightarrow> bool) \<Rightarrow> json list \<Rightarrow> string list option" where
  "str_items ok [] = Some []"
| "str_items ok (JStr s # xs) = (if ok s then map_option (\<lambda>ss. s # ss) (str_items ok xs) else None)"
| "str_items ok (_ # xs) = None"

section \<open>The schema\<close>

fun check_member_sources :: "string \<Rightarrow> (string \<times> json) list \<Rightarrow> (envelope_error, unit) res" where
  "check_member_sources axis [] = Inr ()"
| "check_member_sources axis ((m, prov) # rest) =
     bindR (in_frozenset EnvTypeError prov ENVELOPE_MEMBER_SOURCES)
       (\<lambda>ok. check ok (AxisMemberSource axis m prov) (check_member_sources axis rest))"

definition validate_set_axis :: "string \<Rightarrow> string \<Rightarrow> json \<Rightarrow> json \<Rightarrow> (envelope_error, unit) res" where
  "validate_set_axis axis state value source =
     (case value of
        JArr items \<Rightarrow>
          (case str_items (\<lambda>s. s \<noteq> []) items of
             None \<Rightarrow> Inl (AxisValueNotStrings axis)
           | Some members \<Rightarrow>
             check (distinct members) (AxisValueRepeats axis)
               (case source of
                  JObj src \<Rightarrow>
                    check (set (map fst src) = set members) (AxisSourceKeys axis)
                      (bindR (check_member_sources axis src)
                        (\<lambda>_. check (\<not> (state = ''declared''
                                \<and> list_all (\<lambda>(m, pv). pv = JStr ENVELOPE_SOURCE_DEFAULT) src \<and> src \<noteq> []))
                             (AxisAllDefaults axis) (Inr ())))
                | _ \<Rightarrow> Inl (AxisSourceKeys axis)))
      | _ \<Rightarrow> Inl (AxisValueNotStrings axis))"

definition validate_axis :: "string \<Rightarrow> json \<Rightarrow> (envelope_error, unit) res" where
  "validate_axis axis entry =
     (case entry of
        JObj kvs \<Rightarrow>
          check (set (map fst kvs) = set ENVELOPE_AXIS_KEYS) (AxisKeys axis)
            (case jget kvs ''state'' of
               JStr state \<Rightarrow>
                 check (state \<in> set ENVELOPE_STATES) (AxisUnknownState axis (JStr state))
                  (check (state \<noteq> ''unresolved'') (AxisUnresolved axis)
                    (case jget kvs ''default_applied'' of
                       JBool default_applied \<Rightarrow>
                         check (\<not> (default_applied \<and> state \<noteq> ''semantically_silent'')) (AxisDefaultNotSilent axis)
                          (check (\<not> (state = ''semantically_silent'' \<and> \<not> default_applied)) (AxisSilentNoDefault axis)
                            (check (\<not> (axis = ''task_owned_write_targets'' \<and> state \<noteq> ''declared'')) WriteTargetsNotDeclared
                              (if axis = ENVELOPE_ENUM_AXIS then
                                 check (jget kvs ''value'' = JStr SCOPE_EXPANSION_USER_DECISION) BadScopePolicy
                                   (bindR (in_frozenset EnvTypeError (jget kvs ''source'') ENVELOPE_MEMBER_SOURCES)
                                     (\<lambda>ok. check ok (BadScopeSource (jget kvs ''source'')) (Inr ())))
                               else validate_set_axis axis state (jget kvs ''value'') (jget kvs ''source''))))
                     | _ \<Rightarrow> Inl (AxisDefaultNotBool axis)))
             | v \<Rightarrow> Inl (AxisUnknownState axis v))
      | _ \<Rightarrow> Inl (AxisNotObject axis))"

fun validate_axes :: "(string \<times> json) list \<Rightarrow> string list \<Rightarrow> (envelope_error, unit) res" where
  "validate_axes kvs [] = Inr ()"
| "validate_axes kvs (axis # rest) =
     bindR (validate_axis axis (jget kvs axis)) (\<lambda>_. validate_axes kvs rest)"

definition validate_envelope :: "json \<Rightarrow> (envelope_error, json) res" where
  "validate_envelope payload =
     (case payload of
        JObj kvs \<Rightarrow>
          check (eq_int (jget kvs ''schema_version'') ENVELOPE_SCHEMA_VERSION)
              (UnsupportedSchemaVersion (jget kvs ''schema_version''))
            (let expected = ''schema_version'' # ENVELOPE_AXES in
             check (set (map fst kvs) = set expected)
                (AxesMismatch (sorted_set (filter (\<lambda>k. k \<notin> set (map fst kvs)) expected))
                              (sorted_set (filter (\<lambda>k. k \<notin> set expected) (map fst kvs))))
              (bindR (validate_axes kvs ENVELOPE_AXES) (\<lambda>_. Inr payload)))
      | _ \<Rightarrow> Inl EnvelopeNotObject)"

section \<open>The framing\<close>

fun indices_of :: "('a \<Rightarrow> bool) \<Rightarrow> nat \<Rightarrow> 'a list \<Rightarrow> nat list" where
  "indices_of P i [] = []"
| "indices_of P i (x # xs) = (if P x then i # indices_of P (Suc i) xs else indices_of P (Suc i) xs)"

definition envelope_block_text :: "string \<Rightarrow> (envelope_error, string option) res" where
  "envelope_block_text t =
     (let lines = split_char nl t;
          begins = indices_of (\<lambda>l. strip l = ENVELOPE_BEGIN) 0 lines;
          ends = indices_of (\<lambda>l. strip l = ENVELOPE_END) 0 lines;
          loose_begin = count_sub ENVELOPE_BEGIN t;
          loose_end = count_sub ENVELOPE_END t
      in if begins = [] \<and> ends = [] \<and> loose_begin = 0 \<and> loose_end = 0 then Inr None
         else check (loose_begin = 1 \<and> loose_end = 1 \<and> length begins = 1 \<and> length ends = 1)
           (MarkerCount loose_begin loose_end)
           (let b = hd begins; e = hd ends in
            check (b < e) EndPrecedesBegin
             (check (list_all (\<lambda>l. strip l = []) (drop (e + 1) lines)) NotFinalPosition
               (Inr (Some (join_with [nl] (take (e + 1 - b) (drop b lines))))))))"

definition extract_envelope :: "string \<Rightarrow> (envelope_error, json option) res" where
  "extract_envelope t =
     bindR (envelope_block_text t)
       (\<lambda>blk. case blk of
          None \<Rightarrow> Inr None
        | Some block \<Rightarrow>
          (let body = join_with [nl] (butlast (tl (split_char nl block))) in
           case loads body of
             None \<Rightarrow> Inl EnvelopeInvalidJson
           | Some payload \<Rightarrow> bindR (validate_envelope payload) (\<lambda>e. Inr (Some e))))"

definition render_envelope_block :: "json \<Rightarrow> (envelope_error, string) res" where
  "render_envelope_block envelope =
     bindR (validate_envelope envelope)
       (\<lambda>_. Inr (ENVELOPE_BEGIN @ [nl] @ dumps_pretty envelope @ [nl] @ ENVELOPE_END))"

definition allowed_outcomes :: "string list \<Rightarrow> bool \<Rightarrow> string list" where
  "allowed_outcomes stage_outcomes envelope_present =
     (if envelope_present \<and> HOLD_OUTCOME \<notin> set stage_outcomes
      then stage_outcomes @ [HOLD_OUTCOME] else stage_outcomes)"

end
