(* ===== verification/Boundary.thy ===== *)
theory Boundary
  imports Envelope
begin

text \<open>
  The provider output boundary of \<open>orchestrator/runner.py\<close>: which channel holds the text a
  decision may be read from, how that channel is read, and how a sealed manifest's record of it is
  checked.  A path is its text; what the operating system answers when a capture is opened and
  read is the argument \<open>capture\<close>.
\<close>

section \<open>Data\<close>

definition WHOLE_STREAM_PROTOCOL :: string where "WHOLE_STREAM_PROTOCOL = ''whole_stream''"
definition CODEX_LAST_MESSAGE_PROTOCOL :: string where
  "CODEX_LAST_MESSAGE_PROTOCOL = ''codex_output_last_message''"
definition CLAUDE_JSON_PROTOCOL :: string where "CLAUDE_JSON_PROTOCOL = ''claude_json_result''"
definition CODEX_LAST_MESSAGE_FLAG :: string where "CODEX_LAST_MESSAGE_FLAG = ''--output-last-message''"
definition CODEX_LAST_MESSAGE_ALIASES :: "string list" where
  "CODEX_LAST_MESSAGE_ALIASES = [''--output-last-message'', ''-o'']"
definition CODEX_EXECUTABLE_NAMES :: "string list" where
  "CODEX_EXECUTABLE_NAMES = [''codex'', ''codex.exe'']"
definition CODEX_EXEC_SUBCOMMAND :: string where "CODEX_EXEC_SUBCOMMAND = ''exec''"

definition FINAL_RESPONSE_MAX_BYTES :: nat where "FINAL_RESPONSE_MAX_BYTES = 4 * 1024 * 1024"
definition DRAIN_READ_BYTES :: nat where "DRAIN_READ_BYTES = 32768"

definition FINAL_RESPONSE_MISSING :: string where
  "FINAL_RESPONSE_MISSING = ''provider_final_response_missing''"
definition FINAL_RESPONSE_EMPTY :: string where
  "FINAL_RESPONSE_EMPTY = ''provider_final_response_empty''"
definition FINAL_RESPONSE_UNREADABLE :: string where
  "FINAL_RESPONSE_UNREADABLE = ''provider_final_response_unreadable''"
definition FINAL_RESPONSE_TOO_LARGE :: string where
  "FINAL_RESPONSE_TOO_LARGE = ''provider_final_response_too_large''"
definition REVIEW_CONTRACT_REJECTED :: string where
  "REVIEW_CONTRACT_REJECTED = ''review_contract_rejected''"

definition FINAL_RESPONSE_ERRORS :: "string list" where
  "FINAL_RESPONSE_ERRORS =
     [FINAL_RESPONSE_MISSING, FINAL_RESPONSE_EMPTY, FINAL_RESPONSE_UNREADABLE, FINAL_RESPONSE_TOO_LARGE]"

definition FINAL_RESPONSE_PROTOCOLS :: "string list" where
  "FINAL_RESPONSE_PROTOCOLS = [WHOLE_STREAM_PROTOCOL, CODEX_LAST_MESSAGE_PROTOCOL, CLAUDE_JSON_PROTOCOL]"

definition RUN_MANIFEST_SCHEMA_VERSION :: int where "RUN_MANIFEST_SCHEMA_VERSION = 3"
definition SUPPORTED_MANIFEST_VERSIONS :: "int list" where "SUPPORTED_MANIFEST_VERSIONS = [1, 2, 3]"

datatype boundary_error =
    ExpectedHex string json
  | ExpectedPath string json
  | UnknownProtocol json
  | SeparateNotBool json
  | UnknownFailure json
  | StateMatrix
  | ArtifactIdentity
  | BoundaryTypeError

record sealed_boundary =
  sb_protocol :: string
  sb_separate :: bool
  sb_error :: "string option"
  sb_path :: string
  sb_digest :: string

record final_response =
  fr_protocol :: string
  fr_text :: "string option"
  fr_error :: "string option"

section \<open>Choosing the protocol\<close>

text \<open>\<open>Path(p).name\<close>: the last component that is neither empty nor \<open>.\<close>.\<close>

definition path_name :: "string \<Rightarrow> string" where
  "path_name p =
     (let parts = filter (\<lambda>c. c \<noteq> [] \<and> c \<noteq> ''.'') (split_char CHR ''/'' p) in
      if parts = [] then [] else last parts)"

datatype channel_error = ProviderChannelConflict string

fun find_conflict :: "string list \<Rightarrow> string option" where
  "find_conflict [] = None"
| "find_conflict (a # as) =
     (if a \<in> set CODEX_LAST_MESSAGE_ALIASES \<or> starts_with (CODEX_LAST_MESSAGE_FLAG @ ''='') a
      then Some (hd (split_char CHR ''='' a)) else find_conflict as)"

definition final_response_protocol :: "string \<Rightarrow> string list \<Rightarrow> (channel_error, string) res" where
  "final_response_protocol owner command =
     (if owner \<noteq> ''codex'' \<or> command = [] then Inr WHOLE_STREAM_PROTOCOL
      else if path_name (hd command) \<notin> set CODEX_EXECUTABLE_NAMES then Inr WHOLE_STREAM_PROTOCOL
      else let arguments = tl command in
        if arguments = [] \<or> hd arguments \<noteq> CODEX_EXEC_SUBCOMMAND then Inr WHOLE_STREAM_PROTOCOL
        else case find_conflict (tl arguments) of
            Some flag \<Rightarrow> Inl (ProviderChannelConflict flag)
          | None \<Rightarrow> Inr CODEX_LAST_MESSAGE_PROTOCOL)"

section \<open>The sealed record\<close>

definition require_hex :: "(string \<times> json) list \<Rightarrow> string \<Rightarrow> (boundary_error, string) res" where
  "require_hex m field =
     (case jget m field of
        JStr v \<Rightarrow> check (length v = 64 \<and> list_all is_hex_lower v) (ExpectedHex field (JStr v)) (Inr v)
      | v \<Rightarrow> Inl (ExpectedHex field v))"

definition require_path :: "(string \<times> json) list \<Rightarrow> string \<Rightarrow> (boundary_error, string) res" where
  "require_path m field =
     (case jget m field of
        JStr v \<Rightarrow> check (v \<noteq> []) (ExpectedPath field (JStr v)) (Inr v)
      | v \<Rightarrow> Inl (ExpectedPath field v))"

text \<open>The state matrix and the artifact coupling, once every field has its type.\<close>

definition boundary_matrix ::
  "string \<Rightarrow> string \<Rightarrow> string \<Rightarrow> string \<Rightarrow> string \<Rightarrow> bool \<Rightarrow> string option \<Rightarrow> (boundary_error, sealed_boundary) res" where
  "boundary_matrix output_path output_hash path digest protocol separate error =
     check (if protocol = WHOLE_STREAM_PROTOCOL then \<not> (separate \<or> error \<noteq> None)
            else \<not> (separate = (error \<noteq> None))) StateMatrix
       (check (if separate then path \<noteq> output_path else \<not> (path \<noteq> output_path \<or> digest \<noteq> output_hash)) ArtifactIdentity
         (Inr \<lparr>sb_protocol = protocol, sb_separate = separate, sb_error = error, sb_path = path, sb_digest = digest\<rparr>))"

definition boundary_failure :: "json \<Rightarrow> (boundary_error, string option) res" where
  "boundary_failure v =
     (if v = JNull then Inr None
      else bindR (in_frozenset BoundaryTypeError v FINAL_RESPONSE_ERRORS)
        (\<lambda>ok. check ok (UnknownFailure v) (Inr (as_str v))))"

definition validate_sealed_boundary :: "(string \<times> json) list \<Rightarrow> (boundary_error, sealed_boundary) res" where
  "validate_sealed_boundary manifest =
     bindR (require_path manifest ''output_path'')
      (\<lambda>output_path. bindR (require_hex manifest ''output_hash'')
       (\<lambda>output_hash. bindR (require_path manifest ''final_response_path'')
        (\<lambda>path. bindR (require_hex manifest ''final_response_hash'')
         (\<lambda>digest. let protocol = jget manifest ''final_response_source'' in
          bindR (in_frozenset BoundaryTypeError protocol FINAL_RESPONSE_PROTOCOLS)
           (\<lambda>known. check known (UnknownProtocol protocol)
             (case jget manifest ''final_response_separate'' of
                JBool separate \<Rightarrow>
                  bindR (boundary_failure (jget manifest ''final_response_error''))
                   (\<lambda>error. boundary_matrix output_path output_hash path digest
                              (the (as_str protocol)) separate error)
              | v \<Rightarrow> Inl (SeparateNotBool v)))))))"

definition has_final_response :: "sealed_boundary \<Rightarrow> bool" where
  "has_final_response b \<longleftrightarrow> sb_error b = None"

section \<open>Reading the native channel\<close>

text \<open>
  What opening the capture gives: nothing there, an error, or a descriptor with the kind of file,
  its size at \<open>fstat\<close> and the bytes it yields (\<open>None\<close>: an \<open>OSError\<close> while using it).
\<close>

datatype capture = CaptureMissing | CaptureOpenError | CaptureOpened bool nat "string option"

text \<open>
  \<open>_read_at_most\<close>: \<open>shorts\<close> are the lengths the successive \<open>os.read\<close> calls choose to return,
  as far as the bound and the contents allow; at least one byte while any is left.
\<close>

fun read_at_most :: "nat list \<Rightarrow> nat \<Rightarrow> string \<Rightarrow> string" where
  "read_at_most [] remaining content =
     (if remaining = 0 \<or> content = [] then []
      else take 1 content @ read_at_most [] (remaining - 1) (drop 1 content))"
| "read_at_most (k # ks) remaining content =
     (if remaining = 0 \<or> content = [] then []
      else let n = max 1 (min k (min remaining DRAIN_READ_BYTES)) in
        take n content @ read_at_most ks (remaining - length (take n content)) (drop n content))"

text \<open>Strict UTF-8.\<close>

definition cont_byte :: "char \<Rightarrow> bool" where
  "cont_byte c \<longleftrightarrow> (let n = (of_char c :: nat) in 128 \<le> n \<and> n < 192)"

fun utf8_valid :: "string \<Rightarrow> bool" where
  "utf8_valid [] = True"
| "utf8_valid (a # s) =
     (let n = (of_char a :: nat) in
      if n < 128 then utf8_valid s
      else if 194 \<le> n \<and> n < 224 then
        (case s of b # s' \<Rightarrow> cont_byte b \<and> utf8_valid s' | _ \<Rightarrow> False)
      else if 224 \<le> n \<and> n < 240 then
        (case s of b # c # s' \<Rightarrow> cont_byte b \<and> cont_byte c
             \<and> (n = 224 \<longrightarrow> 160 \<le> (of_char b :: nat)) \<and> (n = 237 \<longrightarrow> (of_char b :: nat) < 160) \<and> utf8_valid s'
         | _ \<Rightarrow> False)
      else if 240 \<le> n \<and> n < 245 then
        (case s of b # c # d # s' \<Rightarrow> cont_byte b \<and> cont_byte c \<and> cont_byte d
             \<and> (n = 240 \<longrightarrow> 144 \<le> (of_char b :: nat)) \<and> (n = 244 \<longrightarrow> (of_char b :: nat) < 144) \<and> utf8_valid s'
         | _ \<Rightarrow> False)
      else False)"

definition failed_response :: "string \<Rightarrow> string \<Rightarrow> final_response" where
  "failed_response protocol err = \<lparr>fr_protocol = protocol, fr_text = None, fr_error = Some err\<rparr>"

definition read_final_response :: "nat list \<Rightarrow> capture \<Rightarrow> string \<Rightarrow> final_response" where
  "read_final_response shorts cap protocol =
     (if protocol = WHOLE_STREAM_PROTOCOL
      then \<lparr>fr_protocol = WHOLE_STREAM_PROTOCOL, fr_text = None, fr_error = None\<rparr>
      else case cap of
        CaptureMissing \<Rightarrow> failed_response protocol FINAL_RESPONSE_MISSING
      | CaptureOpenError \<Rightarrow> failed_response protocol FINAL_RESPONSE_UNREADABLE
      | CaptureOpened regular nbytes content \<Rightarrow>
        if \<not> regular then failed_response protocol FINAL_RESPONSE_UNREADABLE
        else if FINAL_RESPONSE_MAX_BYTES < nbytes then failed_response protocol FINAL_RESPONSE_TOO_LARGE
        else case content of
            None \<Rightarrow> failed_response protocol FINAL_RESPONSE_UNREADABLE
          | Some bytes \<Rightarrow>
            let raw = read_at_most shorts (FINAL_RESPONSE_MAX_BYTES + 1) bytes in
            if FINAL_RESPONSE_MAX_BYTES < length raw then failed_response protocol FINAL_RESPONSE_TOO_LARGE
            else if \<not> utf8_valid raw then failed_response protocol FINAL_RESPONSE_UNREADABLE
            else if strip raw = [] then failed_response protocol FINAL_RESPONSE_EMPTY
            else \<lparr>fr_protocol = protocol, fr_text = Some raw, fr_error = None\<rparr>)"

section \<open>What the readers guarantee\<close>

lemma in_frozenset_True: "in_frozenset te v names = Inr True \<longleftrightarrow> (\<exists>s. v = JStr s \<and> s \<in> set names)"
  by (cases v) auto

lemma require_hex_Inr [res_simps]:
  "require_hex m f = Inr v \<longleftrightarrow> jget m f = JStr v \<and> length v = 64 \<and> list_all is_hex_lower v"
  by (auto simp: require_hex_def check_Inr_iff split: json.splits)

lemma require_path_Inr [res_simps]: "require_path m f = Inr v \<longleftrightarrow> jget m f = JStr v \<and> v \<noteq> []"
  by (auto simp: require_path_def check_Inr_iff split: json.splits)

lemma boundary_failure_Inr [res_simps]:
  "boundary_failure v = Inr e \<longleftrightarrow> v = jopt_str e \<and> pred_option (\<lambda>s. s \<in> set FINAL_RESPONSE_ERRORS) e"
  by (cases v; cases e) (auto simp: boundary_failure_def jopt_str_def check_Inr_iff)

text \<open>The three legal rows of the state matrix.\<close>

definition legal_row :: "string \<Rightarrow> string \<Rightarrow> sealed_boundary \<Rightarrow> bool" where
  "legal_row output_path output_hash b \<longleftrightarrow>
     (let display = (sb_path b = output_path \<and> sb_digest b = output_hash);
          whole = (sb_protocol b = WHOLE_STREAM_PROTOCOL)
      in (whole \<and> \<not> sb_separate b \<and> sb_error b = None \<and> display)
       \<or> (\<not> whole \<and> sb_separate b \<and> sb_error b = None \<and> sb_path b \<noteq> output_path)
       \<or> (\<not> whole \<and> \<not> sb_separate b \<and> sb_error b \<noteq> None \<and> display))"

lemma boundary_matrix_Inr:
  "boundary_matrix op oh path digest protocol sep err = Inr b \<longleftrightarrow>
     b = \<lparr>sb_protocol = protocol, sb_separate = sep, sb_error = err, sb_path = path, sb_digest = digest\<rparr>
     \<and> legal_row op oh b"
  by (auto simp: boundary_matrix_def check_Inr_iff legal_row_def Let_def split: if_splits)

lemma validate_sealed_boundary_Inr:
  "validate_sealed_boundary m = Inr b \<longleftrightarrow>
    (\<exists>op oh. jget m ''output_path'' = JStr op \<and> op \<noteq> []
       \<and> jget m ''output_hash'' = JStr oh \<and> length oh = 64 \<and> list_all is_hex_lower oh
       \<and> jget m ''final_response_path'' = JStr (sb_path b) \<and> sb_path b \<noteq> []
       \<and> jget m ''final_response_hash'' = JStr (sb_digest b) \<and> length (sb_digest b) = 64
       \<and> list_all is_hex_lower (sb_digest b)
       \<and> jget m ''final_response_source'' = JStr (sb_protocol b)
       \<and> sb_protocol b \<in> set FINAL_RESPONSE_PROTOCOLS
       \<and> jget m ''final_response_separate'' = JBool (sb_separate b)
       \<and> jget m ''final_response_error'' = jopt_str (sb_error b)
       \<and> pred_option (\<lambda>e. e \<in> set FINAL_RESPONSE_ERRORS) (sb_error b)
       \<and> legal_row op oh b)"
proof (cases "jget m ''final_response_separate''")
  case (JBool sep)
  show ?thesis
    unfolding validate_sealed_boundary_def Let_def JBool json.case bindR_Inr_iff check_Inr_iff
      require_path_Inr require_hex_Inr boundary_failure_Inr boundary_matrix_Inr
    by (cases b) (auto simp: in_frozenset_True)
qed (auto simp: validate_sealed_boundary_def Let_def bindR_Inr_iff check_Inr_iff)

lemma read_at_most_take: "read_at_most shorts k content = take k content"
proof (induction shorts k content rule: read_at_most.induct)
  case (1 remaining content)
  then show ?case by (cases remaining; cases content) auto
next
  case (2 k ks remaining content)
  show ?case
  proof (cases "remaining = 0 \<or> content = []")
    case False
    define n where "n = max 1 (min k (min remaining DRAIN_READ_BYTES))"
    have le: "n \<le> remaining" using False by (auto simp: n_def)
    have "read_at_most (k # ks) remaining content
        = take n content @ take (remaining - length (take n content)) (drop n content)"
      using 2 [OF _ n_def] False by (simp add: n_def Let_def)
    also have "\<dots> = take remaining content"
      using le take_add [of n "remaining - n" content] by (cases "n \<le> length content") auto
    finally show ?thesis .
  qed auto
qed

section \<open>Properties\<close>

text \<open>C35: A sealed manifest passes the boundary check exactly when its fields are well typed and it
  is one of the three rows of the state matrix: whole stream naming the display stream, native with
  an artifact of its own, or native failed with a known reason and naming the display stream by
  path and by hash.\<close>

theorem sealed_boundary_iff:
  "validate_sealed_boundary m = Inr b \<longleftrightarrow>
    (\<exists>op oh. jget m ''output_path'' = JStr op \<and> op \<noteq> []
       \<and> jget m ''output_hash'' = JStr oh \<and> length oh = 64 \<and> list_all is_hex_lower oh
       \<and> jget m ''final_response_path'' = JStr (sb_path b) \<and> sb_path b \<noteq> []
       \<and> jget m ''final_response_hash'' = JStr (sb_digest b) \<and> length (sb_digest b) = 64
       \<and> list_all is_hex_lower (sb_digest b)
       \<and> jget m ''final_response_source'' = JStr (sb_protocol b)
       \<and> sb_protocol b \<in> set FINAL_RESPONSE_PROTOCOLS
       \<and> jget m ''final_response_separate'' = JBool (sb_separate b)
       \<and> jget m ''final_response_error'' = jopt_str (sb_error b)
       \<and> pred_option (\<lambda>e. e \<in> set FINAL_RESPONSE_ERRORS) (sb_error b)
       \<and> legal_row op oh b)"
  by (rule validate_sealed_boundary_Inr)

text \<open>However the kernel splits its reads, the native channel yields a text exactly when the
  capture is a regular file within the limit whose complete contents are valid UTF-8 and not blank,
  and then it yields those contents unchanged; otherwise a native run carries a failure reason, and
  never both.\<close>

theorem read_final_response_text:
  "(fr_text (read_final_response shorts cap protocol) = Some t \<longleftrightarrow>
      protocol \<noteq> WHOLE_STREAM_PROTOCOL
    \<and> (\<exists>n. cap = CaptureOpened True n (Some t) \<and> n \<le> FINAL_RESPONSE_MAX_BYTES)
    \<and> length t \<le> FINAL_RESPONSE_MAX_BYTES \<and> utf8_valid t \<and> strip t \<noteq> [])
   \<and> (fr_error (read_final_response shorts cap protocol) \<noteq> None \<longleftrightarrow>
        protocol \<noteq> WHOLE_STREAM_PROTOCOL \<and> fr_text (read_final_response shorts cap protocol) = None)"
proof (cases cap)
  case (CaptureOpened reg n content)
  show ?thesis
  proof (cases content)
    case (Some bytes)
    have "FINAL_RESPONSE_MAX_BYTES < length (take (FINAL_RESPONSE_MAX_BYTES + 1) bytes)
        \<longleftrightarrow> FINAL_RESPONSE_MAX_BYTES < length bytes" by auto
    moreover have "take (FINAL_RESPONSE_MAX_BYTES + 1) bytes = bytes"
      if "\<not> FINAL_RESPONSE_MAX_BYTES < length bytes" using that by simp
    ultimately show ?thesis unfolding CaptureOpened Some
      by (auto simp: read_final_response_def failed_response_def read_at_most_take Let_def simp del: length_take take_all_iff)
  qed (auto simp: read_final_response_def failed_response_def CaptureOpened)
qed (auto simp: read_final_response_def failed_response_def)

end
