(* ===== verification/Regex.thy ===== *)
theory Regex
  imports Json
begin

text \<open>
  What the sources use of Python's \<open>re\<close>: a backtracking matcher that yields the ways a pattern
  matches at a position, in the order Python tries them (greedy repetition first), so that the
  first one is Python's match.  A position keeps the text before it, reversed, and the text after
  it; one capture group is enough for these patterns.  \<open>\b\<close> and the case-insensitive comparison
  follow ASCII.
\<close>

datatype re =
    Cls "char \<Rightarrow> bool"
  | Eps
  | Seq re re
  | Alt re re
  | Star re
  | Bol
  | Eol
  | WordB
  | Cap re

type_synonym pos = "string \<times> string \<times> string option"

definition is_word :: "char \<Rightarrow> bool" where
  "is_word c \<longleftrightarrow> is_alnum c \<or> c = CHR ''_''"

definition at_word_boundary :: "string \<Rightarrow> string \<Rightarrow> bool" where
  "at_word_boundary b r \<longleftrightarrow>
     (case b of [] \<Rightarrow> False | c # _ \<Rightarrow> is_word c) \<noteq> (case r of [] \<Rightarrow> False | c # _ \<Rightarrow> is_word c)"

text \<open>Greedy repetition: each round must consume something; the fuel is the length of the rest.\<close>

fun star_from :: "(pos \<Rightarrow> pos list) \<Rightarrow> nat \<Rightarrow> pos \<Rightarrow> pos list" where
  "star_from f 0 s = [s]"
| "star_from f (Suc n) s =
     concat (map (star_from f n) (filter (\<lambda>s'. length (fst (snd s')) < length (fst (snd s))) (f s))) @ [s]"

fun rmatch :: "re \<Rightarrow> pos \<Rightarrow> pos list" where
  "rmatch (Cls P) (b, r, g) = (case r of [] \<Rightarrow> [] | c # r' \<Rightarrow> if P c then [(c # b, r', g)] else [])"
| "rmatch Eps s = [s]"
| "rmatch (Seq p q) s = concat (map (rmatch q) (rmatch p s))"
| "rmatch (Alt p q) s = rmatch p s @ rmatch q s"
| "rmatch (Star p) s = star_from (rmatch p) (length (fst (snd s))) s"
| "rmatch Bol (b, r, g) = (if b = [] \<or> hd b = nl then [(b, r, g)] else [])"
| "rmatch Eol (b, r, g) = (if r = [] \<or> hd r = nl then [(b, r, g)] else [])"
| "rmatch WordB (b, r, g) = (if at_word_boundary b r then [(b, r, g)] else [])"
| "rmatch (Cap p) (b, r, g) =
     map (\<lambda>(b', r', g'). (b', r', Some (rev (take (length b' - length b) b')))) (rmatch p (b, r, g))"

definition lit :: "string \<Rightarrow> re" where
  "lit s = foldr (\<lambda>c p. Seq (Cls (\<lambda>d. d = c)) p) s Eps"

text \<open>A literal under \<open>IGNORECASE\<close>.\<close>

definition ilit :: "string \<Rightarrow> re" where
  "ilit s = foldr (\<lambda>c p. Seq (Cls (\<lambda>d. lower_char d = lower_char c)) p) s Eps"

definition Opt :: "re \<Rightarrow> re" where "Opt p = Alt p Eps"
definition Plus :: "re \<Rightarrow> re" where "Plus p = Seq p (Star p)"
definition cls_of :: "string \<Rightarrow> re" where "cls_of s = Cls (\<lambda>d. d \<in> set s)"
definition any_char :: re where "any_char = Cls (\<lambda>d. d \<noteq> nl)"
definition spaces :: re where "spaces = Star (Cls is_space)"

fun seqs :: "re list \<Rightarrow> re" where
  "seqs [] = Eps" | "seqs [p] = p" | "seqs (p # ps) = Seq p (seqs ps)"

fun alts :: "re list \<Rightarrow> re" where
  "alts [] = Cls (\<lambda>_. False)" | "alts [p] = p" | "alts (p # ps) = Alt p (alts ps)"

text \<open>\<open>pattern.match(s)\<close>, then \<open>pattern.search(s)\<close> from a position on.\<close>

definition re_match :: "re \<Rightarrow> string \<Rightarrow> pos option" where
  "re_match p s = (case rmatch p ([], s, None) of [] \<Rightarrow> None | m # _ \<Rightarrow> Some m)"

fun search_from :: "re \<Rightarrow> string \<Rightarrow> string \<Rightarrow> pos option" where
  "search_from p b [] = (case rmatch p (b, [], None) of [] \<Rightarrow> None | m # _ \<Rightarrow> Some m)"
| "search_from p b (c # r) =
     (case rmatch p (b, c # r, None) of m # _ \<Rightarrow> Some m | [] \<Rightarrow> search_from p (c # b) r)"

definition re_search :: "re \<Rightarrow> string \<Rightarrow> bool" where
  "re_search p s = (search_from p [] s \<noteq> None)"

definition search_group :: "re \<Rightarrow> string \<Rightarrow> string option" where
  "search_group p s = (case search_from p [] s of None \<Rightarrow> None | Some (_, _, g) \<Rightarrow> g)"

text \<open>\<open>pattern.findall(s)\<close> for a pattern with one group that never matches the empty text; the
  fuel is the length of the text.\<close>

fun findall_from :: "re \<Rightarrow> nat \<Rightarrow> string \<Rightarrow> string \<Rightarrow> string list" where
  "findall_from p 0 b r = []"
| "findall_from p (Suc n) b r =
     (case search_from p b r of
        None \<Rightarrow> []
      | Some (b', r', g) \<Rightarrow> (case g of None \<Rightarrow> [] | Some t \<Rightarrow> t) # findall_from p n b' r')"

definition re_findall :: "re \<Rightarrow> string \<Rightarrow> string list" where
  "re_findall p s = findall_from p (Suc (length s)) [] s"

end
