(* ===== verification/Classify.thy ===== *)
theory Classify
  imports Boundary Regex
begin

text \<open>
  \<open>classify_result\<close> of \<open>orchestrator/runner.py\<close>: from the raw run of a provider to its typed
  result.  The record \<open>run_result\<close> has the fields of the \<open>RunResult\<close> dataclass; usage
  counts are kept as decoded values, because a provider's JSON may hold a boolean there.
\<close>

section \<open>Data\<close>

record run_result =
  rr_exit_code :: "int option"
  rr_output :: string
  rr_outcome :: "string option"
  rr_classification :: string
  rr_reason :: string
  rr_timed_out :: bool
  rr_containment_stop :: "string option"
  rr_containment_violations :: "(string \<times> string) list list"
  rr_started_at_ms :: "int option"
  rr_ended_at_ms :: "int option"
  rr_duration_ms :: "int option"
  rr_model :: "string option"
  rr_usage_input :: json
  rr_usage_output :: json
  rr_usage_total :: json
  rr_usage_unavailable :: "string option"
  rr_candidate_outcome :: "string option"
  rr_candidate_classification :: "string option"
  rr_candidate_reason :: "string option"
  rr_final_response :: "string option"
  rr_final_response_source :: "string option"
  rr_final_response_error :: "string option"
  rr_capture_path :: "string option"
  rr_execution_receipt :: json

definition base_result :: "int option \<Rightarrow> string \<Rightarrow> string option \<Rightarrow> string \<Rightarrow> string \<Rightarrow> bool \<Rightarrow> run_result" where
  "base_result ec out oc cl rs t =
     \<lparr>rr_exit_code = ec, rr_output = out, rr_outcome = oc, rr_classification = cl, rr_reason = rs,
      rr_timed_out = t, rr_containment_stop = None, rr_containment_violations = [],
      rr_started_at_ms = None, rr_ended_at_ms = None, rr_duration_ms = None, rr_model = None,
      rr_usage_input = JNull, rr_usage_output = JNull, rr_usage_total = JNull, rr_usage_unavailable = None,
      rr_candidate_outcome = None, rr_candidate_classification = None, rr_candidate_reason = None,
      rr_final_response = None, rr_final_response_source = None, rr_final_response_error = None,
      rr_capture_path = None, rr_execution_receipt = JNull\<rparr>"

section \<open>Signatures\<close>

definition OUTCOME_RE :: re where
  "OUTCOME_RE =
     seqs [Bol, lit ''ORCHESTRATOR_OUTCOME:'', spaces,
           Cap (Plus (Cls (\<lambda>c. is_alnum c \<or> c = CHR ''_'' \<or> c = CHR ''-''))), spaces, Eol]"

definition SEP :: re where "SEP = Opt (cls_of ''_ -'')"

definition RATE_LIMIT_SIGNATURES :: "re list" where
  "RATE_LIMIT_SIGNATURES =
     [seqs [WordB, ilit ''rate'', SEP, ilit ''limit'', SEP, ilit ''exceeded'', WordB],
      seqs [WordB, ilit ''you'', Alt (lit [CHR 0x27]) (lit [CHR 0xE2, CHR 0x80, CHR 0x99]),
            ilit ''ve hit your '', Opt (ilit ''usage ''), ilit ''limit'', WordB],
      seqs [WordB, ilit ''usage limit '', Opt (ilit ''has been ''), ilit ''reached'', WordB],
      seqs [WordB, ilit ''too many requests'', WordB],
      seqs [WordB, Opt (seqs [ilit ''http'', Opt (ilit '' status''), spaces]), lit ''429'', WordB,
            Star any_char, WordB, alts [ilit ''rate'', ilit ''quota'', ilit ''limit''], WordB]]"

definition SOCKET_SIGNATURES :: "re list" where
  "SOCKET_SIGNATURES =
     map (\<lambda>s. seqs [WordB, ilit s, WordB])
       [''FailedToOpenSocket'', ''ConnectionRefused'', ''connection refused'', ''ECONNREFUSED'', ''failed to connect'']"

section \<open>Usage\<close>

text \<open>The three counts, each a decoded number or \<open>None\<close>.\<close>

record usage =
  us_input :: json
  us_output :: json
  us_total :: json

definition no_usage :: usage where
  "no_usage = \<lparr>us_input = JNull, us_output = JNull, us_total = JNull\<rparr>"

definition or_else :: "json \<Rightarrow> json \<Rightarrow> json" where
  "or_else old new = (if old = JNull then new else old)"

definition merge_usage :: "usage \<Rightarrow> usage \<Rightarrow> usage" where
  "merge_usage t s = \<lparr>us_input = or_else (us_input t) (us_input s),
     us_output = or_else (us_output t) (us_output s), us_total = or_else (us_total t) (us_total s)\<rparr>"

text \<open>The first alias that holds an integer (a boolean is one) or a text of digits.\<close>

fun first_count :: "(string \<times> json) list \<Rightarrow> string list \<Rightarrow> json" where
  "first_count kvs [] = JNull"
| "first_count kvs (k # ks) =
     (case jget kvs k of
        JInt i \<Rightarrow> JInt i
      | JBool b \<Rightarrow> JBool b
      | JStr s \<Rightarrow> if s \<noteq> [] \<and> list_all is_digit s then JInt (int (nat_of_digits 0 s)) else first_count kvs ks
      | _ \<Rightarrow> first_count kvs ks)"

definition usage_of_candidate :: "usage \<Rightarrow> (string \<times> json) list \<Rightarrow> usage" where
  "usage_of_candidate found kvs = merge_usage found
     \<lparr>us_input = first_count kvs [''input_tokens'', ''prompt_tokens'', ''input'', ''prompt''],
      us_output = first_count kvs [''output_tokens'', ''completion_tokens'', ''output'', ''completion''],
      us_total = first_count kvs [''total_tokens'', ''total'']\<rparr>"

definition usage_candidates :: "(string \<times> json) list \<Rightarrow> (string \<times> json) list list" where
  "usage_candidates kvs =
     kvs # concat (map (\<lambda>k. case jget kvs k of JObj c \<Rightarrow> [c] | _ \<Rightarrow> []) [''usage'', ''token_usage'', ''tokens''])"

fun usage_from_json :: "json \<Rightarrow> usage" where
  "usage_from_json (JArr items) = foldl merge_usage no_usage (map usage_from_json items)"
| "usage_from_json (JObj kvs) = foldl usage_of_candidate no_usage (usage_candidates kvs)"
| "usage_from_json _ = no_usage"

fun usage_of_lines :: "usage \<Rightarrow> string list \<Rightarrow> usage" where
  "usage_of_lines found [] = found"
| "usage_of_lines found (line # rest) =
     (case strip line of
        [] \<Rightarrow> usage_of_lines found rest
      | c # cs \<Rightarrow>
        if c \<noteq> CHR ''{'' \<and> c \<noteq> CHR ''['' then usage_of_lines found rest
        else case loads (c # cs) of
            None \<Rightarrow> usage_of_lines found rest
          | Some parsed \<Rightarrow> usage_of_lines (merge_usage found (usage_from_json parsed)) rest)"

definition count_re :: "string \<Rightarrow> re" where
  "count_re w =
     seqs [WordB, ilit w, SEP, ilit ''token'', Opt (ilit ''s''), WordB, spaces, cls_of '':='', spaces,
           Cap (Plus (Cls is_digit))]"

fun first_match :: "re list \<Rightarrow> string \<Rightarrow> json" where
  "first_match [] output = JNull"
| "first_match (p # ps) output =
     (case search_group p output of Some ds \<Rightarrow> JInt (int (nat_of_digits 0 ds)) | None \<Rightarrow> first_match ps output)"

fun json_to_int :: "json \<Rightarrow> int" where
  "json_to_int (JInt i) = i"
| "json_to_int (JBool b) = (if b then 1 else 0)"
| "json_to_int _ = 0"

definition extract_usage :: "string \<Rightarrow> usage \<times> string option" where
  "extract_usage output =
     (let f0 = usage_of_lines no_usage (splitlines output);
          i = or_else (us_input f0) (first_match [count_re ''input'', count_re ''prompt''] output);
          ou = or_else (us_output f0) (first_match [count_re ''output'', count_re ''completion''] output);
          t0 = or_else (us_total f0) (first_match [count_re ''total''] output);
          t = (if t0 = JNull \<and> i \<noteq> JNull \<and> ou \<noteq> JNull then JInt (json_to_int i + json_to_int ou) else t0)
      in (\<lparr>us_input = i, us_output = ou, us_total = t\<rparr>,
          if i \<noteq> JNull \<or> ou \<noteq> JNull \<or> t \<noteq> JNull then None else Some ''provider_cli_usage_not_reported''))"

section \<open>Classification\<close>

definition authoritative_text :: "run_result \<Rightarrow> string" where
  "authoritative_text r = (case rr_final_response r of None \<Rightarrow> rr_output r | Some t \<Rightarrow> t)"

fun last_marker :: "string list \<Rightarrow> string option" where
  "last_marker [] = None"
| "last_marker (line # rest) =
     (if strip line = [] then last_marker rest
      else case re_match OUTCOME_RE (strip line) of None \<Rightarrow> None | Some (_, _, g) \<Rightarrow> g)"

definition final_outcome_marker :: "string \<Rightarrow> string option" where
  "final_outcome_marker output = last_marker (rev (splitlines output))"

definition set_usage :: "usage \<times> string option \<Rightarrow> run_result \<Rightarrow> run_result" where
  "set_usage u r = r\<lparr>rr_usage_input := us_input (fst u), rr_usage_output := us_output (fst u),
     rr_usage_total := us_total (fst u), rr_usage_unavailable := snd u\<rparr>"

definition no_text :: "string option \<Rightarrow> bool" where
  "no_text t = (case t of None \<Rightarrow> True | Some s \<Rightarrow> s = [])"

text \<open>\<open>_telemetry_from(source)\<close> spread over a new result.\<close>

definition with_telemetry :: "run_result option \<Rightarrow> run_result \<Rightarrow> run_result" where
  "with_telemetry source r =
     (case source of
        None \<Rightarrow> set_usage (extract_usage []) r
      | Some s \<Rightarrow>
        let u = (\<lparr>us_input = rr_usage_input s, us_output = rr_usage_output s, us_total = rr_usage_total s\<rparr>,
                 rr_usage_unavailable s);
            u' = (if fst u = no_usage \<and> no_text (snd u) then extract_usage (rr_output s) else u)
        in set_usage u' (r\<lparr>rr_started_at_ms := rr_started_at_ms s, rr_ended_at_ms := rr_ended_at_ms s,
             rr_duration_ms := rr_duration_ms s, rr_model := rr_model s\<rparr>))"

definition with_boundary :: "run_result option \<Rightarrow> run_result \<Rightarrow> run_result" where
  "with_boundary source r =
     (case source of
        None \<Rightarrow> r\<lparr>rr_final_response := None, rr_final_response_source := Some WHOLE_STREAM_PROTOCOL,
                 rr_final_response_error := None, rr_capture_path := None\<rparr>
      | Some s \<Rightarrow> r\<lparr>rr_final_response := rr_final_response s,
                   rr_final_response_source :=
                     (if no_text (rr_final_response_source s) then Some WHOLE_STREAM_PROTOCOL else rr_final_response_source s),
                   rr_final_response_error := rr_final_response_error s,
                   rr_capture_path := rr_capture_path s,
                   rr_execution_receipt := rr_execution_receipt s\<rparr>)"

text \<open>Outcome, classification and reason read from a run that exited with code zero.\<close>

definition outcome_verdict :: "string \<Rightarrow> string list \<Rightarrow> string option \<times> string \<times> string" where
  "outcome_verdict authoritative allowed =
     (let ms = re_findall OUTCOME_RE authoritative in
      case final_outcome_marker authoritative of
        Some oc \<Rightarrow> if oc \<notin> set allowed then (Some oc, ''blocked'', ''unknown_outcome'')
                  else (Some oc, ''success'', ''success'')
      | None \<Rightarrow>
        if ms = [] then (None, ''blocked'', ''missing_outcome'')
        else if 1 < length (remdups ms) then (None, ''blocked'', ''ambiguous_outcome'')
        else if last ms \<notin> set allowed then (Some (last ms), ''blocked'', ''unknown_outcome'')
        else (Some (last ms), ''success'', ''success''))"

definition receipt_rejected :: "run_result option \<Rightarrow> bool" where
  "receipt_rejected source =
     (case source of None \<Rightarrow> False
      | Some s \<Rightarrow> (case rr_execution_receipt s of
           JObj kvs \<Rightarrow> jget kvs ''review_contract_error'' = JStr REVIEW_CONTRACT_REJECTED | _ \<Rightarrow> False))"

definition source_error :: "run_result option \<Rightarrow> string option" where
  "source_error source = (case source of None \<Rightarrow> None | Some s \<Rightarrow> rr_final_response_error s)"

text \<open>The typed verdict once containment did not stop the run.\<close>

definition verdict_of ::
  "int option \<Rightarrow> string \<Rightarrow> string list \<Rightarrow> bool \<Rightarrow> run_result option \<Rightarrow> string option \<times> string \<times> string" where
  "verdict_of exit_code output allowed timed_out source =
     (if timed_out then (None, ''blocked'', ''timeout'')
      else if exit_code \<noteq> Some 0 then
        (if list_ex (\<lambda>p. re_search p output) RATE_LIMIT_SIGNATURES then (None, ''paused'', ''rate_limited'')
         else if list_ex (\<lambda>p. re_search p output) SOCKET_SIGNATURES then (None, ''blocked'', ''provider_socket_error'')
         else (None, ''blocked'', ''runner_nonzero''))
      else case source_error source of
          Some err \<Rightarrow> (None, ''blocked'', err)
        | None \<Rightarrow>
          if receipt_rejected source then (None, ''blocked'', REVIEW_CONTRACT_REJECTED)
          else outcome_verdict
            (case source of None \<Rightarrow> output
             | Some s \<Rightarrow> (case rr_final_response s of None \<Rightarrow> output | Some t \<Rightarrow> t)) allowed)"

definition classify_plain ::
  "int option \<Rightarrow> string \<Rightarrow> string list \<Rightarrow> bool \<Rightarrow> run_result option \<Rightarrow> run_result" where
  "classify_plain exit_code output allowed timed_out source =
     (case verdict_of exit_code output allowed timed_out source of (oc, cl, rs) \<Rightarrow>
        with_boundary source (with_telemetry source (base_result exit_code output oc cl rs timed_out)))"

definition classify_result ::
  "int option \<Rightarrow> string \<Rightarrow> string list \<Rightarrow> bool \<Rightarrow> run_result option \<Rightarrow> run_result" where
  "classify_result exit_code output allowed timed_out source =
     (case source of
        None \<Rightarrow> classify_plain exit_code output allowed timed_out None
      | Some s \<Rightarrow>
        (case rr_containment_stop s of
           None \<Rightarrow> classify_plain exit_code output allowed timed_out (Some s)
         | Some stop \<Rightarrow>
           let blocked = with_boundary source (with_telemetry source
                 ((base_result exit_code output None ''blocked'' stop timed_out)
                   \<lparr>rr_containment_stop := Some stop, rr_containment_violations := rr_containment_violations s\<rparr>))
           in if stop \<in> set [''protected_root_drift'', ''workspace_escape''] then
                let c = classify_plain exit_code output allowed timed_out (Some (s\<lparr>rr_containment_stop := None\<rparr>))
                in blocked\<lparr>rr_candidate_outcome := rr_outcome c,
                     rr_candidate_classification := Some (rr_classification c),
                     rr_candidate_reason := Some (rr_reason c)\<rparr>
              else blocked))"

section \<open>What a verdict rests on\<close>

lemma with_boundary_sel [simp]:
  "rr_outcome (with_boundary s r) = rr_outcome r" "rr_classification (with_boundary s r) = rr_classification r"
  "rr_reason (with_boundary s r) = rr_reason r" "rr_exit_code (with_boundary s r) = rr_exit_code r"
  "rr_output (with_boundary s r) = rr_output r" "rr_containment_stop (with_boundary s r) = rr_containment_stop r"
  by (cases s; simp add: with_boundary_def)+

lemma with_telemetry_sel [simp]:
  "rr_outcome (with_telemetry s r) = rr_outcome r" "rr_classification (with_telemetry s r) = rr_classification r"
  "rr_reason (with_telemetry s r) = rr_reason r" "rr_exit_code (with_telemetry s r) = rr_exit_code r"
  "rr_output (with_telemetry s r) = rr_output r" "rr_containment_stop (with_telemetry s r) = rr_containment_stop r"
  by (cases s; simp add: with_telemetry_def set_usage_def Let_def)+

lemma classify_plain_sel:
  "rr_outcome (classify_plain ec out al t src) = fst (verdict_of ec out al t src)"
  "rr_classification (classify_plain ec out al t src) = fst (snd (verdict_of ec out al t src))"
  "rr_reason (classify_plain ec out al t src) = snd (snd (verdict_of ec out al t src))"
  by (simp_all add: classify_plain_def base_result_def split: prod.splits)

definition typed_verdict :: "run_result \<Rightarrow> string option \<times> string \<times> string" where
  "typed_verdict r = (rr_outcome r, rr_classification r, rr_reason r)"

text \<open>The outcome a text names: its last non-blank line, or else the one value every marker repeats.\<close>

definition names_outcome :: "string \<Rightarrow> string \<Rightarrow> bool" where
  "names_outcome txt oc \<longleftrightarrow> final_outcome_marker txt = Some oc
     \<or> (final_outcome_marker txt = None \<and> set (re_findall OUTCOME_RE txt) = {oc})"

lemma remdups_single: "xs \<noteq> [] \<Longrightarrow> \<not> 1 < length (remdups xs) \<longleftrightarrow> set xs = {last xs}"
proof
  assume ne: "xs \<noteq> []" and "\<not> 1 < length (remdups xs)"
  then have "length (remdups xs) = 1"
    by (metis One_nat_def Suc_lessI length_greater_0_conv remdups_eq_nil_iff)
  then obtain x where "remdups xs = [x]" by (metis One_nat_def length_0_conv length_Suc_conv)
  then have "set xs = {x}" by (metis empty_set list.simps(15) set_remdups)
  then show "set xs = {last xs}" using ne last_in_set by fastforce
next
  assume "xs \<noteq> []" "set xs = {last xs}"
  then have "card (set xs) = 1" by (metis is_singletonI is_singleton_altdef)
  then show "\<not> 1 < length (remdups xs)" by (simp add: length_remdups_card_conv)
qed

lemma outcome_verdict_success:
  "outcome_verdict txt al = (oc, ''success'', rs) \<longleftrightarrow>
     rs = ''success'' \<and> (\<exists>x. oc = Some x \<and> x \<in> set al \<and> names_outcome txt x)"
proof (cases "final_outcome_marker txt")
  case None
  let ?ms = "re_findall OUTCOME_RE txt"
  show ?thesis
  proof (cases "?ms = []")
    case False
    then have "set ?ms = {last ?ms} \<longleftrightarrow> \<not> 1 < length (remdups ?ms)" by (rule remdups_single [symmetric])
    moreover have "x = last ?ms" if "set ?ms = {x}" for x using that False last_in_set by fastforce
    ultimately show ?thesis using False None
      by (auto simp: outcome_verdict_def names_outcome_def Let_def)
  qed (use None in \<open>auto simp: outcome_verdict_def names_outcome_def Let_def\<close>)
qed (auto simp: outcome_verdict_def names_outcome_def Let_def)

lemma success_iff:
  "rr_classification (classify_result ec out al t (Some s)) = ''success'' \<longleftrightarrow>
     rr_containment_stop s = None \<and> \<not> t \<and> ec = Some 0 \<and> rr_final_response_error s = None
   \<and> \<not> receipt_rejected (Some s)
   \<and> (\<exists>oc. oc \<in> set al \<and> rr_outcome (classify_result ec out al t (Some s)) = Some oc
        \<and> names_outcome (authoritative_text (s\<lparr>rr_output := out\<rparr>)) oc)"
proof -
  have auth: "(case rr_final_response s of None \<Rightarrow> out | Some u \<Rightarrow> u) = authoritative_text (s\<lparr>rr_output := out\<rparr>)"
    by (simp add: authoritative_text_def split: option.splits)
  show ?thesis
  proof (cases "rr_containment_stop s")
    case (Some stop)
    then show ?thesis by (simp add: classify_result_def base_result_def Let_def)
  next
    case None
    let ?v = "outcome_verdict (authoritative_text (s\<lparr>rr_output := out\<rparr>)) al"
    obtain oc cl rs where v: "?v = (oc, cl, rs)" by (metis prod.exhaust)
    show ?thesis
      using None outcome_verdict_success [of "authoritative_text (s\<lparr>rr_output := out\<rparr>)" al oc rs]
        outcome_verdict_success [of "authoritative_text (s\<lparr>rr_output := out\<rparr>)" al oc "''success''"] v
      by (cases "rr_final_response_error s")
        (auto simp: classify_result_def classify_plain_sel verdict_of_def source_error_def auth split: if_splits)
  qed
qed

section \<open>Properties\<close>


text \<open>When a run has a final response of its own, nothing printed to the display stream
  influences the verdict of a run that exited with code zero: two runs that differ only in their
  display stream get the same outcome, classification and reason.\<close>

theorem display_stream_cannot_decide:
  "typed_verdict (classify_result (Some 0) out1 al t (Some (s\<lparr>rr_final_response := Some txt\<rparr>))) =
   typed_verdict (classify_result (Some 0) out2 al t (Some (s\<lparr>rr_final_response := Some txt\<rparr>)))"
  by (cases "rr_containment_stop s")
    (simp_all add: typed_verdict_def classify_result_def classify_plain_sel verdict_of_def base_result_def
      source_error_def Let_def split: option.split)

end
