(* ===== verification/Convergence.thy ===== *)
theory Convergence
  imports StageGraph Classify
begin

text \<open>
  Repeat-review convergence: the record a branching run carries in its final response
  (\<open>runner.py\<close>), the rule that scores it against the prior review, and the way the controller
  builds the context of a run from its sealed history and turns every failure into the reserved
  hold outcome (\<open>controller.py\<close>).  A file system is a partial function from paths to contents
  (\<open>None\<close>: reading raises \<open>OSError\<close>), \<open>sha\<close> the hex digest, and \<open>ctx_msg\<close>, \<open>conv_msg\<close> how the exceptions print.
  Sets of identities are lists compared as sets.
\<close>

section \<open>The record\<close>

definition CONVERGENCE_BEGIN :: string where "CONVERGENCE_BEGIN = ''<!--ORCH-CONVERGENCE-BEGIN-->''"
definition CONVERGENCE_END :: string where "CONVERGENCE_END = ''<!--ORCH-CONVERGENCE-END-->''"

definition CONVERGENCE_FIRST_KEYS :: "string list" where
  "CONVERGENCE_FIRST_KEYS = [''live'', ''resolved'']"

definition CONVERGENCE_REPEAT_KEYS :: "string list" where
  "CONVERGENCE_REPEAT_KEYS = [''live'', ''resolved'', ''new'', ''repeated'', ''verdict'']"

definition CONVERGENCE_VERDICTS :: "string list" where
  "CONVERGENCE_VERDICTS = [''improved'', ''stalled'', ''oscillating'']"

datatype conv_error =
    RecordMissing
  | MarkerPair nat nat
  | ConvEndPrecedes
  | RecordInvalidJson
  | RecordNotObject
  | RepeatKeys "string list"
  | UnknownVerdict json
  | FirstCarriesVerdict
  | FirstKeys "string list"
  | ResolvedNotEmpty
  | BadIdentities string
  | Contradicts string "string list" "string list"
  | VerdictContradicts json string

type_synonym conv_record = "(string \<times> json) list"

definition convergence_identities :: "conv_record \<Rightarrow> string \<Rightarrow> (conv_error, string list) res" where
  "convergence_identities rc name =
     (case jget rc name of
        JArr items \<Rightarrow>
          (case str_items (\<lambda>s. strip s \<noteq> []) items of None \<Rightarrow> Inl (BadIdentities name) | Some ids \<Rightarrow> Inr ids)
      | _ \<Rightarrow> Inl (BadIdentities name))"

definition check_record_shape :: "bool option \<Rightarrow> conv_record \<Rightarrow> (conv_error, conv_record) res" where
  "check_record_shape repeat rc =
     (let ks = map fst rc;
          rpt = (case repeat of None \<Rightarrow> ''verdict'' \<in> set ks | Some b \<Rightarrow> b)
      in if rpt then
           check (set ks = set CONVERGENCE_REPEAT_KEYS) (RepeatKeys (sorted_set ks))
             (check (\<exists>v \<in> set CONVERGENCE_VERDICTS. jget rc ''verdict'' = JStr v) (UnknownVerdict (jget rc ''verdict''))
               (bindR (mapR (convergence_identities rc) [''live'', ''resolved'', ''new'', ''repeated''])
                 (\<lambda>_. Inr rc)))
         else
           check (''verdict'' \<notin> set ks) FirstCarriesVerdict
             (check (set ks = set CONVERGENCE_FIRST_KEYS) (FirstKeys (sorted_set ks))
               (bindR (convergence_identities rc ''resolved'')
                 (\<lambda>res. check (res = []) ResolvedNotEmpty
                   (bindR (convergence_identities rc ''live'') (\<lambda>_. Inr rc))))))"

text \<open>\<open>extract_convergence(output, repeat=...)\<close>; \<open>None\<close> reads either shape.\<close>

definition extract_convergence :: "string \<Rightarrow> bool option \<Rightarrow> (conv_error, conv_record) res" where
  "extract_convergence output repeat =
     (let begins = count_sub CONVERGENCE_BEGIN output;
          ends = count_sub CONVERGENCE_END output
      in if begins = 0 \<and> ends = 0 then Inl RecordMissing
         else check (begins = 1 \<and> ends = 1) (MarkerPair begins ends)
           (let start = the (find_sub CONVERGENCE_BEGIN output) + length CONVERGENCE_BEGIN;
                stop = the (find_sub CONVERGENCE_END output)
            in check (start \<le> stop) ConvEndPrecedes
              (case loads (take (stop - start) (drop start output)) of
                 None \<Rightarrow> Inl RecordInvalidJson
               | Some (JObj rc) \<Rightarrow> check_record_shape repeat rc
               | Some _ \<Rightarrow> Inl RecordNotObject)))"

section \<open>The rule\<close>

definition subset_list :: "string list \<Rightarrow> string list \<Rightarrow> bool" where
  "subset_list xs ys = list_all (\<lambda>x. x \<in> set ys) xs"

definition convergence_verdict :: "string list \<Rightarrow> string list \<Rightarrow> string list \<Rightarrow> string" where
  "convergence_verdict prior_live historical_resolved current =
     (if list_ex (\<lambda>x. x \<in> set historical_resolved) current then ''oscillating''
      else let new = filter (\<lambda>x. x \<notin> set prior_live) current in
        if subset_list current prior_live \<and> \<not> subset_list prior_live current \<and> new = [] then ''improved''
        else ''stalled'')"

text \<open>\<open>set(record[name])\<close> of a record whose identities were checked.\<close>

definition ids_of :: "conv_record \<Rightarrow> string \<Rightarrow> string list" where
  "ids_of rc name = (case convergence_identities rc name of Inl _ \<Rightarrow> [] | Inr ids \<Rightarrow> ids)"

fun check_partition :: "conv_record \<Rightarrow> (string \<times> string list) list \<Rightarrow> (conv_error, unit) res" where
  "check_partition rc [] = Inr ()"
| "check_partition rc ((name, computed) # rest) =
     check (set (ids_of rc name) = set computed)
       (Contradicts name (sorted_set (ids_of rc name)) (sorted_set computed)) (check_partition rc rest)"

definition validate_convergence ::
  "conv_record \<Rightarrow> string list \<Rightarrow> string list \<Rightarrow> (conv_error, string) res" where
  "validate_convergence rc prior_live historical_resolved =
     (let current = ids_of rc ''live'' in
      bindR (check_partition rc
          [(''resolved'', filter (\<lambda>x. x \<notin> set current) prior_live),
           (''repeated'', filter (\<lambda>x. x \<in> set current) prior_live),
           (''new'', filter (\<lambda>x. x \<notin> set prior_live) current)])
        (\<lambda>_. let verdict = convergence_verdict prior_live historical_resolved current in
          check (jget rc ''verdict'' = JStr verdict) (VerdictContradicts (jget rc ''verdict'') verdict)
            (Inr verdict)))"

section \<open>Reading sealed runs\<close>

text \<open>\<open>bytes.decode("utf-8", errors="replace")\<close>: one U+FFFD for each maximal ill-formed part.\<close>

definition in_range :: "nat \<Rightarrow> nat \<Rightarrow> string \<Rightarrow> bool" where
  "in_range lo hi s = (case s of [] \<Rightarrow> False | c # _ \<Rightarrow> lo \<le> (of_char c :: nat) \<and> (of_char c :: nat) \<le> hi)"

definition utf8_step :: "char \<Rightarrow> string \<Rightarrow> bool \<times> nat" where
  "utf8_step a s =
     (let n = (of_char a :: nat);
          lo = (if n = 224 then 160 else if n = 240 then 144 else 128);
          hi = (if n = 237 then 159 else if n = 244 then 143 else 191)
      in if n < 128 then (True, 1)
         else if 194 \<le> n \<and> n < 224 then (if in_range 128 191 s then (True, 2) else (False, 1))
         else if 224 \<le> n \<and> n < 240 then
           (if \<not> in_range lo hi s then (False, 1)
            else if \<not> in_range 128 191 (drop 1 s) then (False, 2) else (True, 3))
         else if 240 \<le> n \<and> n < 245 then
           (if \<not> in_range lo hi s then (False, 1)
            else if \<not> in_range 128 191 (drop 1 s) then (False, 2)
            else if \<not> in_range 128 191 (drop 2 s) then (False, 3) else (True, 4))
         else (False, 1))"

function utf8_replace :: "string \<Rightarrow> string" where
  "utf8_replace [] = []"
| "utf8_replace (a # s) =
     (case utf8_step a s of (ok, n) \<Rightarrow>
        (if ok then take n (a # s) else [CHR 0xEF, CHR 0xBF, CHR 0xBD]) @ utf8_replace (drop (n - 1) s))"
  by pat_completeness auto
termination
  by (relation "measure length") auto

record hist_run =
  hr_seq :: int
  hr_run_token :: string
  hr_stage :: string
  hr_manifest_path :: "string option"
  hr_manifest_hash :: "string option"

datatype sealed_error =
    NotSealed string
  | VerifyUnreadable string
  | VerifyMismatch string
  | ManifestUnreadable
  | ManifestInvalidJson
  | VersionUnreadable string json
  | NoSealedOutput string
  | BoundaryInvalid string boundary_error
  | NoFinalResponse string string
  | TextUnreadable
  | SealedTypeError

text \<open>
  What \<open>_sealed_convergence_records\<close> catches: everything but a \<open>TypeError\<close> or an
  \<open>AttributeError\<close> met inside a manifest whose hash was right.
\<close>

definition sealed_caught :: "sealed_error \<Rightarrow> bool" where
  "sealed_caught e \<longleftrightarrow> e \<noteq> SealedTypeError"

type_synonym files = "string \<Rightarrow> string option"

definition verify_file ::
  "(string \<Rightarrow> string) \<Rightarrow> files \<Rightarrow> string \<Rightarrow> json \<Rightarrow> string \<Rightarrow> (sealed_error, unit) res" where
  "verify_file sha fs path expected label =
     (case fs path of
        None \<Rightarrow> Inl (VerifyUnreadable label)
      | Some bytes \<Rightarrow> check (JStr (sha bytes) = expected) (VerifyMismatch label) (Inr ()))"

record sealed_run =
  sr_manifest :: "(string \<times> json) list"
  sr_final_response :: string
  sr_source :: string

text \<open>\<open>Path(v)\<close> on a decoded value: only a text is a path.\<close>

fun path_of :: "json \<Rightarrow> (sealed_error, string) res" where
  "path_of (JStr s) = Inr s"
| "path_of _ = Inl SealedTypeError"

definition read_text_of :: "files \<Rightarrow> string \<Rightarrow> (sealed_error, string) res" where
  "read_text_of fs path = (case fs path of None \<Rightarrow> Inl TextUnreadable | Some b \<Rightarrow> Inr (utf8_replace b))"

definition read_legacy_run ::
  "(string \<Rightarrow> string) \<Rightarrow> files \<Rightarrow> string \<Rightarrow> (string \<times> json) list \<Rightarrow> (sealed_error, sealed_run) res" where
  "read_legacy_run sha fs token manifest =
     check (truthy (jget manifest ''output_path'') \<and> truthy (jget manifest ''output_hash'')) (NoSealedOutput token)
       (bindR (path_of (jget manifest ''output_path''))
         (\<lambda>path. bindR (verify_file sha fs path (jget manifest ''output_hash'') ''prior run output'')
           (\<lambda>_. bindR (read_text_of fs path)
             (\<lambda>t. Inr \<lparr>sr_manifest = manifest, sr_final_response = t, sr_source = WHOLE_STREAM_PROTOCOL\<rparr>))))"

definition read_bounded_run ::
  "(string \<Rightarrow> string) \<Rightarrow> files \<Rightarrow> string \<Rightarrow> (string \<times> json) list \<Rightarrow> (sealed_error, sealed_run) res" where
  "read_bounded_run sha fs token manifest =
     (case validate_sealed_boundary manifest of
        Inl e \<Rightarrow> Inl (if e = BoundaryTypeError then SealedTypeError else BoundaryInvalid token e)
      | Inr b \<Rightarrow>
        check (has_final_response b) (NoFinalResponse token (case sb_error b of None \<Rightarrow> [] | Some r \<Rightarrow> r))
          (bindR (verify_file sha fs (sb_path b) (JStr (sb_digest b)) ''prior run final response'')
            (\<lambda>_. bindR (read_text_of fs (sb_path b))
              (\<lambda>t. Inr \<lparr>sr_manifest = manifest, sr_final_response = t, sr_source = sb_protocol b\<rparr>))))"

definition read_sealed_run ::
  "(string \<Rightarrow> string) \<Rightarrow> files \<Rightarrow> hist_run \<Rightarrow> (sealed_error, sealed_run) res" where
  "read_sealed_run sha fs run =
     (if no_text (hr_manifest_path run) \<or> no_text (hr_manifest_hash run) then Inl (NotSealed (hr_run_token run))
      else let path = the (hr_manifest_path run) in
        bindR (verify_file sha fs path (JStr (the (hr_manifest_hash run))) ''prior run manifest'')
          (\<lambda>_. case fs path of
             None \<Rightarrow> Inl ManifestUnreadable
           | Some bytes \<Rightarrow>
             check (utf8_valid bytes) ManifestUnreadable
              (case loads bytes of
                 None \<Rightarrow> Inl ManifestInvalidJson
               | Some (JObj manifest) \<Rightarrow>
                 (case jget manifest ''schema_version'' of
                    JInt v \<Rightarrow>
                      check (v \<in> set SUPPORTED_MANIFEST_VERSIONS) (VersionUnreadable (hr_run_token run) (JInt v))
                       (if v < RUN_MANIFEST_SCHEMA_VERSION
                        then read_legacy_run sha fs (hr_run_token run) manifest
                        else read_bounded_run sha fs (hr_run_token run) manifest)
                  | v \<Rightarrow> Inl (VersionUnreadable (hr_run_token run) v))
               | Some _ \<Rightarrow> Inl SealedTypeError)))"

section \<open>The context of a run\<close>

datatype context_error = PriorUnreadable sealed_error | PriorInvalid conv_error

definition CONVERGENCE_UNESTABLISHED_REASONS :: "string list" where
  "CONVERGENCE_UNESTABLISHED_REASONS = [''convergence_record_invalid'', ''convergence_unverifiable'']"

text \<open>\<open>str(manifest.get("reason") or "")\<close>; only a text can start with one of the reasons.\<close>

definition unestablished :: "(string \<times> json) list \<Rightarrow> bool" where
  "unestablished manifest =
     (case jget manifest ''reason'' of
        JStr r \<Rightarrow> list_ex (\<lambda>p. starts_with p r) CONVERGENCE_UNESTABLISHED_REASONS
      | _ \<Rightarrow> False)"

fun sealed_convergence_records ::
  "(string \<Rightarrow> string) \<Rightarrow> files \<Rightarrow> (nat \<times> hist_run) list \<Rightarrow> (nat \<times> conv_record) list \<Rightarrow>
   (sealed_error, (nat \<times> conv_record) list \<times> context_error option) res" where
  "sealed_convergence_records sha fs [] acc = Inr (acc, None)"
| "sealed_convergence_records sha fs ((i, run) # rest) acc =
     (case read_sealed_run sha fs run of
        Inl e \<Rightarrow> if sealed_caught e then Inr (acc, Some (PriorUnreadable e)) else Inl e
      | Inr sealed \<Rightarrow>
        (case extract_convergence (sr_final_response sealed) None of
           Inr rc \<Rightarrow> sealed_convergence_records sha fs rest (acc @ [(i, rc)])
         | Inl e \<Rightarrow> if unestablished (sr_manifest sealed) then sealed_convergence_records sha fs rest acc
                   else Inr (acc, Some (PriorInvalid e))))"

record conv_context =
  cc_repeat :: bool
  cc_prior_live :: "string list"
  cc_historical_resolved :: "string list"
  cc_prior_stage :: "string option"
  cc_prior_run_token :: "string option"
  cc_corrections_between :: "string list"
  cc_error :: "context_error option"

definition indexed :: "'a list \<Rightarrow> (nat \<times> 'a) list" where
  "indexed xs = zip [0..<length xs] xs"

definition runs_of_arity :: "profile \<Rightarrow> arity \<Rightarrow> hist_run list \<Rightarrow> (nat \<times> hist_run) list" where
  "runs_of_arity p a history = filter (\<lambda>(i, r). stage_arity p (hr_stage r) = a) (indexed history)"

definition convergence_context ::
  "(string \<Rightarrow> string) \<Rightarrow> files \<Rightarrow> profile \<Rightarrow> string \<Rightarrow> hist_run list \<Rightarrow> (sealed_error, conv_context option) res" where
  "convergence_context sha fs p stage_name history =
     (if stage_arity p stage_name \<noteq> Branching then Inr None
      else let branching = runs_of_arity p Branching history;
               correction_at = map fst (runs_of_arity p Correction history)
        in bindR (sealed_convergence_records sha fs branching [])
          (\<lambda>(records, error).
            let usable = filter (\<lambda>(i, r). i \<in> set (map fst records)) branching;
                qualifying = filter (\<lambda>(i, r). list_ex (\<lambda>c. i < c) correction_at) usable;
                ctx = \<lparr>cc_repeat = (qualifying \<noteq> [] \<and> error = None), cc_prior_live = [],
                       cc_historical_resolved = [], cc_prior_stage = None, cc_prior_run_token = None,
                       cc_corrections_between = [], cc_error = error\<rparr>
            in if qualifying = [] \<or> error \<noteq> None then Inr (Some ctx)
               else let (prior_index, prior) = last qualifying in
                 Inr (Some (ctx\<lparr>
                   cc_prior_stage := Some (hr_stage prior),
                   cc_prior_run_token := Some (hr_run_token prior),
                   cc_corrections_between :=
                     map (\<lambda>i. hr_stage (history ! i)) (filter (\<lambda>i. prior_index < i) correction_at),
                   cc_prior_live := ids_of (the (map_of records prior_index)) ''live'',
                   cc_historical_resolved :=
                     concat (map (\<lambda>(i, r). ids_of (the (map_of records i)) ''resolved'') usable)\<rparr>))))"

section \<open>Applying it to a result\<close>

definition hold_result :: "run_result \<Rightarrow> string \<Rightarrow> run_result" where
  "hold_result r reason =
     r\<lparr>rr_outcome := Some HOLD_OUTCOME, rr_classification := ''success'', rr_reason := reason\<rparr>"

definition apply_convergence ::
  "(context_error \<Rightarrow> string) \<Rightarrow> (conv_error \<Rightarrow> string) \<Rightarrow> run_result \<Rightarrow> conv_context \<Rightarrow> run_result" where
  "apply_convergence ctx_msg conv_msg result ctx =
     (if rr_classification result \<noteq> ''success'' then result
      else case cc_error ctx of
        Some e \<Rightarrow> hold_result result (''convergence_unverifiable: '' @ ctx_msg e)
      | None \<Rightarrow>
        (case extract_convergence (authoritative_text result) (Some (cc_repeat ctx)) of
           Inl e \<Rightarrow> hold_result result (''convergence_record_invalid: '' @ conv_msg e)
         | Inr rc \<Rightarrow>
           if \<not> cc_repeat ctx then result
           else case validate_convergence rc (cc_prior_live ctx) (cc_historical_resolved ctx) of
               Inl e \<Rightarrow> hold_result result (''convergence_contradictory: '' @ conv_msg e)
             | Inr verdict \<Rightarrow>
               if rr_outcome result = Some HOLD_OUTCOME then result
               else if verdict \<noteq> ''improved'' then hold_result result (''convergence_'' @ verdict)
               else result))"

section \<open>What an accepted review satisfies\<close>

lemma subset_list_iff: "subset_list xs ys \<longleftrightarrow> set xs \<subseteq> set ys"
  by (auto simp: subset_list_def list_all_iff)

lemma verdict_cases:
  "convergence_verdict pl hr cur =
     (if set cur \<inter> set hr \<noteq> {} then ''oscillating''
      else if set cur \<subset> set pl then ''improved'' else ''stalled'')"
proof -
  have "list_ex (\<lambda>x. x \<in> set hr) cur \<longleftrightarrow> set cur \<inter> set hr \<noteq> {}" by (auto simp: list_ex_iff)
  moreover have "subset_list cur pl \<and> \<not> subset_list pl cur \<and> filter (\<lambda>x. x \<notin> set pl) cur = []
      \<longleftrightarrow> set cur \<subset> set pl"
    by (auto simp: subset_list_iff filter_empty_conv)
  ultimately show ?thesis by (simp add: convergence_verdict_def Let_def)
qed

lemma verdict_improved:
  "convergence_verdict pl hr cur = ''improved'' \<longleftrightarrow> set cur \<inter> set hr = {} \<and> set cur \<subset> set pl"
  by (simp add: verdict_cases)

definition declares_partition :: "conv_record \<Rightarrow> string list \<Rightarrow> bool" where
  "declares_partition rc pl \<longleftrightarrow>
     set (ids_of rc ''resolved'') = set pl - set (ids_of rc ''live'')
   \<and> set (ids_of rc ''repeated'') = set pl \<inter> set (ids_of rc ''live'')
   \<and> set (ids_of rc ''new'') = set (ids_of rc ''live'') - set pl"

lemma validate_convergence_Inr:
  "validate_convergence rc pl hr = Inr v \<longleftrightarrow>
     declares_partition rc pl \<and> jget rc ''verdict'' = JStr v
   \<and> v = convergence_verdict pl hr (ids_of rc ''live'')"
proof -
  have "set pl - A = {x \<in> set pl. x \<notin> A}" "set pl \<inter> A = {x \<in> set pl. x \<in> A}"
    "A - set pl = {x \<in> A. x \<notin> set pl}" for A by auto
  then show ?thesis
    by (auto simp: validate_convergence_def Let_def bindR_Inr_iff check_Inr_iff declares_partition_def)
qed

text \<open>An ordinary outcome, that is any but the reserved hold, goes on.\<close>

definition continues_with :: "run_result \<Rightarrow> string \<Rightarrow> bool" where
  "continues_with r oc \<longleftrightarrow> rr_classification r = ''success'' \<and> rr_outcome r = Some oc \<and> oc \<noteq> HOLD_OUTCOME"

lemma hold_result_stops [simp]: "\<not> continues_with (hold_result r reason) oc"
  by (auto simp: continues_with_def hold_result_def)

definition review_improves :: "conv_record \<Rightarrow> conv_context \<Rightarrow> bool" where
  "review_improves rc ctx \<longleftrightarrow>
     declares_partition rc (cc_prior_live ctx) \<and> jget rc ''verdict'' = JStr ''improved''
   \<and> set (ids_of rc ''live'') \<subset> set (cc_prior_live ctx)
   \<and> set (ids_of rc ''live'') \<inter> set (cc_historical_resolved ctx) = {}"

lemma validate_improved:
  "validate_convergence rc (cc_prior_live ctx) (cc_historical_resolved ctx) = Inr ''improved'' \<longleftrightarrow>
     review_improves rc ctx"
  unfolding validate_convergence_Inr review_improves_def
  using verdict_improved [of "cc_prior_live ctx" "cc_historical_resolved ctx" "ids_of rc ''live''"] by auto

lemma apply_convergence_continues:
  "continues_with (apply_convergence cm vm r ctx) oc \<longleftrightarrow>
     continues_with r oc \<and> cc_error ctx = None
   \<and> (\<exists>rc. extract_convergence (authoritative_text r) (Some (cc_repeat ctx)) = Inr rc
        \<and> (cc_repeat ctx = False \<or> review_improves rc ctx))"
proof (cases "rr_classification r = ''success'' \<and> cc_error ctx = None")
  case True
  show ?thesis
  proof (cases "extract_convergence (authoritative_text r) (Some (cc_repeat ctx))")
    case (Inr rc)
    let ?v = "validate_convergence rc (cc_prior_live ctx) (cc_historical_resolved ctx)"
    have "?v = Inr ''improved'' \<longleftrightarrow> review_improves rc ctx" by (rule validate_improved)
    with True Inr show ?thesis
      by (cases ?v) (auto simp: apply_convergence_def continues_with_def hold_result_def)
  qed (use True in \<open>simp add: apply_convergence_def\<close>)
qed (auto simp: apply_convergence_def continues_with_def hold_result_def split: option.splits)

text \<open>A run of repeat reviews, each scored against the live set the one before it left.\<close>

definition live_of :: "run_result \<Rightarrow> string list" where
  "live_of r = (case extract_convergence (authoritative_text r) (Some True) of
                  Inl _ \<Rightarrow> [] | Inr rc \<Rightarrow> ids_of rc ''live'')"

fun review_chain ::
  "(context_error \<Rightarrow> string) \<Rightarrow> (conv_error \<Rightarrow> string) \<Rightarrow> string list \<Rightarrow> (conv_context \<times> run_result) list \<Rightarrow> bool"
where
  "review_chain cm vm live [] = True"
| "review_chain cm vm live ((ctx, r) # rest) \<longleftrightarrow>
     cc_repeat ctx \<and> set (cc_prior_live ctx) = set live
   \<and> (case rr_outcome r of None \<Rightarrow> False | Some oc \<Rightarrow> continues_with (apply_convergence cm vm r ctx) oc)
   \<and> review_chain cm vm (live_of r) rest"

lemma sealed_records_sound:
  "sealed_convergence_records sha fs brs acc = Inr (records, error) \<Longrightarrow> distinct (map fst brs) \<Longrightarrow>
   set (map fst acc) \<inter> set (map fst brs) = {} \<Longrightarrow>
   map_of records i = Some rc \<Longrightarrow>
   map_of acc i = Some rc \<or>
   (\<exists>run s. (i, run) \<in> set brs \<and> read_sealed_run sha fs run = Inr s
      \<and> extract_convergence (sr_final_response s) None = Inr rc)"
proof (induction sha fs brs acc rule: sealed_convergence_records.induct)
  case (2 sha fs j run rest acc)
  show ?case
  proof (cases "read_sealed_run sha fs run")
    case (Inl e)
    with 2 show ?thesis by (auto split: if_splits)
  next
    case (Inr s)
    show ?thesis
    proof (cases "extract_convergence (sr_final_response s) None")
      case (Inl e)
      show ?thesis
      proof (cases "unestablished (sr_manifest s)")
        case True
        from "2.prems" Inr Inl True have r: "sealed_convergence_records sha fs rest acc = Inr (records, error)"
          and d: "set (map fst acc) \<inter> set (map fst rest) = {}" "distinct (map fst rest)"
          by (auto simp: Inr)
        from "2.IH"(1) [OF \<open>read_sealed_run sha fs run = Inr s\<close> Inl True r d(2,1) "2.prems"(4)]
        show ?thesis by auto
      next
        case False
        with "2.prems" Inl \<open>read_sealed_run sha fs run = Inr s\<close> show ?thesis by simp
      qed
    next
      case rc': (Inr rc')
      from "2.prems" Inr rc' have r: "sealed_convergence_records sha fs rest (acc @ [(j, rc')]) = Inr (records, error)"
        by simp
      have d: "set (map fst (acc @ [(j, rc')])) \<inter> set (map fst rest) = {}" "distinct (map fst rest)"
        using "2.prems" by auto
      from "2.IH"(2) [OF Inr rc' r d(2,1) "2.prems"(4)] consider
        "map_of (acc @ [(j, rc')]) i = Some rc"
        | run' s' where "(i, run') \<in> set rest" "read_sealed_run sha fs run' = Inr s'"
            "extract_convergence (sr_final_response s') None = Inr rc" by blast
      then show ?thesis
      proof cases
        case 1
        with Inr rc' show ?thesis by (auto simp: map_add_Some_iff split: if_splits)
      next
        case 2
        then show ?thesis by auto
      qed
    qed
  qed
qed simp

lemma runs_of_arity_distinct: "distinct (map fst (runs_of_arity p a history))"
proof -
  have "distinct (map fst (indexed history))" by (simp add: indexed_def)
  then show ?thesis unfolding runs_of_arity_def by (rule distinct_map_filter)
qed

lemma runs_of_arity_set:
  "(i, r) \<in> set (runs_of_arity p a history) \<longleftrightarrow>
     i < length history \<and> r = history ! i \<and> stage_arity p (hr_stage r) = a"
proof -
  have "(i, r) \<in> set (indexed history) \<longleftrightarrow> i < length history \<and> r = history ! i"
    by (auto simp: indexed_def in_set_zip intro: exI [of _ i])
  then show ?thesis by (auto simp: runs_of_arity_def)
qed

section \<open>Properties\<close>


text \<open>C28: Repeat reviews cannot go round for ever: a chain of repeat reviews that all keep an
  ordinary outcome, each scored against the live set its predecessor left, is no longer than the
  number of identities the first one was scored against, whatever the edge caps allow.\<close>

theorem review_chain_bounded:
  assumes "review_chain cm vm live reviews"
  shows "length reviews \<le> card (set live)"
  using assms
proof (induction reviews arbitrary: live)
  case (Cons cr reviews)
  obtain ctx r where cr: "cr = (ctx, r)" by force
  from Cons.prems cr obtain oc where o: "continues_with (apply_convergence cm vm r ctx) oc"
    and rp: "cc_repeat ctx" and pl: "set (cc_prior_live ctx) = set live"
    and rest: "review_chain cm vm (live_of r) reviews"
    by (auto split: option.splits)
  from o rp obtain rc where "extract_convergence (authoritative_text r) (Some True) = Inr rc"
    "review_improves rc ctx"
    by (auto simp: apply_convergence_continues)
  then have "set (live_of r) \<subset> set live" using pl by (simp add: live_of_def review_improves_def)
  then have "card (set (live_of r)) < card (set live)" by (simp add: psubset_card_mono)
  with Cons.IH [OF rest] cr show ?case by simp
qed simp

text \<open>C32: The baseline of a repeat review is genuine: it is the record that a committed branching
  run's verified final response carries, with a committed correction run after it, and its stage,
  token and live set are the ones the context names.\<close>

theorem convergence_baseline:
  assumes "convergence_context sha fs p stage_name history = Inr (Some ctx)" and "cc_repeat ctx"
  shows "\<exists>i j s rc. i < j \<and> j < length history
    \<and> stage_arity p (hr_stage (history ! i)) = Branching
    \<and> stage_arity p (hr_stage (history ! j)) = Correction
    \<and> read_sealed_run sha fs (history ! i) = Inr s
    \<and> extract_convergence (sr_final_response s) None = Inr rc
    \<and> cc_prior_stage ctx = Some (hr_stage (history ! i))
    \<and> cc_prior_run_token ctx = Some (hr_run_token (history ! i))
    \<and> cc_prior_live ctx = ids_of rc ''live'' \<and> cc_error ctx = None"
proof -
  let ?b = "runs_of_arity p Branching history" and ?c = "map fst (runs_of_arity p Correction history)"
  from assms(1) obtain records error where
    sc: "sealed_convergence_records sha fs ?b [] = Inr (records, error)"
    by (auto simp: convergence_context_def Let_def bindR_Inr_iff split: if_splits)
  let ?u = "filter (\<lambda>(i, r). i \<in> set (map fst records)) ?b"
  let ?q = "filter (\<lambda>(i, r). list_ex (\<lambda>c. i < c) ?c) ?u"
  have q: "?q \<noteq> []" "error = None"
    using assms sc by (auto simp: convergence_context_def Let_def split: if_splits prod.splits)
  obtain i run where l: "last ?q = (i, run)" by force
  with q have iq: "(i, run) \<in> set ?q" by (metis last_in_set)
  then obtain j where j: "j \<in> set ?c" "i < j" and ib: "(i, run) \<in> set ?b" and ir: "i \<in> set (map fst records)"
    by (auto simp: list_ex_iff)
  from ir obtain rc where rc: "map_of records i = Some rc" by (metis map_of_eq_None_iff not_None_eq set_map)
  from sealed_records_sound [OF sc runs_of_arity_distinct _ rc] obtain run' s where
    "(i, run') \<in> set ?b" and s: "read_sealed_run sha fs run' = Inr s"
    "extract_convergence (sr_final_response s) None = Inr rc" by auto
  then have run': "run' = history ! i" "run = history ! i" "stage_arity p (hr_stage (history ! i)) = Branching"
    using ib by (auto simp: runs_of_arity_set)
  from j(1) have "j < length history" "stage_arity p (hr_stage (history ! j)) = Correction"
    by (auto simp: runs_of_arity_set)
  moreover have "cc_prior_stage ctx = Some (hr_stage run) \<and> cc_prior_run_token ctx = Some (hr_run_token run)
      \<and> cc_prior_live ctx = ids_of rc ''live'' \<and> cc_error ctx = None"
    using assms(1) sc q l rc by (auto simp: convergence_context_def Let_def split: if_splits)
  ultimately show ?thesis using j(2) s run' by blast
qed

section \<open>The properties on concrete runs\<close>

definition sample_record :: string where
  "sample_record = CONVERGENCE_BEGIN
     @ dumps (JObj [(''live'', JArr [JStr ''a'']), (''resolved'', JArr [JStr ''b'']), (''new'', JArr []),
                    (''repeated'', JArr [JStr ''a'']), (''verdict'', JStr ''improved'')])
     @ CONVERGENCE_END"

definition sample_review :: "conv_context \<times> run_result" where
  "sample_review =
     (\<lparr>cc_repeat = True, cc_prior_live = [''a'', ''b''], cc_historical_resolved = [''c''],
       cc_prior_stage = Some ''review'', cc_prior_run_token = Some ''t'', cc_corrections_between = [''fix''],
       cc_error = None\<rparr>,
      base_result (Some 0) sample_record (Some ''ok'') ''success'' ''success'' False)"

lemma review_chain_bounded_witness: "length [sample_review] \<le> card (set [''a'', ''b''])"
  by (rule review_chain_bounded [of "\<lambda>_. []" "\<lambda>_. []"]) code_simp

definition sample_files :: files where
  "sample_files path =
     (if path = ''m'' then Some (dumps (JObj [(''output_hash'', JStr ''h''), (''output_path'', JStr ''o''),
                                              (''schema_version'', JInt 1)]))
      else if path = ''o'' then Some sample_record else None)"

definition sample_history :: "hist_run list" where
  "sample_history =
     [\<lparr>hr_seq = 1, hr_run_token = ''t1'', hr_stage = ''review'', hr_manifest_path = Some ''m'', hr_manifest_hash = Some ''h''\<rparr>,
      \<lparr>hr_seq = 2, hr_run_token = ''t2'', hr_stage = ''fix'', hr_manifest_path = None, hr_manifest_hash = None\<rparr>]"

definition sample_context :: conv_context where
  "sample_context =
     \<lparr>cc_repeat = True, cc_prior_live = [''a''], cc_historical_resolved = [''b''],
      cc_prior_stage = Some ''review'', cc_prior_run_token = Some ''t1'', cc_corrections_between = [''fix''],
      cc_error = None\<rparr>"

lemma convergence_baseline_witness:
  "\<exists>i j s rc. i < j \<and> j < length sample_history
    \<and> stage_arity sample_profile (hr_stage (sample_history ! i)) = Branching
    \<and> stage_arity sample_profile (hr_stage (sample_history ! j)) = Correction
    \<and> read_sealed_run (\<lambda>_. ''h'') sample_files (sample_history ! i) = Inr s
    \<and> extract_convergence (sr_final_response s) None = Inr rc
    \<and> cc_prior_stage sample_context = Some (hr_stage (sample_history ! i))
    \<and> cc_prior_run_token sample_context = Some (hr_run_token (sample_history ! i))
    \<and> cc_prior_live sample_context = ids_of rc ''live'' \<and> cc_error sample_context = None"
proof (rule convergence_baseline)
  show "convergence_context (\<lambda>_. ''h'') sample_files sample_profile ''review'' sample_history
      = Inr (Some sample_context)" by code_simp
  show "cc_repeat sample_context" by code_simp
qed

end
