(* ===== verification/Execution.thy ===== *)
theory Execution
  imports Profile
begin

text \<open>
  \<open>orchestrator/execution.py\<close>: the opt-in execution plan.  A request names, for every stage that is
  not terminal, a role, a provider, a model and an effort; resolving it against a profile gives a
  plan, which is sealed into the input with its digest and restored from there.  The only policy
  the table knows is \<open>execution-v1\<close>.  \<open>sha\<close> is the hex digest.
\<close>

section \<open>Data\<close>

definition EXECUTION_SCHEMA_VERSION :: int where "EXECUTION_SCHEMA_VERSION = 1"
definition EFFORTS :: "string list" where "EFFORTS = [''low'', ''medium'', ''high'']"
definition DEFAULT_POLICY :: string where "DEFAULT_POLICY = ''execution-v1''"
definition POLICIES :: "string list" where "POLICIES = [DEFAULT_POLICY]"

definition ROLE_PROVIDERS :: "(string \<times> string) list" where
  "ROLE_PROVIDERS = [(''executor'', ''codex''), (''reviewer'', ''claude'')]"

definition MODEL_LOCKS :: "(string \<times> string) list" where
  "MODEL_LOCKS = [(''reviewer'', ''claude-fable-5-1'')]"

definition PLAN_BEGIN :: string where "PLAN_BEGIN = ''<!-- orch-execution-plan:v1 -->''"
definition PLAN_END :: string where "PLAN_END = ''<!-- /orch-execution-plan -->''"

datatype exec_error =
    ExpectedObject string
  | KeySet string "string list" "string list"
  | BadToken string
  | ExecInvalidJson
  | StagesNotObjects
  | UnsupportedPolicy json
  | PolicyTypeError
  | ExecSchemaVersion
  | NotPathSafe
  | UnsupportedRole string
  | RoleProviderDisagrees string
  | UnsupportedEffort string
  | ModelLocked string string
  | SnapshotStages
  | InconsistentProvenance string string
  | InconsistentDefaults
  | PlanHashMismatch
  | PlanNotPrefix
  | PlanMalformed

record exec_choice =
  ec_role :: string
  ec_provider :: string
  ec_requested_model :: "string option"
  ec_requested_effort :: "string option"
  ec_model :: string
  ec_effort :: string

record exec_plan =
  ep_logical_work_id :: string
  ep_spec_series_id :: string
  ep_stages :: "(string \<times> exec_choice) list"
  ep_defaults_digest :: "string option"
  ep_policy_version :: "string option"

section \<open>Checks\<close>

definition token_re :: "string \<Rightarrow> bool" where
  "token_re s \<longleftrightarrow>
     (case s of [] \<Rightarrow> False
      | c # cs \<Rightarrow> is_alnum c \<and> length cs \<le> 199 \<and> list_all (\<lambda>d. is_alnum d \<or> d \<in> set ''._:/-'') cs)"

definition identity_re :: "string \<Rightarrow> bool" where
  "identity_re s \<longleftrightarrow>
     (case s of [] \<Rightarrow> False
      | c # cs \<Rightarrow> is_alnum c \<and> length cs \<le> 127 \<and> list_all (\<lambda>d. is_alnum d \<or> d \<in> set ''_-'') cs)"

definition exec_keys :: "json \<Rightarrow> string list \<Rightarrow> string list \<Rightarrow> string \<Rightarrow> (exec_error, (string \<times> json) list) res" where
  "exec_keys v required optional label =
     (case v of
        JObj kvs \<Rightarrow>
          (let missing = filter (\<lambda>k. k \<notin> set (map fst kvs)) required;
               unknown = filter (\<lambda>k. k \<notin> set required \<and> k \<notin> set optional) (map fst kvs)
           in check (missing = [] \<and> unknown = []) (KeySet label (sorted_set missing) (sorted_set unknown)) (Inr kvs))
      | _ \<Rightarrow> Inl (ExpectedObject label))"

definition exec_token :: "json \<Rightarrow> string \<Rightarrow> (exec_error, string) res" where
  "exec_token v label =
     (case v of JStr s \<Rightarrow> check (token_re s) (BadToken label) (Inr s) | _ \<Rightarrow> Inl (BadToken label))"

fun is_obj :: "json \<Rightarrow> bool" where
  "is_obj (JObj _) = True" | "is_obj _ = False"

definition parse_request :: "string \<Rightarrow> (exec_error, (string \<times> json) list) res" where
  "parse_request t =
     (case loads_unique t of
        None \<Rightarrow> Inl ExecInvalidJson
      | Some v \<Rightarrow>
        bindR (exec_keys v [''schema_version'', ''logical_work_id'', ''spec_series_id'', ''stages''] [] ''execution'')
          (\<lambda>req. case jget req ''stages'' of
             JObj stages \<Rightarrow> check (list_all (\<lambda>(k, s). is_obj s) stages) StagesNotObjects (Inr req)
           | _ \<Rightarrow> Inl StagesNotObjects))"

section \<open>Plans\<close>

definition source_of :: "string option \<Rightarrow> string" where
  "source_of r = (if r = None then ''role_default'' else ''explicit'')"

definition choice_to_dict :: "exec_choice \<Rightarrow> json" where
  "choice_to_dict c = JObj
     [(''role'', JStr (ec_role c)), (''provider'', JStr (ec_provider c)),
      (''requested_model'', jopt_str (ec_requested_model c)),
      (''requested_effort'', jopt_str (ec_requested_effort c)),
      (''model'', JStr (ec_model c)), (''effort'', JStr (ec_effort c)),
      (''model_source'', JStr (source_of (ec_requested_model c))),
      (''effort_source'', JStr (source_of (ec_requested_effort c)))]"

definition plan_to_dict :: "exec_plan \<Rightarrow> json" where
  "plan_to_dict p = JObj
     ([(''schema_version'', JInt EXECUTION_SCHEMA_VERSION),
       (''logical_work_id'', JStr (ep_logical_work_id p)),
       (''spec_series_id'', JStr (ep_spec_series_id p)),
       (''defaults_digest'', jopt_str (ep_defaults_digest p)),
       (''stages'', JObj (map (\<lambda>(n, c). (n, choice_to_dict c)) (ep_stages p)))]
      @ (case ep_policy_version p of None \<Rightarrow> [] | Some v \<Rightarrow> [(''policy_version'', JStr v)]))"

definition plan_digest :: "(string \<Rightarrow> string) \<Rightarrow> exec_plan \<Rightarrow> string" where
  "plan_digest sha p = sha (canonical_json (plan_to_dict p))"

text \<open>\<open>config.get(field, fallback.get(field))\<close>.\<close>

definition config_or_default :: "(string \<times> json) list \<Rightarrow> (string \<times> json) list \<Rightarrow> string \<Rightarrow> json" where
  "config_or_default config fallback field =
     (case map_of config field of Some v \<Rightarrow> v | None \<Rightarrow> jget fallback field)"

definition lock_ok :: "string \<Rightarrow> string \<Rightarrow> bool" where
  "lock_ok role model \<longleftrightarrow> (case map_of MODEL_LOCKS role of None \<Rightarrow> True | Some locked \<Rightarrow> model = locked)"

definition resolve_choice ::
  "profile \<Rightarrow> (string \<times> (string \<times> json) list) list \<Rightarrow> string \<Rightarrow> (string \<times> json) list \<Rightarrow> (exec_error, exec_choice) res" where
  "resolve_choice p defaults name config =
     (case jget config ''role'' of
        JStr role \<Rightarrow>
          (case map_of ROLE_PROVIDERS role of
             None \<Rightarrow> Inl (UnsupportedRole name)
           | Some provider \<Rightarrow>
             check (jget config ''provider'' = JStr provider
                  \<and> (case profile_stage p name of Inl _ \<Rightarrow> False | Inr s \<Rightarrow> st_owner s = Some provider))
               (RoleProviderDisagrees name)
               (let fallback = (case map_of defaults role of None \<Rightarrow> [] | Some f \<Rightarrow> f) in
                bindR (exec_token (config_or_default config fallback ''model'') (''stage '' @ name @ ''.model''))
                 (\<lambda>model.
                   case config_or_default config fallback ''effort'' of
                     JStr effort \<Rightarrow>
                       check (effort \<in> set EFFORTS) (UnsupportedEffort name)
                         (check (lock_ok role model) (ModelLocked name role)
                            (Inr \<lparr>ec_role = role, ec_provider = provider,
                                  ec_requested_model = as_str (jget config ''model''),
                                  ec_requested_effort = as_str (jget config ''effort''),
                                  ec_model = model, ec_effort = effort\<rparr>))
                   | _ \<Rightarrow> Inl (UnsupportedEffort name))))
      | _ \<Rightarrow> Inl (UnsupportedRole name))"

fun resolve_stages ::
  "profile \<Rightarrow> (string \<times> (string \<times> json) list) list \<Rightarrow> (string \<times> json) list \<Rightarrow> (exec_error, (string \<times> exec_choice) list) res" where
  "resolve_stages p defaults [] = Inr []"
| "resolve_stages p defaults ((name, config) # rest) =
     bindR (exec_keys config [''role'', ''provider''] [''model'', ''effort''] (''stage '' @ name))
       (\<lambda>kvs. bindR (resolve_choice p defaults name kvs)
         (\<lambda>c. bindR (resolve_stages p defaults rest) (\<lambda>cs. Inr ((name, c) # cs))))"

definition nonterminal_stages :: "profile \<Rightarrow> string list" where
  "nonterminal_stages p =
     map fst (filter (\<lambda>(n, s). \<not> (case st_terminal s of None \<Rightarrow> False | Some t \<Rightarrow> t \<noteq> [])) (pf_stages p))"

definition used_default :: "(string \<times> exec_choice) list \<Rightarrow> bool" where
  "used_default cs = list_ex (\<lambda>(n, c). ec_requested_model c = None \<or> ec_requested_effort c = None) cs"

definition defaults_json :: "(string \<times> (string \<times> json) list) list \<Rightarrow> json" where
  "defaults_json defaults = JObj (map (\<lambda>(k, f). (k, JObj f)) defaults)"

definition policy_of :: "(string \<times> json) list \<Rightarrow> (exec_error, unit) res" where
  "policy_of request =
     (case map_of request ''policy_version'' of
        None \<Rightarrow> Inr ()
      | Some (JStr v) \<Rightarrow> check (v \<in> set POLICIES) (UnsupportedPolicy (JStr v)) (Inr ())
      | Some (JArr xs) \<Rightarrow> Inl PolicyTypeError
      | Some (JObj kvs) \<Rightarrow> Inl PolicyTypeError
      | Some v \<Rightarrow> Inl (UnsupportedPolicy v))"

definition resolve_request ::
  "(string \<Rightarrow> string) \<Rightarrow> json \<Rightarrow> profile \<Rightarrow> (string \<times> (string \<times> json) list) list \<Rightarrow> (exec_error, exec_plan) res" where
  "resolve_request sha req p defaults =
     bindR (exec_keys req [''schema_version'', ''logical_work_id'', ''spec_series_id'', ''stages''] [''policy_version''] ''execution'')
      (\<lambda>request. bindR (policy_of request)
       (\<lambda>_. check (jget request ''schema_version'' = JInt EXECUTION_SCHEMA_VERSION) ExecSchemaVersion
        (bindR (exec_token (jget request ''logical_work_id'') ''logical_work_id'')
         (\<lambda>work. bindR (exec_token (jget request ''spec_series_id'') ''spec_series_id'')
          (\<lambda>series. check (identity_re work \<and> identity_re series) NotPathSafe
           (bindR (exec_keys (jget request ''stages'') (nonterminal_stages p) [] ''stages'')
            (\<lambda>stages. bindR (resolve_stages p defaults stages)
             (\<lambda>resolved. Inr
               \<lparr>ep_logical_work_id = work, ep_spec_series_id = series, ep_stages = resolved,
                ep_defaults_digest = (if used_default resolved then Some (sha (canonical_json (defaults_json defaults))) else None),
                ep_policy_version = None\<rparr>))))))))"

section \<open>Sealing and restoring\<close>

definition check_provenance :: "string \<Rightarrow> (string \<times> json) list \<Rightarrow> string \<Rightarrow> (exec_error, unit) res" where
  "check_provenance name item field =
     (let requested = jget item (''requested_'' @ field);
          source = (if requested \<noteq> JNull then ''explicit'' else ''role_default'')
      in check (jget item (field @ ''_source'') = JStr source \<and> (requested = JNull \<or> requested = jget item field))
           (InconsistentProvenance name field) (Inr ()))"

fun restore_stages :: "(string \<times> json) list \<Rightarrow> (exec_error, (string \<times> json) list) res" where
  "restore_stages [] = Inr []"
| "restore_stages ((name, v) # rest) =
     bindR (exec_keys v [''role'', ''provider'', ''requested_model'', ''requested_effort'', ''model'', ''effort'',
                         ''model_source'', ''effort_source''] [] name)
       (\<lambda>item. bindR (check_provenance name item ''model'')
         (\<lambda>_. bindR (check_provenance name item ''effort'')
           (\<lambda>_. bindR (restore_stages rest)
             (\<lambda>rs. Inr ((name, JObj (map (\<lambda>k. (k, jget item k)) [''role'', ''provider'', ''model'', ''effort''])) # rs)))))"

definition restored_choice :: "(string \<times> json) list \<Rightarrow> string \<times> exec_choice \<Rightarrow> string \<times> exec_choice" where
  "restored_choice stages nc =
     (case nc of (name, c) \<Rightarrow>
       (case jget stages name of
          JObj item \<Rightarrow> (name, c\<lparr>ec_requested_model := as_str (jget item ''requested_model''),
                               ec_requested_effort := as_str (jget item ''requested_effort'')\<rparr>)
        | _ \<Rightarrow> (name, c)))"

definition hex64 :: "string \<Rightarrow> bool" where
  "hex64 s \<longleftrightarrow> length s = 64 \<and> list_all is_hex_lower s"

definition restore_plan :: "(string \<Rightarrow> string) \<Rightarrow> json \<Rightarrow> profile \<Rightarrow> json \<Rightarrow> (exec_error, exec_plan) res" where
  "restore_plan sha v p expected_digest =
     bindR (exec_keys v [''schema_version'', ''logical_work_id'', ''spec_series_id'', ''stages'', ''defaults_digest''] [''policy_version''] ''snapshot'')
      (\<lambda>data. case jget data ''stages'' of
         JObj stages \<Rightarrow>
          bindR (restore_stages stages)
           (\<lambda>rs. bindR (resolve_request sha
                  (JObj (filter (\<lambda>(k, x). k \<noteq> ''stages'' \<and> k \<noteq> ''defaults_digest'') data @ [(''stages'', JObj rs)])) p [])
            (\<lambda>checked.
              let restored = map (restored_choice stages) (ep_stages checked);
                  digest = jget data ''defaults_digest'';
                  bad = (if used_default restored
                         then \<not> (case digest of JStr h \<Rightarrow> hex64 h | _ \<Rightarrow> False) else digest \<noteq> JNull)
              in check (\<not> bad) InconsistentDefaults
                  (let plan = \<lparr>ep_logical_work_id = ep_logical_work_id checked,
                               ep_spec_series_id = ep_spec_series_id checked, ep_stages = restored,
                               ep_defaults_digest = as_str digest, ep_policy_version = ep_policy_version checked\<rparr>
                   in check (JStr (plan_digest sha plan) = expected_digest) PlanHashMismatch (Inr plan))))
       | _ \<Rightarrow> Inl SnapshotStages)"

definition render_plan :: "(string \<Rightarrow> string) \<Rightarrow> exec_plan \<Rightarrow> json option \<Rightarrow> json option \<Rightarrow> string" where
  "render_plan sha plan review session =
     (let data = [(''plan'', plan_to_dict plan), (''digest'', JStr (plan_digest sha plan))]
                 @ (case review of None \<Rightarrow> [] | Some r \<Rightarrow> [(''review'', r)])
                 @ (case session of None \<Rightarrow> [] | Some s \<Rightarrow> [(''session'', s)])
      in PLAN_BEGIN @ [nl] @ dumps_line (sort_keys (JObj data)) @ [nl] @ PLAN_END @ [nl])"

definition extract_plan :: "(string \<Rightarrow> string) \<Rightarrow> string \<Rightarrow> profile \<Rightarrow> (exec_error, exec_plan option) res" where
  "extract_plan sha t p =
     (if \<not> contains_sub PLAN_BEGIN t \<and> \<not> contains_sub PLAN_END t then Inr None
      else check (starts_with (PLAN_BEGIN @ [nl]) t \<and> count_sub PLAN_BEGIN t = 1 \<and> count_sub PLAN_END t = 1) PlanNotPrefix
        (let closing = [nl] @ PLAN_END @ [nl];
             (raw, found, tail) = partition_sub closing (drop (length PLAN_BEGIN + 1) t)
         in check (tail \<noteq> [] \<or> starts_with (rev closing) (rev t)) PlanMalformed
           (case loads_unique raw of
              None \<Rightarrow> Inl ExecInvalidJson
            | Some v \<Rightarrow>
              bindR (exec_keys v [''plan'', ''digest''] [''review'', ''session''] ''execution frame'')
                (\<lambda>frame. bindR (restore_plan sha (jget frame ''plan'') p (jget frame ''digest'')) (\<lambda>pl. Inr (Some pl))))))"

text \<open>\<open>review_context\<close>; \<open>None\<close> also where the field is absent or the decoding would raise.\<close>

definition review_context :: "string \<Rightarrow> string \<Rightarrow> json option" where
  "review_context t field =
     (if \<not> starts_with (PLAN_BEGIN @ [nl]) t then None
      else case loads_unique (fst (partition_sub ([nl] @ PLAN_END @ [nl]) (drop (length PLAN_BEGIN + 1) t))) of
          Some (JObj kvs) \<Rightarrow> (case jget kvs field of JNull \<Rightarrow> None | v \<Rightarrow> Some v)
        | _ \<Rightarrow> None)"

section \<open>A resolved plan restores to itself\<close>

definition choice_ok :: "profile \<Rightarrow> string \<Rightarrow> exec_choice \<Rightarrow> bool" where
  "choice_ok p name c \<longleftrightarrow>
     map_of ROLE_PROVIDERS (ec_role c) = Some (ec_provider c)
   \<and> (\<exists>s. profile_stage p name = Inr s \<and> st_owner s = Some (ec_provider c))
   \<and> token_re (ec_model c) \<and> ec_effort c \<in> set EFFORTS
   \<and> lock_ok (ec_role c) (ec_model c)
   \<and> ec_requested_model c \<in> {None, Some (ec_model c)} \<and> ec_requested_effort c \<in> {None, Some (ec_effort c)}"

definition plan_ok :: "profile \<Rightarrow> exec_plan \<Rightarrow> bool" where
  "plan_ok p plan \<longleftrightarrow>
     token_re (ep_logical_work_id plan) \<and> identity_re (ep_logical_work_id plan)
   \<and> token_re (ep_spec_series_id plan) \<and> identity_re (ep_spec_series_id plan)
   \<and> distinct (map fst (ep_stages plan))
   \<and> set (map fst (ep_stages plan)) = set (nonterminal_stages p)
   \<and> (\<forall>(n, c) \<in> set (ep_stages plan). choice_ok p n c)
   \<and> ep_policy_version plan = None
   \<and> (if used_default (ep_stages plan) then pred_option hex64 (ep_defaults_digest plan) \<and> ep_defaults_digest plan \<noteq> None
      else ep_defaults_digest plan = None)"

lemma exec_keys_Inr:
  "exec_keys v req opt l = Inr kvs \<longleftrightarrow>
     v = JObj kvs \<and> set req \<subseteq> set (map fst kvs) \<and> set (map fst kvs) \<subseteq> set req \<union> set opt"
  by (cases v) (auto simp: exec_keys_def check_Inr_iff filter_empty_conv)

lemma exec_token_Inr: "exec_token v l = Inr s \<longleftrightarrow> v = JStr s \<and> token_re s"
  by (cases v) (auto simp: exec_token_def check_Inr_iff)

lemma config_requested:
  "config_or_default config fallback f = JStr x \<Longrightarrow> as_str (jget config f) \<in> {None, Some x}"
  by (auto simp: config_or_default_def jget_def split: option.splits)

lemma resolve_choice_ok: "resolve_choice p defaults n config = Inr c \<Longrightarrow> choice_ok p n c"
proof -
  assume r: "resolve_choice p defaults n config = Inr c"
  then obtain role where role: "jget config ''role'' = JStr role"
    by (cases "jget config ''role''") (simp_all add: resolve_choice_def)
  with r obtain provider where pr: "map_of ROLE_PROVIDERS role = Some provider"
    by (cases "map_of ROLE_PROVIDERS role") (simp_all add: resolve_choice_def)
  define fb where "fb = (case map_of defaults role of None \<Rightarrow> [] | Some f \<Rightarrow> f)"
  obtain effort where ef: "config_or_default config fb ''effort'' = JStr effort"
    using r role pr by (cases "config_or_default config fb ''effort''")
      (auto simp: resolve_choice_def Let_def check_Inr_iff bindR_Inr_iff fb_def)
  from r role pr ef show ?thesis
    using config_requested [of config fb "''model''"] config_requested [OF ef]
    by (auto simp: resolve_choice_def Let_def check_Inr_iff bindR_Inr_iff exec_token_Inr choice_ok_def
        fb_def [symmetric] split: sum.splits)
qed

lemma resolve_stages_ok:
  "resolve_stages p defaults stages = Inr cs \<Longrightarrow> map fst cs = map fst stages \<and> (\<forall>(n, c) \<in> set cs. choice_ok p n c)"
proof (induction p defaults stages arbitrary: cs rule: resolve_stages.induct)
  case (2 p defaults name config rest)
  then show ?case by (fastforce simp: bindR_Inr_iff dest: resolve_choice_ok)
qed simp

lemma resolve_request_ok:
  assumes "resolve_request sha req p defaults = Inr plan" "wf_json req" "\<And>s. hex64 (sha s)"
  shows "plan_ok p plan"
proof -
  from assms(1) obtain request work series stages resolved where
    req: "req = JObj request"
    and w: "token_re work" "token_re series" "identity_re work" "identity_re series"
    and st: "jget request ''stages'' = JObj stages" "set (map fst stages) = set (nonterminal_stages p)"
    and rs: "resolve_stages p defaults stages = Inr resolved"
    and plan: "plan = \<lparr>ep_logical_work_id = work, ep_spec_series_id = series, ep_stages = resolved,
                ep_defaults_digest = (if used_default resolved then Some (sha (canonical_json (defaults_json defaults))) else None),
                ep_policy_version = None\<rparr>"
    unfolding resolve_request_def bindR_Inr_iff check_Inr_iff exec_token_Inr exec_keys_Inr
    by (auto simp: subset_antisym)
  have "distinct (map fst stages)" using assms(2) req st wf_json_jget [of request "''stages''"] by simp
  with resolve_stages_ok [OF rs] w st plan assms(3) show ?thesis by (auto simp: plan_ok_def)
qed

lemma resolve_explicit:
  assumes "choice_ok p n c"
  shows "resolve_choice p [] n
      [(''role'', JStr (ec_role c)), (''provider'', JStr (ec_provider c)),
       (''model'', JStr (ec_model c)), (''effort'', JStr (ec_effort c))]
    = Inr (c\<lparr>ec_requested_model := Some (ec_model c), ec_requested_effort := Some (ec_effort c)\<rparr>)"
  using assms
  by (auto simp: resolve_choice_def choice_ok_def jget_def config_or_default_def exec_token_def Let_def)

lemma choice_dict_simps:
  "jget [(''role'', a), (''provider'', b), (''requested_model'', c), (''requested_effort'', d),
         (''model'', e), (''effort'', f), (''model_source'', g), (''effort_source'', h)] k =
   (if k = ''role'' then a else if k = ''provider'' then b else if k = ''requested_model'' then c
    else if k = ''requested_effort'' then d else if k = ''model'' then e else if k = ''effort'' then f
    else if k = ''model_source'' then g else if k = ''effort_source'' then h else JNull)"
  by (auto simp: jget_def)

lemma restore_stages_dict:
  "\<forall>(n, c) \<in> set cs. choice_ok p n c \<Longrightarrow>
   restore_stages (map (\<lambda>(n, c). (n, choice_to_dict c)) cs) =
     Inr (map (\<lambda>(n, c). (n, JObj [(''role'', JStr (ec_role c)), (''provider'', JStr (ec_provider c)),
        (''model'', JStr (ec_model c)), (''effort'', JStr (ec_effort c))])) cs)"
proof (induction cs)
  case (Cons nc cs)
  obtain n c where nc: "nc = (n, c)" by force
  with Cons.prems have c: "ec_requested_model c \<in> {None, Some (ec_model c)}"
    "ec_requested_effort c \<in> {None, Some (ec_effort c)}" by (auto simp: choice_ok_def)
  let ?kvs = "[(''role'', JStr (ec_role c)), (''provider'', JStr (ec_provider c)),
      (''requested_model'', jopt_str (ec_requested_model c)),
      (''requested_effort'', jopt_str (ec_requested_effort c)),
      (''model'', JStr (ec_model c)), (''effort'', JStr (ec_effort c)),
      (''model_source'', JStr (source_of (ec_requested_model c))),
      (''effort_source'', JStr (source_of (ec_requested_effort c)))]"
  have k: "exec_keys (choice_to_dict c) [''role'', ''provider'', ''requested_model'', ''requested_effort'', ''model'',
      ''effort'', ''model_source'', ''effort_source''] [] n = Inr ?kvs"
    unfolding exec_keys_Inr by (simp add: choice_to_dict_def)
  have pv: "check_provenance n ?kvs ''model'' = Inr ()" "check_provenance n ?kvs ''effort'' = Inr ()"
    using c by (auto simp: check_provenance_def choice_dict_simps jopt_str_def source_of_def Let_def)
  show ?case using Cons nc k pv by (simp add: choice_dict_simps)
qed simp

lemma resolve_stages_explicit:
  "\<forall>(n, c) \<in> set cs. choice_ok p n c \<Longrightarrow>
   resolve_stages p [] (map (\<lambda>(n, c). (n, JObj [(''role'', JStr (ec_role c)), (''provider'', JStr (ec_provider c)),
        (''model'', JStr (ec_model c)), (''effort'', JStr (ec_effort c))])) cs)
   = Inr (map (\<lambda>(n, c). (n, c\<lparr>ec_requested_model := Some (ec_model c), ec_requested_effort := Some (ec_effort c)\<rparr>)) cs)"
proof (induction cs)
  case (Cons nc cs)
  obtain n c where nc: "nc = (n, c)" by force
  let ?kvs = "[(''role'', JStr (ec_role c)), (''provider'', JStr (ec_provider c)),
        (''model'', JStr (ec_model c)), (''effort'', JStr (ec_effort c))]"
  have "exec_keys (JObj ?kvs) [''role'', ''provider''] [''model'', ''effort''] (''stage '' @ n) = Inr ?kvs"
    unfolding exec_keys_Inr by simp
  with Cons nc resolve_explicit [of p n c] show ?case by simp
qed simp

lemma restored_choices:
  "distinct (map fst cs) \<Longrightarrow> set xs \<subseteq> set cs \<Longrightarrow>
   map (restored_choice (map (\<lambda>(n, c). (n, choice_to_dict c)) cs))
     (map (\<lambda>(n, c). (n, c\<lparr>ec_requested_model := Some (ec_model c), ec_requested_effort := Some (ec_effort c)\<rparr>)) xs)
   = xs"
proof (induction xs)
  case (Cons nc xs)
  obtain n c where nc: "nc = (n, c)" by force
  have "map_of (map (\<lambda>(n, c). (n, choice_to_dict c)) cs) n = map_option choice_to_dict (map_of cs n)"
    by (induction cs) auto
  moreover have "map_of cs n = Some c" using Cons.prems nc by simp
  ultimately have j: "jget (map (\<lambda>(n, c). (n, choice_to_dict c)) cs) n = choice_to_dict c"
    by (simp add: jget_def)
  have s: "as_str (jopt_str x) = x" for x by (cases x) (simp_all add: jopt_str_def)
  have "restored_choice (map (\<lambda>(n, c). (n, choice_to_dict c)) cs)
      (n, c\<lparr>ec_requested_model := Some (ec_model c), ec_requested_effort := Some (ec_effort c)\<rparr>) = (n, c)"
    by (simp add: restored_choice_def j) (simp add: choice_to_dict_def choice_dict_simps s)
  with Cons nc show ?case by simp
qed simp

section \<open>Properties\<close>

text \<open>C37: Sealing a resolved plan and restoring it gives the same plan back, without consulting the
  defaults again: for every request that resolves, the dictionary of its plan, restored against the
  same profile and the plan's own digest, is that very plan, with the provenance of each model and
  effort intact.\<close>

theorem resolve_then_restore:
  assumes "resolve_request sha req p defaults = Inr plan" and "wf_json req" and "\<And>s. hex64 (sha s)"
  shows "restore_plan sha (plan_to_dict plan) p (JStr (plan_digest sha plan)) = Inr plan"
proof -
  have ok: "plan_ok p plan" by (rule resolve_request_ok [OF assms])
  let ?cs = "ep_stages plan"
  let ?st = "map (\<lambda>(n, c). (n, choice_to_dict c)) ?cs"
  let ?rs = "map (\<lambda>(n, c). (n, JObj [(''role'', JStr (ec_role c)), (''provider'', JStr (ec_provider c)),
        (''model'', JStr (ec_model c)), (''effort'', JStr (ec_effort c))])) ?cs"
  let ?full = "map (\<lambda>(n, c). (n, c\<lparr>ec_requested_model := Some (ec_model c), ec_requested_effort := Some (ec_effort c)\<rparr>)) ?cs"
  have cok: "\<forall>(n, c) \<in> set ?cs. choice_ok p n c" and d: "distinct (map fst ?cs)"
    and names: "set (map fst ?cs) = set (nonterminal_stages p)"
    using ok by (auto simp: plan_ok_def)
  let ?data = "[(''schema_version'', JInt EXECUTION_SCHEMA_VERSION),
       (''logical_work_id'', JStr (ep_logical_work_id plan)),
       (''spec_series_id'', JStr (ep_spec_series_id plan)),
       (''defaults_digest'', jopt_str (ep_defaults_digest plan)),
       (''stages'', JObj ?st)]"
  have dict: "plan_to_dict plan = JObj ?data" using ok by (simp add: plan_to_dict_def plan_ok_def)
  have k1: "exec_keys (JObj ?data) [''schema_version'', ''logical_work_id'', ''spec_series_id'', ''stages'', ''defaults_digest'']
      [''policy_version''] ''snapshot'' = Inr ?data"
    unfolding exec_keys_Inr by simp
  let ?req = "[(''schema_version'', JInt EXECUTION_SCHEMA_VERSION),
       (''logical_work_id'', JStr (ep_logical_work_id plan)),
       (''spec_series_id'', JStr (ep_spec_series_id plan)), (''stages'', JObj ?rs)]"
  have f: "filter (\<lambda>(k, x). k \<noteq> ''stages'' \<and> k \<noteq> ''defaults_digest'') ?data @ [(''stages'', JObj ?rs)] = ?req" by simp
  have k2: "exec_keys (JObj ?req) [''schema_version'', ''logical_work_id'', ''spec_series_id'', ''stages''] [''policy_version'']
      ''execution'' = Inr ?req"
    unfolding exec_keys_Inr by simp
  have "map fst ?rs = map fst ?cs" by (simp add: case_prod_unfold)
  then have k3: "exec_keys (JObj ?rs) (nonterminal_stages p) [] ''stages'' = Inr ?rs"
    unfolding exec_keys_Inr using names by (simp del: map_map)
  have nd: "\<not> used_default ?full" by (auto simp: used_default_def list_ex_iff)
  have rq: "resolve_request sha (JObj ?req) p [] = Inr
      \<lparr>ep_logical_work_id = ep_logical_work_id plan, ep_spec_series_id = ep_spec_series_id plan,
       ep_stages = ?full, ep_defaults_digest = None, ep_policy_version = None\<rparr>"
    unfolding resolve_request_def k2 bindR.simps
    using ok k3 resolve_stages_explicit [OF cok] nd
    by (simp add: policy_of_def jget_def exec_token_def plan_ok_def)
  have rc: "map (restored_choice ?st) ?full = ?cs" by (rule restored_choices [OF d subset_refl])
  have j: "jget ?data ''stages'' = JObj ?st" "jget ?data ''defaults_digest'' = jopt_str (ep_defaults_digest plan)"
    by (simp_all add: jget_def)
  have dd: "\<not> (if used_default ?cs
       then \<not> (case jopt_str (ep_defaults_digest plan) of JStr h \<Rightarrow> hex64 h | _ \<Rightarrow> False)
       else jopt_str (ep_defaults_digest plan) \<noteq> JNull)"
    using ok by (auto simp: plan_ok_def jopt_str_def split: if_splits)
  have s: "as_str (jopt_str x) = x" for x by (cases x) (simp_all add: jopt_str_def)
  have pl: "\<lparr>ep_logical_work_id = ep_logical_work_id plan, ep_spec_series_id = ep_spec_series_id plan,
      ep_stages = ?cs, ep_defaults_digest = ep_defaults_digest plan, ep_policy_version = None\<rparr> = plan"
    using ok by (simp add: plan_ok_def)
  show ?thesis
    unfolding dict restore_plan_def k1 bindR.simps j json.case restore_stages_dict [OF cok] f rq Let_def
      exec_plan.select_convs rc s pl
    using dd by simp
qed

definition sample_request :: json where
  "sample_request = JObj
     [(''schema_version'', JInt 1), (''logical_work_id'', JStr ''w1''), (''spec_series_id'', JStr ''s1''),
      (''stages'', JObj [(''review'', JObj [(''role'', JStr ''reviewer''), (''provider'', JStr ''claude''), (''effort'', JStr ''high'')]),
                         (''fix'', JObj [(''role'', JStr ''executor''), (''provider'', JStr ''codex''),
                                         (''model'', JStr ''gpt''), (''effort'', JStr ''low'')])])]"

definition sample_plan :: exec_plan where
  "sample_plan = \<lparr>ep_logical_work_id = ''w1'', ep_spec_series_id = ''s1'',
     ep_stages =
       [(''review'', \<lparr>ec_role = ''reviewer'', ec_provider = ''claude'', ec_requested_model = None,
                      ec_requested_effort = Some ''high'', ec_model = ''claude-fable-5-1'', ec_effort = ''high''\<rparr>),
        (''fix'', \<lparr>ec_role = ''executor'', ec_provider = ''codex'', ec_requested_model = Some ''gpt'',
                   ec_requested_effort = Some ''low'', ec_model = ''gpt'', ec_effort = ''low''\<rparr>)],
     ep_defaults_digest = Some (replicate 64 CHR ''0''), ep_policy_version = None\<rparr>"

lemma resolve_then_restore_witness:
  "restore_plan (\<lambda>_. replicate 64 CHR ''0'') (plan_to_dict sample_plan) sample_profile
     (JStr (plan_digest (\<lambda>_. replicate 64 CHR ''0'') sample_plan)) = Inr sample_plan"
proof (rule resolve_then_restore [where req = sample_request and
      defaults = "[(''reviewer'', [(''model'', JStr ''claude-fable-5-1'')])]"])
  show "resolve_request (\<lambda>_. replicate 64 CHR ''0'') sample_request sample_profile
      [(''reviewer'', [(''model'', JStr ''claude-fable-5-1'')])] = Inr sample_plan" by code_simp
  show "wf_json sample_request" by code_simp
  show "hex64 (replicate 64 CHR ''0'')" by code_simp
qed

end
