(* ===== verification/World.thy ===== *)
theory World
  imports Db Convergence Execution
begin

text \<open>
  The state the controller works on and its primitive steps: the database connection with its
  open transaction, the artifact files, the sources of fresh tokens and of time.  A transaction
  remembers the tables it started from; \<open>txn\<close> is the pattern \<open>BEGIN IMMEDIATE ... except
  BaseException: if in_transaction: ROLLBACK; raise\<close> that every state-changing operation uses.
  The environment record stands for what is outside the program: the hash, the clock, the token
  source, which file operations fail, how paths resolve, what the provider command looks like.
  The trajectory writer is called through the environment too, with the call it receives, the
  tables and the files; its own state, which starts as \<open>traj_start\<close>, is part of the transaction.
\<close>

section \<open>The world\<close>

record 't world =
  w_db :: db
  w_traj :: 't
  w_txn :: "(db \<times> 't) option"
  w_files :: "string \<Rightarrow> string option"
  w_dirs :: "string list"
  w_uuids :: nat
  w_ticks :: nat
  w_ios :: nat

text \<open>The calls the controller makes on the trajectory writer.\<close>

datatype traj_call =
    TBaseline string int
  | TCreated string int string string
  | TTransition string int
  | TClaimed string string
  | TSettled string string run_result
  | TUnsealed string string string int string

record 't env =
  sha :: "string \<Rightarrow> string"
  uuid_of :: "nat \<Rightarrow> string"
  time_of :: "nat \<Rightarrow> int"
  iso_of :: "nat \<Rightarrow> string"
  io_fails :: "nat \<Rightarrow> bool"
  resolve_path :: "string \<Rightarrow> string option"
  home :: string
  traj_start :: 't
  traj_do :: "traj_call \<Rightarrow> db \<Rightarrow> (string \<Rightarrow> string option) \<Rightarrow> 't \<Rightarrow> (string, 't) res"
  parity :: "bool \<Rightarrow> db \<Rightarrow> 't \<Rightarrow> string option"
  runner_model :: "string \<Rightarrow> string option"
  command_preview :: "string \<Rightarrow> string"

datatype ctl_error =
    TaskNotFound string
  | TypeMismatch string string
  | InputMissing
  | TaskIdReused string
  | ArtifactExists string
  | NotQueued string
  | TerminalQueued string
  | CasConflict
  | StateConflict
  | LeaseConflict
  | MissingEdge string
  | CannotResume string
  | ContainmentReview
  | CappedMissing
  | OtherTask string
  | Verify sealed_error
  | ProfileErr profile_error
  | PlanErr exec_error
  | EnvelopeErr envelope_error
  | DbErr db_error
  | OSErr
  | NotUtf8
  | TrajErr string
  | ParityErr string
  | PostCommitErr string
  | LogUnresolved
  | LogOutside
  | LogMissing
  | SealRefused boundary_error
  | KeyErr string
  | OperationalErr
  | AssertErr

type_synonym ('t, 'a) ctl = "('t world, ctl_error, 'a) st"

section \<open>Primitive steps\<close>

definition mapL :: "('e \<Rightarrow> 'f) \<Rightarrow> ('e, 'a) res \<Rightarrow> ('f, 'a) res" where
  "mapL f r = (case r of Inl e \<Rightarrow> Inl (f e) | Inr x \<Rightarrow> Inr x)"

text \<open>A statement: a failed one changes nothing.\<close>

definition stmt :: "(db \<Rightarrow> (db_error, db) res) \<Rightarrow> ('t, unit) ctl" where
  "stmt g = (\<lambda>w. case g (w_db w) of Inl e \<Rightarrow> (Inl (DbErr e), w) | Inr d \<Rightarrow> (Inr (), w\<lparr>w_db := d\<rparr>))"

definition stmt_count :: "(db \<Rightarrow> (db_error, db \<times> nat) res) \<Rightarrow> ('t, nat) ctl" where
  "stmt_count g =
     (\<lambda>w. case g (w_db w) of Inl e \<Rightarrow> (Inl (DbErr e), w) | Inr (d, n) \<Rightarrow> (Inr n, w\<lparr>w_db := d\<rparr>))"

text \<open>A query.\<close>

definition getD :: "(db \<Rightarrow> 'a) \<Rightarrow> ('t, 'a) ctl" where
  "getD q = (\<lambda>w. (Inr (q (w_db w)), w))"

definition now :: "'t env \<Rightarrow> ('t, int) ctl" where
  "now env = (\<lambda>w. (Inr (time_of env (w_ticks w)), w\<lparr>w_ticks := Suc (w_ticks w)\<rparr>))"

definition iso_now :: "'t env \<Rightarrow> ('t, string) ctl" where
  "iso_now env = (\<lambda>w. (Inr (iso_of env (w_ticks w)), w\<lparr>w_ticks := Suc (w_ticks w)\<rparr>))"

definition uuid4 :: "'t env \<Rightarrow> ('t, string) ctl" where
  "uuid4 env = (\<lambda>w. (Inr (uuid_of env (w_uuids w)), w\<lparr>w_uuids := Suc (w_uuids w)\<rparr>))"

text \<open>One operation of the file system, which may fail.\<close>

definition io :: "'t env \<Rightarrow> ('t world \<Rightarrow> 't world) \<Rightarrow> ('t, unit) ctl" where
  "io env act =
     (\<lambda>w. let w' = w\<lparr>w_ios := Suc (w_ios w)\<rparr> in
        if io_fails env (w_ios w) then (Inl OSErr, w') else (Inr (), act w'))"

definition set_file :: "string \<Rightarrow> string option \<Rightarrow> 't world \<Rightarrow> 't world" where
  "set_file path content w = w\<lparr>w_files := (w_files w)(path := content)\<rparr>"

definition append_text :: "'t env \<Rightarrow> string \<Rightarrow> string \<Rightarrow> ('t, unit) ctl" where
  "append_text env path t =
     io env (\<lambda>w. set_file path (Some ((case w_files w path of None \<Rightarrow> [] | Some old \<Rightarrow> old) @ t)) w)"

definition write_text :: "'t env \<Rightarrow> string \<Rightarrow> string \<Rightarrow> ('t, unit) ctl" where
  "write_text env path t = io env (set_file path (Some t))"

text \<open>A temporary name is drawn and the file replaced in one step.\<close>

definition atomic_write :: "'t env \<Rightarrow> string \<Rightarrow> string \<Rightarrow> ('t, unit) ctl" where
  "atomic_write env path bytes = bindS (uuid4 env) (\<lambda>tmp. io env (set_file path (Some bytes)))"

definition make_dir :: "'t env \<Rightarrow> string \<Rightarrow> ('t, unit) ctl" where
  "make_dir env path = io env (\<lambda>w. w\<lparr>w_dirs := (if path \<in> set (w_dirs w) then w_dirs w else path # w_dirs w)\<rparr>)"

definition below :: "string \<Rightarrow> string \<Rightarrow> bool" where
  "below path dir \<longleftrightarrow> path = dir \<or> starts_with (dir @ ''/'') path"

definition remove_tree :: "string \<Rightarrow> ('t, unit) ctl" where
  "remove_tree dir = modS (\<lambda>w. w\<lparr>w_files := (\<lambda>p. if below p dir then None else w_files w p),
                               w_dirs := filter (\<lambda>p. \<not> below p dir) (w_dirs w)\<rparr>)"

definition traj :: "'t env \<Rightarrow> traj_call \<Rightarrow> ('t, unit) ctl" where
  "traj env c =
     (\<lambda>w. case traj_do env c (w_db w) (w_files w) (w_traj w) of
        Inl e \<Rightarrow> (Inl (TrajErr e), w) | Inr t \<Rightarrow> (Inr (), w\<lparr>w_traj := t\<rparr>))"

text \<open>\<open>_trajectory_commit\<close>: a parity failure after the commit raises, but nothing is undone.\<close>

definition traj_commit :: "'t env \<Rightarrow> ('t, unit) ctl" where
  "traj_commit env =
     (\<lambda>w. case parity env False (w_db w) (w_traj w) of
        Some code \<Rightarrow> (Inl (ParityErr code), w)
      | None \<Rightarrow>
        let w' = w\<lparr>w_txn := None\<rparr> in
        (case parity env True (w_db w) (w_traj w) of
           Some code \<Rightarrow> (Inl (PostCommitErr code), w') | None \<Rightarrow> (Inr (), w')))"

definition rollback :: "'t world \<Rightarrow> 't world" where
  "rollback w = (case w_txn w of None \<Rightarrow> w | Some (d, t) \<Rightarrow> w\<lparr>w_db := d, w_traj := t, w_txn := None\<rparr>)"

definition begin_txn :: "('t, unit) ctl" where
  "begin_txn = (\<lambda>w. case w_txn w of Some s \<Rightarrow> (Inl OperationalErr, w)
                       | None \<Rightarrow> (Inr (), w\<lparr>w_txn := Some (w_db w, w_traj w)\<rparr>))"

definition txn :: "('t, 'a) ctl \<Rightarrow> ('t, 'a) ctl" where
  "txn body = thenS begin_txn (catchS body (\<lambda>e. thenS (modS rollback) (raiseS e)))"

section \<open>What the primitives leave alone\<close>

definition core :: "'t world \<Rightarrow> db \<times> 't \<times> (db \<times> 't) option" where
  "core w = (w_db w, w_traj w, w_txn w)"

definition tables :: "'t world \<Rightarrow> db \<times> (db \<times> 't) option" where
  "tables w = (w_db w, w_txn w)"

lemma quiet_core_tables: "quiet core m \<Longrightarrow> quiet tables m"
  by (auto simp: quiet_def core_def tables_def)

lemma quiet_now [quiet_intros]: "quiet core (now env)" "quiet w_txn (now env)"
  by (simp_all add: quiet_def now_def core_def)

lemma quiet_getD [quiet_intros]: "quiet core (getD q)" "quiet w_txn (getD q)"
  by (simp_all add: quiet_def getD_def core_def)

lemma quiet_iso_now [quiet_intros]: "quiet core (iso_now env)" "quiet w_txn (iso_now env)"
  by (simp_all add: quiet_def iso_now_def core_def)

lemma quiet_uuid4 [quiet_intros]: "quiet core (uuid4 env)" "quiet w_txn (uuid4 env)"
  by (simp_all add: quiet_def uuid4_def core_def)

lemma quiet_io: "(\<And>w. core (act w) = core w) \<Longrightarrow> quiet core (io env act)"
  by (simp add: quiet_def io_def Let_def) (simp add: core_def)

lemma core_set_file [simp]: "core (set_file path c w) = core w"
  by (simp add: core_def set_file_def)

lemma quiet_set_file [quiet_intros]:
  "quiet core (write_text env path t)" "quiet core (append_text env path t)" "quiet core (make_dir env path)"
  unfolding write_text_def append_text_def make_dir_def
  by (rule quiet_io, simp; fail | rule quiet_io, simp add: core_def)+

lemma quiet_atomic_write [quiet_intros]: "quiet core (atomic_write env path bytes)"
  unfolding atomic_write_def by (intro quiet_intros quiet_io) simp

lemma quiet_remove_tree [quiet_intros]: "quiet core (remove_tree dir)"
  by (simp add: quiet_def remove_tree_def core_def)

lemma quiet_traj [quiet_intros]: "quiet tables (traj env c)"
  by (auto simp: quiet_def traj_def tables_def split: sum.splits)

lemma quiet_tables_txn: "quiet tables m \<Longrightarrow> quiet w_txn m"
  by (auto simp: quiet_def tables_def)

lemma quiet_core_txn: "quiet core m \<Longrightarrow> quiet w_txn m"
  by (auto simp: quiet_def core_def)

lemma quiet_stmt [quiet_intros]: "quiet w_txn (stmt g)" "quiet w_txn (stmt_count h)"
  by (auto simp: quiet_def stmt_def stmt_count_def split: sum.splits)

lemma stmt_Inr: "stmt g w = (Inr u, w') \<longleftrightarrow> (\<exists>d. g (w_db w) = Inr d \<and> w' = w\<lparr>w_db := d\<rparr>)"
  by (auto simp: stmt_def split: sum.splits)

lemma stmt_count_Inr:
  "stmt_count g w = (Inr n, w') \<longleftrightarrow> (\<exists>d. g (w_db w) = Inr (d, n) \<and> w' = w\<lparr>w_db := d\<rparr>)"
  by (auto simp: stmt_count_def split: sum.splits prod.splits)

end
