(* ===== verification/Controller.thy ===== *)
theory Controller
  imports World
begin

text \<open>
  The lifecycle operations of \<open>orchestrator/controller.py\<close>: submitting a task, claiming a stage,
  committing a run, resuming, stopping for a cap, blocking an interrupted run, recording a failed
  preflight, quarantining, and the loop that drives a task until it stops.  Each operation is the
  sequence of statements, file operations and trajectory calls of the source, in its order.
\<close>

section \<open>Small helpers\<close>

definition path_join :: "string \<Rightarrow> string \<Rightarrow> string" where
  "path_join dir name = dir @ ''/'' @ name"

text \<open>The name of a path without its last suffix, and that suffix.\<close>

definition split_suffix :: "string \<Rightarrow> string \<times> string" where
  "split_suffix path =
     (let name = last (split_char CHR ''/'' path);
          ext = takeWhile (\<lambda>c. c \<noteq> CHR ''.'') (rev name)
      in if length ext + 1 < length name \<and> ext \<noteq> []
         then (take (length path - length ext - 1) path, CHR ''.'' # rev ext) else (path, []))"

definition with_suffix :: "string \<Rightarrow> string \<Rightarrow> string" where
  "with_suffix path new_suffix = fst (split_suffix path) @ new_suffix"

definition pad4 :: "int \<Rightarrow> string" where
  "pad4 n = (let s = str_of_int n in replicate (4 - length s) CHR ''0'' @ s)"

definition severity :: "string \<Rightarrow> string" where
  "severity reason =
     (if reason = ''done'' then ''info''
      else if reason \<in> set [''edge_cap'', ''transition_cap'', ''attempt_cap'', ''rate_limited''] then ''warn''
      else ''error'')"

definition or_text :: "string option \<Rightarrow> string option \<Rightarrow> string option" where
  "or_text a b = (if no_text a then b else a)"

definition the_text :: "string option \<Rightarrow> string \<Rightarrow> string" where
  "the_text a d = (if no_text a then d else the a)"

section \<open>Reading\<close>

definition task_of :: "string \<Rightarrow> ('t, task_row) ctl" where
  "task_of i = bindS (getD (\<lambda>d. find_task d i))
     (\<lambda>r. case r of None \<Rightarrow> raiseS (TaskNotFound i) | Some t \<Rightarrow> retS t)"

definition verify :: "'t env \<Rightarrow> string \<Rightarrow> string \<Rightarrow> string \<Rightarrow> ('t, unit) ctl" where
  "verify env path expected label =
     bindS (getS w_files) (\<lambda>fs. liftR (mapL Verify (verify_file (sha env) fs path (JStr expected) label)))"

definition profile_for :: "'t env \<Rightarrow> task_row \<Rightarrow> ('t, profile) ctl" where
  "profile_for env t =
     bindS (getS w_files)
       (\<lambda>fs. liftR (mapL ProfileErr
          (profile_from_snapshot (sha env) (t_profile_snapshot_path t) (fs (t_profile_snapshot_path t)) (t_profile_hash t))))"

text \<open>Reading the verified input strictly as UTF-8, then its envelope.\<close>

definition envelope_for_task :: "'t env \<Rightarrow> task_row \<Rightarrow> ('t, json option) ctl" where
  "envelope_for_task env t =
     thenS (verify env (t_input_snapshot_path t) (t_input_hash t) ''input snapshot'')
       (bindS (getS (\<lambda>w. w_files w (t_input_snapshot_path t)))
         (\<lambda>c. case c of
            None \<Rightarrow> raiseS OSErr
          | Some bytes \<Rightarrow> if \<not> utf8_valid bytes then raiseS NotUtf8
                         else liftR (mapL EnvelopeErr (extract_envelope bytes))))"

definition read_verified_input :: "'t env \<Rightarrow> string \<Rightarrow> ('t, string) ctl" where
  "read_verified_input env i =
     bindS (task_of i)
       (\<lambda>t. thenS (verify env (t_input_snapshot_path t) (t_input_hash t) ''input snapshot'')
         (bindS (getS (\<lambda>w. w_files w (t_input_snapshot_path t)))
           (\<lambda>c. case c of None \<Rightarrow> raiseS OSErr | Some bytes \<Rightarrow> retS (utf8_replace bytes))))"

text \<open>The cycle and attempt of the next run of a stage.\<close>

definition next_attempt :: "db \<Rightarrow> string \<Rightarrow> string \<Rightarrow> int \<times> int" where
  "next_attempt d task_id stage =
     (case latest_run (filter (\<lambda>r. r_stage r = stage) (runs_of d task_id)) of
        None \<Rightarrow> (1, 1)
      | Some r \<Rightarrow> if r_status r = ''paused'' then (r_cycle r, r_attempt r + 1) else (r_cycle r + 1, 1))"

section \<open>Transitions, notifications, evidence\<close>

definition insert_transition ::
  "'t env \<Rightarrow> string \<Rightarrow> string \<Rightarrow> string option \<Rightarrow> string option \<Rightarrow> string option \<Rightarrow> string option \<Rightarrow>
   string option \<Rightarrow> string option \<Rightarrow> string \<Rightarrow> string \<Rightarrow> ('t, int) ctl" where
  "insert_transition env task_id op run_token stage owner edge outcome from_status to_status reason =
     bindS (getD (\<lambda>d. next_seq d task_id))
       (\<lambda>seq. bindS (now env)
         (\<lambda>at. thenS (stmt (insert_transition_row
             \<lparr>x_task_id = task_id, x_seq = seq, x_operation_id = op, x_run_token = run_token, x_stage = stage,
              x_owner = owner, x_edge = edge, x_outcome = outcome, x_from_status = from_status,
              x_to_status = to_status, x_reason = Some reason, x_at = at\<rparr>))
           (retS seq)))"

text \<open>The line in the task's own log and the line in the inbox.\<close>

definition announce :: "'t env \<Rightarrow> string \<Rightarrow> int \<Rightarrow> string \<Rightarrow> string \<Rightarrow> ('t, unit) ctl" where
  "announce env task_id seq reason message =
     bindS (task_of task_id)
       (\<lambda>t. thenS (append_text env (path_join (t_artifact_dir t) ''notifications.jsonl'')
            (dumps_line (JObj [(''transition_seq'', JInt seq), (''reason'', JStr reason), (''message'', JStr message)]) @ [nl]))
         (bindS (iso_now env)
           (\<lambda>iso. append_text env (path_join (home env) ''inbox.md'')
              (''- '' @ iso @ '' type='' @ reason @ '' sev='' @ severity reason @ '' ref='' @ t_artifact_dir t
               @ '': '' @ message @ [nl]))))"

definition notify :: "'t env \<Rightarrow> string \<Rightarrow> int \<Rightarrow> string \<Rightarrow> string \<Rightarrow> ('t, unit) ctl" where
  "notify env task_id seq reason message =
     bindS (now env)
       (\<lambda>at. thenS (stmt (insert_notification
           \<lparr>n_task_id = task_id, n_transition_seq = seq, n_reason = reason, n_message = message, n_created_at = at\<rparr>))
         (announce env task_id seq reason message))"

definition transition_json :: "transition_row \<Rightarrow> json" where
  "transition_json x = JObj
     [(''seq'', JInt (x_seq x)), (''run_token'', jopt_str (x_run_token x)), (''stage'', jopt_str (x_stage x)),
      (''owner'', jopt_str (x_owner x)), (''edge'', jopt_str (x_edge x)), (''outcome'', jopt_str (x_outcome x)),
      (''from_status'', jopt_str (x_from_status x)), (''to_status'', JStr (x_to_status x)),
      (''reason'', jopt_str (x_reason x)), (''at'', JInt (x_at x))]"

definition notification_json :: "notification_row \<Rightarrow> json" where
  "notification_json n = JObj
     [(''transition_seq'', JInt (n_transition_seq n)), (''reason'', JStr (n_reason n)),
      (''message'', JStr (n_message n)), (''created_at'', JInt (n_created_at n))]"

text \<open>The last transition bound to the run, if any.\<close>

definition transition_of_run :: "transition_row list \<Rightarrow> string \<Rightarrow> transition_row option" where
  "transition_of_run xs tok = find (\<lambda>x. x_run_token x = Some tok \<and> tok \<noteq> []) (rev xs)"

definition evidence_stage :: "transition_row list \<Rightarrow> run_row \<Rightarrow> json" where
  "evidence_stage xs r = JObj
     [(''seq'', jopt_int (map_option x_seq (transition_of_run xs (r_run_token r)))),
      (''run_token'', JStr (r_run_token r)), (''stage'', JStr (r_stage r)), (''owner'', JStr (r_owner r)),
      (''model'', JStr (the_text (r_model r) ''unspecified'')), (''duration_ms'', jopt_int (r_duration_ms r)),
      (''preflight_status'', jopt_str (r_preflight_status r)), (''preflight_reason'', jopt_str (r_preflight_reason r)),
      (''status'', JStr (r_status r)), (''exit_code'', jopt_int (r_exit_code r)), (''outcome'', jopt_str (r_outcome r)),
      (''usage'', JObj [(''input_tokens'', r_usage_input r), (''output_tokens'', r_usage_output r),
                        (''total_tokens'', r_usage_total r), (''unavailable_reason'', jopt_str (r_usage_unavailable r))]),
      (''lease_token'', jopt_str (r_lease_token r)), (''sealed'', JBool (r_sealed r)),
      (''manifest_path'', jopt_str (r_manifest_path r)), (''manifest_hash'', jopt_str (r_manifest_hash r)),
      (''log_path'', JStr (r_log_path r)), (''started_at'', JInt (r_started_at r)), (''ended_at'', jopt_int (r_ended_at r))]"

definition evidence_payload :: "db \<Rightarrow> task_row \<Rightarrow> json" where
  "evidence_payload d t =
     (let xs = sort_key x_seq (transitions_of d (t_id t));
          rs = sort_key r_started_at (runs_of d (t_id t));
          ns = sort_key n_transition_seq (filter (\<lambda>n. n_task_id n = t_id t) (db_notifications d))
      in JObj
       [(''schema_version'', JInt 1), (''task_id'', JStr (t_id t)), (''status'', JStr (t_status t)),
        (''stop_reason'', jopt_str (t_stop_reason t)), (''profile_hash'', JStr (t_profile_hash t)),
        (''input_hash'', JStr (t_input_hash t)), (''profile_snapshot_path'', JStr (t_profile_snapshot_path t)),
        (''input_snapshot_path'', JStr (t_input_snapshot_path t)), (''artifact_dir'', JStr (t_artifact_dir t)),
        (''created_at'', JInt (t_created_at t)), (''ended_at'', JInt (t_updated_at t)),
        (''stages'', JArr (map (evidence_stage xs) rs)), (''transitions'', JArr (map transition_json xs)),
        (''notifications'', JArr (map notification_json ns))])"

definition write_evidence_index :: "'t env \<Rightarrow> string \<Rightarrow> ('t, unit) ctl" where
  "write_evidence_index env task_id =
     bindS (task_of task_id)
       (\<lambda>t. bindS (getD (\<lambda>d. d))
         (\<lambda>d. atomic_write env (path_join (t_artifact_dir t) ''evidence.json'') (dumps_pretty (evidence_payload d t))))"

section \<open>Sealing\<close>

definition seal_payload ::
  "'t env \<Rightarrow> task_row \<Rightarrow> run_row \<Rightarrow> run_result \<Rightarrow> string \<Rightarrow> int \<Rightarrow> string \<Rightarrow> (string \<times> json) list" where
  "seal_payload env t r result stage_name ended_at log =
     (let output_path = with_suffix (r_log_path r) ''.output.txt'';
          output_hash = sha env (rr_output result)
      in [(''schema_version'', JInt RUN_MANIFEST_SCHEMA_VERSION), (''task_id'', JStr (t_id t)),
          (''run_token'', JStr (r_run_token r)), (''lease_token'', jopt_str (r_lease_token r)),
          (''stage'', JStr stage_name), (''owner'', JStr (r_owner r)),
          (''classification'', JStr (rr_classification result)), (''reason'', JStr (rr_reason result)),
          (''outcome'', jopt_str (rr_outcome result)), (''exit_code'', jopt_int (rr_exit_code result)),
          (''timed_out'', JBool (rr_timed_out result)), (''log_path'', JStr (r_log_path r)),
          (''log_hash'', JStr (sha env log)), (''output_hash'', JStr output_hash),
          (''profile_hash'', JStr (t_profile_hash t)), (''input_hash'', JStr (t_input_hash t)),
          (''candidate_outcome'', jopt_str (rr_candidate_outcome result)),
          (''candidate_classification'', jopt_str (rr_candidate_classification result)),
          (''candidate_reason'', jopt_str (rr_candidate_reason result)),
          (''started_at'', JInt (r_started_at r)), (''ended_at'', JInt ended_at),
          (''output_path'', JStr output_path)]
         @ (if rr_execution_receipt result = JNull then [] else [(''execution_receipt'', rr_execution_receipt result)])
         @ (case rr_final_response result of
              None \<Rightarrow> [(''final_response_path'', JStr output_path), (''final_response_hash'', JStr output_hash)]
            | Some txt \<Rightarrow> [(''final_response_path'', JStr (with_suffix (r_log_path r) ''.final-response.txt'')),
                          (''final_response_hash'', JStr (sha env txt))])
         @ [(''final_response_separate'', JBool (rr_final_response result \<noteq> None)),
            (''final_response_source'', JStr (the_text (rr_final_response_source result) WHOLE_STREAM_PROTOCOL)),
            (''final_response_error'', jopt_str (rr_final_response_error result))])"

definition release_capture :: "'t env \<Rightarrow> run_result \<Rightarrow> ('t, unit) ctl" where
  "release_capture env result =
     whenS (\<not> no_text (rr_capture_path result) \<and> rr_final_response result \<noteq> None)
       (catchS (io env (set_file (the (rr_capture_path result)) None)) (\<lambda>e. retS ()))"

definition seal_run_manifest ::
  "'t env \<Rightarrow> task_row \<Rightarrow> run_row \<Rightarrow> run_result \<Rightarrow> string \<Rightarrow> int \<Rightarrow> ('t, string \<times> string) ctl" where
  "seal_run_manifest env t r result stage_name ended_at =
     (case (resolve_path env (r_log_path r), resolve_path env (t_artifact_dir t)) of
        (Some log, Some dir) \<Rightarrow>
          thenS (checkS (below log dir) LogOutside)
           (bindS (getS (\<lambda>w. w_files w (r_log_path r)))
             (\<lambda>c. case c of
                None \<Rightarrow> raiseS LogMissing
              | Some log_bytes \<Rightarrow>
                let payload = seal_payload env t r result stage_name ended_at log_bytes;
                    drift_path = with_suffix (r_log_path r) ''.containment-drift.json'';
                    manifest_path = with_suffix (r_log_path r) (snd (split_suffix (r_log_path r)) @ ''.manifest.json'')
                in thenS (atomic_write env (with_suffix (r_log_path r) ''.output.txt'') (rr_output result))
                  (thenS (case rr_final_response result of None \<Rightarrow> retS ()
                          | Some txt \<Rightarrow> atomic_write env (with_suffix (r_log_path r) ''.final-response.txt'') txt)
                    (thenS (case validate_sealed_boundary payload of
                              Inl e \<Rightarrow> raiseS (SealRefused e) | Inr b \<Rightarrow> retS ())
                      (bindS (getS (\<lambda>w. w_files w drift_path))
                        (\<lambda>drift. let encoded = dumps_pretty (JObj (payload @
                             (case drift of None \<Rightarrow> []
                              | Some bytes \<Rightarrow> [(''containment_evidence_path'', JStr drift_path),
                                              (''containment_evidence_hash'', JStr (sha env bytes))])))
                         in thenS (atomic_write env manifest_path encoded)
                             (thenS (release_capture env result)
                               (retS (manifest_path, sha env encoded)))))))))
      | _ \<Rightarrow> raiseS LogUnresolved)"

definition duration_ms :: "run_row \<Rightarrow> run_result \<Rightarrow> int \<Rightarrow> int" where
  "duration_ms r result at = (case rr_duration_ms result of Some d \<Rightarrow> d | None \<Rightarrow> max 0 (at - r_started_at r))"

definition usage_unavailable_reason :: "run_result \<Rightarrow> string option" where
  "usage_unavailable_reason result =
     (if rr_usage_input result \<noteq> JNull \<or> rr_usage_output result \<noteq> JNull \<or> rr_usage_total result \<noteq> JNull then None
      else Some (the_text (rr_usage_unavailable result) ''runner_usage_unavailable''))"

section \<open>Submitting\<close>

text \<open>The row of a new task; its owner is looked up inside the transaction.\<close>

definition submitted_task ::
  "string \<Rightarrow> profile \<Rightarrow> string \<Rightarrow> string \<Rightarrow> string \<Rightarrow> string \<Rightarrow> string \<Rightarrow> string option \<Rightarrow> int \<Rightarrow> task_row" where
  "submitted_task i p profile_hash input_hash profile_path input_path dir workspace at =
     \<lparr>t_id = i, t_type = pf_type p, t_status = ''queued'', t_stop_reason = None,
      t_current_stage = pf_initial_stage p, t_owner = None, t_revision = 0, t_profile_hash = profile_hash,
      t_input_hash = input_hash, t_profile_snapshot_path = profile_path, t_input_snapshot_path = input_path,
      t_artifact_dir = dir, t_transitions_count = 0, t_max_transitions = pf_max_transitions p,
      t_resume_allowance = 0, t_lease_token = None, t_created_at = at, t_updated_at = at,
      t_workspace_dir = workspace\<rparr>"

definition submit_body ::
  "'t env \<Rightarrow> profile \<Rightarrow> task_row \<Rightarrow> string option \<Rightarrow> int \<Rightarrow> ('t, unit) ctl" where
  "submit_body env p t operation_id at =
     bindS (liftR (mapL ProfileErr (profile_stage p (pf_initial_stage p))))
      (\<lambda>initial. thenS (stmt (insert_task (t\<lparr>t_owner := st_owner initial\<rparr>)))
      (thenS (forS (pf_edge_caps p)
          (\<lambda>(edge, cap). stmt (insert_edge \<lparr>e_task_id = t_id t, e_edge = edge, e_count = 0, e_cap = cap\<rparr>)))
       (bindS (if no_text operation_id then uuid4 env else retS (the operation_id))
         (\<lambda>op. bindS (insert_transition env (t_id t) op None None None None None None ''queued'' ''submitted'')
           (\<lambda>seq. thenS (traj env (TCreated (t_id t) at (t_profile_hash t) (t_input_hash t)))
             (thenS (traj env (TTransition (t_id t) seq)) (traj_commit env)))))))"

fun is_post_commit :: "ctl_error \<Rightarrow> bool" where
  "is_post_commit (PostCommitErr _) = True" | "is_post_commit _ = False"

definition prepare_artifacts ::
  "'t env \<Rightarrow> string \<Rightarrow> bool \<Rightarrow> string \<Rightarrow> string \<Rightarrow> string \<Rightarrow> string \<Rightarrow> ('t, unit) ctl" where
  "prepare_artifacts env dir idempotent profile_path profile_bytes input_path input_bytes =
     bindS (getS (\<lambda>w. dir \<in> set (w_dirs w)))
       (\<lambda>exists. thenS (whenS exists (thenS (checkS idempotent (ArtifactExists dir)) (remove_tree dir)))
         (thenS (make_dir env dir)
           (thenS (atomic_write env profile_path profile_bytes)
             (thenS (atomic_write env input_path input_bytes)
               (thenS (verify env profile_path (sha env profile_bytes) ''profile snapshot'')
                 (verify env input_path (sha env input_bytes) ''input snapshot''))))))"

text \<open>
  \<open>profile_data\<close> is what the profile file decodes to, \<open>input\<close> its bytes when the input is a file,
  \<open>sfx\<close> the suffix of its name, \<open>workspace\<close> the resolved workspace.
\<close>

definition submit ::
  "'t env \<Rightarrow> string \<Rightarrow> json \<Rightarrow> string option \<Rightarrow> string \<Rightarrow> string option \<Rightarrow> string option \<Rightarrow> string option \<Rightarrow> ('t, string) ctl" where
  "submit env task_type profile_data input sfx task_id operation_id workspace =
     bindS (liftR (mapL ProfileErr (validate_profile profile_data)))
      (\<lambda>p. thenS (checkS (pf_type p = task_type) (TypeMismatch task_type (pf_type p)))
       (case input of None \<Rightarrow> raiseS InputMissing
        | Some input_bytes \<Rightarrow>
          let profile_bytes = canonical_json (to_dict p);
              profile_hash = sha env profile_bytes;
              input_hash = sha env input_bytes
          in thenS (liftR (mapL PlanErr (extract_plan (sha env) (utf8_replace input_bytes) p)))
            (bindS (getD (\<lambda>d. case task_id of None \<Rightarrow> None | Some i \<Rightarrow> find_task d i))
              (\<lambda>existing. case existing of
                 Some t \<Rightarrow>
                   thenS (checkS (t_type t = task_type \<and> t_profile_hash t = profile_hash \<and> t_input_hash t = input_hash)
                            (TaskIdReused (t_id t)))
                     (retS (t_id t))
               | None \<Rightarrow>
                 bindS (case task_id of Some i \<Rightarrow> retS i | None \<Rightarrow> uuid4 env)
                  (\<lambda>i. let dir = path_join (path_join (home env) ''tasks'') i;
                          profile_path = path_join dir ''profile.snapshot.json'';
                          input_path = path_join dir (''input.snapshot'' @ sfx)
                   in thenS (prepare_artifacts env dir (task_id \<noteq> None) profile_path profile_bytes input_path input_bytes)
                     (bindS (now env)
                       (\<lambda>at. thenS
                           (catchS (txn (submit_body env p
                               (submitted_task i p profile_hash input_hash profile_path input_path dir workspace at)
                               operation_id at))
                             (\<lambda>e. thenS (whenS (\<not> is_post_commit e) (remove_tree dir)) (raiseS e)))
                           (retS i))))))))"

section \<open>Stopping for a cap\<close>

definition stop_for_cap :: "'t env \<Rightarrow> task_row \<Rightarrow> string \<Rightarrow> string \<Rightarrow> ('t, unit) ctl" where
  "stop_for_cap env t reason detail =
     bindS (uuid4 env)
      (\<lambda>op. bindS (insert_transition env (t_id t) op None (Some (t_current_stage t)) (t_owner t) None None
                (Some ''queued'') ''waiting_user'' reason)
       (\<lambda>seq. bindS (now env)
        (\<lambda>at. bindS (stmt_count (update_tasks (\<lambda>x. t_id x = t_id t)
             (\<lambda>x. x\<lparr>t_status := ''waiting_user'', t_stop_reason := Some reason, t_lease_token := None,
                    t_revision := t_revision x + 1, t_updated_at := at\<rparr>)))
         (\<lambda>n. thenS (notify env (t_id t) seq reason (''task '' @ t_id t @ '' waiting_user: '' @ detail))
           (thenS (write_evidence_index env (t_id t)) (traj env (TTransition (t_id t) seq)))))))"

section \<open>Claiming\<close>

definition start_log_text ::
  "'t env \<Rightarrow> string \<Rightarrow> string \<Rightarrow> stage \<Rightarrow> string \<Rightarrow> int \<Rightarrow> int \<Rightarrow> int \<Rightarrow> string" where
  "start_log_text env task_id run_token s owner cycle attempt at =
     join_with [nl]
       [''stage_status=claimed'', ''task_id='' @ task_id, ''run_token='' @ run_token, ''stage='' @ st_name s,
        ''owner='' @ owner, ''model='' @ the_text (runner_model env owner) ''unspecified'',
        ''cycle='' @ str_of_int cycle, ''attempt='' @ str_of_int attempt,
        ''timeout_seconds='' @ (case st_timeout s of None \<Rightarrow> ''None'' | Some n \<Rightarrow> str_of_int n),
        ''started_at_ms='' @ str_of_int at, ''command='' @ command_preview env owner, [],
        ''--- live status ---'', ''provider process not spawned yet''] @ [nl]"

definition claimed_run ::
  "'t env \<Rightarrow> string \<Rightarrow> string \<Rightarrow> string \<Rightarrow> stage \<Rightarrow> string \<Rightarrow> int \<Rightarrow> int \<Rightarrow> string \<Rightarrow> int \<Rightarrow> run_row" where
  "claimed_run env task_id run_token lease s owner cycle attempt log_path at =
     \<lparr>r_run_token = run_token, r_task_id = task_id, r_stage = st_name s, r_cycle = cycle, r_attempt = attempt,
      r_owner = owner, r_status = ''running'', r_lease_token = Some lease, r_exit_code = None, r_outcome = None,
      r_log_path = log_path, r_manifest_path = None, r_manifest_hash = None, r_sealed = False,
      r_model = runner_model env owner, r_duration_ms = None, r_usage_input = JNull, r_usage_output = JNull,
      r_usage_total = JNull, r_usage_unavailable = None, r_preflight_status = Some ''pass'',
      r_preflight_reason = Some ''provider_preflight_pass'', r_started_at = at, r_ended_at = None\<rparr>"

text \<open>The rest of a claim once no cap stopped it.\<close>

definition start_run ::
  "'t env \<Rightarrow> task_row \<Rightarrow> profile \<Rightarrow> stage \<Rightarrow> int \<Rightarrow> int \<Rightarrow> ('t, (string \<times> stage \<times> profile \<times> string) option) ctl" where
  "start_run env t p s cycle attempt =
     bindS (uuid4 env)
      (\<lambda>run_token. bindS (uuid4 env)
       (\<lambda>lease. bindS (getD (\<lambda>d. next_seq d (t_id t)))
        (\<lambda>seq. let owner = the_text (st_owner s) [];
                   log_path = path_join (path_join (t_artifact_dir t) ''runs'')
                     (pad4 seq @ ''-'' @ st_name s @ ''-'' @ run_token @ ''.log'')
         in bindS (now env)
          (\<lambda>at. thenS (make_dir env (path_join (t_artifact_dir t) ''runs''))
           (thenS (write_text env log_path (start_log_text env (t_id t) run_token s owner cycle attempt at))
            (thenS (stmt (insert_run (claimed_run env (t_id t) run_token lease s owner cycle attempt log_path at)))
             (bindS (stmt_count (update_tasks (\<lambda>x. t_id x = t_id t \<and> t_revision x = t_revision t)
                 (\<lambda>x. x\<lparr>t_status := ''running'', t_owner := st_owner s, t_resume_allowance := 0,
                        t_lease_token := Some lease, t_revision := t_revision x + 1, t_updated_at := at\<rparr>)))
              (\<lambda>n. thenS (checkS (n = 1) CasConflict)
                (thenS (traj env (TClaimed (t_id t) run_token))
                  (thenS (traj_commit env) (retS (Some (run_token, s, p, log_path)))))))))))))"

definition claim_body :: "'t env \<Rightarrow> string \<Rightarrow> ('t, (string \<times> stage \<times> profile \<times> string) option) ctl" where
  "claim_body env task_id =
     bindS (task_of task_id)
      (\<lambda>t. thenS (checkS (t_status t = ''queued'') (NotQueued task_id))
       (bindS (now env)
        (\<lambda>b. thenS (traj env (TBaseline task_id b))
         (bindS (profile_for env t)
          (\<lambda>p. bindS (liftR (mapL ProfileErr (profile_stage p (t_current_stage t))))
           (\<lambda>s. thenS (checkS (\<not> opt_text_true (st_terminal s)) (TerminalQueued (st_name s)))
            (bindS (envelope_for_task env t)
             (\<lambda>envelope.
               let allowance = t_resume_allowance t \<noteq> 0;
                   uncapped = (envelope \<noteq> None \<and> gate_reachable p)
               in if t_max_transitions t \<le> t_transitions_count t \<and> \<not> allowance \<and> \<not> uncapped
                  then thenS (stop_for_cap env t ''transition_cap''
                         (''max_transitions='' @ str_of_int (t_max_transitions t) @ '' reached''))
                       (thenS (traj_commit env) (retS None))
                  else bindS (getD (\<lambda>d. next_attempt d task_id (st_name s)))
                   (\<lambda>(cycle, attempt).
                     if (case st_attempt_cap s of None \<Rightarrow> False | Some cap \<Rightarrow> cap < attempt) \<and> \<not> allowance
                     then thenS (stop_for_cap env t ''attempt_cap''
                            (st_name s @ ''.attempt_cap='' @ str_of_int (case st_attempt_cap s of None \<Rightarrow> 0 | Some c \<Rightarrow> c) @ '' reached''))
                          (thenS (traj_commit env) (retS None))
                     else start_run env t p s cycle attempt)))))))))"

definition claim_stage :: "'t env \<Rightarrow> string \<Rightarrow> ('t, (string \<times> stage \<times> profile \<times> string) option) ctl" where
  "claim_stage env task_id = txn (claim_body env task_id)"

section \<open>Committing\<close>

definition settled_run ::
  "string \<Rightarrow> run_result \<Rightarrow> int \<Rightarrow> int \<Rightarrow> string \<Rightarrow> string \<Rightarrow> run_row \<Rightarrow> run_row" where
  "settled_run status result at duration manifest_path manifest_hash r =
     r\<lparr>r_status := status, r_exit_code := rr_exit_code result, r_outcome := rr_outcome result,
       r_ended_at := Some at, r_duration_ms := Some duration,
       r_model := Some (the_text (or_text (rr_model result) (r_model r)) ''unspecified''),
       r_usage_input := rr_usage_input result, r_usage_output := rr_usage_output result,
       r_usage_total := rr_usage_total result, r_usage_unavailable := usage_unavailable_reason result,
       r_manifest_path := Some manifest_path, r_manifest_hash := Some manifest_hash, r_sealed := True\<rparr>"

text \<open>\<open>WHERE id=? AND revision=? AND lease_token=?\<close>: a null lease matches nothing.\<close>

definition cas_row :: "task_row \<Rightarrow> string option \<Rightarrow> task_row \<Rightarrow> bool" where
  "cas_row t lease x \<longleftrightarrow> t_id x = t_id t \<and> t_revision x = t_revision t \<and> lease \<noteq> None \<and> t_lease_token x = lease"

text \<open>The transition, the guarded update of the task and the notification that close a run.\<close>

definition close_run ::
  "'t env \<Rightarrow> task_row \<Rightarrow> run_row \<Rightarrow> stage \<Rightarrow> run_result \<Rightarrow> string option \<Rightarrow> string \<Rightarrow> string \<Rightarrow>
   (task_row \<Rightarrow> task_row) \<Rightarrow> (string \<times> string) option \<Rightarrow> int \<Rightarrow> ('t, unit) ctl" where
  "close_run env t r s result edge to_status reason f note at =
     bindS (uuid4 env)
      (\<lambda>op. bindS (insert_transition env (t_id t) op (Some (r_run_token r)) (Some (st_name s)) (st_owner s) edge
                (rr_outcome result) (Some ''running'') to_status reason)
       (\<lambda>seq. bindS (stmt_count (update_tasks (cas_row t (r_lease_token r))
            (\<lambda>x. f (x\<lparr>t_lease_token := None, t_revision := t_revision x + 1, t_updated_at := at\<rparr>))))
        (\<lambda>n. thenS (checkS (n = 1) CasConflict)
         (thenS (case note of None \<Rightarrow> retS ()
                 | Some (why, message) \<Rightarrow>
                   thenS (notify env (t_id t) seq why message) (write_evidence_index env (t_id t)))
          (thenS (traj env (TSettled (t_id t) (r_run_token r) result))
           (thenS (traj env (TTransition (t_id t) seq)) (traj_commit env)))))))"

definition commit_stopped ::
  "'t env \<Rightarrow> task_row \<Rightarrow> run_row \<Rightarrow> stage \<Rightarrow> run_result \<Rightarrow> int \<Rightarrow> string \<times> string \<Rightarrow> ('t, unit) ctl" where
  "commit_stopped env t r s result at m =
     (let status = rr_classification result in
      thenS (stmt (update_runs (\<lambda>x. r_run_token x = r_run_token r)
          (settled_run (if status = ''waiting_user'' then ''committed'' else status) result at
             (duration_ms r result at) (fst m) (snd m))))
        (close_run env t r s result None status (rr_reason result)
          (\<lambda>x. x\<lparr>t_status := status, t_stop_reason := Some (rr_reason result)\<rparr>)
          (Some (rr_reason result, ''task '' @ t_id t @ '' '' @ status @ '': '' @ rr_reason result)) at))"

definition commit_hold ::
  "'t env \<Rightarrow> task_row \<Rightarrow> run_row \<Rightarrow> stage \<Rightarrow> run_result \<Rightarrow> int \<Rightarrow> string \<times> string \<Rightarrow> ('t, unit) ctl" where
  "commit_hold env t r s result at m =
     thenS (stmt (update_runs (\<lambda>x. r_run_token x = r_run_token r)
         (settled_run ''committed'' result at (duration_ms r result at) (fst m) (snd m))))
       (close_run env t r s result None ''waiting_user'' HOLD_STOP_REASON
         (\<lambda>x. x\<lparr>t_status := ''waiting_user'', t_stop_reason := Some HOLD_STOP_REASON\<rparr>)
         (Some (HOLD_STOP_REASON, ''task '' @ t_id t @ '' waiting_user: user decision required ('' @ rr_reason result @ '')'')) at)"

definition commit_edge ::
  "'t env \<Rightarrow> task_row \<Rightarrow> run_row \<Rightarrow> stage \<Rightarrow> run_result \<Rightarrow> int \<Rightarrow> string \<times> string \<Rightarrow> profile \<Rightarrow> string \<Rightarrow> bool \<Rightarrow> ('t, unit) ctl" where
  "commit_edge env t r s result at m p outcome envelope_present =
     (case map_of (st_outcomes s) outcome of
        None \<Rightarrow> raiseS (KeyErr outcome)
      | Some target_name \<Rightarrow>
        bindS (liftR (mapL ProfileErr (profile_stage p target_name)))
         (\<lambda>target. let edge = edge_id (st_name s) outcome in
          bindS (getD (\<lambda>d. find_edge d (t_id t) edge))
           (\<lambda>row. case row of
              None \<Rightarrow> raiseS (MissingEdge edge)
            | Some e \<Rightarrow>
              let hit = (e_cap e \<le> e_count e \<and> \<not> (envelope_present \<and> gate_reachable p));
                  terminal = opt_text_true (st_terminal target);
                  (next_status, stop_reason) =
                    (if hit then (''waiting_user'', Some ''edge_cap'')
                     else if outcome = HOLD_OUTCOME then (''waiting_user'', Some HOLD_STOP_REASON)
                     else (the_text (st_terminal target) ''queued'', None));
                  next_owner = (if terminal then None else st_owner target);
                  note = (if hit then Some (''edge_cap'', ''task '' @ t_id t @ '' waiting_user: '' @ edge @ '' cap='' @ str_of_int (e_cap e) @ '' exceeded'')
                          else if stop_reason = Some HOLD_STOP_REASON then
                            Some (HOLD_STOP_REASON, ''task '' @ t_id t @ '' waiting_user: user decision required'')
                          else if next_status \<in> set [''done'', ''failed''] then
                            Some (next_status, ''task '' @ t_id t @ '' '' @ next_status @ '': terminal stage '' @ target_name)
                          else None)
              in thenS (whenS (\<not> hit) (stmt (bump_edge (t_id t) edge)))
                (thenS (stmt (update_runs (\<lambda>x. r_run_token x = r_run_token r)
                    (settled_run ''committed'' result at (duration_ms r result at) (fst m) (snd m))))
                  (close_run env t r s result (Some edge) next_status
                    (case stop_reason of None \<Rightarrow> ''stage_completed'' | Some why \<Rightarrow> why)
                    (\<lambda>x. x\<lparr>t_status := next_status, t_stop_reason := stop_reason, t_current_stage := target_name,
                           t_owner := next_owner, t_transitions_count := t_transitions_count x + 1\<rparr>)
                    note at)))))"

definition commit_body :: "'t env \<Rightarrow> string \<Rightarrow> string \<Rightarrow> run_result \<Rightarrow> profile \<Rightarrow> ('t, unit) ctl" where
  "commit_body env task_id run_token result p =
     bindS (task_of task_id)
      (\<lambda>t. bindS (getD (\<lambda>d. find_run d run_token))
       (\<lambda>found. case found of
          None \<Rightarrow> raiseS StateConflict
        | Some r \<Rightarrow>
          thenS (checkS (r_task_id r = task_id \<and> r_status r = ''running'' \<and> t_status t = ''running'') StateConflict)
           (thenS (checkS (r_lease_token r = t_lease_token t) LeaseConflict)
            (bindS (liftR (mapL ProfileErr (profile_stage p (r_stage r))))
             (\<lambda>s. bindS (now env)
              (\<lambda>at. bindS (seal_run_manifest env t r result (st_name s) at)
               (\<lambda>m. if rr_classification result \<noteq> ''success'' then commit_stopped env t r s result at m
                    else case rr_outcome result of
                        None \<Rightarrow> raiseS AssertErr
                      | Some outcome \<Rightarrow>
                        bindS (envelope_for_task env t)
                         (\<lambda>envelope. if outcome = HOLD_OUTCOME \<and> envelope \<noteq> None
                            then commit_hold env t r s result at m
                            else commit_edge env t r s result at m p outcome (envelope \<noteq> None)))))))))"

definition commit_run :: "'t env \<Rightarrow> string \<Rightarrow> string \<Rightarrow> run_result \<Rightarrow> profile \<Rightarrow> ('t, unit) ctl" where
  "commit_run env task_id run_token result p = txn (commit_body env task_id run_token result p)"

end
