(* ===== verification/Lifecycle.thy ===== *)
theory Lifecycle
  imports Controller
begin

text \<open>
  The rest of the controller: resuming, blocking an interrupted run, recording a failed preflight,
  quarantining, the startup barrier, and the loop that drives a task until it stops.  The provider
  (its preflight and its run, with everything the runner does around the child process) is an
  argument: it sees the world and answers with a result.
\<close>

section \<open>Resuming\<close>

definition RESUMABLE_STATUSES :: "string list" where
  "RESUMABLE_STATUSES = [''waiting_user'', ''paused'', ''blocked'']"

definition ACTIVE_STATUSES :: "string list" where
  "ACTIVE_STATUSES = [''queued'', ''running'']"

text \<open>The last transition of a task whose reason is \<open>edge_cap\<close>.\<close>

definition capped_transition :: "db \<Rightarrow> string \<Rightarrow> transition_row option" where
  "capped_transition d i =
     (case rev (sort_key x_seq (filter (\<lambda>x. x_reason x = Some ''edge_cap'') (transitions_of d i))) of
        [] \<Rightarrow> None | x # _ \<Rightarrow> Some x)"

definition resume_body :: "'t env \<Rightarrow> string \<Rightarrow> string option \<Rightarrow> bool \<Rightarrow> ('t, unit) ctl" where
  "resume_body env task_id operation_id rerun_stage =
     bindS (task_of task_id)
      (\<lambda>t. bindS (now env)
       (\<lambda>b. thenS (traj env (TBaseline task_id b))
        (thenS (checkS (t_status t \<in> set RESUMABLE_STATUSES) (CannotResume (t_status t)))
         (thenS (checkS (\<not> (t_stop_reason t \<in> set [Some ''workspace_escape'', Some ''protected_root_drift''] \<and> \<not> rerun_stage))
                   ContainmentReview)
          (bindS (now env)
           (\<lambda>at. bindS (getD (\<lambda>d. capped_transition d task_id))
            (\<lambda>capped.
              let allowance = (if t_status t = ''waiting_user'' then 1 else 0 :: int);
                  at_edge_cap = (t_status t = ''waiting_user'' \<and> t_stop_reason t = Some ''edge_cap'');
                  edge = (if at_edge_cap then (case capped of None \<Rightarrow> None | Some x \<Rightarrow> x_edge x) else None);
                  outcome = (if at_edge_cap then (case capped of None \<Rightarrow> None | Some x \<Rightarrow> x_outcome x) else None)
              in thenS (whenS at_edge_cap (thenS (checkS (\<not> no_text edge) CappedMissing)
                          (stmt (bump_edge task_id (the edge)))))
               (bindS (stmt_count (update_tasks (\<lambda>x. t_id x = task_id)
                   (\<lambda>x. x\<lparr>t_status := ''queued'', t_stop_reason := None, t_lease_token := None,
                          t_resume_allowance := allowance, t_revision := t_revision x + 1, t_updated_at := at\<rparr>)))
                (\<lambda>n. bindS (if no_text operation_id then uuid4 env else retS (the operation_id))
                 (\<lambda>op. bindS (insert_transition env task_id op None (Some (t_current_stage t)) (t_owner t) edge outcome
                           (Some (t_status t)) ''queued'' (if rerun_stage then ''manual_rerun_stage'' else ''manual_resume''))
                  (\<lambda>seq. thenS (traj env (TTransition task_id seq)) (traj_commit env))))))))))))"

definition resume_txn :: "'t env \<Rightarrow> string \<Rightarrow> string option \<Rightarrow> bool \<Rightarrow> ('t, unit) ctl" where
  "resume_txn env task_id operation_id rerun_stage = txn (resume_body env task_id operation_id rerun_stage)"

section \<open>Interrupted runs\<close>

definition blocked_run :: "int \<Rightarrow> run_row \<Rightarrow> run_row" where
  "blocked_run at r = r\<lparr>r_status := ''blocked'', r_ended_at := Some at\<rparr>"

definition block_orphaned_body :: "'t env \<Rightarrow> task_row \<Rightarrow> ('t, unit) ctl" where
  "block_orphaned_body env t =
     bindS (now env)
      (\<lambda>b. thenS (traj env (TBaseline (t_id t) b))
       (bindS (getD (\<lambda>d. find (\<lambda>r. r_task_id r = t_id t \<and> r_status r = ''running'') (db_runs d)))
        (\<lambda>run. bindS (now env)
         (\<lambda>at. thenS (case run of None \<Rightarrow> retS ()
                | Some r \<Rightarrow>
                  thenS (make_dir env (path_join (t_artifact_dir t) ''runs''))
                   (thenS (append_text env (r_log_path r)
                       ([nl] @ ''controller detected an unknown interruption while task was running'' @ [nl]))
                     (stmt (update_runs (\<lambda>x. r_run_token x = r_run_token r) (blocked_run at)))))
          (bindS (uuid4 env)
           (\<lambda>op. bindS (insert_transition env (t_id t) op (map_option r_run_token run) (Some (t_current_stage t)) (t_owner t)
                     None None (Some ''running'') ''blocked'' ''orphaned_running'')
            (\<lambda>seq. bindS (stmt_count (update_tasks (\<lambda>x. t_id x = t_id t)
                 (\<lambda>x. x\<lparr>t_status := ''blocked'', t_stop_reason := Some ''orphaned_running'', t_lease_token := None,
                        t_revision := t_revision x + 1, t_updated_at := at\<rparr>)))
             (\<lambda>n. thenS (notify env (t_id t) seq ''orphaned_running'' (''task '' @ t_id t @ '' blocked: unknown runner interruption''))
              (thenS (write_evidence_index env (t_id t))
               (thenS (case run of None \<Rightarrow> retS ()
                       | Some r \<Rightarrow> traj env (TUnsealed (t_id t) (r_run_token r) ''blocked'' at ''runner_usage_unavailable''))
                (thenS (traj env (TTransition (t_id t) seq)) (traj_commit env))))))))))))"

definition block_orphaned_running :: "'t env \<Rightarrow> task_row \<Rightarrow> ('t, unit) ctl" where
  "block_orphaned_running env t = txn (block_orphaned_body env t)"

section \<open>Preflight\<close>

record preflight =
  pr_status :: string
  pr_reason :: string
  pr_output :: string
  pr_exit_code :: "int option"
  pr_command :: "string list"
  pr_model :: "string option"
  pr_started_at_ms :: int
  pr_ended_at_ms :: int
  pr_timed_out :: bool

definition preflight_log_text :: "string \<Rightarrow> preflight \<Rightarrow> string" where
  "preflight_log_text owner pr =
     join_with [nl]
       [''started_at_ms='' @ str_of_int (pr_started_at_ms pr), ''ended_at_ms='' @ str_of_int (pr_ended_at_ms pr),
        ''duration_ms='' @ str_of_int (max 0 (pr_ended_at_ms pr - pr_started_at_ms pr)), ''owner='' @ owner,
        ''model='' @ the_text (pr_model pr) ''unspecified'',
        ''command='' @ (if pr_command pr = [] then ''unavailable'' else join_with '' '' (pr_command pr)),
        ''exit_code='' @ (case pr_exit_code pr of None \<Rightarrow> ''None'' | Some c \<Rightarrow> str_of_int c),
        ''timed_out='' @ (if pr_timed_out pr then ''true'' else ''false''),
        ''provider_preflight_status='' @ pr_status pr, ''provider_preflight_reason='' @ pr_reason pr,
        ''usage_unavailable_reason=not_applicable_provider_preflight_failed'']
     @ [nl, nl] @ ''--- output ---'' @ [nl] @ pr_output pr"

definition preflight_run ::
  "'t env \<Rightarrow> string \<Rightarrow> string \<Rightarrow> stage \<Rightarrow> string \<Rightarrow> preflight \<Rightarrow> string \<Rightarrow> int \<Rightarrow> int \<Rightarrow> string \<Rightarrow> run_row" where
  "preflight_run env task_id run_token s owner pr status cycle attempt log_path =
     \<lparr>r_run_token = run_token, r_task_id = task_id, r_stage = st_name s, r_cycle = cycle, r_attempt = attempt,
      r_owner = owner, r_status = status, r_lease_token = None, r_exit_code = pr_exit_code pr, r_outcome = None,
      r_log_path = log_path, r_manifest_path = None, r_manifest_hash = None, r_sealed = False,
      r_model = Some (the_text (or_text (pr_model pr) (runner_model env owner)) ''unspecified''),
      r_duration_ms = Some (max 0 (pr_ended_at_ms pr - pr_started_at_ms pr)), r_usage_input = JNull,
      r_usage_output = JNull, r_usage_total = JNull,
      r_usage_unavailable = Some ''not_applicable_provider_preflight_failed'',
      r_preflight_status = Some (pr_status pr), r_preflight_reason = Some (pr_reason pr),
      r_started_at = pr_started_at_ms pr, r_ended_at = Some (pr_ended_at_ms pr)\<rparr>"

definition preflight_stop_body :: "'t env \<Rightarrow> string \<Rightarrow> stage \<Rightarrow> preflight \<Rightarrow> ('t, unit) ctl" where
  "preflight_stop_body env task_id s pr =
     bindS (task_of task_id)
      (\<lambda>t. bindS (now env)
       (\<lambda>b. thenS (traj env (TBaseline task_id b))
        (if t_status t \<noteq> ''queued'' then modS rollback
         else bindS (uuid4 env)
          (\<lambda>run_token. bindS (getD (\<lambda>d. (next_attempt d task_id (st_name s), next_seq d task_id)))
           (\<lambda>((cycle, attempt), seq0).
             let owner = the_text (st_owner s) [];
                 log_path = path_join (path_join (t_artifact_dir t) ''runs'')
                   (pad4 seq0 @ ''-'' @ st_name s @ ''-'' @ run_token @ ''.preflight.log'');
                 status = (if pr_status pr = ''paused'' then ''paused'' else ''blocked'')
             in thenS (make_dir env (path_join (t_artifact_dir t) ''runs''))
              (thenS (write_text env log_path (preflight_log_text owner pr))
               (thenS (stmt (insert_run (preflight_run env task_id run_token s owner pr status cycle attempt log_path)))
                (bindS (uuid4 env)
                 (\<lambda>op. bindS (insert_transition env task_id op (Some run_token) (Some (st_name s)) (st_owner s) None None
                           (Some ''queued'') status (pr_reason pr))
                  (\<lambda>seq. bindS (now env)
                   (\<lambda>at. bindS (stmt_count (update_tasks (\<lambda>x. t_id x = task_id)
                       (\<lambda>x. x\<lparr>t_status := status, t_stop_reason := Some (pr_reason pr),
                              t_revision := t_revision x + 1, t_updated_at := at\<rparr>)))
                    (\<lambda>n. thenS (notify env task_id seq (pr_reason pr)
                            (''task '' @ task_id @ '' '' @ status @ '': provider preflight '' @ pr_reason pr))
                     (thenS (write_evidence_index env task_id)
                      (thenS (traj env (TUnsealed task_id run_token status at ''not_applicable_provider_preflight_failed''))
                       (thenS (traj env (TTransition task_id seq)) (traj_commit env))))))))))))))))"

definition record_preflight_stop :: "'t env \<Rightarrow> string \<Rightarrow> stage \<Rightarrow> preflight \<Rightarrow> ('t, unit) ctl" where
  "record_preflight_stop env task_id s pr = txn (preflight_stop_body env task_id s pr)"

section \<open>Quarantine and the startup barrier\<close>

definition quarantine ::
  "'t env \<Rightarrow> string option \<Rightarrow> string option \<Rightarrow> string option \<Rightarrow> string \<Rightarrow> ('t, string) ctl" where
  "quarantine env task_id request_path artifact_path reason =
     bindS (now env)
      (\<lambda>at. bindS (uuid4 env)
       (\<lambda>q. let dir = path_join (home env) ''quarantine'' in
        thenS (make_dir env dir)
         (bindS (getS (\<lambda>w. case request_path of None \<Rightarrow> None | Some p \<Rightarrow> w_files w p))
          (\<lambda>request. let moved = (case (request_path, request) of
                 (Some p, Some bytes) \<Rightarrow> Some (path_join dir (str_of_int at @ ''-'' @ q @ ''-'' @ path_name p))
               | _ \<Rightarrow> None);
               shown = (case request_path of None \<Rightarrow> None | Some p \<Rightarrow> (case moved of None \<Rightarrow> Some p | Some m \<Rightarrow> Some m))
           in thenS (case (moved, request_path) of
                (Some m, Some p) \<Rightarrow> io env (\<lambda>w. set_file p None (set_file m request w))
              | _ \<Rightarrow> retS ())
            (thenS (stmt (insert_quarantine
                \<lparr>q_id = q, q_task_id = task_id, q_request_path = shown, q_artifact_path = artifact_path,
                 q_reason = reason, q_created_at = at\<rparr>))
             (thenS (atomic_write env (path_join dir (str_of_int at @ ''-'' @ q @ ''.json''))
                (dumps_pretty (JObj [(''id'', JStr q), (''task_id'', jopt_str task_id), (''request_path'', jopt_str shown),
                   (''artifact_path'', jopt_str artifact_path), (''reason'', JStr reason), (''created_at'', JInt at)])))
              (bindS (iso_now env)
               (\<lambda>iso. thenS (append_text env (path_join (home env) ''inbox.md'')
                   (''- '' @ iso @ '' type=quarantine sev=error ref='' @ the_text (or_text shown artifact_path) ''None''
                    @ '': '' @ reason @ [nl]))
                 (retS (case moved of Some m \<Rightarrow> m
                        | None \<Rightarrow> (case artifact_path of Some p \<Rightarrow> p | None \<Rightarrow> dir)))))))))))"

definition check_artifacts :: "'t env \<Rightarrow> task_row \<Rightarrow> ('t, unit) ctl" where
  "check_artifacts env t =
     bindS (getS (\<lambda>w. (t_artifact_dir t \<in> set (w_dirs w), w_files w)))
      (\<lambda>(exists, fs).
        if \<not> exists then thenS (quarantine env (Some (t_id t)) None (Some (t_artifact_dir t)) ''missing_artifact_dir'') (retS ())
        else forS [(''profile_snapshot_path'', t_profile_snapshot_path t), (''input_snapshot_path'', t_input_snapshot_path t)]
          (\<lambda>(label, path). whenS (fs path = None)
             (thenS (quarantine env (Some (t_id t)) None (Some path) (''missing_'' @ label)) (retS ()))))"

definition reconcile_startup :: "'t env \<Rightarrow> ('t, unit) ctl" where
  "reconcile_startup env =
     bindS (getD (\<lambda>d. sort_key t_created_at (filter (\<lambda>t. t_status t = ''running'') (db_tasks d))))
      (\<lambda>orphaned. thenS (forS orphaned (block_orphaned_running env))
        (bindS (getD (\<lambda>d. sort_key t_created_at (db_tasks d)))
          (\<lambda>ts. forS ts (check_artifacts env))))"

section \<open>Driving a task\<close>

record 't provider =
  pv_preflight :: "'t world \<Rightarrow> task_row \<Rightarrow> stage \<Rightarrow> preflight"
  pv_run :: "'t world \<Rightarrow> task_row \<Rightarrow> stage \<Rightarrow> string \<Rightarrow> json option \<Rightarrow> conv_context option \<Rightarrow> string \<Rightarrow> run_result"
  pv_reports :: "'t world \<Rightarrow> task_row \<Rightarrow> string option"
  pv_ctx_msg :: "context_error \<Rightarrow> string"
  pv_conv_msg :: "conv_error \<Rightarrow> string"
  pv_env_msg :: "envelope_error \<Rightarrow> string"

text \<open>The committed runs of a task in the order of their transitions.\<close>

definition committed_run_history :: "db \<Rightarrow> string \<Rightarrow> hist_run list" where
  "committed_run_history d i =
     concat (map (\<lambda>x. case x_run_token x of None \<Rightarrow> []
         | Some tok \<Rightarrow> (case find_run d tok of None \<Rightarrow> []
             | Some r \<Rightarrow> if r_status r = ''committed''
                       then [\<lparr>hr_seq = x_seq x, hr_run_token = tok, hr_stage = (case x_stage x of None \<Rightarrow> [] | Some s \<Rightarrow> s),
                              hr_manifest_path = r_manifest_path r, hr_manifest_hash = r_manifest_hash r\<rparr>]
                       else []))
       (sort_key x_seq (transitions_of d i)))"

definition stop_claimed_run ::
  "'t env \<Rightarrow> string \<Rightarrow> string \<Rightarrow> profile \<Rightarrow> string \<Rightarrow> string \<Rightarrow> string \<Rightarrow> ('t, unit) ctl" where
  "stop_claimed_run env task_id run_token p log_path reason message =
     thenS (append_text env log_path (message @ [nl]))
       (commit_run env task_id run_token (base_result None (message @ [nl]) None ''blocked'' reason False) p)"

definition is_reviewer_receipt :: "run_result \<Rightarrow> bool" where
  "is_reviewer_receipt r = (case rr_execution_receipt r of JObj kvs \<Rightarrow> jget kvs ''role'' = JStr ''reviewer'' | _ \<Rightarrow> False)"

text \<open>A review that is not \<open>ready\<close> is routed to the user.\<close>

definition route_review :: "run_result \<Rightarrow> run_result" where
  "route_review r =
     (if is_reviewer_receipt r \<and> rr_classification r = ''success'' \<and> rr_outcome r \<noteq> Some ''ready''
      then r\<lparr>rr_classification := ''waiting_user'', rr_reason := ''review_requires_astra_decision: '' @ rr_reason r\<rparr>
      else r)"

definition decide_result ::
  "'t provider \<Rightarrow> stage \<Rightarrow> json option \<Rightarrow> conv_context option \<Rightarrow> run_result \<Rightarrow> run_result" where
  "decide_result prov s envelope ctx raw =
     (let result = classify_result (rr_exit_code raw) (rr_output raw)
            (allowed_outcomes (map fst (st_outcomes s)) (envelope \<noteq> None)) (rr_timed_out raw) (Some raw)
      in route_review (case ctx of None \<Rightarrow> result
           | Some c \<Rightarrow> apply_convergence (pv_ctx_msg prov) (pv_conv_msg prov) result c))"

definition run_claimed ::
  "'t env \<Rightarrow> 't provider \<Rightarrow> task_row \<Rightarrow> string \<Rightarrow> stage \<Rightarrow> profile \<Rightarrow> string \<Rightarrow> ('t, bool) ctl" where
  "run_claimed env prov t run_token s p log_path =
     bindS (read_verified_input env (t_id t))
      (\<lambda>input. case extract_envelope input of
         Inl e \<Rightarrow> thenS (stop_claimed_run env (t_id t) run_token p log_path ''envelope_invalid''
                      (''controller rejected envelope framing: '' @ pv_env_msg prov e)) (retS True)
       | Inr envelope \<Rightarrow>
         bindS (getS (\<lambda>w. pv_reports prov w t))
          (\<lambda>reports. thenS (case reports of None \<Rightarrow> retS ()
                 | Some dir \<Rightarrow> catchS (make_dir env dir) (\<lambda>e. retS ()))
           (bindS (getS (\<lambda>w. (w_files w, committed_run_history (w_db w) (t_id t))))
            (\<lambda>(fs, history). bindS (if envelope = None then retS None
                 else liftR (mapL Verify (convergence_context (sha env) fs p (st_name s) history)))
             (\<lambda>ctx. bindS (getS (\<lambda>w. pv_run prov w t s input envelope ctx log_path))
              (\<lambda>raw. let result = decide_result prov s envelope ctx raw in
                thenS (case (reports, rr_final_response result) of
                    (Some dir, Some txt) \<Rightarrow>
                      whenS (is_reviewer_receipt result) (atomic_write env (path_join dir ''implement-review.md'') txt)
                  | _ \<Rightarrow> retS ())
                 (thenS (commit_run env (t_id t) run_token result p) (retS False))))))))"

text \<open>One round of \<open>run_until_stop\<close>: whether the loop returns.\<close>

definition run_step :: "'t env \<Rightarrow> 't provider \<Rightarrow> string \<Rightarrow> ('t, bool) ctl" where
  "run_step env prov task_id =
     bindS (task_of task_id)
      (\<lambda>t. if t_status t \<notin> set ACTIVE_STATUSES then retS True
           else if t_status t = ''running'' then thenS (block_orphaned_running env t) (retS True)
           else bindS (profile_for env t)
            (\<lambda>p. bindS (liftR (mapL ProfileErr (profile_stage p (t_current_stage t))))
             (\<lambda>s. bindS (getS (\<lambda>w. pv_preflight prov w t s))
              (\<lambda>pr. if \<not> opt_text_true (st_terminal s) \<and> pr_status pr \<noteq> ''pass''
                 then thenS (record_preflight_stop env task_id s pr) (retS True)
                 else bindS (claim_stage env task_id)
                  (\<lambda>claim. case claim of
                     None \<Rightarrow> retS True
                   | Some (run_token, s', p', log_path) \<Rightarrow> run_claimed env prov t run_token s' p' log_path)))))"

text \<open>The loop, with fuel; \<open>False\<close> when the fuel ran out before the task stopped.\<close>

fun run_until_stop :: "nat \<Rightarrow> 't env \<Rightarrow> 't provider \<Rightarrow> string \<Rightarrow> ('t, bool) ctl" where
  "run_until_stop 0 env prov task_id = retS False"
| "run_until_stop (Suc n) env prov task_id =
     bindS (run_step env prov task_id) (\<lambda>stop. if stop then retS True else run_until_stop n env prov task_id)"

definition resume :: "nat \<Rightarrow> 't env \<Rightarrow> 't provider \<Rightarrow> string \<Rightarrow> string option \<Rightarrow> bool \<Rightarrow> ('t, bool) ctl" where
  "resume fuel env prov task_id operation_id rerun_stage =
     bindS (getD (\<lambda>d. if no_text operation_id then None
                else find (\<lambda>x. x_operation_id x = the operation_id) (db_transitions d)))
      (\<lambda>existing. case existing of
         Some x \<Rightarrow> thenS (checkS (x_task_id x = task_id) (OtherTask (the operation_id)))
                    (run_until_stop fuel env prov task_id)
       | None \<Rightarrow> thenS (resume_txn env task_id operation_id rerun_stage) (run_until_stop fuel env prov task_id))"

end
