(* ===== verification/Invariant.thy ===== *)
theory Invariant
  imports Lifecycle
begin

text \<open>
  The lifecycle invariant and the rules that carry it through the controller's transactions.
  \<open>commits P m d s\<close> says of a transaction body \<open>m\<close> that, started on the tables \<open>d\<close> in a transaction
  opened on \<open>s\<close>, it either raises with that transaction still open (and is then rolled back) or
  leaves it closed with \<open>P\<close> true of what it returns (nothing when the check after the commit raised)
  and of the tables, whatever fails on the way.  There is one rule per primitive, so that a body is
  walked through mechanically.
\<close>

section \<open>The invariant\<close>

definition from_ok :: "string option \<Rightarrow> string option \<Rightarrow> bool" where
  "from_ok prev from_status =
     (case prev of None \<Rightarrow> from_status = None
      | Some p \<Rightarrow> from_status = Some p \<or> (p = ''queued'' \<and> from_status = Some ''running''))"

fun explained :: "string option \<Rightarrow> transition_row list \<Rightarrow> bool" where
  "explained prev [] = True"
| "explained prev (x # xs) \<longleftrightarrow> from_ok prev (x_from_status x) \<and> explained (Some (x_to_status x)) xs"

definition status_ok :: "string \<Rightarrow> transition_row list \<Rightarrow> bool" where
  "status_ok status xs \<longleftrightarrow> xs \<noteq> [] \<and>
     (status = x_to_status (last xs) \<or> (status = ''running'' \<and> x_to_status (last xs) = ''queued''))"

definition history_ok :: "string \<Rightarrow> transition_row list \<Rightarrow> bool" where
  "history_ok status xs \<longleftrightarrow>
     map x_seq xs = map int [1..<Suc (length xs)] \<and> explained None xs \<and> status_ok status xs"

definition lease_ok :: "task_row \<Rightarrow> run_row list \<Rightarrow> bool" where
  "lease_ok t rs \<longleftrightarrow>
     (if t_status t = ''running''
      then \<exists>r. filter (\<lambda>r. r_status r = ''running'') rs = [r] \<and> r_lease_token r = t_lease_token t \<and> t_lease_token t \<noteq> None
      else filter (\<lambda>r. r_status r = ''running'') rs = [] \<and> t_lease_token t = None)"

definition lifecycle_ok :: "db \<Rightarrow> bool" where
  "lifecycle_ok d \<longleftrightarrow> db_ok d \<and>
     (\<forall>i t. find_task d i = Some t \<longrightarrow> lease_ok t (runs_of d i) \<and> history_ok (t_status t) (transitions_of d i))"

section \<open>Walking through a transaction\<close>

definition returned :: "('e, 'a) res \<Rightarrow> 'a option" where
  "returned r = (case r of Inl _ \<Rightarrow> None | Inr x \<Rightarrow> Some x)"

lemma returned_simps [simp]: "returned (Inl e) = None" "returned (Inr x) = Some x"
  by (simp_all add: returned_def)

definition raises_open :: "db \<times> 't \<Rightarrow> (ctl_error, 'a) res \<Rightarrow> 't world \<Rightarrow> bool" where
  "raises_open s r w \<longleftrightarrow> w_txn w = Some s \<and> (\<exists>e. r = Inl e)"

definition commits :: "('a option \<Rightarrow> db \<Rightarrow> bool) \<Rightarrow> ('t, 'a) ctl \<Rightarrow> db \<Rightarrow> db \<times> 't \<Rightarrow> bool" where
  "commits P m d s \<longleftrightarrow>
     (\<forall>w r w'. w_db w = d \<longrightarrow> w_txn w = Some s \<longrightarrow> m w = (r, w') \<longrightarrow>
        raises_open s r w' \<or>
        (w_txn w' = None \<and> P (returned r) (w_db w') \<and> (\<forall>e. r = Inl e \<longrightarrow> is_post_commit e)))"

named_theorems commits_intros \<open>walking through a transaction\<close>

lemma commitsI:
  "(\<And>w r w'. w_db w = d \<Longrightarrow> w_txn w = Some s \<Longrightarrow> m w = (r, w') \<Longrightarrow> raises_open s r w' \<or>
      (w_txn w' = None \<and> P (returned r) (w_db w') \<and> (\<forall>e. r = Inl e \<longrightarrow> is_post_commit e))) \<Longrightarrow> commits P m d s"
  by (auto simp: commits_def)

lemma commits_conj: "commits P m d s \<Longrightarrow> commits Q m d s \<Longrightarrow> commits (\<lambda>r d. P r d \<and> Q r d) m d s"
  unfolding commits_def raises_open_def by blast

lemma commits_bind:
  assumes "quiet w_txn m"
    and "\<And>w x w'. w_db w = d \<Longrightarrow> m w = (Inr x, w') \<Longrightarrow> commits P (f x) (w_db w') s"
  shows "commits P (bindS m f) d s"
proof (rule commitsI)
  fix w r w'
  assume w: "w_db w = d" "w_txn w = Some s" and b: "bindS m f w = (r, w')"
  from b show "raises_open s r w' \<or>
      (w_txn w' = None \<and> P (returned r) (w_db w') \<and> (\<forall>e. r = Inl e \<longrightarrow> is_post_commit e))"
  proof (cases rule: bindS_cases)
    case (1 e)
    with quietD [OF assms(1)] w show ?thesis by (auto simp: raises_open_def)
  next
    case (2 x w1)
    have "w_txn w1 = Some s" using quietD [OF assms(1) 2(1)] w by simp
    with assms(2) [OF w(1) 2(1)] 2(2) show ?thesis by (auto simp: commits_def)
  qed
qed

lemma commits_bind_tables:
  assumes "quiet tables m" and "\<And>w x w'. m w = (Inr x, w') \<Longrightarrow> commits P (f x) d s"
  shows "commits P (bindS m f) d s"
proof (rule commits_bind [OF quiet_tables_txn [OF assms(1)]])
  fix w x w' assume "w_db w = d" "m w = (Inr x, w')"
  with quietD [OF assms(1), of w "Inr x" w'] assms(2) show "commits P (f x) (w_db w') s"
    by (simp add: tables_def)
qed

lemma commits_bind_core:
  "quiet core m \<Longrightarrow> (\<And>w x w'. m w = (Inr x, w') \<Longrightarrow> commits P (f x) d s) \<Longrightarrow> commits P (bindS m f) d s"
  by (rule commits_bind_tables [OF quiet_core_tables])

lemma commits_then_core:
  assumes "quiet core m" and "commits P k d s"
  shows "commits P (thenS m k) d s"
  unfolding thenS_def by (rule commits_bind_core [OF assms(1)]) (rule assms(2))

lemma commits_then_tables:
  assumes "quiet tables m" and "commits P k d s"
  shows "commits P (thenS m k) d s"
  unfolding thenS_def by (rule commits_bind_tables [OF assms(1)]) (rule assms(2))

lemma commits_raise [commits_intros]: "commits P (raiseS e) d s"
  by (simp add: commits_def raises_open_def)

lemma commits_getD [commits_intros]: "commits P (f (q d)) d s \<Longrightarrow> commits P (bindS (getD q) f) d s"
  by (rule commits_bind [OF quiet_getD(2)]) (auto simp: getD_def)

lemma commits_liftR [commits_intros]:
  "(\<And>x. r = Inr x \<Longrightarrow> commits P (f x) d s) \<Longrightarrow> commits P (bindS (liftR r) f) d s"
  by (rule commits_bind_core) (auto intro: quiet_intros)

lemma commits_check [commits_intros]:
  "(b \<Longrightarrow> commits P k d s) \<Longrightarrow> commits P (thenS (checkS b e) k) d s"
  unfolding thenS_def by (rule commits_bind_core) (auto intro: quiet_intros split: if_splits)

lemma commits_stmt [commits_intros]:
  "(\<And>d'. g d = Inr d' \<Longrightarrow> commits P k d' s) \<Longrightarrow> commits P (thenS (stmt g) k) d s"
  unfolding thenS_def by (rule commits_bind) (auto simp: stmt_Inr intro: quiet_intros)

lemma commits_stmt_count [commits_intros]:
  "(\<And>d' n. g d = Inr (d', n) \<Longrightarrow> commits P (f n) d' s) \<Longrightarrow> commits P (bindS (stmt_count g) f) d s"
  by (rule commits_bind) (auto simp: stmt_count_Inr intro: quiet_intros)

lemma commits_commit [commits_intros]: "(\<And>r. P r d) \<Longrightarrow> commits P (traj_commit env) d s"
  by (auto simp: commits_def raises_open_def traj_commit_def Let_def split: option.splits)

lemma commits_commit_ret [commits_intros]:
  "P None d \<Longrightarrow> P (Some x) d \<Longrightarrow> commits P (thenS (traj_commit env) (retS x)) d s"
  by (auto simp: commits_def raises_open_def thenS_def bindS_def traj_commit_def Let_def
      split: option.splits prod.splits sum.splits)

lemma commits_rollback [commits_intros]: "P (Some ()) (fst s) \<Longrightarrow> commits P (modS rollback) d s"
  by (cases s) (auto simp: commits_def rollback_def)

lemma commits_if [commits_intros]:
  "(b \<Longrightarrow> commits P m d s) \<Longrightarrow> (\<not> b \<Longrightarrow> commits P k d s) \<Longrightarrow> commits P (if b then m else k) d s"
  by simp

lemma commits_case_option [commits_intros]:
  "(x = None \<Longrightarrow> commits P m d s) \<Longrightarrow> (\<And>y. x = Some y \<Longrightarrow> commits P (k y) d s) \<Longrightarrow>
   commits P (case x of None \<Rightarrow> m | Some y \<Rightarrow> k y) d s"
  by (cases x) auto

lemma commits_case_prod [commits_intros]:
  "(\<And>a b. x = (a, b) \<Longrightarrow> commits P (m a b) d s) \<Longrightarrow> commits P (case x of (a, b) \<Rightarrow> m a b) d s"
  by (cases x) auto

lemma commits_case_prod2 [commits_intros]:
  "(\<And>a b. x = (a, b) \<Longrightarrow> commits P (m a b y) d s) \<Longrightarrow> commits P ((case x of (a, b) \<Rightarrow> m a b) y) d s"
  by (cases x) auto

lemma commits_let [commits_intros]: "(\<And>y. y = x \<Longrightarrow> commits P (m y) d s) \<Longrightarrow> commits P (let y = x in m y) d s"
  by simp

lemma commits_when [commits_intros]:
  "(b \<Longrightarrow> commits P (thenS m k) d s) \<Longrightarrow> (\<not> b \<Longrightarrow> commits P k d s) \<Longrightarrow> commits P (thenS (whenS b m) k) d s"
  by (simp add: whenS_def thenS_def bindS_def retS_def commits_def)

lemma commits_assoc [commits_intros]:
  "commits P (thenS m (thenS k l)) d s \<Longrightarrow> commits P (thenS (thenS m k) l) d s"
  by (simp only: thenS_thenS)

lemma commits_then_ret [commits_intros]: "commits P k d s \<Longrightarrow> commits P (thenS (retS x) k) d s"
  by (simp add: thenS_def bindS_def retS_def commits_def)

lemma commits_then_case [commits_intros]:
  "(x = None \<Longrightarrow> commits P (thenS m l) d s) \<Longrightarrow> (\<And>y. x = Some y \<Longrightarrow> commits P (thenS (k y) l) d s) \<Longrightarrow>
   commits P (thenS (case x of None \<Rightarrow> m | Some y \<Rightarrow> k y) l) d s"
  by (cases x) auto

lemma commits_then_case_prod [commits_intros]:
  "(\<And>a b. x = (a, b) \<Longrightarrow> commits P (thenS (m a b) l) d s) \<Longrightarrow>
   commits P (thenS (case x of (a, b) \<Rightarrow> m a b) l) d s"
  by (cases x) auto

lemma commits_op_id [commits_intros]:
  assumes "\<And>op. (\<not> b \<Longrightarrow> op = c) \<Longrightarrow> commits P (f op) d s"
  shows "commits P (bindS (if b then uuid4 env else retS c) f) d s"
  by (rule commits_bind_core) (auto intro!: quiet_intros assms split: if_splits)

section \<open>Steps that leave the tables alone\<close>

lemma quiet_task_of [quiet_intros]: "quiet core (task_of i)"
  unfolding task_of_def by (intro quiet_intros)

lemma quiet_verify [quiet_intros]: "quiet core (verify env p h l)"
  unfolding verify_def by (intro quiet_intros)

lemma quiet_profile_for [quiet_intros]: "quiet core (profile_for env t)"
  unfolding profile_for_def by (intro quiet_intros)

lemma quiet_envelope [quiet_intros]: "quiet core (envelope_for_task env t)"
  unfolding envelope_for_task_def by (intro quiet_intros)

lemma quiet_read_input [quiet_intros]: "quiet core (read_verified_input env i)"
  unfolding read_verified_input_def by (intro quiet_intros)

lemma quiet_evidence [quiet_intros]: "quiet core (write_evidence_index env i)"
  unfolding write_evidence_index_def by (intro quiet_intros)

lemma quiet_release [quiet_intros]: "quiet core (release_capture env r)"
  unfolding release_capture_def by (intro quiet_intros quiet_io) simp

lemma quiet_seal [quiet_intros]: "quiet core (seal_run_manifest env t r result n at)"
  unfolding seal_run_manifest_def Let_def by (intro quiet_intros)

lemmas commits_quiet_binds [commits_intros] =
  commits_bind_core [OF quiet_now(1)] commits_bind_core [OF quiet_uuid4(1)] commits_bind_core [OF quiet_iso_now(1)]
  commits_bind_core [OF quiet_profile_for] commits_bind_core [OF quiet_envelope] commits_bind_core [OF quiet_seal]

lemmas commits_quiet_thens [commits_intros] =
  commits_then_tables [OF quiet_traj] commits_then_core [OF quiet_set_file(1)] commits_then_core [OF quiet_set_file(2)]
  commits_then_core [OF quiet_set_file(3)] commits_then_core [OF quiet_atomic_write] commits_then_core [OF quiet_evidence]
  commits_then_core [OF quiet_verify]

lemma quiet_announce [quiet_intros]: "quiet core (announce env i seq why msg)"
  unfolding announce_def by (intro quiet_intros)

lemma commits_task_of [commits_intros]:
  assumes "\<And>t. find_task d i = Some t \<Longrightarrow> commits P (f t) d s"
  shows "commits P (bindS (task_of i) f) d s"
proof (rule commits_bind [OF quiet_core_txn [OF quiet_task_of]])
  fix w x w' assume w: "w_db w = d" and m: "task_of i w = (Inr x, w')"
  from quietD [OF quiet_task_of m] w have "w_db w' = d" by (simp add: core_def)
  moreover from m w have "find_task d i = Some x"
    by (simp add: task_of_def bindS_Inr getD_def split: option.splits)
  ultimately show "commits P (f x) (w_db w') s" using assms by simp
qed

lemma commits_then_bind [commits_intros]:
  "commits P (bindS m (\<lambda>x. thenS (g x) k)) d s \<Longrightarrow> commits P (thenS (bindS m g) k) d s"
  by (simp only: thenS_bindS)

lemma commits_insert_transition [commits_intros]:
  assumes "\<And>at d'. insert_transition_row
      \<lparr>x_task_id = i, x_seq = next_seq d i, x_operation_id = op, x_run_token = tok, x_stage = st,
       x_owner = ow, x_edge = eg, x_outcome = oc, x_from_status = fs,
       x_to_status = ts, x_reason = Some rs, x_at = at\<rparr> d = Inr d' \<Longrightarrow> commits P (f (next_seq d i)) d' s"
  shows "commits P (bindS (insert_transition env i op tok st ow eg oc fs ts rs) f) d s"
  unfolding insert_transition_def bind_normal
  by (intro commits_getD commits_bind_core [OF quiet_now(1)] commits_stmt assms)

lemma commits_notify [commits_intros]:
  assumes "\<And>at d'. insert_notification
      \<lparr>n_task_id = i, n_transition_seq = seq, n_reason = why, n_message = msg, n_created_at = at\<rparr> d = Inr d' \<Longrightarrow>
      commits P k d' s"
  shows "commits P (thenS (notify env i seq why msg) k) d s"
  unfolding notify_def bind_normal
  by (intro commits_bind_core [OF quiet_now(1)] commits_stmt commits_then_core [OF quiet_announce] assms)

lemma txn_cases:
  assumes "txn body w = (r, w')" "w_txn w = None"
  obtains r1 w2 where "body (w\<lparr>w_txn := Some (w_db w, w_traj w)\<rparr>) = (r1, w2)"
    "r = r1" "w' = (case r1 of Inl e \<Rightarrow> rollback w2 | Inr x \<Rightarrow> w2)"
proof -
  obtain r1 w2 where b: "body (w\<lparr>w_txn := Some (w_db w, w_traj w)\<rparr>) = (r1, w2)" by force
  from assms b have "r = r1 \<and> w' = (case r1 of Inl e \<Rightarrow> rollback w2 | Inr x \<Rightarrow> w2)"
    by (cases r1) (auto simp: txn_def thenS_def bindS_def begin_txn_def catchS_def)
  with b that show ?thesis by blast
qed

text \<open>
  What a transaction whose body walks to its commit does: it either commits (\<open>P\<close> holds, even when the
  check after the commit raises) or raises and leaves tables and trajectory as they were.
\<close>

lemma txn_commits:
  assumes "commits P body (w_db w) (w_db w, w_traj w)" "w_txn w = None" "txn body w = (r, w')"
  shows "w_txn w' = None \<and>
    ((w_db w' = w_db w \<and> w_traj w' = w_traj w \<and> (\<exists>e. r = Inl e)) \<or>
     (P (returned r) (w_db w') \<and> (\<forall>e. r = Inl e \<longrightarrow> is_post_commit e)))"
proof (rule txn_cases [OF assms(3,2)])
  fix r1 w2
  assume b: "body (w\<lparr>w_txn := Some (w_db w, w_traj w)\<rparr>) = (r1, w2)" and r: "r = r1"
    and w': "w' = (case r1 of Inl e \<Rightarrow> rollback w2 | Inr x \<Rightarrow> w2)"
  let ?w = "w\<lparr>w_txn := Some (w_db w, w_traj w)\<rparr>"
  have "w_db ?w = w_db w" "w_txn ?w = Some (w_db w, w_traj w)" by simp_all
  with assms(1) b have "raises_open (w_db w, w_traj w) r1 w2 \<or>
      (w_txn w2 = None \<and> P (returned r1) (w_db w2) \<and> (\<forall>e. r1 = Inl e \<longrightarrow> is_post_commit e))"
    unfolding commits_def by blast
  then show ?thesis
  proof (elim disjE conjE)
    assume "raises_open (w_db w, w_traj w) r1 w2"
    with w' r show ?thesis by (auto simp: raises_open_def rollback_def)
  next
    assume *: "w_txn w2 = None" "P (returned r1) (w_db w2)" "\<forall>e. r1 = Inl e \<longrightarrow> is_post_commit e"
    then have "w' = w2" using w' by (cases r1) (simp_all add: rollback_def)
    with * r show ?thesis by simp
  qed
qed

end
