(* ===== verification/Preserve.thy ===== *)
theory Preserve
  imports Invariant
begin

text \<open>
  Every lifecycle operation of the controller preserves \<open>lifecycle_ok\<close>, whether it returns or
  raises.  The tables are read through four views (the task, its runs, its transitions, the edge);
  \<open>lifecycle_step\<close> says what an operation must do to the views to keep the invariant.
\<close>

section \<open>Views\<close>

lemma find_task_upd:
  "(\<And>x. t_id (f x) = t_id x) \<Longrightarrow> find (\<lambda>t. t_id t = i) (upd P f ts) = map_option (\<lambda>x. if P x then f x else x) (find (\<lambda>t. t_id t = i) ts)"
  by (simp add: find_map_upd)

lemma runs_of_upd:
  "(\<And>x. r_task_id (f x) = r_task_id x) \<Longrightarrow>
   filter (\<lambda>r. r_task_id r = i) (upd P f rs) = upd P f (filter (\<lambda>r. r_task_id r = i) rs)"
  by (simp add: filter_upd)

named_theorems statement_views \<open>what a statement does to the views of the tables\<close>

lemma insert_task_views [statement_views]:
  "insert_task t d = Inr d' \<Longrightarrow> db_ok d' \<and> db_edges d' = db_edges d \<and>
     find_task d' = (\<lambda>i. case find_task d i of None \<Rightarrow> if t_id t = i then Some t else None | Some u \<Rightarrow> Some u) \<and>
     runs_of d' = runs_of d \<and> transitions_of d' = transitions_of d \<and> next_seq d' = next_seq d"
  by (auto simp: insert_task_def fun_eq_iff find_task_def find_append runs_of_def transitions_of_def next_seq_def split: option.split)

lemma insert_run_views [statement_views]:
  "insert_run r d = Inr d' \<Longrightarrow> db_ok d' \<and> db_edges d' = db_edges d \<and> find_task d' = find_task d \<and>
     runs_of d' = (\<lambda>i. runs_of d i @ (if r_task_id r = i then [r] else [])) \<and> transitions_of d' = transitions_of d \<and> next_seq d' = next_seq d"
  by (auto simp: insert_run_def fun_eq_iff find_task_def runs_of_def transitions_of_def next_seq_def)

lemma insert_transition_row_views [statement_views]:
  "insert_transition_row x d = Inr d' \<Longrightarrow> db_ok d' \<and> db_edges d' = db_edges d \<and> find_task d' = find_task d \<and> runs_of d' = runs_of d \<and>
     transitions_of d' = (\<lambda>i. transitions_of d i @ (if x_task_id x = i then [x] else []))"
  by (auto simp: insert_transition_row_def fun_eq_iff find_task_def runs_of_def transitions_of_def)

lemma insert_edge_views [statement_views]:
  "insert_edge e d = Inr d' \<Longrightarrow> db_ok d' \<and> find_task d' = find_task d \<and> runs_of d' = runs_of d \<and>
     transitions_of d' = transitions_of d \<and> next_seq d' = next_seq d"
  by (auto simp: insert_edge_def fun_eq_iff find_task_def runs_of_def transitions_of_def next_seq_def)

lemma insert_notification_views [statement_views]:
  "insert_notification n d = Inr d' \<Longrightarrow> db_ok d' \<and> db_edges d' = db_edges d \<and> find_task d' = find_task d \<and> runs_of d' = runs_of d \<and>
     transitions_of d' = transitions_of d \<and> next_seq d' = next_seq d"
  by (auto simp: insert_notification_def fun_eq_iff find_task_def runs_of_def transitions_of_def next_seq_def)

lemma insert_quarantine_views [statement_views]:
  "insert_quarantine q d = Inr d' \<Longrightarrow> db_ok d' \<and> db_edges d' = db_edges d \<and> find_task d' = find_task d \<and> runs_of d' = runs_of d \<and>
     transitions_of d' = transitions_of d \<and> next_seq d' = next_seq d"
  by (auto simp: insert_quarantine_def fun_eq_iff find_task_def runs_of_def transitions_of_def next_seq_def)

lemma bump_edge_views [statement_views]:
  "bump_edge i edge d = Inr d' \<Longrightarrow> db_ok d' \<and>
     db_edges d' = upd (\<lambda>e. e_task_id e = i \<and> e_edge e = edge) (\<lambda>e. e\<lparr>e_count := e_count e + 1\<rparr>) (db_edges d) \<and> find_task d' = find_task d \<and> runs_of d' = runs_of d \<and>
     transitions_of d' = transitions_of d \<and> next_seq d' = next_seq d"
  by (auto simp: bump_edge_def fun_eq_iff find_task_def runs_of_def transitions_of_def next_seq_def)

lemma update_runs_views [statement_views]:
  "update_runs P f d = Inr d' \<Longrightarrow> db_ok d' \<and> db_edges d' = db_edges d \<and> find_task d' = find_task d \<and> transitions_of d' = transitions_of d \<and> next_seq d' = next_seq d \<and>
     ((\<forall>x. r_task_id (f x) = r_task_id x) \<longrightarrow> runs_of d' = (\<lambda>i. upd P f (runs_of d i)))"
  by (auto simp: update_runs_def fun_eq_iff find_task_def runs_of_def transitions_of_def next_seq_def runs_of_upd)

lemma update_tasks_views [statement_views]:
  "update_tasks P f d = Inr (d', k) \<Longrightarrow> db_ok d' \<and> db_edges d' = db_edges d \<and> k = length (filter P (db_tasks d)) \<and>
     runs_of d' = runs_of d \<and> transitions_of d' = transitions_of d \<and> next_seq d' = next_seq d \<and>
     ((\<forall>x. t_id (f x) = t_id x) \<longrightarrow> find_task d' = (\<lambda>i. map_option (\<lambda>x. if P x then f x else x) (find_task d i)))"
  by (auto simp: update_tasks_def fun_eq_iff find_task_def runs_of_def transitions_of_def next_seq_def bindR_Inr_iff find_task_upd)

lemma find_task_other [simp, intro!]:
  "(\<And>x. P x \<Longrightarrow> t_id x \<noteq> j) \<Longrightarrow> map_option (\<lambda>x. if P x then f x else x) (find_task d j) = find_task d j"
  by (cases "find_task d j") (auto dest: find_task_id)

section \<open>Histories\<close>

lemma foldl_max_upto: "foldl max 0 (map int [1..<Suc n]) = int n"
  by (induction n) auto

lemma next_seq_length:
  "history_ok s (transitions_of d i) \<Longrightarrow> next_seq d i = int (length (transitions_of d i)) + 1"
  unfolding history_ok_def next_seq_def by (simp only: foldl_max_upto)

lemma explained_append:
  "explained prev (xs @ [x]) \<longleftrightarrow>
     explained prev xs \<and> from_ok (if xs = [] then prev else Some (x_to_status (last xs))) (x_from_status x)"
  by (induction xs arbitrary: prev) auto

lemma history_ok_append:
  assumes "history_ok s xs" "x_seq x = int (length xs) + 1" "x_from_status x = Some s"
  shows "history_ok (x_to_status x) (xs @ [x])"
  using assms by (auto simp: history_ok_def explained_append status_ok_def from_ok_def)

lemma history_ok_first:
  "x_seq x = 1 \<Longrightarrow> x_from_status x = None \<Longrightarrow> history_ok (x_to_status x) [x]"
  by (simp add: history_ok_def status_ok_def from_ok_def)

lemma history_ok_claim: "history_ok ''queued'' xs \<Longrightarrow> history_ok ''running'' xs"
  by (auto simp: history_ok_def status_ok_def)

lemma lifecycle_okD:
  "lifecycle_ok d \<Longrightarrow> find_task d i = Some t \<Longrightarrow>
     lease_ok t (runs_of d i) \<and> history_ok (t_status t) (transitions_of d i)"
  by (simp add: lifecycle_ok_def)

lemma lifecycle_ok_db: "lifecycle_ok d \<Longrightarrow> db_ok d"
  by (simp add: lifecycle_ok_def)

text \<open>What an operation may do to one task.\<close>

lemma lifecycle_step:
  assumes "lifecycle_ok d" "find_task d i = Some t" "db_ok d'"
    and "\<And>j. j \<noteq> i \<Longrightarrow> find_task d' j = find_task d j \<and> runs_of d' j = runs_of d j \<and> transitions_of d' j = transitions_of d j"
    and "butlast (transitions_of d' i) = transitions_of d i" "transitions_of d' i \<noteq> []"
    and "x_seq (last (transitions_of d' i)) = next_seq d i"
    and "x_from_status (last (transitions_of d' i)) = Some (t_status t)"
    and "\<And>t'. find_task d' i = Some t' \<Longrightarrow>
           lease_ok t' (runs_of d' i) \<and> x_to_status (last (transitions_of d' i)) = t_status t'"
  shows "lifecycle_ok d'"
  unfolding lifecycle_ok_def
proof (intro conjI allI impI)
  show "db_ok d'" by fact
  have h: "history_ok (t_status t) (transitions_of d i)" using lifecycle_okD [OF assms(1,2)] ..
  have l: "transitions_of d' i = transitions_of d i @ [last (transitions_of d' i)]"
    using append_butlast_last_id [OF assms(6)] assms(5) by simp
  fix j u assume u: "find_task d' j = Some u"
  show "lease_ok u (runs_of d' j)"
    using u assms(4,9) lifecycle_okD [OF assms(1), of j] by (cases "j = i") auto
  show "history_ok (t_status u) (transitions_of d' j)"
  proof (cases "j = i")
    case True
    have "history_ok (x_to_status (last (transitions_of d' i))) (transitions_of d' i)"
      by (subst l, rule history_ok_append [OF h]) (use assms(7,8) next_seq_length [OF h] in simp_all)
    with True assms(9) u show ?thesis by simp
  next
    case False
    with u assms(4) lifecycle_okD [OF assms(1), of j] show ?thesis by simp
  qed
qed

lemma lifecycle_claim:
  assumes "lifecycle_ok d" "find_task d i = Some t" "db_ok d'"
    and "\<And>j. j \<noteq> i \<Longrightarrow> find_task d' j = find_task d j \<and> runs_of d' j = runs_of d j \<and> transitions_of d' j = transitions_of d j"
    and "transitions_of d' i = transitions_of d i" "t_status t = ''queued''"
    and "\<And>t'. find_task d' i = Some t' \<Longrightarrow> lease_ok t' (runs_of d' i) \<and> t_status t' = ''running''"
  shows "lifecycle_ok d'"
  unfolding lifecycle_ok_def
proof (intro conjI allI impI)
  show "db_ok d'" by fact
  fix j u assume u: "find_task d' j = Some u"
  show "lease_ok u (runs_of d' j)"
    using u assms(4,7) lifecycle_okD [OF assms(1), of j] by (cases "j = i") auto
  show "history_ok (t_status u) (transitions_of d' j)"
  proof (cases "j = i")
    case True
    with u assms(5-7) lifecycle_okD [OF assms(1,2)] history_ok_claim [of "transitions_of d i"] show ?thesis by simp
  next
    case False
    with u assms(4) lifecycle_okD [OF assms(1), of j] show ?thesis by simp
  qed
qed

section \<open>Stopping for a cap, claiming\<close>

lemma lease_ok_idle:
  "t_status t \<noteq> ''running'' \<Longrightarrow> lease_ok t rs \<longleftrightarrow> filter (\<lambda>r. r_status r = ''running'') rs = [] \<and> t_lease_token t = None"
  by (simp add: lease_ok_def)

lemma commits_stop_for_cap:
  assumes "lifecycle_ok d" "find_task d (t_id t) = Some t" "t_status t = ''queued''"
  shows "commits (\<lambda>_. lifecycle_ok) (thenS (stop_for_cap env t reason detail) (thenS (traj_commit env) (retS x))) d s"
  unfolding stop_for_cap_def
  apply (intro commits_intros; clarsimp dest!: statement_views; rule lifecycle_step [OF assms(1,2)])
  using lifecycle_okD [OF assms(1,2)] assms(2,3)
  by (auto simp: lease_ok_idle)

lemma commits_start_run:
  assumes "lifecycle_ok d" "find_task d (t_id t) = Some t" "t_status t = ''queued''"
  shows "commits (\<lambda>_. lifecycle_ok) (start_run env t p st cycle attempt) d s"
  unfolding start_run_def
  apply (intro commits_intros; clarsimp dest!: statement_views; rule lifecycle_claim [OF assms(1,2)])
  using lifecycle_okD [OF assms(1,2)] assms(2,3)
  by (auto simp: lease_ok_idle lease_ok_def claimed_run_def)

lemma commits_claim:
  assumes "lifecycle_ok d"
  shows "commits (\<lambda>_. lifecycle_ok) (claim_body env i) d s"
  unfolding claim_body_def
  apply (intro commits_intros commits_stop_for_cap commits_start_run)
  using assms by (auto dest: find_task_id)

section \<open>Resuming\<close>

lemma commits_resume:
  assumes "lifecycle_ok d"
  shows "commits (\<lambda>_. lifecycle_ok) (resume_body env i op rerun) d s"
  unfolding resume_body_def
  apply (intro commits_intros; frule lifecycle_okD [OF assms]; clarsimp dest!: statement_views;
      rule lifecycle_step [OF assms], assumption)
  by (auto simp: lease_ok_idle RESUMABLE_STATUSES_def dest: find_task_id)

section \<open>Committing\<close>

text \<open>The one run that holds the lease of a running task.\<close>

lemma active_run:
  assumes "lifecycle_ok d" "find_task d i = Some t" "t_status t = ''running''"
    and "find_run d tok = Some r" "r_task_id r = i" "r_status r = ''running''"
  shows "filter (\<lambda>r. r_status r = ''running'') (runs_of d i) = [r]" "r_lease_token r = t_lease_token t"
    "t_lease_token t \<noteq> None" "r_run_token r = tok"
proof -
  from lifecycle_okD [OF assms(1,2)] assms(3) obtain q where
    q: "filter (\<lambda>r. r_status r = ''running'') (runs_of d i) = [q]" "r_lease_token q = t_lease_token t" "t_lease_token t \<noteq> None"
    by (auto simp: lease_ok_def)
  have "r \<in> set (filter (\<lambda>r. r_status r = ''running'') (runs_of d i))"
    using find_run_token [OF assms(4)] assms(5,6) by (simp add: runs_of_def)
  with q(1) have "r = q" by simp
  with q find_run_token [OF assms(4)] show "filter (\<lambda>r. r_status r = ''running'') (runs_of d i) = [r]"
    "r_lease_token r = t_lease_token t" "t_lease_token t \<noteq> None" "r_run_token r = tok" by simp_all
qed

lemma filter_settled:
  assumes "filter Q xs = [r]" "P r" "\<And>x. \<not> Q (g x)"
  shows "filter Q (upd P g xs) = []"
proof -
  have "x = r" if "x \<in> set xs" "Q x" for x
    proof -
    have "x \<in> set (filter Q xs)" using that by simp
    with assms(1) show ?thesis by simp
  qed
  with assms(2,3) show ?thesis by (auto simp: filter_empty_conv upd_def)
qed

lemma upd_runs_other:
  assumes "db_ok d" "r \<in> set (db_runs d)" "r_task_id r \<noteq> j"
  shows "upd (\<lambda>x. r_run_token x = r_run_token r) g (runs_of d j) = runs_of d j"
proof (rule upd_id)
  fix x assume x: "x \<in> set (runs_of d j)"
  have "inj_on r_run_token (set (db_runs d))"
    using assms(1) by (simp add: db_ok_def runs_ok_def distinct_map)
  with x assms(2,3) show "r_run_token x \<noteq> r_run_token r"
    by (auto simp: runs_of_def dest: inj_onD)
qed

lemma commits_close_run:
  assumes "lifecycle_ok d" "find_task d (t_id t) = Some t" "t_status t = ''running''"
    and "find_run d tok = Some r" "r_task_id r = t_id t" "r_status r = ''running''"
    and "find_task d' = find_task d" "transitions_of d' = transitions_of d"
    and "runs_of d' = (\<lambda>j. upd (\<lambda>x. r_run_token x = r_run_token r) g (runs_of d j))" "\<And>x. r_status (g x) \<noteq> ''running''"
    and "\<And>x. t_id (f x) = t_id x" "\<And>x. t_lease_token (f x) = t_lease_token x" "\<And>x. t_status (f x) = to_status"
    and "to_status \<noteq> ''running''"
  shows "commits (\<lambda>_. lifecycle_ok) (close_run env t r st result edge to_status reason f note at) d' s"
proof -
  note ar = active_run [OF assms(1-6)]
  from find_run_token [OF assms(4)] have "r \<in> set (db_runs d)" by simp
  note other = upd_runs_other [OF lifecycle_ok_db [OF assms(1)] this, unfolded assms(5)]
  have idle: "filter (\<lambda>r. r_status r = ''running'') (upd (\<lambda>x. r_run_token x = r_run_token r) g (runs_of d (t_id t))) = []"
    by (rule filter_settled [OF ar(1)]) (simp_all add: assms(10))
  have "next_seq d' (t_id t) = next_seq d (t_id t)" by (simp add: next_seq_def assms(8))
  then show ?thesis
    unfolding close_run_def
    apply -
    apply (intro commits_intros; clarsimp dest!: statement_views; rule lifecycle_step [OF assms(1,2)])
    using ar assms other idle
    by (auto simp: lease_ok_idle cas_row_def)
qed

text \<open>The run row after sealing.\<close>

lemma settled_run_sel [simp]:
  "r_task_id (settled_run st result at dur mp mh x) = r_task_id x" "r_status (settled_run st result at dur mp mh x) = st"
  by (simp_all add: settled_run_def)

lemma wf_stages_terminal:
  "wf_stages (pf_stages p) \<Longrightarrow> profile_stage p n = Inr st \<Longrightarrow> opt_all (\<lambda>t. t \<in> set TERMINAL_STATUSES) (st_terminal st)"
  by (auto simp: profile_stage_def wf_stages_def wf_stage_def opt_all_def dest!: map_of_SomeD split: option.splits)

lemma commits_stopped:
  assumes "lifecycle_ok d" "find_task d (t_id t) = Some t" "t_status t = ''running''"
    and "find_run d tok = Some r" "r_task_id r = t_id t" "r_status r = ''running''" "rr_classification result \<noteq> ''running''"
  shows "commits (\<lambda>_. lifecycle_ok) (commit_stopped env t r st result at m) d s"
  unfolding commit_stopped_def Let_def
  by (intro commits_stmt commits_close_run [OF assms(1-6)]) (drule update_runs_views, simp add: assms(7))+

lemma commits_hold:
  assumes "lifecycle_ok d" "find_task d (t_id t) = Some t" "t_status t = ''running''"
    and "find_run d tok = Some r" "r_task_id r = t_id t" "r_status r = ''running''"
  shows "commits (\<lambda>_. lifecycle_ok) (commit_hold env t r st result at m) d s"
  unfolding commit_hold_def
  by (intro commits_stmt commits_close_run [OF assms]) (drule update_runs_views, simp)+

lemma next_status_idle:
  assumes "wf_stages (pf_stages p)" "mapL ProfileErr (profile_stage p n) = Inr st"
    "(if hit then (''waiting_user'', a) else if hold then (''waiting_user'', b)
      else (the_text (st_terminal st) ''queued'', c)) = (next_status, stop_reason)"
  shows "next_status \<noteq> ''running''"
proof -
  from assms(2) have "profile_stage p n = Inr st" by (auto simp: mapL_def split: sum.splits)
  from wf_stages_terminal [OF assms(1) this] assms(3) show ?thesis
    by (auto simp: the_text_def no_text_def opt_all_def TERMINAL_STATUSES_def split: if_splits option.splits)
qed

lemma commits_edge:
  assumes "lifecycle_ok d" "find_task d (t_id t) = Some t" "t_status t = ''running''"
    and "find_run d tok = Some r" "r_task_id r = t_id t" "r_status r = ''running''" "wf_stages (pf_stages p)"
  shows "commits (\<lambda>_. lifecycle_ok) (commit_edge env t r st result at m p oc present) d s"
  unfolding commit_edge_def Let_def
  apply (intro commits_intros commits_close_run [OF assms(1-6),
      where g = "settled_run ''committed'' result at (duration_ms r result at) (fst m) (snd m)"])
  apply (simp_all add: settled_run_sel)
  apply (auto dest!: update_runs_views bump_edge_views dest: next_status_idle [OF assms(7)])
  done

lemma commits_commit_run:
  assumes "lifecycle_ok d" "wf_stages (pf_stages p)" "rr_classification result \<noteq> ''running''"
  shows "commits (\<lambda>_. lifecycle_ok) (commit_body env i tok result p) d s"
  unfolding commit_body_def
  apply (intro commits_intros commits_stopped commits_hold commits_edge)
  by (use assms in simp; fail | frule find_task_id, use assms in simp)+

section \<open>Interrupted runs, failed preflights\<close>

lemma find_active:
  assumes "lease_ok t (runs_of d i)" "t_status t = ''running''"
  obtains r where "find (\<lambda>r. r_task_id r = i \<and> r_status r = ''running'') (db_runs d) = Some r"
    "filter (\<lambda>r. r_status r = ''running'') (runs_of d i) = [r]" "r \<in> set (db_runs d)" "r_task_id r = i"
proof -
  from assms obtain q where q: "filter (\<lambda>r. r_status r = ''running'') (runs_of d i) = [q]" by (auto simp: lease_ok_def)
  then have "filter (\<lambda>r. r_task_id r = i \<and> r_status r = ''running'') (db_runs d) = [q]"
    by (simp add: runs_of_def conj_commute)
  moreover have "find P xs = Some x" if "filter P xs = [x]" for P xs and x :: run_row
    using that by (induction xs) (auto split: if_splits)
  ultimately have f: "find (\<lambda>r. r_task_id r = i \<and> r_status r = ''running'') (db_runs d) = Some q" by blast
  show ?thesis using that [OF f q] find_SomeD [OF f] by simp
qed

lemma commits_block_orphaned:
  assumes "lifecycle_ok d" "find_task d (t_id t) = Some t" "t_status t = ''running''"
  shows "commits (\<lambda>_. lifecycle_ok) (block_orphaned_body env t) d s"
proof -
  note l = lifecycle_okD [OF assms(1,2)]
  from find_active [OF conjunct1 [OF l] assms(3)] obtain r where
    r: "find (\<lambda>r. r_task_id r = t_id t \<and> r_status r = ''running'') (db_runs d) = Some r"
      "filter (\<lambda>r. r_status r = ''running'') (runs_of d (t_id t)) = [r]" "r \<in> set (db_runs d)" "r_task_id r = t_id t" .
  note other = upd_runs_other [OF lifecycle_ok_db [OF assms(1)] r(3), unfolded r(4)]
  have idle: "filter (\<lambda>r. r_status r = ''running'') (upd (\<lambda>x. r_run_token x = r_run_token r) (blocked_run at) (runs_of d (t_id t))) = []" for at
    by (rule filter_settled [OF r(2)]) (simp_all add: blocked_run_def)
  have keep: "r_task_id (blocked_run at x) = r_task_id x" for at x by (simp add: blocked_run_def)
  show ?thesis
    unfolding block_orphaned_body_def
    apply (intro commits_intros; clarsimp simp: r(1) dest!: statement_views; rule lifecycle_step [OF assms(1,2)])
    using assms(2,3) other idle keep by (auto simp: lease_ok_idle)
qed

lemma commits_preflight_stop:
  assumes "lifecycle_ok d" "lifecycle_ok (fst s)"
  shows "commits (\<lambda>_. lifecycle_ok) (preflight_stop_body env i st pr) d s"
  unfolding preflight_stop_body_def Let_def
  apply (intro commits_intros assms(2); frule lifecycle_okD [OF assms(1)]; clarsimp dest!: statement_views;
      rule lifecycle_step [OF assms(1)], assumption)
  by (auto simp: lease_ok_idle preflight_run_def dest: find_task_id)

section \<open>Submitting\<close>

lemma commits_edges:
  assumes "\<And>d'. db_ok d' \<Longrightarrow> find_task d' = find_task d \<Longrightarrow> runs_of d' = runs_of d \<Longrightarrow> transitions_of d' = transitions_of d \<Longrightarrow>
      commits P k d' s" "db_ok d"
  shows "commits P (thenS (forS caps (\<lambda>(edge, cap). stmt (insert_edge \<lparr>e_task_id = i, e_edge = edge, e_count = 0, e_cap = cap\<rparr>))) k) d s"
  using assms
proof (induction caps arbitrary: d)
  case Nil
  then show ?case unfolding forS.simps by (intro commits_then_ret) simp
next
  case (Cons c caps)
  show ?case
    apply (simp only: forS.simps thenS_thenS)
    apply (intro commits_intros Cons.IH; drule insert_edge_views)
    using Cons.prems by simp_all
qed

text \<open>A task that is not in the tables has neither runs nor transitions.\<close>

lemma absent_views:
  assumes "db_ok d" "find_task d i = None"
  shows "runs_of d i = []" "transitions_of d i = []"
proof -
  have "i \<notin> set (map t_id (db_tasks d))"
    using assms(2) by (auto simp: find_task_def find_None_iff)
  with assms(1) show "runs_of d i = []" "transitions_of d i = []"
    by (auto simp: db_ok_def runs_ok_def transitions_ok_def runs_of_def transitions_of_def list_all_iff filter_empty_conv)
qed

lemma insert_task_new: "insert_task t d = Inr d' \<Longrightarrow> find_task d (t_id t) = None"
  by (auto simp: insert_task_def db_ok_def tasks_ok_def find_task_def find_None_iff image_iff)

lemma lifecycle_new:
  assumes "lifecycle_ok d" "find_task d i = None" "db_ok d'"
    and "\<And>j. j \<noteq> i \<Longrightarrow> find_task d' j = find_task d j \<and> runs_of d' j = runs_of d j \<and> transitions_of d' j = transitions_of d j"
    and "runs_of d' i = []" "transitions_of d' i = [x]" "x_seq x = 1" "x_from_status x = None"
    and "\<And>t'. find_task d' i = Some t' \<Longrightarrow> t_status t' = x_to_status x \<and> t_status t' \<noteq> ''running'' \<and> t_lease_token t' = None"
  shows "lifecycle_ok d'"
  unfolding lifecycle_ok_def
proof (intro conjI allI impI)
  show "db_ok d'" by fact
  fix j u assume u: "find_task d' j = Some u"
  show "lease_ok u (runs_of d' j)"
    using u assms(4,5,9) lifecycle_okD [OF assms(1), of j] by (cases "j = i") (auto simp: lease_ok_idle)
  show "history_ok (t_status u) (transitions_of d' j)"
  proof (cases "j = i")
    case True
    with u assms(6,9) history_ok_first [OF assms(7,8)] show ?thesis by simp
  next
    case False
    with u assms(4) lifecycle_okD [OF assms(1), of j] show ?thesis by simp
  qed
qed

lemma commits_submit:
  assumes "lifecycle_ok d" "t_status t = ''queued''" "t_lease_token t = None"
  shows "commits (\<lambda>_. lifecycle_ok) (submit_body env p t op at) d s"
  unfolding submit_body_def
proof (intro commits_intros commits_edges)
  fix st d' d'' op at d3
  let ?x = "\<lparr>x_task_id = t_id t, x_seq = next_seq d'' (t_id t), x_operation_id = op, x_run_token = None, x_stage = None,
      x_owner = None, x_edge = None, x_outcome = None, x_from_status = None, x_to_status = ''queued'',
      x_reason = Some ''submitted'', x_at = at\<rparr>"
  assume i: "insert_task (t\<lparr>t_owner := st_owner st\<rparr>) d = Inr d'"
    and v: "find_task d'' = find_task d'" "runs_of d'' = runs_of d'" "transitions_of d'' = transitions_of d'"
    and x: "insert_transition_row ?x d'' = Inr d3"
  have n: "find_task d (t_id t) = None" using insert_task_new [OF i] by simp
  note a = absent_views [OF lifecycle_ok_db [OF assms(1)] n]
  show "lifecycle_ok d3"
    by (rule lifecycle_new [OF assms(1) n, where x = ?x])
      (use insert_task_views [OF i] insert_transition_row_views [OF x] v n a assms(2,3) in
        \<open>auto simp: next_seq_def split: option.splits\<close>)
qed (auto dest: insert_task_views)

end
