(* ===== verification/Driver.thy ===== *)
theory Driver
  imports Preserve
begin

text \<open>
  The controller as a state machine.  \<open>step\<close> has one rule per state-changing operation, each as an
  atomic step of the stored tables, and one for everything that happens outside a transaction
  (another process writing files, time passing, a crash: an open transaction is rolled back).
  Every driver of the controller (the loop, resuming, the startup barrier) is a sequence of such
  steps, whatever fails in it, and every reachable state satisfies the lifecycle invariant.
\<close>

section \<open>Steps\<close>

definition TYPED_CLASSIFICATIONS :: "string list" where
  "TYPED_CLASSIFICATIONS = [''success'', ''blocked'', ''paused'', ''waiting_user'']"

inductive step :: "'t env \<Rightarrow> 't world \<Rightarrow> 't world \<Rightarrow> bool" for env where
  submitted: "submit env ty data input sfx i op ws w = (r, w') \<Longrightarrow> step env w w'"
| claimed: "claim_stage env i w = (r, w') \<Longrightarrow> step env w w'"
| committed: "validate_profile data = Inr p \<Longrightarrow> rr_classification result \<in> set TYPED_CLASSIFICATIONS \<Longrightarrow>
    commit_run env i tok result p w = (r, w') \<Longrightarrow> step env w w'"
| resumed: "resume_txn env i op rerun w = (r, w') \<Longrightarrow> step env w w'"
| orphaned: "find_task (w_db w) (t_id t) = Some t \<Longrightarrow> t_status t = ''running'' \<Longrightarrow>
    block_orphaned_running env t w = (r, w') \<Longrightarrow> step env w w'"
| preflight_failed: "record_preflight_stop env i st pr w = (r, w') \<Longrightarrow> step env w w'"
| quarantined: "stmt (insert_quarantine q) w = (r, w') \<Longrightarrow> step env w w'"
| outside: "core w' = core w \<Longrightarrow> step env w w'"

inductive reachable :: "'t env \<Rightarrow> 't world \<Rightarrow> bool" for env where
  initial: "w_db w = empty_db \<Longrightarrow> w_txn w = None \<Longrightarrow> w_traj w = traj_start env \<Longrightarrow> reachable env w"
| further: "reachable env w \<Longrightarrow> step env w w' \<Longrightarrow> reachable env w'"

inductive_cases step_elim: "step env w w'"

section \<open>Computations that keep a property of the stored tables\<close>

definition safe :: "('t world \<Rightarrow> bool) \<Rightarrow> ('t, 'a) ctl \<Rightarrow> 't world \<Rightarrow> bool" where
  "safe I m w \<longleftrightarrow> (I w \<longrightarrow> I (snd (m w)))"

lemma safeI: "(\<And>r w'. I w \<Longrightarrow> m w = (r, w') \<Longrightarrow> I w') \<Longrightarrow> safe I m w"
  by (cases "m w") (auto simp: safe_def)

lemma safe_bind:
  assumes "safe I m w" "\<And>x w'. m w = (Inr x, w') \<Longrightarrow> I w' \<Longrightarrow> safe I (f x) w'"
  shows "safe I (bindS m f) w"
proof (rule safeI)
  fix r w2 assume i: "I w" and b: "bindS m f w = (r, w2)"
  from b show "I w2"
    by (cases rule: bindS_cases) (use assms i in \<open>fastforce simp: safe_def\<close>)+
qed

lemma safe_then: "safe I m w \<Longrightarrow> (\<And>x w'. m w = (Inr x, w') \<Longrightarrow> I w' \<Longrightarrow> safe I k w') \<Longrightarrow> safe I (thenS m k) w"
  unfolding thenS_def by (rule safe_bind)

lemma safe_catch:
  assumes "safe I m w" "\<And>e w'. m w = (Inl e, w') \<Longrightarrow> I w' \<Longrightarrow> safe I (h e) w'"
  shows "safe I (catchS m h) w"
  using assms by (auto simp: safe_def catchS_def split: prod.splits sum.splits)

lemma safe_if: "(b \<Longrightarrow> safe I m w) \<Longrightarrow> (\<not> b \<Longrightarrow> safe I k w) \<Longrightarrow> safe I (if b then m else k) w"
  by simp

lemma safe_case_option:
  "(x = None \<Longrightarrow> safe I m w) \<Longrightarrow> (\<And>y. x = Some y \<Longrightarrow> safe I (k y) w) \<Longrightarrow>
   safe I (case x of None \<Rightarrow> m | Some y \<Rightarrow> k y) w"
  by (cases x) auto

lemma safe_case_sum:
  "(\<And>y. x = Inl y \<Longrightarrow> safe I (m y) w) \<Longrightarrow> (\<And>y. x = Inr y \<Longrightarrow> safe I (k y) w) \<Longrightarrow>
   safe I (case x of Inl y \<Rightarrow> m y | Inr y \<Rightarrow> k y) w"
  by (cases x) auto

lemma safe_case_prod: "(\<And>a b. x = (a, b) \<Longrightarrow> safe I (m a b) w) \<Longrightarrow> safe I (case x of (a, b) \<Rightarrow> m a b) w"
  by (cases x) auto

lemma safe_let: "(\<And>y. y = x \<Longrightarrow> safe I (m y) w) \<Longrightarrow> safe I (let y = x in m y) w"
  by simp

lemma safe_for: "(\<And>x w. x \<in> set xs \<Longrightarrow> safe I (f x) w) \<Longrightarrow> safe I (forS xs f) w"
proof (induction xs arbitrary: w)
  case Nil
  then show ?case by (simp add: safe_def retS_def)
next
  case (Cons x xs)
  then show ?case by (auto intro: safe_then)
qed

lemma safe_when: "(b \<Longrightarrow> safe I m w) \<Longrightarrow> safe I (whenS b m) w"
  by (simp add: whenS_def safe_def retS_def)

lemmas safe_rules = safe_bind safe_then safe_catch safe_if safe_case_option safe_case_sum safe_case_prod safe_let safe_when

text \<open>
  What the rest of a computation (files, time, tokens, the provider) may do to a property: nothing,
  when the property depends on the tables and the open transaction only.
\<close>

locale tables_property =
  fixes I :: "'t world \<Rightarrow> bool"
  assumes core_only: "core w' = core w \<Longrightarrow> I w \<Longrightarrow> I w'"
begin

lemma safe_quiet: "quiet core m \<Longrightarrow> safe I m w"
  by (auto simp: safe_def quiet_def intro: core_only)

lemma safe_read: "safe I (getS f) w" "safe I (getD q) w" "safe I (liftR r) w" "safe I (retS x) w"
    "safe I (checkS b e) w" "safe I (raiseS e') w" "safe I (now env) w" "safe I (uuid4 env) w" "safe I (iso_now env) w"
  by (rule safe_quiet, intro quiet_intros)+

end

section \<open>What the drivers rest on\<close>

lemma find_by_key: "distinct (map f xs) \<Longrightarrow> x \<in> set xs \<Longrightarrow> find (\<lambda>y. f y = f x) xs = Some x"
  by (induction xs) (auto simp: image_iff)

definition stored_ok :: "'t world \<Rightarrow> bool" where
  "stored_ok w \<longleftrightarrow> w_txn w = None \<and> lifecycle_ok (w_db w)"

lemma classify_typed: "rr_classification (classify_result ec out al t src) \<in> set TYPED_CLASSIFICATIONS"
proof -
  have "fst (snd (verdict_of ec out al t src')) \<in> set TYPED_CLASSIFICATIONS" for src'
    by (auto simp: verdict_of_def outcome_verdict_def TYPED_CLASSIFICATIONS_def Let_def split: option.split)
  then show ?thesis
    by (auto simp: classify_result_def classify_plain_sel base_result_def Let_def TYPED_CLASSIFICATIONS_def
        split: option.split)
qed

lemma convergence_typed:
  "rr_classification r \<in> set TYPED_CLASSIFICATIONS \<Longrightarrow> rr_classification (apply_convergence cm vm r c) \<in> set TYPED_CLASSIFICATIONS"
  by (auto simp: apply_convergence_def hold_result_def TYPED_CLASSIFICATIONS_def split: option.split sum.split)

lemma route_typed:
  "rr_classification r \<in> set TYPED_CLASSIFICATIONS \<Longrightarrow> rr_classification (route_review r) \<in> set TYPED_CLASSIFICATIONS"
  by (auto simp: route_review_def TYPED_CLASSIFICATIONS_def)

lemma decide_typed: "rr_classification (decide_result prov s e ctx raw) \<in> set TYPED_CLASSIFICATIONS"
  unfolding decide_result_def Let_def
  by (intro route_typed) (auto intro: convergence_typed classify_typed split: option.split)

lemma profile_for_valid: "profile_for env t w = (Inr p, w') \<Longrightarrow> \<exists>data. validate_profile data = Inr p"
  by (auto simp: profile_for_def bindS_Inr mapL_def profile_from_snapshot_def check_Inr_iff
      split: sum.splits option.splits)

lemma validate_profile_stages:
  assumes "validate_profile data = Inr p"
  shows "wf_stages (pf_stages p)"
proof -
  from assms obtain kvs where "data = JObj kvs"
    by (auto simp: validate_profile_def split: json.splits)
  with assms have "validate_profile (JObj kvs) = Inr p" by simp
  then obtain raw where st: "validate_stages raw [] = Inr (pf_stages p)"
    by (rule validate_profile_Inr)
  show ?thesis using validate_stages_wf [OF st] by (simp add: wf_stages_def)
qed

lemma claim_profile:
  assumes "claim_stage env i w = (Inr (Some (tok, st, p, lp)), w')" "w_txn w = None"
  shows "\<exists>data. validate_profile data = Inr p"
proof -
  have "commits (\<lambda>r _. \<forall>tok st p lp. r = Some (Some (tok, st, p, lp)) \<longrightarrow> (\<exists>data. validate_profile data = Inr p))
      (claim_body env i) d s" for d s
    unfolding claim_body_def start_run_def stop_for_cap_def
    by (intro commits_intros) (auto dest: profile_for_valid)
  from txn_commits [OF this assms(2) assms(1)[unfolded claim_stage_def]] show ?thesis by simp
qed

lemma task_of_Inr: "task_of i w = (Inr t, w') \<Longrightarrow> w' = w \<and> find_task (w_db w) i = Some t"
  by (auto simp: task_of_def bindS_Inr getD_def split: option.splits)

text \<open>Blocking one task leaves the others alone.\<close>

lemma block_orphaned_frame:
  assumes "block_orphaned_running env t w = (r, w')" "w_txn w = None" "j \<noteq> t_id t"
  shows "find_task (w_db w') j = find_task (w_db w) j"
proof -
  have "commits (\<lambda>_ d'. \<forall>j. j \<noteq> t_id t \<longrightarrow> find_task d' j = find_task d j) (block_orphaned_body env t) d s" for d s
    unfolding block_orphaned_body_def by (intro commits_intros; clarsimp dest!: statement_views; auto)
  from txn_commits [OF this assms(2) assms(1)[unfolded block_orphaned_running_def]] assms(3) show ?thesis by auto
qed

section \<open>The drivers, over any property their operations keep\<close>

text \<open>
  The contract between the drivers and the operations they call: every operation, called the way
  the drivers call it, keeps \<open>I\<close>.
\<close>

locale driven = tables_property I for I :: "'t world \<Rightarrow> bool" +
  fixes env :: "'t env"
  assumes sound: "I w \<Longrightarrow> stored_ok w"
    and claims: "safe I (claim_stage env i) w"
    and commit: "validate_profile data = Inr p \<Longrightarrow> rr_classification result \<in> set TYPED_CLASSIFICATIONS \<Longrightarrow>
      safe I (commit_run env i tok result p) w"
    and resumes: "safe I (resume_txn env i op rerun) w"
    and orphan: "find_task (w_db w) (t_id t) = Some t \<Longrightarrow> t_status t = ''running'' \<Longrightarrow> safe I (block_orphaned_running env t) w"
    and preflights: "safe I (record_preflight_stop env i st pr) w"
    and quarantines: "safe I (stmt (insert_quarantine q)) w"
begin

lemma safe_stop_claimed:
  "validate_profile data = Inr p \<Longrightarrow> safe I (stop_claimed_run env i tok p lp reason msg) w"
  unfolding stop_claimed_run_def
  by (intro safe_then safe_quiet quiet_intros commit) (auto simp: base_result_def TYPED_CLASSIFICATIONS_def)

lemma safe_run_claimed:
  "validate_profile data = Inr p \<Longrightarrow> safe I (run_claimed env prov t tok st p lp) w"
  unfolding run_claimed_def
  by (intro safe_rules safe_read safe_stop_claimed commit decide_typed safe_quiet [OF quiet_read_input]
      safe_quiet [OF quiet_set_file(3)] safe_quiet [OF quiet_atomic_write]; (assumption | simp only: decide_typed)?)

lemma claimed_profile:
  assumes "I w" "claim_stage env i w = (Inr (Some (tok, st, p, lp)), w')"
  obtains data where "validate_profile data = Inr p"
  using claim_profile [OF assms(2)] sound [OF assms(1)] by (auto simp: stored_ok_def)

lemma safe_claim_then:
  assumes "\<And>w. safe I (f None) w"
    and "\<And>tok st p lp w data. validate_profile data = Inr p \<Longrightarrow> safe I (f (Some (tok, st, p, lp))) w"
  shows "safe I (bindS (claim_stage env i) f) w"
proof (rule safeI)
  fix r w2 assume i: "I w" and b: "bindS (claim_stage env i) f w = (r, w2)"
  from b show "I w2"
  proof (cases rule: bindS_cases)
    case (1 e)
    with claims [of i w] i show ?thesis by (simp add: safe_def)
  next
    case (2 x w1)
    from claims [of i w] i 2(1) have i1: "I w1" by (simp add: safe_def)
    have "safe I (f x) w1"
    proof (cases x)
      case None
      then show ?thesis by (simp only: assms(1))
    next
      case (Some c)
      obtain tok st p lp where c: "c = (tok, st, p, lp)" by (cases c)
      from claimed_profile [OF i 2(1)[unfolded Some c]] obtain data where "validate_profile data = Inr p" .
      from assms(2) [OF this] show ?thesis by (simp only: Some c)
    qed
    with i1 2(2) show ?thesis by (simp add: safe_def)
  qed
qed

lemma safe_run_step: "safe I (run_step env prov i) w"
  unfolding run_step_def
proof (rule safe_bind [OF safe_quiet [OF quiet_task_of]])
  fix t w' assume t: "task_of i w = (Inr t, w')"
  from task_of_Inr [OF t] find_task_id have t': "find_task (w_db w') (t_id t) = Some t" by fastforce
  show "safe I (if t_status t \<notin> set ACTIVE_STATUSES then retS True
           else if t_status t = ''running'' then thenS (block_orphaned_running env t) (retS True)
           else bindS (profile_for env t)
            (\<lambda>p. bindS (liftR (mapL ProfileErr (profile_stage p (t_current_stage t))))
             (\<lambda>s. bindS (getS (\<lambda>w. pv_preflight prov w t s))
              (\<lambda>pr. if \<not> opt_text_true (st_terminal s) \<and> pr_status pr \<noteq> ''pass''
                 then thenS (record_preflight_stop env i s pr) (retS True)
                 else bindS (claim_stage env i)
                  (\<lambda>claim. case claim of
                     None \<Rightarrow> retS True
                   | Some (run_token, s', p', log_path) \<Rightarrow> run_claimed env prov t run_token s' p' log_path))))) w'"
    by (intro safe_if safe_then safe_bind [OF safe_quiet [OF quiet_profile_for]] safe_bind [OF safe_read(1)]
        safe_bind [OF safe_read(3)] safe_read preflights safe_claim_then orphan t'; (assumption | simp only: option.case prod.case, rule safe_read | simp only: option.case prod.case, erule safe_run_claimed)?)
qed

lemma safe_run_until_stop: "safe I (run_until_stop n env prov i) w"
proof (induction n arbitrary: w)
  case 0
  show ?case unfolding run_until_stop.simps by (rule safe_read)
next
  case (Suc n)
  show ?case unfolding run_until_stop.simps by (intro safe_bind [OF safe_run_step] safe_if safe_read(4) Suc.IH)
qed

lemma safe_resume: "safe I (resume n env prov i op rerun) w"
  unfolding resume_def
  by (intro safe_bind [OF safe_read(2)] safe_case_option safe_then safe_read resumes safe_run_until_stop)

lemma safe_quarantine: "safe I (quarantine env i rq ap reason) w"
  unfolding quarantine_def
  by (intro safe_bind [OF safe_read(7)] safe_bind [OF safe_read(8)] safe_bind [OF safe_read(9)] safe_bind [OF safe_read(1)]
      safe_let safe_then safe_read quarantines safe_quiet [OF quiet_set_file(3)] safe_quiet [OF quiet_set_file(2)]
      safe_quiet [OF quiet_atomic_write]; (rule safe_quiet, auto intro!: quiet_intros quiet_io split: option.split)?)

lemma safe_check_artifacts: "safe I (check_artifacts env t) w"
  unfolding check_artifacts_def
  by (intro safe_bind [OF safe_read(1)] safe_case_prod safe_if safe_then safe_quarantine safe_read safe_for safe_when)

text \<open>The rows read at startup are still the stored ones when their turn comes.\<close>

lemma safe_block_all:
  "distinct (map t_id ts) \<Longrightarrow> (\<And>t. t \<in> set ts \<Longrightarrow> find_task (w_db w) (t_id t) = Some t \<and> t_status t = ''running'') \<Longrightarrow>
   safe I (forS ts (block_orphaned_running env)) w"
proof (induction ts arbitrary: w)
  case Nil
  show ?case unfolding forS.simps by (rule safe_read)
next
  case (Cons t ts)
  show ?case unfolding forS.simps
  proof (rule safeI)
    fix r w2 assume i: "I w" and b: "thenS (block_orphaned_running env t) (forS ts (block_orphaned_running env)) w = (r, w2)"
    have t: "safe I (block_orphaned_running env t) w" using Cons.prems(2) [of t] by (intro orphan) auto
    from b [unfolded thenS_def] show "I w2"
    proof (cases rule: bindS_cases)
      case (1 e)
      with t i show ?thesis by (simp add: safe_def)
    next
      case (2 x w1)
      have "w_txn w = None" using sound [OF i] by (simp add: stored_ok_def)
      note frame = block_orphaned_frame [OF 2(1) this]
      have "safe I (forS ts (block_orphaned_running env)) w1"
      proof (rule Cons.IH)
        fix u assume u: "u \<in> set ts"
        with Cons.prems(1) have "t_id u \<noteq> t_id t" by (force simp: image_iff)
        with frame Cons.prems(2) [of u] u show "find_task (w_db w1) (t_id u) = Some u \<and> t_status u = ''running''" by simp
      qed (use Cons.prems(1) in simp)
      with t i 2 show ?thesis by (simp add: safe_def)
    qed
  qed
qed

lemma safe_reconcile: "safe I (reconcile_startup env) w"
proof (cases "I w")
  case True
  have d: "distinct (map t_id (db_tasks (w_db w)))"
    using lifecycle_ok_db [of "w_db w"] sound [OF True] by (simp add: stored_ok_def db_ok_def tasks_ok_def)
  have found: "find_task (w_db w) (t_id t) = Some t" if "t \<in> set (db_tasks (w_db w))" for t
    using that d find_by_key [of t_id] by (simp add: find_task_def)
  show ?thesis
    unfolding reconcile_startup_def
  proof (rule safe_bind [OF safe_read(2)])
    fix ts w' assume g: "getD (\<lambda>d. sort_key t_created_at (filter (\<lambda>t. t_status t = ''running'') (db_tasks d))) w = (Inr ts, w')"
    then have w': "w' = w" and ts: "ts = sort_key t_created_at (filter (\<lambda>t. t_status t = ''running'') (db_tasks (w_db w)))"
      by (auto simp: getD_def)
    have "distinct (map t_id ts)"
      using d unfolding ts by (auto simp: distinct_map inj_on_def)
    moreover have "find_task (w_db w') (t_id t) = Some t \<and> t_status t = ''running''" if "t \<in> set ts" for t
      using that found unfolding ts w' by simp
    ultimately show "safe I (thenS (forS ts (block_orphaned_running env))
        (bindS (getD (\<lambda>d. sort_key t_created_at (db_tasks d))) (\<lambda>ts. forS ts (check_artifacts env)))) w'"
      by (intro safe_then safe_block_all safe_bind [OF safe_read(2)] safe_for safe_check_artifacts)
  qed
qed (simp add: safe_def)

end

section \<open>The invariant holds in every reachable state\<close>

lemma safe_txn:
  assumes "\<And>s. fst s = w_db w \<Longrightarrow> lifecycle_ok (w_db w) \<Longrightarrow> commits (\<lambda>_. lifecycle_ok) body (w_db w) s"
  shows "safe stored_ok (txn body) w"
proof (rule safeI)
  fix r w' assume i: "stored_ok w" and t: "txn body w = (r, w')"
  then have "w_txn w = None" "lifecycle_ok (w_db w)" by (simp_all add: stored_ok_def)
  from txn_commits [OF assms this(1) t] this show "stored_ok w'" by (auto simp: stored_ok_def)
qed

lemma stored_quarantine: "safe stored_ok (stmt (insert_quarantine q)) w"
proof (rule safeI)
  fix r w' assume i: "stored_ok w" and t: "stmt (insert_quarantine q) w = (r, w')"
  show "stored_ok w'"
  proof (cases "insert_quarantine q (w_db w)")
    case (Inl e)
    with t i show ?thesis by (simp add: stmt_def)
  next
    case (Inr d)
    with t i insert_quarantine_views [OF Inr] show ?thesis
      by (auto simp: stmt_def stored_ok_def lifecycle_ok_def)
  qed
qed

interpretation stored: driven stored_ok env
proof
  show "stored_ok w'" if "core w' = core w" "stored_ok w" for w w' :: "'a world"
    using that by (simp add: stored_ok_def core_def)
  show "safe stored_ok (claim_stage env i) w" for i w
    unfolding claim_stage_def by (intro safe_txn commits_claim)
  show "safe stored_ok (commit_run env i tok result p) w"
    if "validate_profile data = Inr p" "rr_classification result \<in> set TYPED_CLASSIFICATIONS" for data p result i tok w
    unfolding commit_run_def
    by (intro safe_txn commits_commit_run validate_profile_stages [OF that(1)]) (use that(2) in \<open>auto simp: TYPED_CLASSIFICATIONS_def\<close>)
  show "safe stored_ok (resume_txn env i op rerun) w" for i op rerun w
    unfolding resume_txn_def by (intro safe_txn commits_resume)
  show "safe stored_ok (block_orphaned_running env t) w"
    if "find_task (w_db w) (t_id t) = Some t" "t_status t = ''running''" for t w
    unfolding block_orphaned_running_def by (intro safe_txn commits_block_orphaned that)
  show "safe stored_ok (record_preflight_stop env i st pr) w" for i st pr w
    unfolding record_preflight_stop_def by (intro safe_txn commits_preflight_stop) simp_all
qed (auto intro: stored_quarantine)

lemma quiet_prepare [quiet_intros]: "quiet core (prepare_artifacts env dir b pp pb ip ib)"
  unfolding prepare_artifacts_def by (intro quiet_intros)

lemma stored_submit: "safe stored_ok (submit env ty data input sfx i op ws) w"
  unfolding submit_def
  by (intro safe_rules stored.safe_read stored.safe_quiet [OF quiet_prepare] stored.safe_quiet [OF quiet_remove_tree]
      safe_txn commits_submit; simp add: submitted_task_def)

lemma safe_step: "safe I m w \<Longrightarrow> m w = (r, w') \<Longrightarrow> I w \<Longrightarrow> I w'"
  by (simp add: safe_def)

lemma step_stored: "step env w w' \<Longrightarrow> stored_ok w \<Longrightarrow> stored_ok w'"
  by (elim step_elim)
    (blast intro: safe_step stored_submit stored.claims stored.commit stored.resumes stored.orphan stored.preflights
      stored.quarantines stored.core_only)+

lemma reachable_stored: "reachable env w \<Longrightarrow> stored_ok w"
proof (induction rule: reachable.induct)
  case (initial w)
  then show ?case
    by (simp add: stored_ok_def lifecycle_ok_def db_ok_empty) (simp add: empty_db_def find_task_def)
qed (rule step_stored)

text \<open>Every driver is a sequence of steps.\<close>

interpretation reached: driven "reachable env" env
proof
  show "reachable env w'" if "core w' = core w" "reachable env w" for w w' :: "'a world"
    using that by (blast intro: further outside)
qed (blast intro: safeI reachable_stored further step.intros)+

section \<open>Properties\<close>

text \<open>C1: In every state the controller can reach, whatever commands, failures and crashes led there,
  no transaction is left open and the tables satisfy their constraints; every running task has
  exactly one running run, which holds the task's lease, every other task has neither a running run
  nor a lease; and each task's transitions are numbered from one without gaps, each starts from the
  status the previous one left, and the last one explains the task's current status.\<close>

theorem lifecycle_invariant:
  assumes "reachable env w"
  shows "w_txn w = None \<and> lifecycle_ok (w_db w)"
  using reachable_stored [OF assms] by (simp add: stored_ok_def)

text \<open>C7: The loop that drives a task, resuming, the startup barrier and quarantining, with any
  provider and whatever fails inside them, move the stored state by the atomic steps only: started
  in a reachable state they end in a reachable state, also when they raise.\<close>

theorem drivers_are_steps:
  assumes "reachable env w"
  shows "reachable env (snd (run_until_stop n env prov i w)) \<and> reachable env (snd (resume n env prov i op rerun w)) \<and>
    reachable env (snd (reconcile_startup env w)) \<and> reachable env (snd (quarantine env task request artifact reason w))"
  using assms reached.safe_run_until_stop [of env n prov i w] reached.safe_resume [of env n prov i op rerun w]
    reached.safe_reconcile [of env w] reached.safe_quarantine [of env task request artifact reason w]
  by (simp add: safe_def)

end
