(* ===== verification/Behaviour.thy ===== *)
theory Behaviour
  imports Driver
begin

text \<open>
  What the lifecycle operations do, on every branch: all or nothing, the claim and its caps, the
  commit of a run and where it leads, resuming, idempotent retries.
\<close>

section \<open>All or nothing\<close>

text \<open>
  Called with no transaction open, the operation leaves none open; when it raises anything but the
  parity failure after its commit, tables and trajectory are what they were.
\<close>

definition all_or_nothing :: "('t, 'a) ctl \<Rightarrow> bool" where
  "all_or_nothing m \<longleftrightarrow>
     (\<forall>w r w'. w_txn w = None \<and> m w = (r, w') \<longrightarrow> w_txn w' = None \<and>
        (case r of Inl e \<Rightarrow> is_post_commit e \<or> (w_db w' = w_db w \<and> w_traj w' = w_traj w) | Inr _ \<Rightarrow> True))"

lemma all_or_nothing_txn:
  assumes "\<And>d s. commits (\<lambda>_ _. True) body d s"
  shows "all_or_nothing (txn body)"
  unfolding all_or_nothing_def
proof (intro allI impI)
  fix w r w' assume *: "w_txn w = None \<and> txn body w = (r, w')"
  from txn_commits [OF assms, of w r w'] * show "w_txn w' = None \<and>
      (case r of Inl e \<Rightarrow> is_post_commit e \<or> (w_db w' = w_db w \<and> w_traj w' = w_traj w) | Inr _ \<Rightarrow> True)"
    by (auto split: sum.split)
qed

lemma commits_edges_any:
  "(\<And>d. commits P k d s) \<Longrightarrow>
   commits P (thenS (forS caps (\<lambda>(edge, cap). stmt (insert_edge \<lparr>e_task_id = i, e_edge = edge, e_count = 0, e_cap = cap\<rparr>))) k) d s"
proof (induction caps arbitrary: d)
  case Nil
  then show ?case unfolding forS.simps by (intro commits_then_ret)
next
  case (Cons c caps)
  show ?case
    by (simp only: forS.simps thenS_thenS) (intro commits_intros Cons.IH Cons.prems)
qed

lemma commits_always:
  "commits (\<lambda>_ _. True) (claim_body env i) d s" "commits (\<lambda>_ _. True) (commit_body env i tok result p) d s"
  "commits (\<lambda>_ _. True) (resume_body env i op rerun) d s" "commits (\<lambda>_ _. True) (block_orphaned_body env t) d s"
  "commits (\<lambda>_ _. True) (preflight_stop_body env i st pr) d s" "commits (\<lambda>_ _. True) (submit_body env p t op at) d s"
  unfolding claim_body_def start_run_def stop_for_cap_def commit_body_def commit_stopped_def commit_hold_def commit_edge_def
    close_run_def resume_body_def block_orphaned_body_def preflight_stop_body_def submit_body_def Let_def
  by (intro commits_intros commits_edges_any TrueI)+

text \<open>C10: Claiming, committing, resuming, blocking an interrupted run, recording a failed preflight and
  the transaction of a submission are atomic: they leave no transaction open, and unless the parity
  check after the commit fails, an operation that raises has changed neither the tables nor the
  trajectory.\<close>

theorem operations_atomic:
  "all_or_nothing (claim_stage env i) \<and> all_or_nothing (commit_run env i tok result p) \<and>
   all_or_nothing (resume_txn env i op rerun) \<and> all_or_nothing (block_orphaned_running env t) \<and>
   all_or_nothing (record_preflight_stop env i st pr) \<and> all_or_nothing (txn (submit_body env p t op at))"
  unfolding claim_stage_def commit_run_def resume_txn_def block_orphaned_running_def record_preflight_stop_def
  by (intro conjI all_or_nothing_txn commits_always)

section \<open>Claiming\<close>

text \<open>Some content with the task's recorded input hash frames an envelope.\<close>

definition carries_envelope :: "'t env \<Rightarrow> task_row \<Rightarrow> bool" where
  "carries_envelope env t \<longleftrightarrow> (\<exists>bytes e. sha env bytes = t_input_hash t \<and> extract_envelope bytes = Inr (Some e))"

text \<open>The caps leave room for another run of the stage, or the task may ignore them.\<close>

definition room :: "'t env \<Rightarrow> db \<Rightarrow> task_row \<Rightarrow> profile \<Rightarrow> stage \<Rightarrow> bool" where
  "room env d t p st \<longleftrightarrow> t_resume_allowance t \<noteq> 0 \<or>
     ((t_transitions_count t < t_max_transitions t \<or> (carries_envelope env t \<and> gate_reachable p)) \<and>
      (case st_attempt_cap st of None \<Rightarrow> True | Some cap \<Rightarrow> snd (next_attempt d (t_id t) (st_name st)) \<le> cap))"

definition claim_started :: "'t env \<Rightarrow> string \<Rightarrow> string \<Rightarrow> stage \<Rightarrow> profile \<Rightarrow> db \<Rightarrow> db \<Rightarrow> bool" where
  "claim_started env i tok st p d d' \<longleftrightarrow>
     (\<exists>t r lease at. find_task d i = Some t \<and> t_status t = ''queued'' \<and> room env d t p st \<and>
        profile_stage p (t_current_stage t) = Inr st \<and> \<not> opt_text_true (st_terminal st) \<and>
        find_task d' i = Some (t\<lparr>t_status := ''running'', t_owner := st_owner st, t_resume_allowance := 0,
                        t_lease_token := Some lease, t_revision := t_revision t + 1, t_updated_at := at\<rparr>) \<and>
        runs_of d' i = runs_of d i @ [r] \<and> r_run_token r = tok \<and> r_status r = ''running'' \<and> r_lease_token r = Some lease \<and>
        r_stage r = st_name st \<and> (r_cycle r, r_attempt r) = next_attempt d i (st_name st) \<and>
        transitions_of d' i = transitions_of d i)"

definition claim_stopped :: "string \<Rightarrow> db \<Rightarrow> db \<Rightarrow> bool" where
  "claim_stopped i d d' \<longleftrightarrow>
     (\<exists>t x reason at. find_task d i = Some t \<and> t_status t = ''queued'' \<and> t_resume_allowance t = 0 \<and>
        (t_max_transitions t \<le> t_transitions_count t \<and> reason = ''transition_cap'' \<or> reason = ''attempt_cap'') \<and>
        find_task d' i = Some (t\<lparr>t_status := ''waiting_user'', t_stop_reason := Some reason, t_lease_token := None,
                    t_revision := t_revision t + 1, t_updated_at := at\<rparr>) \<and>
        runs_of d' i = runs_of d i \<and> transitions_of d' i = transitions_of d i @ [x] \<and>
        x_to_status x = ''waiting_user'' \<and> x_reason x = Some reason)"

definition claim_spec :: "'t env \<Rightarrow> string \<Rightarrow> db \<Rightarrow> (string \<times> stage \<times> profile \<times> string) option option \<Rightarrow> db \<Rightarrow> bool" where
  "claim_spec env i d r d' =
     (case r of None \<Rightarrow> claim_stopped i d d' \<or> (\<exists>tok st p. claim_started env i tok st p d d')
      | Some None \<Rightarrow> claim_stopped i d d'
      | Some (Some (tok, st, p, log)) \<Rightarrow> claim_started env i tok st p d d')"

lemma commits_start_spec:
  assumes "find_task d (t_id t) = Some t" "t_status t = ''queued''" "room env d t p st"
    "profile_stage p (t_current_stage t) = Inr st" "\<not> opt_text_true (st_terminal st)"
    "(cycle, attempt) = next_attempt d (t_id t) (st_name st)"
  shows "commits (claim_spec env (t_id t) d) (start_run env t p st cycle attempt) d s"
  unfolding start_run_def Let_def
  apply (intro commits_intros; clarsimp simp: claim_spec_def dest!: statement_views)
  using assms by (auto simp: claim_started_def claimed_run_def intro!: exI)

lemma commits_stop_spec:
  assumes "find_task d (t_id t) = Some t" "t_status t = ''queued''" "t_resume_allowance t = 0"
    "(t_max_transitions t \<le> t_transitions_count t \<and> reason = ''transition_cap'' \<or> reason = ''attempt_cap'')"
  shows "commits (claim_spec env (t_id t) d) (thenS (stop_for_cap env t reason detail) (thenS (traj_commit env) (retS None))) d s"
  unfolding stop_for_cap_def
  apply (intro commits_intros; clarsimp simp: claim_spec_def dest!: statement_views)
  using assms by (auto simp: claim_stopped_def intro!: exI)

lemma envelope_carried: "envelope_for_task env t w = (Inr (Some e), w') \<Longrightarrow> carries_envelope env t"
  by (auto simp: envelope_for_task_def thenS_def bindS_Inr verify_def mapL_def verify_file_def carries_envelope_def check_Inr_iff
      split: option.splits sum.splits if_splits)

lemma mapL_Inr [simp]: "mapL f r = Inr x \<longleftrightarrow> r = Inr x"
  by (cases r) (simp_all add: mapL_def)

lemma commits_claim_spec: "commits (claim_spec env i d) (claim_body env i) d s"
  unfolding claim_body_def Let_def
  apply (intro commits_intros; frule find_task_id; clarsimp)
    apply (rule commits_stop_spec; simp)
   apply (rule commits_stop_spec; simp)
  apply (rule commits_start_spec; simp add: room_def)
  by (auto dest: envelope_carried split: option.splits)

text \<open>
  Called with no transaction open, \<open>m\<close> either raises and leaves the tables alone, or satisfies \<open>Q\<close> of
  the tables before, what it returned (nothing, when the check after its commit raised) and the
  tables after.
\<close>

definition triple :: "('t, 'a) ctl \<Rightarrow> (db \<Rightarrow> 'a option \<Rightarrow> db \<Rightarrow> bool) \<Rightarrow> bool" where
  "triple m Q \<longleftrightarrow>
     (\<forall>w r w'. w_txn w = None \<and> m w = (r, w') \<longrightarrow>
        Q (w_db w) (returned r) (w_db w') \<or> (w_db w' = w_db w \<and> (\<exists>e. r = Inl e)))"

lemma triple_txn: "(\<And>d s. commits (Q d) body d s) \<Longrightarrow> triple (txn body) Q"
  unfolding triple_def using txn_commits by blast


section \<open>Committing\<close>

text \<open>Where the outcome of a successful run leads: what remains to be decided is in the row of its edge.\<close>

definition edge_hit :: "profile \<Rightarrow> bool \<Rightarrow> edge_row \<Rightarrow> bool" where
  "edge_hit p present e \<longleftrightarrow> e_cap e \<le> e_count e \<and> \<not> (present \<and> gate_reachable p)"

text \<open>The task after the commit of a run, but for its lease, its revision and its time stamp.\<close>

definition routed :: "profile \<Rightarrow> stage \<Rightarrow> run_result \<Rightarrow> bool \<Rightarrow> db \<Rightarrow> task_row \<Rightarrow> task_row option" where
  "routed p st result present d t =
     (if rr_classification result \<noteq> ''success''
      then Some (t\<lparr>t_status := rr_classification result, t_stop_reason := Some (rr_reason result)\<rparr>)
      else case rr_outcome result of None \<Rightarrow> None | Some oc \<Rightarrow>
        if oc = HOLD_OUTCOME \<and> present
        then Some (t\<lparr>t_status := ''waiting_user'', t_stop_reason := Some HOLD_STOP_REASON\<rparr>)
        else case map_of (st_outcomes st) oc of None \<Rightarrow> None | Some target_name \<Rightarrow>
          case (profile_stage p target_name, find_edge d (t_id t) (edge_id (st_name st) oc)) of
            (Inr target, Some e) \<Rightarrow>
              let moved = t\<lparr>t_current_stage := target_name,
                            t_owner := (if opt_text_true (st_terminal target) then None else st_owner target),
                            t_transitions_count := t_transitions_count t + 1\<rparr>
              in Some (if edge_hit p present e then moved\<lparr>t_status := ''waiting_user'', t_stop_reason := Some ''edge_cap''\<rparr>
                       else if oc = HOLD_OUTCOME
                       then moved\<lparr>t_status := ''waiting_user'', t_stop_reason := Some HOLD_STOP_REASON\<rparr>
                       else moved\<lparr>t_status := the_text (st_terminal target) ''queued'', t_stop_reason := None\<rparr>)
          | _ \<Rightarrow> None)"

text \<open>The edge a commit counts, when it takes one that is not capped.\<close>

definition counted :: "profile \<Rightarrow> stage \<Rightarrow> run_result \<Rightarrow> bool \<Rightarrow> db \<Rightarrow> string \<Rightarrow> string option" where
  "counted p st result present d i =
     (if rr_classification result \<noteq> ''success'' then None
      else case rr_outcome result of None \<Rightarrow> None | Some oc \<Rightarrow>
        if oc = HOLD_OUTCOME \<and> present then None
        else case find_edge d i (edge_id (st_name st) oc) of None \<Rightarrow> None
          | Some e \<Rightarrow> if edge_hit p present e then None else Some (edge_id (st_name st) oc))"

definition bumped :: "string \<Rightarrow> string option \<Rightarrow> edge_row list \<Rightarrow> edge_row list" where
  "bumped i edge es = upd (\<lambda>e. e_task_id e = i \<and> Some (e_edge e) = edge) (\<lambda>e. e\<lparr>e_count := e_count e + 1\<rparr>) es"

definition commit_spec :: "'t env \<Rightarrow> string \<Rightarrow> string \<Rightarrow> run_result \<Rightarrow> profile \<Rightarrow> db \<Rightarrow> db \<Rightarrow> bool" where
  "commit_spec env i tok result p d d' \<longleftrightarrow>
     (\<exists>t run st present t' x at mp mh dur status. find_task d i = Some t \<and> t_status t = ''running'' \<and>
        find_run d tok = Some run \<and> r_task_id run = i \<and> r_status run = ''running'' \<and> r_lease_token run = t_lease_token t \<and>
        profile_stage p (r_stage run) = Inr st \<and> (present \<longrightarrow> carries_envelope env t) \<and>
        routed p st result present d t = Some t' \<and>
        find_task d' i = Some (t'\<lparr>t_lease_token := None, t_revision := t_revision t + 1, t_updated_at := at\<rparr>) \<and>
        runs_of d' i = upd (\<lambda>x. r_run_token x = tok) (settled_run status result at dur mp mh) (runs_of d i) \<and>
        status = (if rr_classification result \<in> set [''success'', ''waiting_user''] then ''committed'' else rr_classification result) \<and>
        transitions_of d' i = transitions_of d i @ [x] \<and> x_run_token x = Some tok \<and> x_outcome x = rr_outcome result \<and>
        x_from_status x = Some ''running'' \<and> x_to_status x = t_status t' \<and>
        db_edges d' = bumped i (counted p st result present d i) (db_edges d))"

lemma commit_specI:
  assumes "find_task d i = Some t" "t_status t = ''running''"
    "find_run d tok = Some run" "r_task_id run = i" "r_status run = ''running''" "r_lease_token run = t_lease_token t"
    "profile_stage p (r_stage run) = Inr st" "present \<Longrightarrow> carries_envelope env t"
    "routed p st result present d t = Some t'"
    "find_task d' i = Some (t'\<lparr>t_lease_token := None, t_revision := t_revision t + 1, t_updated_at := at\<rparr>)"
    "runs_of d' i = upd (\<lambda>x. r_run_token x = tok) (settled_run
        (if rr_classification result \<in> set [''success'', ''waiting_user''] then ''committed'' else rr_classification result)
        result at dur mp mh) (runs_of d i)"
    "transitions_of d' i = transitions_of d i @ [x]" "x_run_token x = Some tok" "x_outcome x = rr_outcome result"
    "x_from_status x = Some ''running''" "x_to_status x = t_status t'"
    "db_edges d' = bumped i (counted p st result present d i) (db_edges d)"
  shows "commit_spec env i tok result p d d'"
  unfolding commit_spec_def by (intro exI conjI; (rule assms | simp add: assms)?)

lemma commits_close_spec:
  assumes "find_task d (t_id t) = Some t" "r_lease_token r = t_lease_token t"
    "find_task d1 = find_task d" "transitions_of d1 = transitions_of d" "next_seq d1 = next_seq d"
    "runs_of d1 = (\<lambda>j. upd P g (runs_of d j))" "db_edges d1 = es"
    "\<And>d' x. find_task d' (t_id t) = Some (f (t\<lparr>t_lease_token := None, t_revision := t_revision t + 1, t_updated_at := at\<rparr>)) \<Longrightarrow>
       runs_of d' (t_id t) = upd P g (runs_of d (t_id t)) \<Longrightarrow> transitions_of d' (t_id t) = transitions_of d (t_id t) @ [x] \<Longrightarrow>
       x_run_token x = Some (r_run_token r) \<Longrightarrow> x_outcome x = rr_outcome result \<Longrightarrow> x_from_status x = Some ''running'' \<Longrightarrow>
       x_to_status x = to_status \<Longrightarrow> db_edges d' = es \<Longrightarrow> Q d'"
    "\<And>x. t_id (f x) = t_id x"
  shows "commits (\<lambda>_. Q) (close_run env t r st result edge to_status reason f note at) d1 s"
proof -
  have cas: "cas_row t (t_lease_token t) t" if "Suc 0 = length (filter (cas_row t (t_lease_token t)) ts)" for ts
  proof -
    from that have "filter (cas_row t (t_lease_token t)) ts \<noteq> []" by (metis list.size(3) nat.distinct(1))
    then show ?thesis by (auto simp: cas_row_def filter_empty_conv)
  qed
  show ?thesis
    unfolding close_run_def
    apply (intro commits_intros; clarsimp dest!: statement_views; rule assms(8))
    using assms by (auto dest: cas)
qed

lemma bumped_simps [simp]:
  "bumped i None es = es"
  "bumped i (Some edge) es = upd (\<lambda>e. e_task_id e = i \<and> e_edge e = edge) (\<lambda>e. e\<lparr>e_count := e_count e + 1\<rparr>) es"
  by (simp_all add: bumped_def upd_def)

lemma commits_edge_spec:
  assumes "find_task d (t_id t) = Some t" "t_status t = ''running''"
    "find_run d (r_run_token r) = Some r" "r_task_id r = t_id t" "r_status r = ''running''" "r_lease_token r = t_lease_token t"
    "profile_stage p (r_stage r) = Inr st" "present \<Longrightarrow> carries_envelope env t"
    "rr_classification result = ''success''" "rr_outcome result = Some oc" "\<not> (oc = HOLD_OUTCOME \<and> present)"
  shows "commits (\<lambda>_. commit_spec env (t_id t) (r_run_token r) result p d) (commit_edge env t r st result at m p oc present) d s"
proof -
  let ?g = "settled_run ''committed'' result at (duration_ms r result at) (fst m) (snd m)"
  have routes: "commit_spec env (t_id t) (r_run_token r) result p d d'"
    if "find_task d' (t_id t) = Some (t'\<lparr>t_lease_token := None, t_revision := t_revision t + 1, t_updated_at := at\<rparr>)"
      "routed p st result present d t = Some t'"
      "runs_of d' (t_id t) = upd (\<lambda>x. r_run_token x = r_run_token r) ?g (runs_of d (t_id t))"
      "transitions_of d' (t_id t) = transitions_of d (t_id t) @ [x]"
      "x_run_token x = Some (r_run_token r)" "x_outcome x = rr_outcome result" "x_from_status x = Some ''running''"
      "x_to_status x = t_status t'" "db_edges d' = bumped (t_id t) (counted p st result present d (t_id t)) (db_edges d)"
    for d' t' x
    by (rule commit_specI [where t = t and run = r and st = st and present = present, OF assms(1-8) that(2,1) _ that(4-9)])
      (use assms(9) that(3) in simp_all)
  show ?thesis
    unfolding commit_edge_def Let_def
    apply (intro commits_intros; rule commits_close_spec [OF assms(1,6), where P = "\<lambda>x. r_run_token x = r_run_token r"
          and g = ?g and es = "bumped (t_id t) (counted p st result present d (t_id t)) (db_edges d)"])
    apply (drule update_runs_views, (drule bump_edge_views)?, auto simp: counted_def edge_hit_def assms(9-11) settled_run_def; fail |
        rule routes [where t' = "the (routed p st result present d t)"],
        auto simp: routed_def counted_def edge_hit_def Let_def assms(9-11) settled_run_def split: if_splits)+
    done
qed

lemma commits_commit_spec: "commits (\<lambda>_. commit_spec env i tok result p d) (commit_body env i tok result p) d s"
  unfolding commit_body_def commit_stopped_def commit_hold_def Let_def
  apply (intro commits_intros; frule find_task_id; frule find_run_token; clarsimp dest!: update_runs_views)
  subgoal for t r st w at w' wa mp mh w'a d'
    apply (rule commits_close_spec; simp?)
    by (rule commit_specI [where t = t and run = r and present = False and st = st and at = at and mp = mp and mh = mh
          and dur = "duration_ms r result at"])
      (assumption | simp add: routed_def counted_def)+
  subgoal for t r st w at w' wa mp mh w'a wb w'b d' e
    apply (rule commits_close_spec; simp?)
    by (rule commit_specI [where t = t and run = r and present = True and st = st and at = at and mp = mp and mh = mh
          and dur = "duration_ms r result at"])
      (assumption | simp add: routed_def counted_def | erule envelope_carried)+
  subgoal premises prems for t r st w at w' wa mp mh w'a oc wb envelope
    by (rule commits_edge_spec [of d t r p st "\<exists>y. envelope = Some y" env result oc at "(mp, mh)" s, unfolded prems(12)])
      (use prems in \<open>auto dest: envelope_carried\<close>)
  done


section \<open>Resuming\<close>

definition at_edge_cap :: "task_row \<Rightarrow> bool" where
  "at_edge_cap t \<longleftrightarrow> t_status t = ''waiting_user'' \<and> t_stop_reason t = Some ''edge_cap''"

definition resume_spec :: "string \<Rightarrow> string option \<Rightarrow> bool \<Rightarrow> db \<Rightarrow> db \<Rightarrow> bool" where
  "resume_spec i op rerun d d' \<longleftrightarrow>
     (\<exists>t x at edge. find_task d i = Some t \<and> t_status t \<in> set RESUMABLE_STATUSES \<and>
        (rerun \<or> t_stop_reason t \<notin> set [Some ''workspace_escape'', Some ''protected_root_drift'']) \<and>
        find_task d' i = Some (t\<lparr>t_status := ''queued'', t_stop_reason := None, t_lease_token := None,
          t_resume_allowance := (if t_status t = ''waiting_user'' then 1 else 0), t_revision := t_revision t + 1, t_updated_at := at\<rparr>) \<and>
        runs_of d' i = runs_of d i \<and> transitions_of d' i = transitions_of d i @ [x] \<and> x \<in> set (db_transitions d') \<and>
        (no_text op \<or> Some (x_operation_id x) = op) \<and> x_from_status x = Some (t_status t) \<and> x_to_status x = ''queued'' \<and>
        edge = (if at_edge_cap t then (case capped_transition d i of None \<Rightarrow> None | Some c \<Rightarrow> x_edge c) else None) \<and>
        x_edge x = edge \<and> (at_edge_cap t \<longrightarrow> edge \<noteq> None) \<and> db_edges d' = bumped i edge (db_edges d))"

lemma insert_transition_last:
  "insert_transition_row x d = Inr d' \<Longrightarrow> x \<in> set (db_transitions d')"
  by (auto simp: insert_transition_row_def)

lemma resume_specI:
  assumes "find_task d i = Some t" "t_status t \<in> set RESUMABLE_STATUSES"
    "rerun \<or> t_stop_reason t \<notin> set [Some ''workspace_escape'', Some ''protected_root_drift'']"
    "find_task d' i = Some (t\<lparr>t_status := ''queued'', t_stop_reason := None, t_lease_token := None,
       t_resume_allowance := (if t_status t = ''waiting_user'' then 1 else 0), t_revision := t_revision t + 1, t_updated_at := at\<rparr>)"
    "runs_of d' i = runs_of d i" "transitions_of d' i = transitions_of d i @ [x]" "x \<in> set (db_transitions d')"
    "no_text op \<or> Some (x_operation_id x) = op" "x_from_status x = Some (t_status t)" "x_to_status x = ''queued''"
    "x_edge x = (if at_edge_cap t then (case capped_transition d i of None \<Rightarrow> None | Some c \<Rightarrow> x_edge c) else None)"
    "at_edge_cap t \<Longrightarrow> x_edge x \<noteq> None" "db_edges d' = bumped i (x_edge x) (db_edges d)"
  shows "resume_spec i op rerun d d'"
  unfolding resume_spec_def using assms by blast

lemma commits_resume_spec: "commits (\<lambda>_. resume_spec i op rerun d) (resume_body env i op rerun) d s"
  unfolding resume_body_def Let_def
  apply (intro commits_intros; frule find_task_id; frule insert_transition_last; clarsimp simp: no_text_def split: option.splits
      dest!: statement_views)
  by (rule resume_specI, assumption,
      (simp add: at_edge_cap_def; fail | (cases op; auto simp: no_text_def; fail) | simp add: at_edge_cap_def RESUMABLE_STATUSES_def)+)+


section \<open>Retries\<close>

text \<open>C33: Retrying a resume with an operation id that is already recorded resumes nothing again: for the
  task that recorded it the call only drives the task on, for any other task it is refused and changes
  nothing.\<close>

theorem resume_retry:
  assumes "db_ok (w_db w)" "x \<in> set (db_transitions (w_db w))" "x_operation_id x = op" "op \<noteq> []"
  shows "resume n env prov i (Some op) rerun w =
    (if x_task_id x = i then run_until_stop n env prov i w else (Inl (OtherTask op), w))"
proof -
  have "distinct (map x_operation_id (db_transitions (w_db w)))"
    using assms(1) by (simp add: db_ok_def transitions_ok_def)
  from find_by_key [OF this assms(2)] have "find (\<lambda>y. x_operation_id y = op) (db_transitions (w_db w)) = Some x"
    using assms(3) by simp
  then show ?thesis
    using assms(4) by (simp add: resume_def bindS_def getD_def no_text_def thenS_def)
qed

text \<open>C34: Submitting again under a task id that exists creates nothing: the same type, profile and input
  return the task's id, anything else is refused, and files, tables and tokens stay as they were.\<close>

theorem submit_retry:
  assumes "find_task (w_db w) i = Some t" "validate_profile data = Inr p" "pf_type p = ty"
    "extract_plan (sha env) (utf8_replace bytes) p = Inr plan"
  shows "submit env ty data (Some bytes) sfx (Some i) op ws w =
    (if t_type t = ty \<and> t_profile_hash t = sha env (canonical_json (to_dict p)) \<and> t_input_hash t = sha env bytes
     then Inr i else Inl (TaskIdReused i), w)"
  using assms find_task_id [OF assms(1)]
  by (simp add: submit_def thenS_def bindS_def getD_def mapL_def Let_def)

end
