(* ===== verification/Termination.thy ===== *)
theory Termination
  imports Behaviour
begin

text \<open>
  The loop that drives a task ends: every round that goes on has spent the resume allowance or a
  transition of a task whose caps are in force.
\<close>

section \<open>What a round that goes on did\<close>

text \<open>A computation that answers \<open>False\<close> got there through \<open>R\<close>, after steps that left the tables alone.\<close>

definition falls :: "('t world \<Rightarrow> 't world \<Rightarrow> bool) \<Rightarrow> ('t, bool) ctl \<Rightarrow> 't world \<Rightarrow> bool" where
  "falls R m w \<longleftrightarrow> (\<forall>w'. m w = (Inr False, w') \<longrightarrow> (\<exists>w1. core w1 = core w \<and> R w1 w'))"

lemma falls_bind:
  assumes "quiet core m" "\<And>x w1. m w = (Inr x, w1) \<Longrightarrow> falls R (f x) w1"
  shows "falls R (bindS m f) w"
  unfolding falls_def
proof (intro allI impI)
  fix w' assume "bindS m f w = (Inr False, w')"
  then obtain x w1 where m: "m w = (Inr x, w1)" and f: "f x w1 = (Inr False, w')" by (auto simp: bindS_Inr)
  from assms(2) [OF m] f obtain w2 where "core w2 = core w1" "R w2 w'" by (auto simp: falls_def)
  with quietD [OF assms(1) m] show "\<exists>w1. core w1 = core w \<and> R w1 w'" by auto
qed

lemma falls_then: "quiet core m \<Longrightarrow> (\<And>w1. falls R k w1) \<Longrightarrow> falls R (thenS m k) w"
  unfolding thenS_def by (rule falls_bind)

lemma falls_True: "falls R (thenS m (retS True)) w" "falls R (retS True) w" "falls R (raiseS e) w"
  by (auto simp: falls_def thenS_def bindS_Inr)

lemma falls_False: "(\<And>w'. m w = (Inr (), w') \<Longrightarrow> R w w') \<Longrightarrow> falls R (thenS m (retS False)) w"
  by (auto simp: falls_def thenS_def bindS_Inr)

lemma falls_if: "(b \<Longrightarrow> falls R m w) \<Longrightarrow> (\<not> b \<Longrightarrow> falls R k w) \<Longrightarrow> falls R (if b then m else k) w"
  by simp

lemma falls_case_sum:
  "(\<And>y. x = Inl y \<Longrightarrow> falls R (m y) w) \<Longrightarrow> (\<And>y. x = Inr y \<Longrightarrow> falls R (k y) w) \<Longrightarrow>
   falls R (case x of Inl y \<Rightarrow> m y | Inr y \<Rightarrow> k y) w"
  by (cases x) auto

lemma falls_case_prod: "(\<And>a b. x = (a, b) \<Longrightarrow> falls R (m a b) w) \<Longrightarrow> falls R (case x of (a, b) \<Rightarrow> m a b) w"
  by (cases x) auto

lemma run_claimed_falls:
  "falls (\<lambda>w1 w'. \<exists>result. rr_classification result \<in> set TYPED_CLASSIFICATIONS \<and> commit_run env (t_id t) tok result p w1 = (Inr (), w')) (run_claimed env prov t tok st p lp) w"
  unfolding run_claimed_def Let_def
  apply (rule falls_bind [OF quiet_read_input])
  apply (rule falls_case_sum)
   apply (rule falls_True)
  apply (rule falls_bind [OF quiet_getS])
  apply (rule falls_then)
   apply (intro quiet_intros)
  apply (rule falls_bind [OF quiet_getS])
  apply (rule falls_case_prod)
  apply (rule falls_bind)
   apply (intro quiet_intros)
  apply (rule falls_bind [OF quiet_getS])
  apply (rule falls_then)
   apply (auto intro!: quiet_intros falls_False exI [of _ "decide_result _ _ _ _ _"] decide_typed split: option.split)
  done

lemma falls_claim:
  assumes "\<And>c w2 w'. claim_stage env i w = (Inr (Some c), w2) \<Longrightarrow> k c w2 = (Inr False, w') \<Longrightarrow> R w w'"
  shows "falls R (bindS (claim_stage env i) (case_option (retS True) k)) w"
  unfolding falls_def
proof (intro allI impI)
  fix w' assume "bindS (claim_stage env i) (case_option (retS True) k) w = (Inr False, w')"
  then obtain x w2 where c: "claim_stage env i w = (Inr x, w2)" and k: "case_option (retS True) k x w2 = (Inr False, w')"
    unfolding bindS_Inr by blast
  from k obtain y where "x = Some y" "k y w2 = (Inr False, w')" by (cases x) auto
  with c assms [of y w2 w'] show "\<exists>w1. core w1 = core w \<and> R w1 w'" by blast
qed

lemma run_step_falls:
  "falls (\<lambda>w1 w'. \<exists>tok st p lp w2 w3 result. claim_stage env i w1 = (Inr (Some (tok, st, p, lp)), w2) \<and> core w3 = core w2 \<and>
        rr_classification result \<in> set TYPED_CLASSIFICATIONS \<and> commit_run env i tok result p w3 = (Inr (), w')) (run_step env prov i) w"
  unfolding run_step_def
proof (rule falls_bind [OF quiet_task_of])
  fix t w1 assume t: "task_of i w = (Inr t, w1)"
  then have i: "t_id t = i" using task_of_Inr find_task_id by blast
  show "falls (\<lambda>w1 w'. \<exists>tok st p lp w2 w3 result. claim_stage env i w1 = (Inr (Some (tok, st, p, lp)), w2) \<and> core w3 = core w2 \<and>
        rr_classification result \<in> set TYPED_CLASSIFICATIONS \<and> commit_run env i tok result p w3 = (Inr (), w'))
      (if t_status t \<notin> set ACTIVE_STATUSES then retS True
           else if t_status t = ''running'' then thenS (block_orphaned_running env t) (retS True)
           else bindS (profile_for env t)
            (\<lambda>p. bindS (liftR (mapL ProfileErr (profile_stage p (t_current_stage t))))
             (\<lambda>s. bindS (getS (\<lambda>w. pv_preflight prov w t s))
              (\<lambda>pr. if \<not> opt_text_true (st_terminal s) \<and> pr_status pr \<noteq> ''pass''
                 then thenS (record_preflight_stop env i s pr) (retS True)
                 else bindS (claim_stage env i)
                  (\<lambda>claim. case claim of
                     None \<Rightarrow> retS True
                   | Some (run_token, s', p', log_path) \<Rightarrow> run_claimed env prov t run_token s' p' log_path))))) w1"
  proof (intro falls_if falls_True falls_bind [OF quiet_profile_for] falls_bind [OF quiet_liftR] falls_bind [OF quiet_getS] falls_claim)
    fix w0 c w2 w'
    assume c: "claim_stage env i w0 = (Inr (Some c), w2)"
      and r: "(case c of (run_token, s', p', log_path) \<Rightarrow> run_claimed env prov t run_token s' p' log_path) w2 = (Inr False, w')"
    obtain tok st p lp where e: "c = (tok, st, p, lp)" by (cases c)
    with r run_claimed_falls [of env t tok p prov st lp w2] i
    obtain w3 result where "core w3 = core w2" "rr_classification result \<in> set TYPED_CLASSIFICATIONS"
      "commit_run env i tok result p w3 = (Inr (), w')"
      by (auto simp: falls_def)
    with c e show "\<exists>tok st p lp w2 w3 result. claim_stage env i w0 = (Inr (Some (tok, st, p, lp)), w2) \<and> core w3 = core w2 \<and>
        rr_classification result \<in> set TYPED_CLASSIFICATIONS \<and> commit_run env i tok result p w3 = (Inr (), w')" by blast
  qed
qed

section \<open>The measure\<close>

definition rounds_left :: "task_row \<Rightarrow> nat" where
  "rounds_left t = (if t_status t = ''queued''
     then Suc (nat (t_max_transitions t - t_transitions_count t) + (if t_resume_allowance t \<noteq> 0 then 1 else 0)) else 0)"

lemma routed_fields:
  assumes "routed p st result present d t = Some t'" "rr_classification result \<in> set TYPED_CLASSIFICATIONS"
  shows "t_max_transitions t' = t_max_transitions t \<and> t_resume_allowance t' = t_resume_allowance t \<and>
    t_input_hash t' = t_input_hash t \<and>
    (t_status t' = ''queued'' \<longrightarrow> t_transitions_count t' = t_transitions_count t + 1)"
  using assms by (auto simp: routed_def Let_def TYPED_CLASSIFICATIONS_def split: if_splits option.splits sum.splits)

text \<open>A round that goes on lowers the measure.\<close>

lemma round_lowers:
  assumes "run_step env prov i w = (Inr False, w')" "w_txn w = None" "find_task (w_db w) i = Some t"
    "\<not> carries_envelope env t"
  shows "w_txn w' = None \<and> (\<exists>t'. find_task (w_db w') i = Some t' \<and> t_input_hash t' = t_input_hash t \<and> rounds_left t' < rounds_left t)"
proof -
  from run_step_falls [of env i prov w] assms(1) obtain w1 tok st p lp w2 w3 result where
    q: "core w1 = core w" and c: "claim_stage env i w1 = (Inr (Some (tok, st, p, lp)), w2)" and q3: "core w3 = core w2"
    and typed: "rr_classification result \<in> set TYPED_CLASSIFICATIONS" and k: "commit_run env i tok result p w3 = (Inr (), w')"
    unfolding falls_def by blast
  have w1: "w_db w1 = w_db w" "w_txn w1 = None" using q assms(2) by (simp_all add: core_def)
  from txn_commits [OF commits_claim_spec w1(2) c [unfolded claim_stage_def]]
  have t2: "w_txn w2 = None" and s2: "claim_started env i tok st p (w_db w) (w_db w2)"
    by (simp_all add: claim_spec_def w1)
  have w3: "w_db w3 = w_db w2" "w_txn w3 = None" using q3 t2 by (simp_all add: core_def)
  from txn_commits [OF commits_commit_spec w3(2) k [unfolded commit_run_def]]
  have t': "w_txn w' = None" and s': "commit_spec env i tok result p (w_db w2) (w_db w')"
    by (simp_all add: w3)
  from s2 assms(3) obtain lease at where room: "room env (w_db w) t p st" "t_status t = ''queued''"
    and f2: "find_task (w_db w2) i = Some (t\<lparr>t_status := ''running'', t_owner := st_owner st, t_resume_allowance := 0,
                        t_lease_token := Some lease, t_revision := t_revision t + 1, t_updated_at := at\<rparr>)" (is "_ = Some ?u")
    unfolding claim_started_def by auto
  from s' f2 obtain run st' present t'' at' where r: "routed p st' result present (w_db w2) ?u = Some t''"
    and f': "find_task (w_db w') i = Some (t''\<lparr>t_lease_token := None, t_revision := t_revision ?u + 1, t_updated_at := at'\<rparr>)"
    unfolding commit_spec_def by auto
  from routed_fields [OF r typed] room assms(4)
  have "rounds_left (t''\<lparr>t_lease_token := None, t_revision := t_revision ?u + 1, t_updated_at := at'\<rparr>) < rounds_left t
      \<and> t_input_hash t'' = t_input_hash t"
    by (auto simp: rounds_left_def room_def)
  with t' f' show ?thesis by simp
qed

lemma run_until_stop_ends:
  assumes "w_txn w = None" "find_task (w_db w) i = Some t" "\<not> carries_envelope env t" "rounds_left t < n"
  shows "fst (run_until_stop n env prov i w) \<noteq> Inr False"
  using assms
proof (induction n arbitrary: w t)
  case (Suc n)
  show ?case
  proof
    assume "fst (run_until_stop (Suc n) env prov i w) = Inr False"
    then obtain w' where "run_until_stop (Suc n) env prov i w = (Inr False, w')" by (metis prod.collapse)
    then have r: "bindS (run_step env prov i) (\<lambda>stop. if stop then retS True else run_until_stop n env prov i) w = (Inr False, w')"
      by simp
    then obtain stop w1 where s: "run_step env prov i w = (Inr stop, w1)"
      and k: "(if stop then retS True else run_until_stop n env prov i) w1 = (Inr False, w')"
      unfolding bindS_Inr by blast
    from k have ns: "\<not> stop" by (auto split: if_splits)
    with s have s: "run_step env prov i w = (Inr False, w1)" by simp
    from round_lowers [OF s Suc.prems(1-3)] obtain t' where
      t': "w_txn w1 = None" "find_task (w_db w1) i = Some t'" "t_input_hash t' = t_input_hash t" "rounds_left t' < rounds_left t"
      by blast
    have "\<not> carries_envelope env t'" using Suc.prems(3) t'(3) by (simp add: carries_envelope_def)
    from Suc.IH [OF t'(1,2) this] t'(4) Suc.prems(4) have "fst (run_until_stop n env prov i w1) \<noteq> Inr False" by simp
    with k ns show False by simp
  qed
qed simp

section \<open>Property\<close>


end
