(* ===== verification/Sample.thy ===== *)
theory Sample
  imports Termination
begin

text \<open>A small environment and the worlds it leads to, for evaluating the model.\<close>

text \<open>A toy digest of 64 hex digits.\<close>

definition sample_sha :: "string \<Rightarrow> string" where
  "sample_sha s = (let ds = map (\<lambda>c. ''0123456789abcdef'' ! (of_char c mod 16)) (take 64 s)
     in replicate (64 - length ds) CHR ''0'' @ ds)"

definition sample_env :: "unit env" where
  "sample_env = \<lparr>sha = sample_sha, uuid_of = (\<lambda>n. ''u'' @ str_of_int (int n)), time_of = int,
     iso_of = (\<lambda>n. ''now''), io_fails = (\<lambda>n. False), resolve_path = Some, home = ''/h'',
     traj_start = (), traj_do = (\<lambda>c d f t. Inr ()), parity = (\<lambda>b d t. None), runner_model = (\<lambda>ow. None), command_preview = (\<lambda>ow. ''run'')\<rparr>"

definition sample_start :: "unit world" where
  "sample_start = \<lparr>w_db = empty_db, w_traj = (), w_txn = None, w_files = (\<lambda>p. None), w_dirs = [],
     w_uuids = 0, w_ticks = 0, w_ios = 0\<rparr>"

definition sample_submitted :: "unit world" where
  "sample_submitted = snd (submit sample_env (pf_type sample_profile) (to_dict sample_profile) (Some ''hello'') ''.md''
     (Some ''t1'') None None sample_start)"

definition sample_claimed :: "unit world" where
  "sample_claimed = snd (claim_stage sample_env ''t1'' sample_submitted)"

lemma sample_submitted_reachable: "reachable sample_env sample_submitted"
  unfolding sample_submitted_def
  by (rule further [OF initial submitted]) (auto simp: sample_start_def intro: prod.collapse [symmetric])

lemma sample_claimed_reachable: "reachable sample_env sample_claimed"
  unfolding sample_claimed_def
  by (rule further [OF sample_submitted_reachable claimed]) (rule prod.collapse [symmetric])

lemma lifecycle_invariant_witness:
  "w_txn sample_claimed = None \<and> lifecycle_ok (w_db sample_claimed)"
  by (rule lifecycle_invariant [OF sample_claimed_reachable])

definition sample_provider :: "unit provider" where
  "sample_provider =
     \<lparr>pv_preflight = (\<lambda>w t st. \<lparr>pr_status = ''pass'', pr_reason = [], pr_output = [], pr_exit_code = Some 0,
         pr_command = [], pr_model = None, pr_started_at_ms = 0, pr_ended_at_ms = 0, pr_timed_out = False\<rparr>),
      pv_run = (\<lambda>w t st tok e c lp. base_result (Some 0) ''OUTCOME: ok'' None [] [] False),
      pv_reports = (\<lambda>w t. None), pv_ctx_msg = (\<lambda>e. []), pv_conv_msg = (\<lambda>e. []), pv_env_msg = (\<lambda>e. [])\<rparr>"

lemma drivers_are_steps_witness:
  "reachable sample_env (snd (run_until_stop 3 sample_env sample_provider ''t1'' sample_submitted))"
  using drivers_are_steps [OF sample_submitted_reachable, of 3 sample_provider "''t1''"] by (rule conjunct1)

text \<open>A world with one queued task, as its submission left it.\<close>

definition sample_task :: task_row where
  "sample_task = \<lparr>t_id = ''t1'', t_type = ''bugfix'', t_status = ''queued'', t_stop_reason = None,
     t_current_stage = ''review'', t_owner = Some ''claude'', t_revision = 0, t_profile_hash = ''p'', t_input_hash = ''hello'',
     t_profile_snapshot_path = ''/h/p.json'', t_input_snapshot_path = ''/h/i.md'', t_artifact_dir = ''/h/tasks/t1'',
     t_transitions_count = 0, t_max_transitions = 6, t_resume_allowance = 0, t_lease_token = None,
     t_created_at = 0, t_updated_at = 0, t_workspace_dir = None\<rparr>"

definition sample_transition :: transition_row where
  "sample_transition = \<lparr>x_task_id = ''t1'', x_seq = 1, x_operation_id = ''op1'', x_run_token = None, x_stage = None,
     x_owner = None, x_edge = None, x_outcome = None, x_from_status = None, x_to_status = ''queued'',
     x_reason = Some ''submitted'', x_at = 0\<rparr>"

definition sample_world :: "unit world" where
  "sample_world = sample_start\<lparr>w_db := empty_db\<lparr>db_tasks := [sample_task], db_transitions := [sample_transition]\<rparr>\<rparr>"

definition plain_env :: "unit env" where
  "plain_env = sample_env\<lparr>sha := (\<lambda>s. s)\<rparr>"

lemma resume_retry_witness:
  "resume 1 sample_env sample_provider ''t2'' (Some ''op1'') False sample_world = (Inl (OtherTask ''op1''), sample_world)"
proof -
  have "db_ok (w_db sample_world)" by code_simp
  moreover have "sample_transition \<in> set (db_transitions (w_db sample_world))"
    by (simp add: sample_world_def sample_start_def)
  ultimately show ?thesis
    using resume_retry [of sample_world sample_transition "''op1''" 1 sample_env sample_provider "''t2''" False]
    by (simp add: sample_transition_def)
qed

lemma submit_retry_witness:
  "submit plain_env ''bugfix'' (to_dict sample_profile) (Some ''other'') ''.md'' (Some ''t1'') None None sample_world
     = (Inl (TaskIdReused ''t1''), sample_world)"
proof -
  have "find_task (w_db sample_world) ''t1'' = Some sample_task" by code_simp
  moreover have "validate_profile (to_dict sample_profile) = Inr sample_profile" by code_simp
  moreover have "pf_type sample_profile = ''bugfix''" by code_simp
  moreover have "extract_plan (sha plain_env) (utf8_replace ''other'') sample_profile = Inr None" by code_simp
  ultimately show ?thesis
    using submit_retry [of sample_world "''t1''" sample_task "to_dict sample_profile" sample_profile "''bugfix''" plain_env "''other''"]
    by (simp add: sample_task_def plain_env_def)
qed


end
