(* ===== verification/JsonLaws.thy ===== *)
theory JsonLaws
  imports Json "HOL-Library.Multiset"
begin

text \<open>
  The decoder reads back what the canonical encoder writes: \<open>loads (dumps v)\<close> is \<open>v\<close> with the keys
  of every object sorted, for a value without real numbers.  Sorting the keys neither changes
  what a lookup returns nor what is encoded.
\<close>

section \<open>Text literals\<close>

lemma hex_val_digit: "n < 16 \<Longrightarrow> hex_val (hex_digit n) = Some n"
  by (simp add: hex_val_def hex_digit_def)

lemma escape_cases:
  obtains "(of_char c::nat) \<ge> 32" "c \<noteq> CHR 0x22" "c \<noteq> CHR 0x5C" "escape_char c = [c]"
  | s where "escape_char c = CHR 0x5C # s" "\<And>r. unescape (s @ r) = Some ([c], r)"
proof -
  obtain n :: nat where c: "c = char_of n" and n: "n < 256" 
    by (rule that [of "of_char c :: nat"]) simp_all
  then have o: "of_char c = n" by simp
  show ?thesis
  proof (cases "n = 34 \<or> n = 92 \<or> n < 32")
    case False
    with o show ?thesis by (intro that(1)) (auto simp: escape_char_def Let_def)
  next
    case True
    consider "n = 34 \<or> n = 92" | "n \<in> {8, 9, 10, 12, 13}" | "n < 32" "n \<notin> {8, 9, 10, 12, 13}"
      using True by blast
    then show ?thesis
    proof cases
      case 1
      then have "c = CHR 0x22 \<or> c = CHR 0x5C" by (auto simp: c char_of_eq_iff)
      then show ?thesis by (elim disjE; intro that(2) [of "[c]"]) (auto simp: escape_char_def unescape_def)
    next
      case 2
      then have "c = CHR 0x08 \<or> c = CHR 0x09 \<or> c = CHR 0x0A \<or> c = CHR 0x0C \<or> c = CHR 0x0D"
        by (auto simp: c char_of_eq_iff)
      then show ?thesis
        by (elim disjE; intro that(2) [of "tl (escape_char c)"]) (auto simp: escape_char_def unescape_def)
    next
      case 3
      have d: "n div 16 < 16" "n mod 16 < 16" using 3 by auto
      have e: "n div 16 * 16 + n mod 16 = n" by simp
      show ?thesis
        apply (rule that(2) [of "CHR ''u'' # CHR ''0'' # CHR ''0'' # hex_digit (n div 16) # [hex_digit (n mod 16)]"])
        using 3 o apply (simp add: escape_char_def Let_def)
        using 3 d e c by (simp add: unescape_def hex_val_digit utf8_of_def hex_val_def [of "CHR ''0''"])
    qed
  qed
qed

lemma parse_chars_escaped:
  "length t < k \<Longrightarrow> parse_chars k (concat (map escape_char t) @ CHR 0x22 # r) = Some (t, r)"
proof (induction t arbitrary: k)
  case Nil
  then show ?case by (cases k) auto
next
  case (Cons c t)
  then obtain m where k: "k = Suc m" "length t < m" by (cases k) auto
  show ?case
    by (cases c rule: escape_cases) (use k Cons.IH [of m] in simp_all)
qed

section \<open>Integers\<close>

definition ends_value :: "string \<Rightarrow> bool" where
  "ends_value r \<longleftrightarrow> r = [] \<or> hd r \<in> set '',]}''"

lemma nat_of_digits_append: "nat_of_digits a (s @ [c]) = nat_of_digits a s * 10 + (of_char c - 48)"
  by (induction s arbitrary: a) auto

lemma is_digit_char:
  "n < 10 \<Longrightarrow> is_digit (char_of (48 + n))" "n < 10 \<Longrightarrow> of_char (char_of (48 + n)) = 48 + n" for n :: nat
  by (simp_all add: is_digit_def)

lemma char_zero: "char_of (48 :: nat) = CHR ''0''"
  by (simp add: char_of_eq_iff)

lemma str_of_nat_digits: "list_all is_digit (str_of_nat n) \<and> str_of_nat n \<noteq> [] \<and> nat_of_digits 0 (str_of_nat n) = n"
proof (induction n rule: str_of_nat.induct)
  case (1 n)
  show ?case
  proof (cases "n < 10")
    case True
    then show ?thesis by (simp add: str_of_nat.simps [of n] is_digit_char)
  next
    case False
    then have "n mod 10 < 10" by simp
    with 1 False show ?thesis
      by (simp add: str_of_nat.simps [of n] is_digit_char nat_of_digits_append)
  qed
qed

lemma str_of_nat_hd: "0 < n \<Longrightarrow> hd (str_of_nat n) \<noteq> CHR ''0''"
proof (induction n rule: str_of_nat.induct)
  case (1 n)
  show ?case
  proof (cases "n < 10")
    case True
    with 1 show ?thesis by (simp add: str_of_nat.simps [of n] char_of_eq_iff take_bit_eq_mod)
  next
    case False
    with 1 str_of_nat_digits [of "n div 10"] show ?thesis by (simp add: str_of_nat.simps [of n])
  qed
qed

lemma digits_of_append: "list_all is_digit s \<Longrightarrow> ends_value r \<Longrightarrow> digits_of (s @ r) = (s, r)"
  by (cases r) (auto simp: digits_of_def ends_value_def list_all_iff takeWhile_append dropWhile_append is_digit_def)

lemma parse_number_nat:
  assumes "ends_value r"
  shows "(case str_of_nat n @ r of [] \<Rightarrow> ([], str_of_nat n @ r)
      | c # q \<Rightarrow> if c = CHR ''0'' then ([c], q) else digits_of (str_of_nat n @ r)) = (str_of_nat n, r)"
proof (cases "n = 0")
  case True
  then show ?thesis by (simp add: str_of_nat.simps char_zero)
next
  case False
  with str_of_nat_hd [of n] str_of_nat_digits [of n] digits_of_append [of "str_of_nat n" r] assms
  show ?thesis by (cases "str_of_nat n") auto
qed

lemma parse_tail: "ends_value r \<Longrightarrow> parse_frac r = ([], r) \<and> parse_exp r = ([], r)"
  by (cases r) (auto simp: ends_value_def parse_frac_def parse_exp_def)

lemma parse_number_int: "ends_value r \<Longrightarrow> parse_number (str_of_int i @ r) = Some (JInt i, r)"
proof -
  assume r: "ends_value r"
  have not_minus: "\<not> (\<exists>q. str_of_nat n @ r = CHR ''-'' # q)" for n
    using str_of_nat_digits [of n] by (cases "str_of_nat n") (auto simp: is_digit_def)
  show ?thesis
  proof (cases "i < 0")
    case True
    then show ?thesis
      using parse_number_nat [OF r, of "nat (- i)"] parse_tail [OF r] str_of_nat_digits [of "nat (- i)"]
      by (simp add: str_of_int_def parse_number_def Let_def)
  next
    case False
    have "(case str_of_nat (nat i) @ r of [] \<Rightarrow> (False, str_of_nat (nat i) @ r)
        | c # q \<Rightarrow> if c = CHR ''-'' then (True, q) else (False, str_of_nat (nat i) @ r)) = (False, str_of_nat (nat i) @ r)"
      using not_minus [of "nat i"] by (cases "str_of_nat (nat i) @ r") auto
    with False show ?thesis
      using parse_number_nat [OF r, of "nat i"] parse_tail [OF r] str_of_nat_digits [of "nat i"]
      by (simp add: str_of_int_def parse_number_def Let_def)
  qed
qed

lemma int_no_literal: "literal_of literals (str_of_int i @ r) = None"
proof -
  have d: "\<exists>c q. str_of_nat n = c # q \<and> is_digit c" for n
    using str_of_nat_digits [of n] by (cases "str_of_nat n") auto
  show ?thesis
    using d [of "nat i"] d [of "nat (- i)"]
    by (auto simp: str_of_int_def literals_def is_digit_def)
qed

lemma str_of_int_hd: "\<exists>c q. str_of_int i = c # q \<and> (is_digit c \<or> c = CHR ''-'')"
proof -
  have d: "\<exists>c q. str_of_nat n = c # q \<and> is_digit c" for n
    using str_of_nat_digits [of n] by (cases "str_of_nat n") auto
  show ?thesis using d [of "nat i"] by (auto simp: str_of_int_def)
qed

section \<open>Values\<close>

text \<open>Values without real numbers.\<close>

fun no_reals :: "json \<Rightarrow> bool" where
  "no_reals (JReal _) = False"
| "no_reals (JArr xs) = (\<forall>x \<in> set xs. no_reals x)"
| "no_reals (JObj kvs) = (\<forall>p \<in> set kvs. no_reals (snd p))"
| "no_reals _ = True"

lemma dumps_plain_hd: "no_reals v \<Longrightarrow> \<exists>c q. dumps_plain v = c # q \<and> \<not> is_json_space c \<and> c \<noteq> CHR '']''"
proof (cases v)
  case (JInt i)
  with str_of_int_hd [of i] show ?thesis by (auto simp: is_json_space_def is_digit_def)
qed (auto simp: is_json_space_def dumps_str_def)

lemma skip_ws_ready: "r = [] \<or> \<not> is_json_space (hd r) \<Longrightarrow> skip_ws r = r"
  by (cases r) (auto simp: skip_ws_def)

lemma skip_ws_dumps [simp]: "no_reals v \<Longrightarrow> skip_ws (dumps_plain v @ r) = dumps_plain v @ r"
  using dumps_plain_hd [of v] by (auto simp: skip_ws_def)

lemma length_escaped: "length t \<le> length (concat (map escape_char t))"
proof (induction t)
  case (Cons c t)
  then show ?case by (cases c rule: escape_cases) auto
qed simp

lemma parse_leaf:
  assumes "ends_value r" "0 < k"
  shows "parse_value h k (dumps_plain (JInt i) @ r) = Some (JInt i, r)"
    and "parse_value h k (dumps_plain JNull @ r) = Some (JNull, r)"
    and "parse_value h k (dumps_plain (JBool b) @ r) = Some (JBool b, r)"
    and "parse_value h k (dumps_plain (JStr t) @ r) = Some (JStr t, r)"
proof -
  obtain m where k: "k = Suc m" using assms(2) by (cases k) auto
  show "parse_value h k (dumps_plain (JInt i) @ r) = Some (JInt i, r)"
    using str_of_int_hd [of i] parse_number_int [OF assms(1), of i] int_no_literal [of i r]
    by (auto simp: k is_digit_def)
  show "parse_value h k (dumps_plain JNull @ r) = Some (JNull, r)" by (simp add: k literals_def)
  show "parse_value h k (dumps_plain (JBool b) @ r) = Some (JBool b, r)" by (simp add: k literals_def)
  have "length t < length (dumps_plain (JStr t) @ r)"
    using length_escaped [of t] by (simp add: dumps_str_def)
  with parse_chars_escaped [of t "length (dumps_plain (JStr t) @ r)" r]
  show "parse_value h k (dumps_plain (JStr t) @ r) = Some (JStr t, r)"
    by (simp add: k dumps_str_def)
qed

text \<open>The object hook of either decoder, on a dict.\<close>

definition hook_ok :: "((string \<times> json) list \<Rightarrow> json option) \<Rightarrow> bool" where
  "hook_ok h \<longleftrightarrow> (\<forall>ps. distinct (map fst ps) \<longrightarrow> h ps = Some (JObj ps))"

definition reads_back :: "((string \<times> json) list \<Rightarrow> json option) \<Rightarrow> json \<Rightarrow> bool" where
  "reads_back h v \<longleftrightarrow> (\<forall>k r. length (dumps_plain v) \<le> k \<longrightarrow> ends_value r \<longrightarrow>
     parse_value h k (dumps_plain v @ r) = Some (v, r))"

definition dumps_pair :: "string \<times> json \<Rightarrow> string" where
  "dumps_pair p = dumps_str (fst p) @ '':'' @ dumps_plain (snd p)"

lemma ends_value_simps [simp]:
  "ends_value []" "ends_value (CHR '','' # r)" "ends_value (CHR '']'' # r)" "ends_value (CHR ''}'' # r)"
  by (simp_all add: ends_value_def)

lemma skip_ws_simps [simp]:
  "skip_ws (CHR '','' # r) = CHR '','' # r" "skip_ws (CHR '']'' # r) = CHR '']'' # r"
  "skip_ws (CHR ''}'' # r) = CHR ''}'' # r" "skip_ws (CHR '':'' # r) = CHR '':'' # r"
  "skip_ws (dumps_str t @ r) = dumps_str t @ r" "skip_ws [] = []" "skip_ws (CHR 0x22 # r) = CHR 0x22 # r"
  by (simp_all add: skip_ws_def is_json_space_def dumps_str_def)

lemma parse_items_reads:
  "\<lbrakk>\<forall>v \<in> set vs. reads_back h v \<and> no_reals v; vs \<noteq> []; length (join_with '','' (map dumps_plain vs)) < k\<rbrakk> \<Longrightarrow>
   parse_items h k (join_with '','' (map dumps_plain vs) @ '']'' @ r) = Some (vs, r)"
proof (induction vs arbitrary: k)
  case Nil
  then show ?case by simp
next
  case (Cons v vs)
  then obtain m where k: "k = Suc m" by (cases k) auto
  show ?case
  proof (cases vs)
    case Nil
    with Cons.prems k show ?thesis by (simp add: reads_back_def)
  next
    case (Cons w ws)
    let ?rest = "join_with '','' (map dumps_plain vs)"
    obtain c q where hd: "dumps_plain v = c # q" using dumps_plain_hd [of v] Cons.prems(1) by auto
    have ready: "skip_ws (?rest @ s) = ?rest @ s" for s
      using Cons.prems(1) Cons by (cases ws) simp_all
    have "parse_items h m (?rest @ '']'' @ r) = Some (vs, r)"
      by (rule Cons.IH) (use Cons.prems Cons k hd in auto)
    moreover have "parse_value h m (dumps_plain v @ '','' @ ?rest @ '']'' @ r) = Some (v, '','' @ ?rest @ '']'' @ r)"
      using Cons.prems k Cons by (auto simp: reads_back_def)
    ultimately show ?thesis using ready k Cons by (simp)
  qed
qed

lemma parse_key:
  "parse_chars (length (dumps_str t @ r)) (concat (map escape_char t) @ CHR 0x22 # r) = Some (t, r)"
  by (rule parse_chars_escaped) (use length_escaped [of t] in \<open>simp add: dumps_str_def\<close>)

lemma parse_pairs_step:
  "parse_pairs h (Suc m) (dumps_str t @ CHR '':'' # s) =
     (case parse_value h m (skip_ws s) of None \<Rightarrow> None
      | Some (v, r3) \<Rightarrow>
        (case skip_ws r3 of [] \<Rightarrow> None
         | e # q \<Rightarrow>
           if e = CHR ''}'' then Some ([(t, v)], q)
           else if e = CHR '','' then map_option (\<lambda>(ps, u). ((t, v) # ps, u)) (parse_pairs h m (skip_ws q))
           else None))"
proof -
  have start: "dumps_str t @ CHR '':'' # s = CHR 0x22 # concat (map escape_char t) @ CHR 0x22 # CHR '':'' # s"
    by (simp add: dumps_str_def)
  show ?thesis
    using parse_key [of t "CHR '':'' # s"] unfolding start by (simp del: parse_chars.simps)
qed

lemma parse_pairs_reads:
  "\<lbrakk>\<forall>p \<in> set ps. reads_back h (snd p) \<and> no_reals (snd p); ps \<noteq> [];
    length (join_with '','' (map dumps_pair ps)) < k\<rbrakk> \<Longrightarrow>
   parse_pairs h k (join_with '','' (map dumps_pair ps) @ ''}'' @ r) = Some (ps, r)"
proof (induction ps arbitrary: k)
  case Nil
  then show ?case by simp
next
  case (Cons p ps)
  then obtain m where k: "k = Suc m" by (cases k) auto
  obtain t v where p: "p = (t, v)" by force
  have v: "reads_back h v" "no_reals v" using Cons.prems(1) p by auto
  show ?case
  proof (cases ps)
    case Nil
    have "parse_value h m (dumps_plain v @ ''}'' @ r) = Some (v, ''}'' @ r)"
      using v Cons.prems k Nil p by (auto simp: reads_back_def dumps_pair_def)
    with Nil k p v show ?thesis by (simp add: dumps_pair_def parse_pairs_step del: parse_pairs.simps)
  next
    case (Cons w ws)
    let ?rest = "join_with '','' (map dumps_pair ps)"
    have ready: "skip_ws (?rest @ s) = ?rest @ s" for s
      using Cons by (cases ws) (simp_all add: dumps_pair_def)
    have "parse_pairs h m (?rest @ ''}'' @ r) = Some (ps, r)"
      by (rule Cons.IH) (use Cons.prems Cons k p in \<open>auto simp: dumps_pair_def\<close>)
    moreover have "parse_value h m (dumps_plain v @ '','' @ ?rest @ ''}'' @ r) = Some (v, '','' @ ?rest @ ''}'' @ r)"
      using v Cons.prems k Cons p by (auto simp: reads_back_def dumps_pair_def)
    ultimately show ?thesis
      using ready k Cons p v
      by (simp add: dumps_pair_def [of "(t, v)"] parse_pairs_step del: parse_pairs.simps)
  qed
qed

lemma join_hd: "xs \<noteq> [] \<Longrightarrow> hd xs = c # q \<Longrightarrow> \<exists>q'. join_with d xs = c # q'"
  by (cases xs; cases "tl xs") auto

lemma dumps_obj: "dumps_plain (JObj kvs) = ''{'' @ join_with '','' (map dumps_pair kvs) @ ''}''"
proof -
  have "(\<lambda>(k, v). dumps_str k @ '':'' @ dumps_plain v) = dumps_pair" by (auto simp: dumps_pair_def)
  then show ?thesis by simp
qed

theorem reads_back_all:
  assumes "hook_ok h"
  shows "no_reals v \<Longrightarrow> wf_json v \<Longrightarrow> reads_back h v"
proof (induction v)
  case (JArr xs)
  show ?case unfolding reads_back_def
  proof (intro allI impI)
    fix k r assume k: "length (dumps_plain (JArr xs)) \<le> k"
    then obtain m where m: "k = Suc m" by (cases k) auto
    show "parse_value h k (dumps_plain (JArr xs) @ r) = Some (JArr xs, r)"
    proof (cases "xs = []")
      case True
      with m show ?thesis by simp
    next
      case False
      then obtain c q where "hd (map dumps_plain xs) = c # q" "\<not> is_json_space c" "c \<noteq> CHR '']''"
        using dumps_plain_hd [of "hd xs"] JArr.prems by (cases xs) auto
      then obtain q' where j: "join_with '','' (map dumps_plain xs) = c # q'"
        using join_hd [of "map dumps_plain xs" c q "'',''"] False by auto
      have "parse_items h m (join_with '','' (map dumps_plain xs) @ '']'' @ r) = Some (xs, r)"
        by (rule parse_items_reads) (use JArr False k m in auto)
      with j m \<open>\<not> is_json_space c\<close> \<open>c \<noteq> CHR '']''\<close> show ?thesis by (simp add: skip_ws_def)
    qed
  qed
next
  case (JObj kvs)
  show ?case unfolding reads_back_def
  proof (intro allI impI)
    fix k r assume k: "length (dumps_plain (JObj kvs)) \<le> k"
    then obtain m where m: "k = Suc m" by (cases k) auto
    have h: "h kvs = Some (JObj kvs)" using assms JObj.prems by (simp add: hook_ok_def)
    show "parse_value h k (dumps_plain (JObj kvs) @ r) = Some (JObj kvs, r)"
    proof (cases "kvs = []")
      case True
      with m h show ?thesis by simp
    next
      case False
      then obtain q where "hd (map dumps_pair kvs) = CHR 0x22 # q"
        by (cases kvs) (auto simp: dumps_pair_def dumps_str_def)
      then obtain q' where j: "join_with '','' (map dumps_pair kvs) = CHR 0x22 # q'"
        using join_hd [of "map dumps_pair kvs" _ q "'',''"] False by auto
      have "\<forall>p \<in> set kvs. reads_back h (snd p) \<and> no_reals (snd p)"
        using JObj.prems JObj.IH [OF _ snds.intros] by auto
      then have "parse_pairs h m (join_with '','' (map dumps_pair kvs) @ ''}'' @ r) = Some (kvs, r)"
        by (rule parse_pairs_reads) (use False k [unfolded dumps_obj] m in auto)
      with j m h show ?thesis unfolding dumps_obj by simp
    qed
  qed
next
  case (JInt i)
  show ?case unfolding reads_back_def
    by (intro allI impI parse_leaf) (use str_of_int_hd [of i] in auto)
next
  case (JStr t)
  show ?case unfolding reads_back_def by (intro allI impI parse_leaf) (auto simp: dumps_str_def)
next
  case JNull
  show ?case unfolding reads_back_def by (intro allI impI parse_leaf) auto
next
  case (JBool b)
  show ?case unfolding reads_back_def by (intro allI impI parse_leaf) (auto split: if_splits)
qed simp

section \<open>Sorting the keys\<close>

definition keyed :: "string \<times> json \<Rightarrow> string \<times> json" where
  "keyed p = (fst p, sort_keys (snd p))"

lemma sort_keys_obj: "sort_keys (JObj kvs) = JObj (sort_key fst (map keyed kvs))"
proof -
  have "(\<lambda>(k, v). (k, sort_keys v)) = keyed" by (auto simp: keyed_def)
  then show ?thesis by simp
qed

lemma fst_keyed [simp]: "fst (keyed p) = fst p" "map fst (map keyed kvs) = map fst kvs"
  by (simp_all add: keyed_def comp_def)

lemma distinct_sort_key: "distinct (map fst (sort_key fst kvs)) \<longleftrightarrow> distinct (map fst kvs)"
  by (metis mset_map mset_sort mset_eq_imp_distinct_iff)

lemma map_of_sort_key: "distinct (map fst kvs) \<Longrightarrow> map_of (sort_key fst kvs) = map_of kvs"
proof (rule ext)
  fix k
  assume d: "distinct (map fst kvs)"
  then have "map_of (sort_key fst kvs) k = Some v \<longleftrightarrow> map_of kvs k = Some v" for v
    by (simp add: map_of_eq_Some_iff distinct_sort_key del: distinct_map)
  then show "map_of (sort_key fst kvs) k = map_of kvs k" by (metis option.exhaust)
qed

lemma wf_sort_keys: "wf_json v \<Longrightarrow> wf_json (sort_keys v)"
proof (induction v)
  case (JObj kvs)
  then have "wf_json (sort_keys (snd p))" if "p \<in> set kvs" for p
    using that snds.intros by fastforce
  with JObj.prems show ?case unfolding sort_keys_obj
    by (auto simp: distinct_sort_key comp_def keyed_def)
qed auto

lemma no_reals_sort_keys: "no_reals v \<Longrightarrow> no_reals (sort_keys v)"
proof (induction v)
  case (JObj kvs)
  then have "no_reals (sort_keys (snd p))" if "p \<in> set kvs" for p
    using that snds.intros by fastforce
  with JObj.prems show ?case unfolding sort_keys_obj by (auto simp: keyed_def)
qed auto

lemma sort_keys_idem [simp]: "sort_keys (sort_keys v) = sort_keys v"
proof (induction v)
  case (JObj kvs)
  then have "keyed (keyed p) = keyed p" if "p \<in> set kvs" for p
    using that snds.intros by (fastforce simp: keyed_def)
  then have "map keyed (sort_key fst (map keyed kvs)) = sort_key fst (map keyed kvs)"
    by (intro map_idI) auto
  then show ?case unfolding sort_keys_obj by (simp add: sort_key_id_if_sorted)
qed auto

theorem loads_dumps:
  assumes "wf_json v" "no_reals v"
  shows "loads (dumps v) = Some (sort_keys v)" and "loads_unique (dumps v) = Some (sort_keys v)"
proof -
  have ok: "wf_json (sort_keys v)" "no_reals (sort_keys v)"
    using assms by (auto intro: wf_sort_keys no_reals_sort_keys)
  have "loads_with h (dumps v) = Some (sort_keys v)" if h: "hook_ok h" for h
  proof -
    have "parse_value h (2 * length (dumps v) + 2) (dumps_plain (sort_keys v) @ []) = Some (sort_keys v, [])"
      by (rule reads_back_all [OF h ok(2, 1), unfolded reads_back_def, rule_format]) (simp_all add: dumps_def)
    with skip_ws_dumps [OF ok(2), of "[]"] show ?thesis
      by (simp add: loads_with_def dumps_def del: parse_value.simps)
  qed
  then show "loads (dumps v) = Some (sort_keys v)" "loads_unique (dumps v) = Some (sort_keys v)"
    by (auto simp: loads_def loads_unique_def hook_ok_def)
qed

lemma map_of_keyed: "map_of (map keyed kvs) k = map_option sort_keys (map_of kvs k)"
  by (induction kvs) (auto simp: keyed_def)

lemma jget_sort_keys:
  "distinct (map fst kvs) \<Longrightarrow> jget (sort_key fst (map keyed kvs)) k = sort_keys (jget kvs k)"
proof -
  assume d: "distinct (map fst kvs)"
  note map_of_keyed [of kvs k]
  moreover have "map_of (sort_key fst (map keyed kvs)) = map_of (map keyed kvs)"
    by (rule map_of_sort_key) (use d in \<open>simp only: fst_keyed\<close>)
  ultimately show ?thesis by (simp add: jget_def split: option.split)
qed

lemma dumps_sort_keys [simp]: "dumps (sort_keys v) = dumps v"
  by (simp add: dumps_def)

text \<open>Two objects encode alike exactly when they have the same fields, up to the order of keys.\<close>

lemma sort_keys_obj_eq_iff:
  assumes "distinct (map fst ps)" "distinct (map fst qs)"
  shows "sort_keys (JObj ps) = sort_keys (JObj qs) \<longleftrightarrow>
    (\<forall>k. map_option sort_keys (map_of ps k) = map_option sort_keys (map_of qs k))"
proof -
  have d: "distinct (map fst (map keyed ps))" "distinct (map fst (map keyed qs))" using assms by (simp_all only: fst_keyed)
  have "sort_key fst (map keyed ps) = sort_key fst (map keyed qs) \<longleftrightarrow> map_of (map keyed ps) = map_of (map keyed qs)"
  proof
    assume "sort_key fst (map keyed ps) = sort_key fst (map keyed qs)"
    then show "map_of (map keyed ps) = map_of (map keyed qs)" using map_of_sort_key [OF d(1)] map_of_sort_key [OF d(2)] by simp
  next
    assume "map_of (map keyed ps) = map_of (map keyed qs)"
    then have "set (map keyed ps) = set (map keyed qs)" using map_of_inject_set [OF d] by blast
    then have "mset (map keyed ps) = mset (map keyed qs)"
      using set_eq_iff_mset_eq_distinct [OF distinct_map [THEN iffD1, OF d(1), THEN conjunct1] distinct_map [THEN iffD1, OF d(2), THEN conjunct1]] by blast
    moreover have "inj_on fst (set (map keyed ps))" using d(1) distinct_map by blast
    ultimately show "sort_key fst (map keyed ps) = sort_key fst (map keyed qs)"
      by (intro sort_key_inj_key_eq) auto
  qed
  then show ?thesis unfolding sort_keys_obj by (auto simp: map_of_keyed fun_eq_iff)
qed

end
