(* ===== verification/Events.thy ===== *)
theory Events
  imports JsonLaws Regex
begin

text \<open>
  The vocabulary and the validator of one trajectory event (\<open>orchestrator/trajectory.py\<close>, up to
  \<open>canonical_event_bytes\<close>).  Unicode normalisation and SHA-256 are the parameters \<open>N\<close>
  (\<open>unicodedata.normalize("NFC", .)\<close>) and \<open>H\<close> (the hex digest of bytes).  A refusal is
  the message of the \<open>TrajectoryError\<close>; the one other exception a malformed event can cause
  (comparing or hashing values of unlike types in a list that should be sorted) is a constructor of its own.
\<close>

section \<open>Vocabulary\<close>

definition NORMALIZER_VERSION :: string where
  "NORMALIZER_VERSION = ''trajectory-v1''"

definition SUPPORTED_EVENT_TYPES :: "string list" where
  "SUPPORTED_EVENT_TYPES =
     [''task.created'', ''task.transition.committed'', ''stage.claimed'', ''stage.settled'',
      ''provider.dispatch_intent'', ''provider.dispatched'', ''provider.settled'', ''session.bound'',
      ''session.rebound'', ''evidence.sealed'', ''migration.baseline'']"

definition RESERVED_EVENT_TYPES :: "string list" where
  "RESERVED_EVENT_TYPES =
     [''prompt.assembled'', ''context.mounted'', ''tool.requested'', ''tool.dispatch_intent'', ''tool.dispatched'',
      ''tool.settled'', ''approval.requested'', ''approval.decided'', ''subagent.spawned'', ''subagent.message'',
      ''subagent.settled'', ''join.decided'', ''artifact.committed'', ''gate.decided'']"

definition TOP_LEVEL_KEYS :: "string list" where
  "TOP_LEVEL_KEYS =
     [''schema_version'', ''trajectory_id'', ''seq'', ''event_id'', ''event_type'', ''event_version'',
      ''recorded_at_ms'', ''task'', ''run'', ''invocation_id'', ''workflow_attempt_ref'', ''session_ref'',
      ''parent_event_id'', ''causal_event_ids'', ''actor'', ''body'', ''evidence_refs'', ''sensitivity'',
      ''retention_class'', ''normalizer_version'', ''prev_event_hash'', ''event_hash'']"

definition EVENT_TASK_STATUSES :: "string list" where
  "EVENT_TASK_STATUSES = [''queued'', ''running'', ''waiting_user'', ''blocked'', ''done'', ''failed'', ''paused'']"

definition ACTOR_KINDS :: "string list" where
  "ACTOR_KINDS = [''controller'', ''provider'', ''tool'', ''user'', ''gate'', ''subagent'', ''migrator'']"

definition SENSITIVITIES :: "string list" where
  "SENSITIVITIES = [''public'', ''internal'', ''sensitive'']"

definition RETENTION_CLASSES :: "string list" where
  "RETENTION_CLASSES = [''structural'', ''task-lifecycle'', ''sealed-evidence'', ''ephemeral-ref'']"

definition AVAILABILITY :: "string list" where
  "AVAILABILITY = [''present'', ''unavailable'', ''corrupt'']"

definition USAGE_BASES :: "string list" where
  "USAGE_BASES = [''per-turn'', ''cumulative'', ''delta-from-cumulative'', ''unavailable'']"

definition MISSING_DOMAINS :: "string list" where
  "MISSING_DOMAINS = [''prompt'', ''context'', ''provider'', ''session'', ''tool'', ''approval'', ''subagent'',
     ''join'', ''gate'', ''usage'', ''evidence'']"

definition TRANSITION_REASON_CODES :: "string list" where
  "TRANSITION_REASON_CODES =
     [''task_created'', ''stage_completed'', ''edge_cap'', ''transition_cap'', ''needs_user_decision'', ''resumed'',
      ''orphaned_running'', ''provider_preflight_failed'', ''other'']"

definition OUTCOME_CODES :: "string list" where
  "OUTCOME_CODES =
     [''allow'', ''applied'', ''block'', ''blocked'', ''contract_findings'', ''contract_pass'', ''drafted'',
      ''implemented'', ''needs_correction'', ''needs_repair'', ''needs_revision'', ''needs_simplification'',
      ''needs_user_decision'', ''prerun_done'', ''produced'', ''ready'', ''repaired'', ''review'', ''reviewed'',
      ''revised'', ''simplified'', ''validated'', ''other'']"

definition STAGE_CLASSIFICATIONS :: "string list" where
  "STAGE_CLASSIFICATIONS = [''success'', ''blocked'', ''paused'', ''waiting_user'', ''failed'']"

definition PROVIDER_RESULT_CLASSES :: "string list" where
  "PROVIDER_RESULT_CLASSES = [''success'', ''blocked'', ''paused'', ''failed'', ''unknown'']"

definition USAGE_UNAVAILABLE_REASON_CODES :: "string list" where
  "USAGE_UNAVAILABLE_REASON_CODES =
     [''provider_cli_usage_not_reported'', ''runner_usage_unavailable'', ''usage_basis_unverified'',
      ''not_applicable_provider_preflight_failed'', ''other'']"

definition SESSION_REBOUND_REASON_CODES :: "string list" where
  "SESSION_REBOUND_REASON_CODES =
     [''provider_session_replaced'', ''session_unavailable'', ''session_corrupt'', ''session_expired'', ''resume'', ''other'']"

definition OWNER_ROLES :: "string list" where
  "OWNER_ROLES = [''executor'', ''reviewer'']"

definition SUPPORTED_EVIDENCE_SEAL_VERSIONS :: "int list" where
  "SUPPORTED_EVIDENCE_SEAL_VERSIONS = [1, 2, 3]"

definition EVIDENCE_SEAL_KINDS :: "(string \<times> string) list" where
  "EVIDENCE_SEAL_KINDS =
     [(''run-manifest'', ''db-committed-run-manifest''), (''transport-receipt'', ''controller-receipt''),
      (''session-binding'', ''session-binding''), (''checkpoint'', ''checkpoint''),
      (''final-response'', ''db-committed-run-manifest'')]"

definition EVIDENCE_KINDS :: "string list" where
  "EVIDENCE_KINDS = [''run-manifest'', ''transport-receipt'', ''session-binding'', ''checkpoint'', ''final-response'']"

definition SEAL_KINDS :: "string list" where
  "SEAL_KINDS = [''db-committed-run-manifest'', ''controller-receipt'', ''session-binding'', ''checkpoint'']"

section \<open>Shapes of text\<close>

definition is_identifier_start :: "char \<Rightarrow> bool" where
  "is_identifier_start c \<longleftrightarrow> is_lower_alpha c \<or> is_digit c"

definition IDENTIFIER :: "string \<Rightarrow> bool" where
  "IDENTIFIER s \<longleftrightarrow>
     (case s of [] \<Rightarrow> False
      | c # cs \<Rightarrow> is_identifier_start c \<and> length cs \<le> 127
               \<and> list_all (\<lambda>d. is_identifier_start d \<or> d \<in> set ''._:-'') cs)"

definition HEX_DIGEST :: "string \<Rightarrow> bool" where
  "HEX_DIGEST s \<longleftrightarrow> length s = 64 \<and> list_all is_hex_lower s"

definition DIGEST :: "string \<Rightarrow> bool" where
  "DIGEST s \<longleftrightarrow> starts_with ''sha256:'' s \<and> HEX_DIGEST (drop 7 s)"

definition PATH_SEGMENT :: "string \<Rightarrow> bool" where
  "PATH_SEGMENT s \<longleftrightarrow> s \<noteq> [] \<and> list_all (\<lambda>d. is_alnum d \<or> d \<in> set ''._-'') s"

definition media_part :: "string \<Rightarrow> bool" where
  "media_part s \<longleftrightarrow>
     (case s of [] \<Rightarrow> False
      | c # cs \<Rightarrow> is_identifier_start c \<and> list_all (\<lambda>d. is_identifier_start d \<or> d \<in> set ''.+-'') cs)"

definition MEDIA_TYPE :: "string \<Rightarrow> bool" where
  "MEDIA_TYPE s \<longleftrightarrow> (case split_char CHR ''/'' s of [a, b] \<Rightarrow> media_part a \<and> media_part b | _ \<Rightarrow> False)"

definition secret_char :: "string \<Rightarrow> re" where
  "secret_char extra = Cls (\<lambda>d. is_alnum d \<or> d \<in> set extra)"

definition DETECTABLE_SECRET_PATTERNS :: "re list" where
  "DETECTABLE_SECRET_PATTERNS =
     [seqs [lit ''-----BEGIN '', Star (Cls (\<lambda>d. is_upper_alpha d \<or> is_digit d \<or> d = CHR '' '')), lit ''PRIVATE KEY-----''],
      seqs ([WordB, alts [lit ''ghp_'', lit ''github_pat_'', seqs [lit ''xox'', cls_of ''baprs'', lit ''-''],
                          seqs [lit ''sk-'', Opt (lit ''proj-'')]]]
            @ replicate 8 (secret_char ''_-'') @ [Star (secret_char ''_-'')]),
      seqs ([WordB, lit ''AKIA''] @ replicate 16 (Cls (\<lambda>d. is_upper_alpha d \<or> is_digit d)) @ [WordB]),
      seqs ([alts [seqs [ilit ''api'', Opt (cls_of ''_-''), ilit ''key''], seqs [ilit ''access'', Opt (cls_of ''_-''), ilit ''token''],
                   seqs [ilit ''auth'', Opt (cls_of ''_-''), ilit ''token''], ilit ''token'', ilit ''password'', ilit ''passwd'',
                   ilit ''credential'', seqs [ilit ''client'', Opt (cls_of ''_-''), ilit ''secret''],
                   seqs [ilit ''private'', Opt (cls_of ''_-''), ilit ''key'']],
             cls_of '':='']
            @ replicate 8 (secret_char ''._/-'') @ [Star (secret_char ''._/-'')])]"

text \<open>The texts \<open>str(uuid.UUID(.))\<close> returns.\<close>

definition canonical_uuid :: "string \<Rightarrow> bool" where
  "canonical_uuid s \<longleftrightarrow> length s = 36
     \<and> list_all (\<lambda>(i, c). if i \<in> {8, 13, 18, 23} then c = CHR ''-'' else is_hex_lower c) (enumerate 0 s)"

section \<open>Fields\<close>

datatype traj_error = TrajectoryError string | PyTypeError | JSONDecodeError

text \<open>The checks of a validator, in order: the first that fails decides.\<close>

fun allR :: "('e, unit) res list \<Rightarrow> ('e, unit) res" where
  "allR [] = Inr ()"
| "allR (c # cs) = bindR c (\<lambda>_. allR cs)"

declare allR.simps [simp del]

definition needR :: "bool \<Rightarrow> string \<Rightarrow> (traj_error, unit) res" where
  "needR b message = (if b then Inr () else Inl (TrajectoryError message))"

definition ev_keys :: "json \<Rightarrow> string list \<Rightarrow> string \<Rightarrow> (traj_error, (string \<times> json) list) res" where
  "ev_keys v expected label =
     (case v of
        JObj kvs \<Rightarrow> check (set (keys kvs) = set expected) (TrajectoryError (label @ '' keys mismatch'')) (Inr kvs)
      | _ \<Rightarrow> Inl (TrajectoryError (label @ '' keys mismatch'')))"

definition ev_integer :: "int \<Rightarrow> json \<Rightarrow> string \<Rightarrow> (traj_error, unit) res" where
  "ev_integer minimum v label =
     needR (case v of JInt i \<Rightarrow> minimum \<le> i | _ \<Rightarrow> False) (label @ '' must be an integer >= '' @ str_of_int minimum)"

text \<open>A field that may be \<open>None\<close>.\<close>

definition nullable :: "(json \<Rightarrow> string \<Rightarrow> (traj_error, unit) res) \<Rightarrow> json \<Rightarrow> string \<Rightarrow> (traj_error, unit) res" where
  "nullable f v label = (if v = JNull then Inr () else f v label)"

definition ev_boolean :: "json \<Rightarrow> string \<Rightarrow> (traj_error, unit) res" where
  "ev_boolean v label = needR (is_bool v) (label @ '' must be a boolean'')"

definition ev_text :: "(string \<Rightarrow> string) \<Rightarrow> json \<Rightarrow> string \<Rightarrow> (traj_error, string) res" where
  "ev_text N v label =
     (case v of
        JStr s \<Rightarrow>
          if s = [] then Inl (TrajectoryError (label @ '' must be a non-empty string''))
          else if N s \<noteq> s then Inl (TrajectoryError (label @ '' must be NFC-normalized''))
          else Inr s
      | _ \<Rightarrow> Inl (TrajectoryError (label @ '' must be a non-empty string'')))"

definition ev_shape :: "(string \<Rightarrow> bool) \<Rightarrow> string \<Rightarrow> (string \<Rightarrow> string) \<Rightarrow> json \<Rightarrow> string \<Rightarrow> (traj_error, unit) res" where
  "ev_shape ok complaint N v label = bindR (ev_text N v label) (\<lambda>s. needR (ok s) (label @ complaint))"

definition ev_identifier :: "(string \<Rightarrow> string) \<Rightarrow> json \<Rightarrow> string \<Rightarrow> (traj_error, unit) res" where
  "ev_identifier = ev_shape IDENTIFIER '' is not a stable identifier''"

definition ev_uuid :: "(string \<Rightarrow> string) \<Rightarrow> json \<Rightarrow> string \<Rightarrow> (traj_error, unit) res" where
  "ev_uuid = ev_shape canonical_uuid '' must be a canonical UUID''"

definition ev_digest :: "(string \<Rightarrow> string) \<Rightarrow> json \<Rightarrow> string \<Rightarrow> (traj_error, unit) res" where
  "ev_digest = ev_shape DIGEST '' must be a sha256 digest''"

definition ev_ref_id :: "(string \<Rightarrow> string) \<Rightarrow> json \<Rightarrow> string \<Rightarrow> (traj_error, unit) res" where
  "ev_ref_id N v label =
     bindR (ev_text N v label)
       (\<lambda>s. bindR (needR (starts_with ''evref:'' s) (label @ '' must start with evref:''))
         (\<lambda>_. ev_uuid N (JStr (drop 6 s)) label))"

definition ev_enum :: "(string \<Rightarrow> string) \<Rightarrow> string list \<Rightarrow> json \<Rightarrow> string \<Rightarrow> (traj_error, unit) res" where
  "ev_enum N allowed v label =
     bindR (ev_text N v label) (\<lambda>s. needR (s \<in> set allowed) (''unsupported '' @ label))"

definition ev_enum_with_other_digest ::
  "(string \<Rightarrow> string) \<Rightarrow> string list \<Rightarrow> json \<Rightarrow> json \<Rightarrow> string \<Rightarrow> string \<Rightarrow> (traj_error, unit) res" where
  "ev_enum_with_other_digest N allowed v digest label digest_label =
     allR [ev_enum N allowed v label, nullable (ev_digest N) digest digest_label,
           needR ((v = JStr ''other'') = (digest \<noteq> JNull)) (digest_label @ '' is required only for '' @ label @ ''=other'')]"

fun reject_detectable_secrets :: "json \<Rightarrow> (traj_error, unit) res" where
  "reject_detectable_secrets (JStr s) =
     needR (\<not> list_ex (\<lambda>p. re_search p s) DETECTABLE_SECRET_PATTERNS) ''trajectory event contains detectable secret material''"
| "reject_detectable_secrets (JArr xs) = allR (map reject_detectable_secrets xs)"
| "reject_detectable_secrets (JObj kvs) = allR (map (\<lambda>(k, v). reject_detectable_secrets v) kvs)"
| "reject_detectable_secrets _ = Inr ()"

section \<open>The canonical encoding\<close>

fun normalize :: "(string \<Rightarrow> string) \<Rightarrow> json \<Rightarrow> (traj_error, json) res"
and normalize_items :: "(string \<Rightarrow> string) \<Rightarrow> json list \<Rightarrow> (traj_error, json list) res"
and normalize_pairs ::
  "(string \<Rightarrow> string) \<Rightarrow> (string \<times> json) list \<Rightarrow> (string \<times> json) list \<Rightarrow> (traj_error, (string \<times> json) list) res"
where
  "normalize N (JStr s) = Inr (JStr (N s))"
| "normalize N (JReal s) = Inl (TrajectoryError ''unsupported JSON value type: float'')"
| "normalize N (JArr xs) = bindR (normalize_items N xs) (\<lambda>ys. Inr (JArr ys))"
| "normalize N (JObj kvs) = bindR (normalize_pairs N [] kvs) (\<lambda>ps. Inr (JObj ps))"
| "normalize N v = Inr v"
| "normalize_items N [] = Inr []"
| "normalize_items N (x # xs) = bindR (normalize N x) (\<lambda>y. bindR (normalize_items N xs) (\<lambda>ys. Inr (y # ys)))"
| "normalize_pairs N acc [] = Inr acc"
| "normalize_pairs N acc ((k, v) # kvs) =
     check (N k \<notin> set (keys acc)) (TrajectoryError ''normalization produced a duplicate key'')
       (bindR (normalize N v) (\<lambda>n. normalize_pairs N (acc @ [(N k, n)]) kvs))"

definition canonical_event_json :: "(string \<Rightarrow> string) \<Rightarrow> json \<Rightarrow> (traj_error, string) res" where
  "canonical_event_json N v = bindR (normalize N v) (\<lambda>n. Inr (dumps n))"

section \<open>Parts of an event\<close>

definition TOKEN_KEYS :: "string list" where
  "TOKEN_KEYS = [''input_tokens'', ''output_tokens'', ''total_tokens'']"

definition validate_usage :: "(string \<Rightarrow> string) \<Rightarrow> json \<Rightarrow> string \<Rightarrow> (traj_error, unit) res" where
  "validate_usage N v label =
     bindR (ev_keys v (''basis'' # TOKEN_KEYS @ [''unavailable_reason_code'', ''unavailable_reason_digest'']) label)
      (\<lambda>u. let reason = jget u ''unavailable_reason_code''; reason_digest = jget u ''unavailable_reason_digest'' in
        allR ([ev_enum N USAGE_BASES (jget u ''basis'') (label @ ''.basis'')]
          @ map (\<lambda>k. nullable (ev_integer 0) (jget u k) (label @ ''.'' @ k)) TOKEN_KEYS
          @ (if jget u ''basis'' = JStr ''unavailable''
             then [ev_enum_with_other_digest N USAGE_UNAVAILABLE_REASON_CODES reason reason_digest
                     (label @ ''.unavailable_reason_code'') (label @ ''.unavailable_reason_digest''),
                   needR (list_all (\<lambda>k. jget u k = JNull) TOKEN_KEYS)
                     (label @ '' unavailable usage cannot carry token counts'')]
             else [needR (reason = JNull \<and> reason_digest = JNull)
                     (label @ '' unavailable reason fields must be null when usage is available'')])))"

text \<open>\<open>PurePosixPath\<close>: the root, the parts and the text of a path.\<close>

definition posix_root :: "string \<Rightarrow> string" where
  "posix_root p =
     (if starts_with ''//'' p \<and> \<not> starts_with ''///'' p then ''//'' else if starts_with ''/'' p then ''/'' else [])"

definition posix_names :: "string \<Rightarrow> string list" where
  "posix_names p = filter (\<lambda>c. c \<noteq> [] \<and> c \<noteq> ''.'') (split_char CHR ''/'' p)"

definition as_posix :: "string \<Rightarrow> string" where
  "as_posix p = (if posix_root p = [] \<and> posix_names p = [] then ''.'' else posix_root p @ join_with ''/'' (posix_names p))"

definition safe_relative :: "string \<Rightarrow> bool" where
  "safe_relative p \<longleftrightarrow> posix_root p = [] \<and> posix_names p \<noteq> []
     \<and> list_all (\<lambda>c. c \<notin> set [[], ''.'', ''..'']) (split_char CHR ''/'' p) \<and> as_posix p = p"

text \<open>\<open>_text\<close> followed by a full match of a pattern.\<close>

definition ev_hex :: "(string \<Rightarrow> string) \<Rightarrow> json \<Rightarrow> string \<Rightarrow> (traj_error, unit) res" where
  "ev_hex = ev_shape HEX_DIGEST '' must be lowercase hex''"

definition validate_seal :: "(string \<Rightarrow> string) \<Rightarrow> json \<Rightarrow> json \<Rightarrow> string \<Rightarrow> (traj_error, unit) res" where
  "validate_seal N kind v label =
     bindR (ev_keys v [''kind'', ''schema_version'', ''run_token'', ''manifest_hash''] (label @ ''.seal''))
      (\<lambda>seal. allR
        [ev_enum N SEAL_KINDS (jget seal ''kind'') (label @ ''.seal.kind''),
         needR (\<exists>k \<in> set EVIDENCE_SEAL_KINDS. kind = JStr (fst k) \<and> jget seal ''kind'' = JStr (snd k))
           (label @ ''.seal.kind does not match evidence kind''),
         ev_integer 1 (jget seal ''schema_version'') (label @ ''.seal.schema_version''),
         needR (jget seal ''schema_version'' \<in> JInt ` set SUPPORTED_EVIDENCE_SEAL_VERSIONS)
           (''unsupported '' @ label @ ''.seal.schema_version''),
         ev_identifier N (jget seal ''run_token'') (label @ ''.seal.run_token''),
         ev_hex N (jget seal ''manifest_hash'') (label @ ''.seal.manifest_hash'')])"

definition validate_evidence_ref :: "(string \<Rightarrow> string) \<Rightarrow> json \<Rightarrow> string \<Rightarrow> (traj_error, (string \<times> json) list) res" where
  "validate_evidence_ref N v label =
     bindR (ev_keys v [''ref_id'', ''kind'', ''relative_path'', ''sha256'', ''size_bytes'', ''media_type'', ''seal'',
                       ''sensitivity'', ''retention_class'', ''availability_at_append''] label)
      (\<lambda>r. bindR (allR
        [ev_ref_id N (jget r ''ref_id'') (label @ ''.ref_id''),
         ev_enum N EVIDENCE_KINDS (jget r ''kind'') (label @ ''.kind''),
         ev_shape safe_relative '' must stay below the task artifact root'' N
           (jget r ''relative_path'') (label @ ''.relative_path''),
         ev_shape (\<lambda>p. list_all PATH_SEGMENT (posix_names p)) '' contains an unsafe segment'' N
           (jget r ''relative_path'') (label @ ''.relative_path''),
         ev_hex N (jget r ''sha256'') (label @ ''.sha256''),
         ev_integer 0 (jget r ''size_bytes'') (label @ ''.size_bytes''),
         ev_shape MEDIA_TYPE '' is invalid'' N (jget r ''media_type'') (label @ ''.media_type''),
         validate_seal N (jget r ''kind'') (jget r ''seal'') label,
         ev_enum N SENSITIVITIES (jget r ''sensitivity'') (label @ ''.sensitivity''),
         ev_enum N RETENTION_CLASSES (jget r ''retention_class'') (label @ ''.retention_class''),
         ev_enum N AVAILABILITY (jget r ''availability_at_append'') (label @ ''.availability_at_append'')])
       (\<lambda>_. Inr r))"

text \<open>\<open>ref_ids\<close>: the references read so far, by identifier.\<close>

fun validate_evidence_refs ::
  "(string \<Rightarrow> string) \<Rightarrow> json option \<Rightarrow> nat \<Rightarrow> (json \<times> (string \<times> json) list) list \<Rightarrow> json list \<Rightarrow>
   (traj_error, (json \<times> (string \<times> json) list) list) res" where
  "validate_evidence_refs N run_token i acc [] = Inr acc"
| "validate_evidence_refs N run_token i acc (v # vs) =
     bindR (validate_evidence_ref N v (''evidence_refs['' @ str_of_nat i @ '']''))
      (\<lambda>r. check (jget r ''ref_id'' \<notin> fst ` set acc) (TrajectoryError ''duplicate evidence ref_id'')
        (check (case run_token of None \<Rightarrow> True
                | Some tok \<Rightarrow> (case jget r ''seal'' of JObj seal \<Rightarrow> jget seal ''run_token'' = tok | _ \<Rightarrow> False))
           (TrajectoryError ''evidence ref run binding does not match event run'')
           (validate_evidence_refs N run_token (Suc i) (acc @ [(jget r ''ref_id'', r)]) vs)))"

section \<open>Bodies\<close>

definition check_outcome :: "(string \<Rightarrow> string) \<Rightarrow> (string \<times> json) list \<Rightarrow> string \<Rightarrow> (traj_error, unit) res" where
  "check_outcome N b label =
     (if jget b ''outcome_code'' \<noteq> JNull
      then ev_enum_with_other_digest N OUTCOME_CODES (jget b ''outcome_code'') (jget b ''outcome_digest'')
             (label @ ''.outcome_code'') (label @ ''.outcome_digest'')
      else needR (jget b ''outcome_digest'' = JNull) (label @ ''.outcome_digest requires outcome_code''))"

definition body_created :: "(string \<Rightarrow> string) \<Rightarrow> string \<Rightarrow> json \<Rightarrow> (traj_error, unit) res" where
  "body_created N label v =
     bindR (ev_keys v [''profile_digest'', ''input_digest''] label)
      (\<lambda>b. allR [ev_digest N (jget b ''profile_digest'') (label @ ''.profile_digest''),
                 ev_digest N (jget b ''input_digest'') (label @ ''.input_digest'')])"

definition body_transition :: "(string \<Rightarrow> string) \<Rightarrow> string \<Rightarrow> json \<Rightarrow> (traj_error, unit) res" where
  "body_transition N label v =
     bindR (ev_keys v [''transition_seq'', ''operation_id'', ''from_status'', ''to_status'', ''reason_code'',
                       ''reason_digest'', ''outcome_code'', ''outcome_digest''] label)
      (\<lambda>b. allR [ev_integer 1 (jget b ''transition_seq'') (label @ ''.transition_seq''),
                 ev_identifier N (jget b ''operation_id'') (label @ ''.operation_id''),
                 nullable (ev_enum N EVENT_TASK_STATUSES) (jget b ''from_status'') (label @ ''.from_status''),
                 ev_enum N EVENT_TASK_STATUSES (jget b ''to_status'') (label @ ''.to_status''),
                 ev_enum_with_other_digest N TRANSITION_REASON_CODES (jget b ''reason_code'') (jget b ''reason_digest'')
                   (label @ ''.reason_code'') (label @ ''.reason_digest''),
                 check_outcome N b label])"

definition body_claimed :: "(string \<Rightarrow> string) \<Rightarrow> string \<Rightarrow> json \<Rightarrow> (traj_error, unit) res" where
  "body_claimed N label v =
     bindR (ev_keys v [''lease_digest'', ''owner_role''] label)
      (\<lambda>b. allR [ev_digest N (jget b ''lease_digest'') (label @ ''.lease_digest''),
                 ev_enum N OWNER_ROLES (jget b ''owner_role'') (label @ ''.owner_role'')])"

definition sealed_by_manifest :: "(string \<times> json) list \<Rightarrow> bool" where
  "sealed_by_manifest r \<longleftrightarrow> jget r ''kind'' = JStr ''run-manifest''
     \<and> (case jget r ''seal'' of JObj seal \<Rightarrow> jget seal ''kind'' = JStr ''db-committed-run-manifest'' | _ \<Rightarrow> False)"

definition body_settled ::
  "(string \<Rightarrow> string) \<Rightarrow> string \<Rightarrow> (json \<times> (string \<times> json) list) list \<Rightarrow> json \<Rightarrow> (traj_error, unit) res" where
  "body_settled N label refs v =
     bindR (ev_keys v [''classification'', ''outcome_code'', ''outcome_digest'', ''elapsed_ms'', ''usage'', ''sealed''] label)
      (\<lambda>b. allR [ev_enum N STAGE_CLASSIFICATIONS (jget b ''classification'') (label @ ''.classification''),
                 check_outcome N b label,
                 ev_integer 0 (jget b ''elapsed_ms'') (label @ ''.elapsed_ms''),
                 ev_boolean (jget b ''sealed'') (label @ ''.sealed''),
                 validate_usage N (jget b ''usage'') (label @ ''.usage''),
                 needR (jget b ''sealed'' = JBool False \<or> list_ex (\<lambda>(i, r). sealed_by_manifest r) refs)
                   (label @ ''.sealed requires a db-committed run-manifest evidence ref'')])"

definition body_intent :: "(string \<Rightarrow> string) \<Rightarrow> string \<Rightarrow> json \<Rightarrow> (traj_error, unit) res" where
  "body_intent N label v =
     bindR (ev_keys v [''policy_digest'', ''capability_digest''] label)
      (\<lambda>b. allR [ev_digest N (jget b ''policy_digest'') (label @ ''.policy_digest''),
                 ev_digest N (jget b ''capability_digest'') (label @ ''.capability_digest'')])"

text \<open>A field that names one of the event's evidence references.\<close>

definition ref_field ::
  "(string \<Rightarrow> string) \<Rightarrow> (json \<times> (string \<times> json) list) list \<Rightarrow> json \<Rightarrow> string \<Rightarrow> (traj_error, unit) res" where
  "ref_field N refs v label =
     allR [ev_ref_id N v label, needR (v \<in> fst ` set refs) (label @ '' is not present in evidence_refs'')]"

definition body_dispatched ::
  "(string \<Rightarrow> string) \<Rightarrow> string \<Rightarrow> (json \<times> (string \<times> json) list) list \<Rightarrow> json \<Rightarrow> (traj_error, unit) res" where
  "body_dispatched N label refs v =
     bindR (ev_keys v [''transport_receipt_ref''] label)
      (\<lambda>b. ref_field N refs (jget b ''transport_receipt_ref'') (label @ ''.transport_receipt_ref''))"

definition body_provider_settled ::
  "(string \<Rightarrow> string) \<Rightarrow> string \<Rightarrow> (json \<times> (string \<times> json) list) list \<Rightarrow> json \<Rightarrow> (traj_error, unit) res" where
  "body_provider_settled N label refs v =
     bindR (ev_keys v [''result_class'', ''elapsed_ms'', ''usage'', ''final_response_ref''] label)
      (\<lambda>b. allR [ev_enum N PROVIDER_RESULT_CLASSES (jget b ''result_class'') (label @ ''.result_class''),
                 ev_integer 0 (jget b ''elapsed_ms'') (label @ ''.elapsed_ms''),
                 validate_usage N (jget b ''usage'') (label @ ''.usage''),
                 nullable (ref_field N refs) (jget b ''final_response_ref'') (label @ ''.final_response_ref'')])"

definition body_bound ::
  "(string \<Rightarrow> string) \<Rightarrow> string \<Rightarrow> (json \<times> (string \<times> json) list) list \<Rightarrow> json \<Rightarrow> (traj_error, unit) res" where
  "body_bound N label refs v =
     bindR (ev_keys v [''role'', ''binding_ref''] label)
      (\<lambda>b. allR [ev_enum N OWNER_ROLES (jget b ''role'') (label @ ''.role''),
                 ref_field N refs (jget b ''binding_ref'') (label @ ''.binding_ref'')])"

definition body_rebound ::
  "(string \<Rightarrow> string) \<Rightarrow> string \<Rightarrow> (json \<times> (string \<times> json) list) list \<Rightarrow> json \<Rightarrow> (traj_error, unit) res" where
  "body_rebound N label refs v =
     bindR (ev_keys v [''predecessor_event_id'', ''reason_code'', ''reason_digest'', ''checkpoint_ref''] label)
      (\<lambda>b. allR [ev_uuid N (jget b ''predecessor_event_id'') (label @ ''.predecessor_event_id''),
                 ev_enum_with_other_digest N SESSION_REBOUND_REASON_CODES (jget b ''reason_code'') (jget b ''reason_digest'')
                   (label @ ''.reason_code'') (label @ ''.reason_digest''),
                 ref_field N refs (jget b ''checkpoint_ref'') (label @ ''.checkpoint_ref'')])"

definition body_sealed ::
  "string \<Rightarrow> (json \<times> (string \<times> json) list) list \<Rightarrow> json \<Rightarrow> (traj_error, unit) res" where
  "body_sealed label refs v =
     bindR (ev_keys v [''seal_version''] label)
      (\<lambda>b. allR [ev_integer 1 (jget b ''seal_version'') (label @ ''.seal_version''),
                 needR (refs \<noteq> []) (label @ '' requires evidence_refs'')])"

text \<open>
  Whether a list equals \<open>sorted(set(.))\<close> of itself.  A container cannot be hashed and values of unlike
  types cannot be compared: both raise.  A list with a real number among several numbers is refused
  here; the source refuses it here or at its first element.
\<close>

fun number_of :: "json \<Rightarrow> int option" where
  "number_of (JInt i) = Some i"
| "number_of (JBool b) = Some (if b then 1 else 0)"
| "number_of _ = None"

fun is_container :: "json \<Rightarrow> bool" where
  "is_container (JArr _) = True" | "is_container (JObj _) = True" | "is_container _ = False"

fun is_number :: "json \<Rightarrow> bool" where
  "is_number (JInt _) = True" | "is_number (JBool _) = True" | "is_number (JReal _) = True" | "is_number _ = False"

definition sorted_unique :: "json list \<Rightarrow> (traj_error, bool) res" where
  "sorted_unique xs =
     (if list_ex is_container xs then Inl PyTypeError
      else if list_all is_str xs then Inr (sorted_wrt (<) (List.map_filter as_str xs))
      else if list_all (\<lambda>v. v = JNull) xs then Inr (length xs = 1)
      else if list_all is_number xs then
        Inr (length xs = 1
             \<or> list_all (\<lambda>v. number_of v \<noteq> None) xs \<and> sorted_wrt (<) (List.map_filter number_of xs))
      else Inl PyTypeError)"

definition ev_sorted_unique :: "json \<Rightarrow> (json list \<Rightarrow> bool) \<Rightarrow> string \<Rightarrow> (traj_error, unit) res" where
  "ev_sorted_unique v ok message =
     (case v of
        JArr xs \<Rightarrow> bindR (sorted_unique xs) (\<lambda>b. needR (b \<and> ok xs) message)
      | _ \<Rightarrow> Inl (TrajectoryError message))"

definition items_of :: "json \<Rightarrow> json list" where
  "items_of v = (case v of JArr xs \<Rightarrow> xs | _ \<Rightarrow> [])"

definition body_baseline :: "(string \<Rightarrow> string) \<Rightarrow> string \<Rightarrow> json \<Rightarrow> (traj_error, unit) res" where
  "body_baseline N label v =
     bindR (ev_keys v [''baseline_id'', ''source_snapshot_digest'', ''completeness'', ''missing_domains'',
                       ''coverage_through_transition_seq''] label)
      (\<lambda>b. allR ([ev_uuid N (jget b ''baseline_id'') (label @ ''.baseline_id''),
                  ev_digest N (jget b ''source_snapshot_digest'') (label @ ''.source_snapshot_digest''),
                  needR (jget b ''completeness'' = JStr ''partial'') (label @ ''.completeness must be partial''),
                  ev_sorted_unique (jget b ''missing_domains'') (\<lambda>xs. xs \<noteq> [])
                    (label @ ''.missing_domains must be a sorted unique non-empty list'')]
        @ map (\<lambda>x. ev_enum N MISSING_DOMAINS x (label @ ''.missing_domains'')) (items_of (jget b ''missing_domains''))
        @ [ev_integer 0 (jget b ''coverage_through_transition_seq'') (label @ ''.coverage_through_transition_seq'')]))"

definition validate_body ::
  "(string \<Rightarrow> string) \<Rightarrow> string \<Rightarrow> json \<Rightarrow> (json \<times> (string \<times> json) list) list \<Rightarrow> (traj_error, unit) res" where
  "validate_body N event_type body refs =
     (let label = ''body['' @ event_type @ '']'' in
      if event_type = ''task.created'' then body_created N label body
      else if event_type = ''task.transition.committed'' then body_transition N label body
      else if event_type = ''stage.claimed'' then body_claimed N label body
      else if event_type = ''stage.settled'' then body_settled N label refs body
      else if event_type = ''provider.dispatch_intent'' then body_intent N label body
      else if event_type = ''provider.dispatched'' then body_dispatched N label refs body
      else if event_type = ''provider.settled'' then body_provider_settled N label refs body
      else if event_type = ''session.bound'' then body_bound N label refs body
      else if event_type = ''session.rebound'' then body_rebound N label refs body
      else if event_type = ''evidence.sealed'' then body_sealed label refs body
      else if event_type = ''migration.baseline'' then body_baseline N label body
      else Inl (TrajectoryError (''unsupported event_type: '' @ event_type)))"

section \<open>The event\<close>

definition validate_task :: "(string \<Rightarrow> string) \<Rightarrow> (string \<times> json) list \<Rightarrow> (traj_error, unit) res" where
  "validate_task N e =
     bindR (ev_keys (jget e ''task'') [''task_id'', ''revision''] ''task'')
      (\<lambda>t. allR [ev_identifier N (jget t ''task_id'') ''task.task_id'',
                 ev_integer 0 (jget t ''revision'') ''task.revision'',
                 needR (\<exists>i \<in> set_option (as_str (jget t ''task_id'')). jget e ''trajectory_id'' = JStr (''task:'' @ i))
                   ''trajectory_id does not match task_id''])"

definition run_required :: "string \<Rightarrow> bool" where
  "run_required event_type \<longleftrightarrow>
     starts_with ''stage.'' event_type \<or> starts_with ''provider.'' event_type \<or> event_type = ''evidence.sealed''"

definition validate_run :: "(string \<Rightarrow> string) \<Rightarrow> string \<Rightarrow> json \<Rightarrow> (traj_error, unit) res" where
  "validate_run N event_type run =
     allR [if run = JNull then Inr ()
           else bindR (ev_keys run [''run_token'', ''stage'', ''cycle'', ''attempt''] ''run'')
             (\<lambda>r. allR [ev_identifier N (jget r ''run_token'') ''run.run_token'',
                        ev_identifier N (jget r ''stage'') ''run.stage'',
                        ev_integer 1 (jget r ''cycle'') ''run.cycle'',
                        ev_integer 1 (jget r ''attempt'') ''run.attempt'']),
           needR (\<not> (run_required event_type \<and> run = JNull)) (event_type @ '' requires run identity''),
           needR (\<not> (event_type \<in> set [''task.created'', ''migration.baseline''] \<and> run \<noteq> JNull))
             (event_type @ '' cannot carry run identity'')]"

definition validate_links :: "(string \<Rightarrow> string) \<Rightarrow> string \<Rightarrow> (string \<times> json) list \<Rightarrow> (traj_error, unit) res" where
  "validate_links N event_type e =
     (let invocation = jget e ''invocation_id''; is_provider = starts_with ''provider.'' event_type in
      allR ([nullable (ev_identifier N) invocation ''invocation_id'',
             needR (\<not> (is_provider \<and> invocation = JNull)) (event_type @ '' requires invocation_id''),
             needR (\<not> (\<not> is_provider \<and> invocation \<noteq> JNull)) (event_type @ '' cannot carry invocation_id in v1''),
             nullable (ev_identifier N) (jget e ''workflow_attempt_ref'') ''workflow_attempt_ref'',
             nullable (ev_identifier N) (jget e ''session_ref'') ''session_ref'',
             needR (\<not> (starts_with ''session.'' event_type \<and> jget e ''session_ref'' = JNull))
               (event_type @ '' requires session_ref''),
             nullable (ev_uuid N) (jget e ''parent_event_id'') ''parent_event_id'',
             ev_sorted_unique (jget e ''causal_event_ids'') (\<lambda>_. True) ''causal_event_ids must be a sorted unique list'']
        @ map (\<lambda>x. ev_uuid N x ''causal_event_ids item'') (items_of (jget e ''causal_event_ids''))))"

definition validate_actor :: "(string \<Rightarrow> string) \<Rightarrow> json \<Rightarrow> (traj_error, unit) res" where
  "validate_actor N v =
     bindR (ev_keys v [''kind'', ''id'', ''provider'', ''model''] ''actor'')
      (\<lambda>a. allR [ev_enum N ACTOR_KINDS (jget a ''kind'') ''actor.kind'', ev_identifier N (jget a ''id'') ''actor.id'',
                 nullable (ev_identifier N) (jget a ''provider'') ''actor.provider'',
                 nullable (ev_identifier N) (jget a ''model'') ''actor.model''])"

definition validate_evidence ::
  "(string \<Rightarrow> string) \<Rightarrow> (string \<times> json) list \<Rightarrow> (traj_error, (json \<times> (string \<times> json) list) list) res" where
  "validate_evidence N e =
     (case jget e ''evidence_refs'' of
        JArr xs \<Rightarrow> validate_evidence_refs N
          (case jget e ''run'' of JObj r \<Rightarrow> Some (jget r ''run_token'') | _ \<Rightarrow> None) 0 [] xs
      | _ \<Rightarrow> Inl (TrajectoryError ''evidence_refs must be a list''))"

text \<open>The digest of an event: of the canonical bytes of its other fields.\<close>

definition event_digest :: "(string \<Rightarrow> string) \<Rightarrow> (string \<Rightarrow> string) \<Rightarrow> (string \<times> json) list \<Rightarrow> (traj_error, string) res" where
  "event_digest N H e =
     bindR (canonical_event_json N (JObj (filter (\<lambda>(k, v). k \<noteq> ''event_hash'') e))) (\<lambda>b. Inr (''sha256:'' @ H b))"

definition validate_hash :: "(string \<Rightarrow> string) \<Rightarrow> (string \<Rightarrow> string) \<Rightarrow> (string \<times> json) list \<Rightarrow> (traj_error, unit) res" where
  "validate_hash N H e =
     bindR (ev_digest N (jget e ''event_hash'') ''event_hash'')
      (\<lambda>_. bindR (event_digest N H e) (\<lambda>actual. needR (jget e ''event_hash'' = JStr actual) ''event_hash mismatch''))"

text \<open>Everything but the hash, for an event whose top-level keys are right.\<close>

definition validate_fields :: "(string \<Rightarrow> string) \<Rightarrow> (string \<times> json) list \<Rightarrow> (traj_error, unit) res" where
  "validate_fields N e =
     bindR (allR [needR (jget e ''schema_version'' = JInt 1) ''unsupported schema_version'',
                  ev_integer 1 (jget e ''seq'') ''seq'', ev_uuid N (jget e ''event_id'') ''event_id''])
      (\<lambda>_. bindR (ev_text N (jget e ''event_type'') ''event_type'')
       (\<lambda>event_type. bindR (allR
          [needR (event_type \<notin> set RESERVED_EVENT_TYPES \<and> event_type \<in> set SUPPORTED_EVENT_TYPES)
             (''unsupported event_type: '' @ event_type),
           needR (jget e ''event_version'' = JInt 1) ''unsupported event_version'',
           ev_integer 0 (jget e ''recorded_at_ms'') ''recorded_at_ms'',
           validate_task N e, validate_run N event_type (jget e ''run''), validate_links N event_type e,
           validate_actor N (jget e ''actor'')])
        (\<lambda>_. bindR (validate_evidence N e)
         (\<lambda>refs. allR
           [validate_body N event_type (jget e ''body'') refs,
            ev_enum N SENSITIVITIES (jget e ''sensitivity'') ''sensitivity'',
            ev_enum N RETENTION_CLASSES (jget e ''retention_class'') ''retention_class'',
            needR (jget e ''normalizer_version'' = JStr NORMALIZER_VERSION) ''unsupported normalizer_version'',
            nullable (ev_digest N) (jget e ''prev_event_hash'') ''prev_event_hash'']))))"

definition validate_event ::
  "(string \<Rightarrow> string) \<Rightarrow> (string \<Rightarrow> string) \<Rightarrow> bool \<Rightarrow> json \<Rightarrow> (traj_error, (string \<times> json) list) res" where
  "validate_event N H require_hash event =
     bindR (reject_detectable_secrets event)
      (\<lambda>_. bindR (ev_keys event (if require_hash then TOP_LEVEL_KEYS else removeAll ''event_hash'' TOP_LEVEL_KEYS)
                    ''trajectory event'')
       (\<lambda>e. bindR (validate_fields N e)
        (\<lambda>_. bindR (if require_hash then validate_hash N H e else Inr ()) (\<lambda>_. Inr e))))"

definition seal_event :: "(string \<Rightarrow> string) \<Rightarrow> (string \<Rightarrow> string) \<Rightarrow> json \<Rightarrow> (traj_error, json) res" where
  "seal_event N H event =
     bindR (normalize N event)
      (\<lambda>normalized. bindR (validate_event N H False normalized)
       (\<lambda>e. bindR (canonical_event_json N normalized)
        (\<lambda>bytes. let sealed = JObj (dict_set ''event_hash'' (JStr (''sha256:'' @ H bytes)) e) in
          bindR (validate_event N H True sealed) (\<lambda>_. Inr sealed))))"

definition canonical_event_bytes :: "(string \<Rightarrow> string) \<Rightarrow> (string \<Rightarrow> string) \<Rightarrow> json \<Rightarrow> (traj_error, string) res" where
  "canonical_event_bytes N H event = bindR (validate_event N H True event) (\<lambda>_. canonical_event_json N event)"

end
