(* ===== verification/Trajectory.thy ===== *)
theory Trajectory
  imports Events Db
begin

text \<open>
  The append-only event table and its store and writer (\<open>orchestrator/trajectory.py\<close> from
  \<open>TrajectoryStore\<close> on, and the table of \<open>orchestrator/db.py\<close>).  The table is the list of its rows in
  insertion order; \<open>N\<close> and \<open>H\<close> are as in \<open>Events\<close>.  The tables the store reads (tasks, runs,
  transitions) are those of \<open>Db\<close>.
\<close>

section \<open>The table\<close>

record event_row =
  v_trajectory :: string
  v_seq :: int
  v_event_id :: string
  v_schema_version :: int
  v_event_type :: string
  v_event_version :: int
  v_task :: string
  v_run_token :: "string option"
  v_recorded_at :: int
  v_json :: string
  v_prev :: "string option"
  v_hash :: string

definition event_checks :: "db \<Rightarrow> event_row \<Rightarrow> bool" where
  "event_checks d v \<longleftrightarrow> 0 < v_seq v \<and> v_schema_version v = 1 \<and> 0 < v_event_version v \<and> 0 \<le> v_recorded_at v
     \<and> v_task v \<in> set (map t_id (db_tasks d))
     \<and> opt_all (\<lambda>k. k \<in> set (map r_run_token (db_runs d))) (v_run_token v)"

text \<open>The keys of the table, the checks of its columns, its references.\<close>

definition events_ok :: "db \<Rightarrow> event_row list \<Rightarrow> bool" where
  "events_ok d rows \<longleftrightarrow> distinct (map (\<lambda>v. (v_trajectory v, v_seq v)) rows) \<and> distinct (map v_event_id rows)
     \<and> list_all (event_checks d) rows"

definition trajectory_rows :: "event_row list \<Rightarrow> string \<Rightarrow> event_row list" where
  "trajectory_rows rows tid = sort_key v_seq (filter (\<lambda>v. v_trajectory v = tid) rows)"

text \<open>\<open>ORDER BY seq DESC LIMIT 1\<close>.\<close>

definition last_event :: "event_row list \<Rightarrow> string \<Rightarrow> event_row option" where
  "last_event rows tid = (case trajectory_rows rows tid of [] \<Rightarrow> None | vs \<Rightarrow> Some (last vs))"

section \<open>Reading an event\<close>

definition entries :: "json \<Rightarrow> (string \<times> json) list" where
  "entries v = (case v of JObj kvs \<Rightarrow> kvs | _ \<Rightarrow> [])"

text \<open>\<open>v[a]\<close> and \<open>v[a][b]\<close>.\<close>

definition field :: "json \<Rightarrow> string \<Rightarrow> json" where
  "field v a = jget (entries v) a"

lemma field_obj [simp]: "field (JObj kvs) a = jget kvs a"
  by (simp add: field_def entries_def)

definition str_of :: "json \<Rightarrow> string" where
  "str_of v = (case v of JStr s \<Rightarrow> s | _ \<Rightarrow> [])"

definition int_of :: "json \<Rightarrow> int" where
  "int_of v = (case v of JInt i \<Rightarrow> i | _ \<Rightarrow> 0)"

definition opt_str_of :: "json \<Rightarrow> string option" where
  "opt_str_of v = as_str v"

definition decode_row :: "event_row \<Rightarrow> (traj_error, json) res" where
  "decode_row v = (case loads (v_json v) of None \<Rightarrow> Inl JSONDecodeError | Some e \<Rightarrow> Inr e)"

section \<open>The store\<close>

definition event_type_of :: "json \<Rightarrow> string" where
  "event_type_of e = str_of (field e ''event_type'')"

text \<open>The task and the run the event names.\<close>

definition check_identity :: "db \<Rightarrow> json \<Rightarrow> (traj_error, unit) res" where
  "check_identity d e =
     (let task_id = str_of (field (field e ''task'') ''task_id''); run = field e ''run'' in
      case find_task d task_id of
        None \<Rightarrow> Inl (TrajectoryError ''trajectory task does not exist'')
      | Some t \<Rightarrow> allR
         [needR (JInt (t_revision t) = field (field e ''task'') ''revision'') ''trajectory task revision mismatch'',
          needR (run = JNull \<or>
                 (case find_run d (str_of (field run ''run_token'')) of
                    None \<Rightarrow> False
                  | Some r \<Rightarrow> r_task_id r = task_id \<and> JStr (r_stage r) = field run ''stage''
                            \<and> JInt (r_cycle r) = field run ''cycle'' \<and> JInt (r_attempt r) = field run ''attempt''))
            ''trajectory run identity mismatch''])"

text \<open>The event continues the chain of its trajectory.\<close>

definition check_chain :: "event_row list \<Rightarrow> json \<Rightarrow> (traj_error, unit) res" where
  "check_chain rows e =
     (let last = last_event rows (str_of (field e ''trajectory_id'')) in
      allR [needR (field e ''seq'' = JInt (case last of None \<Rightarrow> 1 | Some v \<Rightarrow> v_seq v + 1))
              ''trajectory seq is not the next contiguous value'',
            needR (field e ''prev_event_hash'' = jopt_str (map_option v_hash last)) ''trajectory prev_event_hash mismatch''])"

definition same_invocation :: "json \<Rightarrow> json \<Rightarrow> bool" where
  "same_invocation intent e \<longleftrightarrow> json_eq (field intent ''run'') (field e ''run'')
     \<and> field (field intent ''actor'') ''provider'' = field (field e ''actor'') ''provider''
     \<and> field (field intent ''actor'') ''model'' = field (field e ''actor'') ''model''"

definition known_sessions :: "json list \<Rightarrow> json list" where
  "known_sessions prior = filter (\<lambda>s. s \<noteq> JNull) (map (\<lambda>c. field c ''session_ref'') prior)"

text \<open>What the earlier events of the same invocation allow.\<close>

definition check_invocation :: "json list \<Rightarrow> json \<Rightarrow> (traj_error, unit) res" where
  "check_invocation prior e =
     (let event_type = event_type_of e; prior_types = map event_type_of prior;
          intents = filter (\<lambda>c. event_type_of c = ''provider.dispatch_intent'') prior in
      if event_type = ''provider.dispatch_intent''
      then needR (prior = []) ''trajectory invocation_id already has a dispatch intent''
      else case intents of
         [intent] \<Rightarrow> allR
          [needR (same_invocation intent e) ''provider invocation identity changed after dispatch intent'',
           needR (known_sessions prior = [] \<or> field e ''session_ref'' \<in> set (known_sessions prior))
             ''provider invocation session changed after binding'',
           needR (event_type \<notin> set prior_types) (''duplicate '' @ event_type @ '' for invocation_id''),
           needR (\<not> (event_type = ''provider.dispatched'' \<and> ''provider.settled'' \<in> set prior_types))
             ''provider.dispatched cannot follow provider.settled'']
       | _ \<Rightarrow> Inl (TrajectoryError ''provider event requires exactly one earlier dispatch intent''))"

definition check_provider :: "event_row list \<Rightarrow> json \<Rightarrow> (traj_error, unit) res" where
  "check_provider rows e =
     (if starts_with ''provider.'' (event_type_of e)
      then bindR (mapR decode_row (trajectory_rows rows (str_of (field e ''trajectory_id''))))
        (\<lambda>events. check_invocation (filter (\<lambda>c. field c ''invocation_id'' = field e ''invocation_id'') events) e)
      else Inr ())"

definition referenced :: "json \<Rightarrow> string list" where
  "referenced e = filter (\<lambda>s. s \<noteq> [])
     (List.map_filter as_str (field e ''parent_event_id'' # items_of (field e ''causal_event_ids'')))"

text \<open>The parent and the causes are earlier events of the same trajectory.\<close>

definition check_causes :: "event_row list \<Rightarrow> json \<Rightarrow> (traj_error, unit) res" where
  "check_causes rows e =
     (let found = filter (\<lambda>v. v_trajectory v = str_of (field e ''trajectory_id'') \<and> v_event_id v \<in> set (referenced e)) rows in
      needR (set (map v_event_id found) = set (referenced e)
             \<and> list_all (\<lambda>v. v_seq v < int_of (field e ''seq'')) found)
        ''parent/causal event must be earlier in the same trajectory'')"

definition check_rebound :: "event_row list \<Rightarrow> json \<Rightarrow> (traj_error, unit) res" where
  "check_rebound rows e =
     (if event_type_of e \<noteq> ''session.rebound'' then Inr ()
      else case find (\<lambda>v. v_trajectory v = str_of (field e ''trajectory_id'')
                        \<and> v_event_id v = str_of (field (field e ''body'') ''predecessor_event_id'')) rows of
         None \<Rightarrow> Inl (TrajectoryError ''session rebound predecessor must be earlier in the same trajectory'')
       | Some v \<Rightarrow>
         check (v_seq v < int_of (field e ''seq''))
           (TrajectoryError ''session rebound predecessor must be earlier in the same trajectory'')
           (bindR (decode_row v)
             (\<lambda>p. allR
               [needR (event_type_of p \<in> set [''session.bound'', ''session.rebound''])
                  ''session rebound predecessor must be a session binding event'',
                needR (field p ''session_ref'' \<noteq> field e ''session_ref'')
                  ''session rebound must replace the predecessor session''])))"

definition row_of :: "json \<Rightarrow> string \<Rightarrow> event_row" where
  "row_of e bytes =
     \<lparr>v_trajectory = str_of (field e ''trajectory_id''), v_seq = int_of (field e ''seq''),
      v_event_id = str_of (field e ''event_id''), v_schema_version = int_of (field e ''schema_version''),
      v_event_type = event_type_of e, v_event_version = int_of (field e ''event_version''),
      v_task = str_of (field (field e ''task'') ''task_id''),
      v_run_token = (if field e ''run'' = JNull then None else opt_str_of (field (field e ''run'') ''run_token'')),
      v_recorded_at = int_of (field e ''recorded_at_ms''), v_json = bytes,
      v_prev = opt_str_of (field e ''prev_event_hash''), v_hash = str_of (field e ''event_hash'')\<rparr>"

definition insert_event :: "db \<Rightarrow> event_row list \<Rightarrow> event_row \<Rightarrow> (traj_error, event_row list) res" where
  "insert_event d rows v =
     check (events_ok d (rows @ [v])) (TrajectoryError ''trajectory event conflicts with durable state'') (Inr (rows @ [v]))"

definition store_append ::
  "(string \<Rightarrow> string) \<Rightarrow> (string \<Rightarrow> string) \<Rightarrow> bool \<Rightarrow> db \<Rightarrow> event_row list \<Rightarrow> json \<Rightarrow> (traj_error, event_row list) res" where
  "store_append N H in_transaction d rows e =
     check in_transaction (TrajectoryError ''trajectory append requires an existing transaction'')
      (bindR (validate_event N H True e)
        (\<lambda>_. bindR (allR [check_identity d e, check_chain rows e, check_provider rows e, check_causes rows e, check_rebound rows e])
          (\<lambda>_. bindR (canonical_event_bytes N H e) (\<lambda>bytes. insert_event d rows (row_of e bytes)))))"

section \<open>The writer\<close>

definition TRAJECTORY_MODES :: "string list" where
  "TRAJECTORY_MODES = [''off'', ''write'', ''read'']"

text \<open>The gate, from the value of the environment variable: an unknown value disables the writer.\<close>

definition trajectory_mode :: "string option \<Rightarrow> string" where
  "trajectory_mode v =
     (let mode = lower (strip (case v of None \<Rightarrow> ''off'' | Some s \<Rightarrow> s))
      in if mode \<in> set TRAJECTORY_MODES then mode else ''off'')"

record traj_env =
  te_nfc :: "string \<Rightarrow> string"
  te_sha :: "string \<Rightarrow> string"
  te_uuid4 :: "nat \<Rightarrow> string"
  te_uuid5 :: "string \<Rightarrow> string"
  te_mode :: string

record traj_state =
  ts_rows :: "event_row list"
  ts_uuids :: nat
  ts_in_transaction :: bool
  ts_events :: "string list"

type_synonym 'a tctl = "(traj_state, traj_error, 'a) st"

definition enabled :: "traj_env \<Rightarrow> bool" where
  "enabled T \<longleftrightarrow> te_mode T \<in> set [''write'', ''read'']"

definition digest_text :: "traj_env \<Rightarrow> string \<Rightarrow> string" where
  "digest_text T s = ''sha256:'' @ te_sha T s"

definition fresh_uuid :: "traj_env \<Rightarrow> string tctl" where
  "fresh_uuid T = (\<lambda>w. (Inr (te_uuid4 T (ts_uuids w)), w\<lparr>ts_uuids := Suc (ts_uuids w)\<rparr>))"

definition has_events :: "event_row list \<Rightarrow> string \<Rightarrow> bool" where
  "has_events rows task_id \<longleftrightarrow> list_ex (\<lambda>v. v_trajectory v = ''task:'' @ task_id) rows"

text \<open>The keyword arguments of \<open>append\<close> and their defaults.\<close>

record event_args =
  a_run :: "run_row option"
  a_invocation :: "string option"
  a_workflow :: "string option"
  a_session :: "string option"
  a_actor_kind :: string
  a_actor_id :: string
  a_provider :: "string option"
  a_model :: "string option"
  a_refs :: "json list"
  a_sensitivity :: string
  a_retention :: string
  a_parent :: "string option"
  a_causal :: "string list"
  a_event_id :: "string option"

definition default_args :: event_args where
  "default_args = \<lparr>a_run = None, a_invocation = None, a_workflow = None, a_session = None,
     a_actor_kind = ''controller'', a_actor_id = ''native-orchestrator'', a_provider = None, a_model = None,
     a_refs = [], a_sensitivity = ''internal'', a_retention = ''task-lifecycle'', a_parent = None, a_causal = [],
     a_event_id = None\<rparr>"

definition run_identity :: "run_row \<Rightarrow> json" where
  "run_identity r = JObj [(''run_token'', JStr (r_run_token r)), (''stage'', JStr (r_stage r)),
     (''cycle'', JInt (r_cycle r)), (''attempt'', JInt (r_attempt r))]"

text \<open>The event before it is sealed.\<close>

definition draft_event ::
  "event_row list \<Rightarrow> task_row \<Rightarrow> string \<Rightarrow> string \<Rightarrow> int \<Rightarrow> json \<Rightarrow> event_args \<Rightarrow> json" where
  "draft_event rows t event_type event_id recorded_at body a =
     (let last = last_event rows (''task:'' @ t_id t);
          parent = (case a_parent a of Some p \<Rightarrow> Some p | None \<Rightarrow> map_option v_event_id last)
      in JObj
       [(''schema_version'', JInt 1), (''trajectory_id'', JStr (''task:'' @ t_id t)),
        (''seq'', JInt (case last of None \<Rightarrow> 1 | Some v \<Rightarrow> v_seq v + 1)), (''event_id'', JStr event_id),
        (''event_type'', JStr event_type), (''event_version'', JInt 1), (''recorded_at_ms'', JInt recorded_at),
        (''task'', JObj [(''task_id'', JStr (t_id t)), (''revision'', JInt (t_revision t))]),
        (''run'', case a_run a of None \<Rightarrow> JNull | Some r \<Rightarrow> run_identity r),
        (''invocation_id'', jopt_str (a_invocation a)), (''workflow_attempt_ref'', jopt_str (a_workflow a)),
        (''session_ref'', jopt_str (a_session a)), (''parent_event_id'', jopt_str parent),
        (''causal_event_ids'', JArr (map JStr (sorted_set (a_causal a)))),
        (''actor'', JObj [(''kind'', JStr (a_actor_kind a)), (''id'', JStr (a_actor_id a)),
                          (''provider'', jopt_str (a_provider a)), (''model'', jopt_str (a_model a))]),
        (''body'', body), (''evidence_refs'', JArr (a_refs a)), (''sensitivity'', JStr (a_sensitivity a)),
        (''retention_class'', JStr (a_retention a)), (''normalizer_version'', JStr NORMALIZER_VERSION),
        (''prev_event_hash'', jopt_str (map_option v_hash last))])"

definition writer_append ::
  "traj_env \<Rightarrow> db \<Rightarrow> string \<Rightarrow> string \<Rightarrow> int \<Rightarrow> json \<Rightarrow> event_args \<Rightarrow> string option tctl" where
  "writer_append T d task_id event_type recorded_at body a =
     (if \<not> enabled T then retS None
      else thenS (bindS (getS ts_in_transaction)
             (\<lambda>b. checkS b (TrajectoryError ''trajectory writer requires an existing transaction'')))
       (case find_task d task_id of
          None \<Rightarrow> raiseS (TrajectoryError ''trajectory task does not exist'')
        | Some t \<Rightarrow>
          bindS (case a_event_id a of Some i \<Rightarrow> (if i = [] then fresh_uuid T else retS i) | None \<Rightarrow> fresh_uuid T)
           (\<lambda>event_id. bindS (getS ts_rows)
            (\<lambda>rows. bindS (liftR (seal_event (te_nfc T) (te_sha T) (draft_event rows t event_type event_id recorded_at body a)))
             (\<lambda>sealed. bindS (getS ts_in_transaction)
              (\<lambda>b. bindS (liftR (store_append (te_nfc T) (te_sha T) b d rows sealed))
               (\<lambda>rows'. thenS (modS (\<lambda>w. w\<lparr>ts_rows := rows'\<rparr>)) (retS (Some (str_of (field sealed ''event_id''))))))))))) "

section \<open>The baseline of a task that has a history\<close>

definition task_snapshot :: "task_row \<Rightarrow> json" where
  "task_snapshot t = JObj
     [(''id'', JStr (t_id t)), (''type'', JStr (t_type t)), (''status'', JStr (t_status t)),
      (''stop_reason'', jopt_str (t_stop_reason t)), (''current_stage'', JStr (t_current_stage t)),
      (''owner'', jopt_str (t_owner t)), (''revision'', JInt (t_revision t)), (''profile_hash'', JStr (t_profile_hash t)),
      (''input_hash'', JStr (t_input_hash t)), (''transitions_count'', JInt (t_transitions_count t)),
      (''max_transitions'', JInt (t_max_transitions t)), (''resume_allowance'', JInt (t_resume_allowance t)),
      (''created_at'', JInt (t_created_at t)), (''updated_at'', JInt (t_updated_at t))]"

definition run_snapshot :: "run_row \<Rightarrow> json" where
  "run_snapshot r = JObj
     [(''run_token'', JStr (r_run_token r)), (''stage'', JStr (r_stage r)), (''cycle'', JInt (r_cycle r)),
      (''attempt'', JInt (r_attempt r)), (''owner'', JStr (r_owner r)), (''status'', JStr (r_status r)),
      (''exit_code'', jopt_int (r_exit_code r)), (''outcome'', jopt_str (r_outcome r)),
      (''sealed'', JInt (if r_sealed r then 1 else 0)), (''model'', jopt_str (r_model r)),
      (''duration_ms'', jopt_int (r_duration_ms r)), (''usage_input_tokens'', r_usage_input r),
      (''usage_output_tokens'', r_usage_output r), (''usage_total_tokens'', r_usage_total r),
      (''usage_unavailable_reason'', jopt_str (r_usage_unavailable r)), (''started_at'', JInt (r_started_at r)),
      (''ended_at'', jopt_int (r_ended_at r))]"

definition transition_snapshot :: "transition_row \<Rightarrow> json" where
  "transition_snapshot x = JObj
     [(''seq'', JInt (x_seq x)), (''operation_id'', JStr (x_operation_id x)), (''run_token'', jopt_str (x_run_token x)),
      (''stage'', jopt_str (x_stage x)), (''owner'', jopt_str (x_owner x)), (''edge'', jopt_str (x_edge x)),
      (''outcome'', jopt_str (x_outcome x)), (''from_status'', jopt_str (x_from_status x)),
      (''to_status'', JStr (x_to_status x)), (''reason'', jopt_str (x_reason x)), (''at'', JInt (x_at x))]"

text \<open>\<open>ORDER BY started_at, rowid\<close> keeps the insertion order of runs that started together.\<close>

definition canonical_state_snapshot :: "db \<Rightarrow> task_row \<Rightarrow> json" where
  "canonical_state_snapshot d t = JObj
     [(''task'', task_snapshot t),
      (''stage_runs'', JArr (map run_snapshot (sort_key r_started_at (runs_of d (t_id t))))),
      (''transitions'', JArr (map transition_snapshot (sort_key x_seq (transitions_of d (t_id t)))))]"

text \<open>The canonical transitions all have their event.\<close>

definition represented :: "db \<Rightarrow> string \<Rightarrow> event_row list \<Rightarrow> (traj_error, bool) res" where
  "represented d task_id vs =
     bindR (mapR decode_row (filter (\<lambda>v. v_event_type v = ''task.transition.committed'') vs))
       (\<lambda>events. Inr (\<forall>x \<in> set (transitions_of d task_id).
          x_seq x \<in> int_of ` (\<lambda>e. field (field e ''body'') ''transition_seq'') ` set events))"

definition baseline_body :: "traj_env \<Rightarrow> db \<Rightarrow> task_row \<Rightarrow> string \<Rightarrow> (traj_error, json) res" where
  "baseline_body T d t baseline_id =
     bindR (canonical_event_json (te_nfc T) (canonical_state_snapshot d t))
       (\<lambda>bytes. Inr (JObj
         [(''baseline_id'', JStr baseline_id), (''source_snapshot_digest'', JStr (''sha256:'' @ te_sha T bytes)),
          (''completeness'', JStr ''partial''), (''missing_domains'', JArr (map JStr (sorted_set MISSING_DOMAINS))),
          (''coverage_through_transition_seq'',
           JInt (case sort_key x_seq (transitions_of d (t_id t)) of [] \<Rightarrow> 0 | xs \<Rightarrow> x_seq (last xs)))]))"

definition ensure_legacy_baseline :: "traj_env \<Rightarrow> db \<Rightarrow> string \<Rightarrow> int \<Rightarrow> string option tctl" where
  "ensure_legacy_baseline T d task_id recorded_at =
     (if \<not> enabled T then retS None
      else bindS (getS (\<lambda>w. trajectory_rows (ts_rows w) (''task:'' @ task_id)))
       (\<lambda>vs. let types = map v_event_type vs in
         if ''migration.baseline'' \<in> set types then retS None
         else bindS (liftR (represented d task_id vs))
          (\<lambda>covered. if ''task.created'' \<in> set types \<and> covered then retS None
            else case find_task d task_id of
               None \<Rightarrow> raiseS (TrajectoryError ''trajectory task does not exist'')
             | Some t \<Rightarrow>
               let baseline_id = te_uuid5 T (''task:'' @ task_id) in
               bindS (liftR (baseline_body T d t baseline_id))
                (\<lambda>body. writer_append T d task_id ''migration.baseline'' recorded_at body
                   (default_args\<lparr>a_event_id := Some baseline_id, a_actor_kind := ''migrator'',
                                 a_actor_id := ''native-orchestrator'', a_retention := ''structural''\<rparr>)))))"

section \<open>Parity with the canonical rows\<close>

definition event_parity :: "db \<Rightarrow> string \<Rightarrow> json \<Rightarrow> string option" where
  "event_parity d task_id e =
     (let b = field e ''body''; run = field e ''run'' in
      if event_type_of e = ''task.created'' then
        (case find_task d task_id of
           None \<Rightarrow> Some ''task_created_mismatch''
         | Some t \<Rightarrow> if json_eq b (JObj [(''profile_digest'', JStr (''sha256:'' @ t_profile_hash t)),
                                      (''input_digest'', JStr (''sha256:'' @ t_input_hash t))])
                   then None else Some ''task_created_mismatch'')
      else if event_type_of e = ''task.transition.committed'' then
        (case find (\<lambda>x. x_task_id x = task_id \<and> JInt (x_seq x) = field b ''transition_seq'') (db_transitions d) of
           None \<Rightarrow> Some ''transition_mismatch''
         | Some x \<Rightarrow> if JStr (x_operation_id x) = field b ''operation_id'' \<and> jopt_str (x_from_status x) = field b ''from_status''
                      \<and> JStr (x_to_status x) = field b ''to_status'' then None else Some ''transition_mismatch'')
      else if run \<noteq> JNull then
        (case find (\<lambda>r. r_task_id r = task_id \<and> JStr (r_run_token r) = field run ''run_token'') (db_runs d) of
           None \<Rightarrow> Some ''run_mismatch''
         | Some r \<Rightarrow> if JStr (r_stage r) = field run ''stage'' \<and> JInt (r_cycle r) = field run ''cycle''
                      \<and> JInt (r_attempt r) = field run ''attempt'' then None else Some ''run_mismatch'')
      else None)"

text \<open>An event may be older than the row, never newer.\<close>

definition revision_parity :: "db \<Rightarrow> string \<Rightarrow> json \<Rightarrow> string option" where
  "revision_parity d task_id e =
     (case find_task d task_id of
        None \<Rightarrow> Some ''task_revision_mismatch''
      | Some t \<Rightarrow> if t_revision t < int_of (field (field e ''task'') ''revision'') then Some ''task_revision_mismatch'' else None)"

definition diagnose :: "traj_env \<Rightarrow> db \<Rightarrow> event_row list \<Rightarrow> string \<Rightarrow> string \<Rightarrow> (string \<times> string \<times> int option) list" where
  "diagnose T d rows task_id event_id =
     (case find (\<lambda>v. v_task v = task_id \<and> v_event_id v = event_id) rows of
        None \<Rightarrow> [(''event_missing'', event_id, None)]
      | Some v \<Rightarrow>
        (case bindR (decode_row v) (\<lambda>e. bindR (canonical_event_bytes (te_nfc T) (te_sha T) e) (\<lambda>_. Inr e)) of
           Inl _ \<Rightarrow> [(''event_invalid'', event_id, None)]
         | Inr e \<Rightarrow>
           (case (case event_parity d task_id e of Some c \<Rightarrow> Some c | None \<Rightarrow> revision_parity d task_id e) of
              None \<Rightarrow> []
            | Some c \<Rightarrow> [(c, event_id, Some (int_of (field e ''seq'')))])))"

definition parity_diagnostics ::
  "traj_env \<Rightarrow> db \<Rightarrow> event_row list \<Rightarrow> string \<Rightarrow> string list \<Rightarrow> (string \<times> string \<times> int option) list" where
  "parity_diagnostics T d rows task_id event_ids = concat (map (diagnose T d rows task_id) event_ids)"

end
