(* ===== verification/EventLaws.thy ===== *)
theory EventLaws
  imports Events
begin

text \<open>
  What an accepted event looks like, and what the canonical encoding keeps: normalising leaves a
  normalised value alone, and the fields read back from the canonical bytes are those of the event.
\<close>

section \<open>Inverting the checks\<close>

named_theorems event_simps \<open>when a check of the event validator passes\<close>

lemma allR_Inr [event_simps]: "allR cs = Inr u \<longleftrightarrow> (\<forall>c \<in> set cs. c = Inr ())"
  by (induction cs) (auto simp: allR.simps res_simps)

lemma needR_Inr [event_simps]: "needR b m = Inr u \<longleftrightarrow> b"
  by (simp add: needR_def)

lemma ev_keys_Inr [event_simps]: "ev_keys v expected label = Inr kvs \<longleftrightarrow> v = JObj kvs \<and> set (keys kvs) = set expected"
  by (auto simp: ev_keys_def res_simps split: json.splits)

lemma ev_integer_Inr [event_simps]: "ev_integer m v label = Inr u \<longleftrightarrow> (\<exists>i. v = JInt i \<and> m \<le> i)"
  by (auto simp: ev_integer_def needR_def split: json.splits)

lemma nullable_Inr [event_simps]: "nullable f v label = Inr u \<longleftrightarrow> v = JNull \<or> f v label = Inr ()"
  by (simp add: nullable_def)

lemma ev_boolean_Inr [event_simps]: "ev_boolean v label = Inr u \<longleftrightarrow> (\<exists>b. v = JBool b)"
  by (cases v) (auto simp: ev_boolean_def needR_def)

lemma ev_text_Inr [event_simps]: "ev_text N v label = Inr s \<longleftrightarrow> v = JStr s \<and> s \<noteq> [] \<and> N s = s"
  by (auto simp: ev_text_def split: json.splits)

lemma ev_shape_Inr [event_simps]:
  "ev_shape ok complaint N v label = Inr u \<longleftrightarrow> (\<exists>s. v = JStr s \<and> s \<noteq> [] \<and> N s = s \<and> ok s)"
  by (auto simp: ev_shape_def event_simps res_simps)

lemmas shaped = ev_identifier_def ev_uuid_def ev_digest_def ev_hex_def

lemma ev_enum_Inr [event_simps]:
  "ev_enum N allowed v label = Inr u \<longleftrightarrow> (\<exists>s. v = JStr s \<and> s \<noteq> [] \<and> N s = s \<and> s \<in> set allowed)"
  by (auto simp: ev_enum_def event_simps res_simps)

lemma ev_ref_id_Inr [event_simps]:
  "ev_ref_id N v label = Inr u \<longleftrightarrow> (\<exists>s. v = JStr s \<and> s \<noteq> [] \<and> N s = s \<and> starts_with ''evref:'' s
     \<and> drop 6 s \<noteq> [] \<and> N (drop 6 s) = drop 6 s \<and> canonical_uuid (drop 6 s))"
  by (auto simp: ev_ref_id_def event_simps res_simps shaped)

lemma ev_other_Inr [event_simps]:
  "ev_enum_with_other_digest N allowed v digest label digest_label = Inr u \<longleftrightarrow>
     (\<exists>s. v = JStr s \<and> s \<noteq> [] \<and> N s = s \<and> s \<in> set allowed
       \<and> (if s = ''other'' then \<exists>t. digest = JStr t \<and> t \<noteq> [] \<and> N t = t \<and> DIGEST t else digest = JNull))"
proof -
  have "ev_enum_with_other_digest N allowed v digest label digest_label = Inr u \<longleftrightarrow>
      (\<exists>s. v = JStr s \<and> s \<noteq> [] \<and> N s = s \<and> s \<in> set allowed)
      \<and> (digest = JNull \<or> (\<exists>t. digest = JStr t \<and> t \<noteq> [] \<and> N t = t \<and> DIGEST t))
      \<and> (v = JStr ''other'') = (digest \<noteq> JNull)"
    by (simp add: ev_enum_with_other_digest_def event_simps shaped)
  then show ?thesis by (cases "v = JStr ''other''") auto
qed

section \<open>Normalisation\<close>

text \<open>What the sources rely on of NFC.\<close>

definition ascii :: "string \<Rightarrow> bool" where
  "ascii s \<longleftrightarrow> list_all (\<lambda>c. (of_char c :: nat) < 128) s"

definition nfc_ok :: "(string \<Rightarrow> string) \<Rightarrow> bool" where
  "nfc_ok N \<longleftrightarrow> (\<forall>s. N (N s) = N s) \<and> (\<forall>s. ascii s \<longrightarrow> N s = s)"

fun nfixed :: "(string \<Rightarrow> string) \<Rightarrow> json \<Rightarrow> bool" where
  "nfixed N (JStr s) = (N s = s)"
| "nfixed N (JReal s) = False"
| "nfixed N (JArr xs) = (\<forall>x \<in> set xs. nfixed N x)"
| "nfixed N (JObj kvs) = (\<forall>p \<in> set kvs. N (fst p) = fst p \<and> nfixed N (snd p))"
| "nfixed N v = True"

lemma nfixed_no_reals: "nfixed N v \<Longrightarrow> no_reals v"
  by (induction N v rule: nfixed.induct) auto

lemma nfc_idem: "nfc_ok N \<Longrightarrow> N (N s) = N s" and nfc_ascii: "nfc_ok N \<Longrightarrow> ascii s \<Longrightarrow> N s = s"
  by (auto simp: nfc_ok_def)

lemma normalize_makes_fixed:
  "nfc_ok N \<Longrightarrow> normalize N v = Inr v' \<Longrightarrow> nfixed N v' \<and> wf_json v'"
  "nfc_ok N \<Longrightarrow> normalize_items N xs = Inr ys \<Longrightarrow> \<forall>y \<in> set ys. nfixed N y \<and> wf_json y"
  "nfc_ok N \<Longrightarrow> normalize_pairs N acc kvs = Inr ps \<Longrightarrow> nfixed N (JObj acc) \<Longrightarrow> wf_json (JObj acc) \<Longrightarrow>
         nfixed N (JObj ps) \<and> wf_json (JObj ps)"
proof (induction N v and N xs and N acc kvs arbitrary: v' and ys and ps
    rule: normalize_normalize_items_normalize_pairs.induct)
  case (9 N acc k v kvs)
  from 9(4) obtain n where n: "N k \<notin> set (keys acc)" "normalize N v = Inr n"
    "normalize_pairs N (acc @ [(N k, n)]) kvs = Inr ps" by (auto simp: res_simps)
  have "nfixed N n \<and> wf_json n" using 9(1,3) n by blast
  with 9(5,6) n nfc_idem [OF 9(3)] show ?case
    by (intro 9(2) [OF 9(3) n(3)]) (auto simp: keys_def)
qed (auto simp: res_simps nfc_idem)

lemma normalize_fixed:
  "nfixed N v \<Longrightarrow> wf_json v \<Longrightarrow> normalize N v = Inr v"
  "\<forall>x \<in> set xs. nfixed N x \<and> wf_json x \<Longrightarrow> normalize_items N xs = Inr xs"
  "\<forall>p \<in> set kvs. N (fst p) = fst p \<and> nfixed N (snd p) \<and> wf_json (snd p) \<Longrightarrow> distinct (map fst (acc @ kvs)) \<Longrightarrow>
   normalize_pairs N acc kvs = Inr (acc @ kvs)"
proof (induction N v and N xs and N acc kvs rule: normalize_normalize_items_normalize_pairs.induct)
  case (9 N acc k v kvs)
  then show ?case by (auto simp: keys_def)
qed auto

text \<open>A field under an ASCII key survives normalisation.\<close>

lemma normalize_pairs_map:
  "normalize_pairs N acc kvs = Inr ps \<Longrightarrow> distinct (map fst kvs) \<Longrightarrow>
   (\<forall>k v. map_of kvs k = Some v \<longrightarrow> (\<exists>n. normalize N v = Inr n \<and> map_of ps (N k) = Some n))
   \<and> (\<forall>k. k \<in> fst ` set acc \<longrightarrow> map_of ps k = map_of acc k) \<and> fst ` set ps = fst ` set acc \<union> N ` fst ` set kvs"
proof (induction kvs arbitrary: acc)
  case Nil
  then show ?case by simp
next
  case (Cons p kvs)
  obtain k v where p: "p = (k, v)" by force
  from Cons.prems p obtain n where n: "N k \<notin> fst ` set acc" "normalize N v = Inr n"
    "normalize_pairs N (acc @ [(N k, n)]) kvs = Inr ps" by (auto simp: res_simps keys_def)
  from Cons.IH [OF n(3)] Cons.prems p
  have ih: "\<And>j w. map_of kvs j = Some w \<Longrightarrow> \<exists>n. normalize N w = Inr n \<and> map_of ps (N j) = Some n"
    "\<And>j. j \<in> fst ` set (acc @ [(N k, n)]) \<Longrightarrow> map_of ps j = map_of (acc @ [(N k, n)]) j"
    "fst ` set ps = fst ` set (acc @ [(N k, n)]) \<union> N ` fst ` set kvs" by auto
  have "map_of acc (N k) = None" using n(1) by (simp add: map_of_eq_None_iff)
  then have "map_of ps (N k) = Some n" using ih(2) [of "N k"] by (simp add: map_add_def)
  moreover have "map_of ps j = map_of acc j" if "j \<in> fst ` set acc" for j
    using ih(2) [of j] that n(1) by (cases "map_of acc j") (auto simp: map_add_def map_of_eq_None_iff)
  ultimately show ?case using ih(1,3) n(2) p by auto
qed

lemma field_normalize:
  assumes "normalize N (JObj kvs) = Inr n" "distinct (map fst kvs)" "k \<in> set (keys kvs)" "N k = k"
  obtains ps where "n = JObj ps" "normalize N (jget kvs k) = Inr (jget ps k)"
proof -
  from assms(1) obtain ps where ps: "n = JObj ps" "normalize_pairs N [] kvs = Inr ps" by (auto simp: res_simps)
  obtain v where "map_of kvs k = Some v" using assms(3) by (auto simp: keys_def dest!: weak_map_of_SomeI)
  with normalize_pairs_map [OF ps(2) assms(2)] assms(4) that ps(1) show ?thesis by (fastforce simp: jget_def)
qed

section \<open>Reading the canonical bytes back\<close>

lemma canonical_read_back:
  assumes "nfc_ok N" "canonical_event_json N e = Inr bytes"
  obtains n where "normalize N e = Inr n" "bytes = dumps n" "loads bytes = Some (sort_keys n)" "nfixed N n" "wf_json n"
proof -
  from assms(2) obtain n where n: "normalize N e = Inr n" "bytes = dumps n"
    by (auto simp: canonical_event_json_def res_simps)
  with normalize_makes_fixed(1) [OF assms(1)] have "nfixed N n" "wf_json n" by auto
  with n loads_dumps(1) [of n] that show ?thesis by (auto dest: nfixed_no_reals)
qed

text \<open>A field of the object read back is the field of the event, normalised and with sorted keys.\<close>

lemma field_read_back:
  assumes "nfc_ok N" "canonical_event_json N (JObj kvs) = Inr bytes" "distinct (map fst kvs)" "k \<in> set (keys kvs)" "ascii k"
  obtains kvs' n where "loads bytes = Some (JObj kvs')" "normalize N (jget kvs k) = Inr n" "jget kvs' k = sort_keys n"
proof -
  from canonical_read_back [OF assms(1,2)] obtain n where n: "normalize N (JObj kvs) = Inr n"
    "loads bytes = Some (sort_keys n)" "wf_json n" by metis
  from field_normalize [OF n(1) assms(3,4) nfc_ascii [OF assms(1,5)]] obtain ps
    where ps: "n = JObj ps" "normalize N (jget kvs k) = Inr (jget ps k)" by metis
  with n that show ?thesis by (auto simp: sort_keys_obj jget_sort_keys simp del: sort_keys.simps)
qed

fun plain_leaf :: "(string \<Rightarrow> string) \<Rightarrow> json \<Rightarrow> bool" where
  "plain_leaf N (JStr s) = (N s = s)"
| "plain_leaf N (JReal s) = False"
| "plain_leaf N (JArr xs) = False"
| "plain_leaf N (JObj kvs) = False"
| "plain_leaf N v = True"

lemma plain_leaf_same: "plain_leaf N v \<Longrightarrow> normalize N v = Inr v \<and> sort_keys v = v"
  by (cases v) auto

section \<open>An accepted event\<close>

lemma ascii_top_level: "k \<in> set TOP_LEVEL_KEYS \<Longrightarrow> ascii k"
  by (auto simp: TOP_LEVEL_KEYS_def ascii_def)

lemma valid_event:
  assumes "validate_event N H True e = Inr kvs"
  shows "e = JObj kvs" "set (keys kvs) = set TOP_LEVEL_KEYS" "validate_fields N kvs = Inr ()" "validate_hash N H kvs = Inr ()"
  using assms by (auto simp: validate_event_def res_simps event_simps)

lemma IDENTIFIER_ascii: "IDENTIFIER s \<Longrightarrow> ascii s"
  by (cases s) (auto simp: IDENTIFIER_def ascii_def list_all_iff is_identifier_start_def is_lower_alpha_def is_digit_def
      Let_def)

lemma ascii_append [simp]: "ascii (s @ t) \<longleftrightarrow> ascii s \<and> ascii t"
  by (auto simp: ascii_def)

lemma valid_task:
  assumes "validate_task N kvs = Inr ()"
  obtains t i r where "jget kvs ''task'' = JObj t" "jget t ''task_id'' = JStr i" "IDENTIFIER i"
    "jget t ''revision'' = JInt r" "jget kvs ''trajectory_id'' = JStr (''task:'' @ i)"
  using assms by (auto simp: validate_task_def res_simps event_simps shaped)

lemma valid_fields:
  assumes "validate_fields N kvs = Inr ()"
  obtains ty q i refs where "jget kvs ''event_type'' = JStr ty" "ty \<in> set SUPPORTED_EVENT_TYPES" "N ty = ty"
    "jget kvs ''seq'' = JInt q" "1 \<le> q" "jget kvs ''event_id'' = JStr i" "i \<noteq> []" "N i = i"
    "validate_task N kvs = Inr ()" "validate_run N ty (jget kvs ''run'') = Inr ()" "validate_links N ty kvs = Inr ()"
    "validate_actor N (jget kvs ''actor'') = Inr ()" "validate_evidence N kvs = Inr refs"
    "validate_body N ty (jget kvs ''body'') refs = Inr ()"
    "jget kvs ''schema_version'' = JInt 1" "jget kvs ''event_version'' = JInt 1"
    "jget kvs ''prev_event_hash'' = JNull \<or> (\<exists>p. jget kvs ''prev_event_hash'' = JStr p \<and> N p = p)"
  using assms that by (auto simp: validate_fields_def res_simps event_simps shaped)

lemma valid_links:
  assumes "validate_links N ty kvs = Inr ()"
  shows "plain_leaf N (jget kvs ''invocation_id'')" "plain_leaf N (jget kvs ''session_ref'')"
    "plain_leaf N (jget kvs ''parent_event_id'')"
    "starts_with ''provider.'' ty \<longleftrightarrow> jget kvs ''invocation_id'' \<noteq> JNull"
  using assms by (auto simp: validate_links_def Let_def res_simps event_simps shaped)

text \<open>The columns of an accepted event survive the canonical encoding.\<close>

definition column_keys :: "string list" where
  "column_keys = [''trajectory_id'', ''seq'', ''event_id'', ''event_type'', ''invocation_id'', ''session_ref'',
     ''parent_event_id'', ''prev_event_hash'', ''event_hash'', ''schema_version'', ''event_version'']"

lemma valid_columns:
  assumes "nfc_ok N" "validate_event N H True e = Inr kvs" "k \<in> set column_keys"
  shows "plain_leaf N (jget kvs k)"
proof -
  note v = valid_event [OF assms(2)]
  from valid_fields [OF v(3)] obtain ty q i where f: "jget kvs ''event_type'' = JStr ty" "N ty = ty"
    "jget kvs ''seq'' = JInt q" "jget kvs ''event_id'' = JStr i" "N i = i" "validate_task N kvs = Inr ()"
    "validate_links N ty kvs = Inr ()" "jget kvs ''schema_version'' = JInt 1" "jget kvs ''event_version'' = JInt 1"
    "jget kvs ''prev_event_hash'' = JNull \<or> (\<exists>p. jget kvs ''prev_event_hash'' = JStr p \<and> N p = p)" by metis
  from valid_task [OF f(6)] obtain j where "jget kvs ''trajectory_id'' = JStr (''task:'' @ j)" "ascii j"
    by (metis IDENTIFIER_ascii)
  moreover from this have "N (''task:'' @ j) = ''task:'' @ j"
    by (intro nfc_ascii [OF assms(1)]) (simp add: ascii_def)
  moreover from v(4) have "plain_leaf N (jget kvs ''event_hash'')"
    by (auto simp: validate_hash_def res_simps event_simps shaped)
  ultimately show ?thesis
    using f valid_links [OF f(7)] assms(3) by (auto simp: column_keys_def)
qed

lemma column_read_back:
  assumes "nfc_ok N" "validate_event N H True e = Inr kvs" "wf_json e" "canonical_event_json N e = Inr bytes"
  obtains kvs' where "loads bytes = Some (JObj kvs')" "\<And>k. k \<in> set column_keys \<Longrightarrow> jget kvs' k = jget kvs k"
proof -
  note v = valid_event [OF assms(2)]
  from canonical_read_back [OF assms(1,4)] obtain n where n: "loads bytes = Some (sort_keys n)" "normalize N e = Inr n" by metis
  with v(1) obtain ps where "n = JObj ps" by (auto simp: res_simps)
  with n obtain kvs' where l: "loads bytes = Some (JObj kvs')" by (auto simp: sort_keys_obj simp del: sort_keys.simps)
  have "jget kvs' k = jget kvs k" if k: "k \<in> set column_keys" for k
  proof -
    have top: "k \<in> set TOP_LEVEL_KEYS" using k by (auto simp: column_keys_def TOP_LEVEL_KEYS_def)
    have d: "distinct (map fst kvs)" "k \<in> set (keys kvs)" using assms(3) v(1,2) top by simp_all
    obtain kvs'' m where m: "loads bytes = Some (JObj kvs'')" "normalize N (jget kvs k) = Inr m" "jget kvs'' k = sort_keys m"
      by (rule field_read_back [OF assms(1) assms(4) [unfolded v(1)] d ascii_top_level [OF top]])
    with l have "jget kvs' k = sort_keys m" by simp
    note m(2) this
    with plain_leaf_same [OF valid_columns [OF assms(1,2) k]] show ?thesis by simp
  qed
  with l that show ?thesis by blast
qed

end
