(* ===== verification/TrajectoryLaws.thy ===== *)
theory TrajectoryLaws
  imports Trajectory EventLaws
begin

text \<open>
  What every trajectory written through the store satisfies, whatever the lifecycle tables were at
  each append: the rows of a trajectory are a hash chain numbered from one, each row is the
  canonical encoding of an accepted event, event identifiers are unique, and the provider events of
  an invocation follow their protocol.
\<close>

section \<open>The invariant\<close>

definition log :: "event_row list \<Rightarrow> string \<Rightarrow> event_row list" where
  "log rows tid = filter (\<lambda>v. v_trajectory v = tid) rows"

definition chained :: "event_row list \<Rightarrow> bool" where
  "chained vs \<longleftrightarrow> (\<forall>i < length vs. v_seq (vs ! i) = int i + 1
     \<and> v_prev (vs ! i) = (if i = 0 then None else Some (v_hash (vs ! (i - 1)))))"

text \<open>The row is what the store writes for some accepted event.\<close>

definition stored_event :: "(string \<Rightarrow> string) \<Rightarrow> (string \<Rightarrow> string) \<Rightarrow> event_row \<Rightarrow> bool" where
  "stored_event N H v \<longleftrightarrow> (\<exists>e kvs. wf_json e \<and> validate_event N H True e = Inr kvs
     \<and> canonical_event_json N e = Inr (v_json v) \<and> v = row_of e (v_json v))"

definition log_ok :: "(string \<Rightarrow> string) \<Rightarrow> (string \<Rightarrow> string) \<Rightarrow> event_row list \<Rightarrow> bool" where
  "log_ok N H rows \<longleftrightarrow> distinct (map v_event_id rows) \<and> (\<forall>v \<in> set rows. stored_event N H v)
     \<and> (\<forall>tid. chained (log rows tid))"

text \<open>The tables the store can write: any appends, each against the lifecycle tables of its moment.\<close>

inductive written :: "(string \<Rightarrow> string) \<Rightarrow> (string \<Rightarrow> string) \<Rightarrow> event_row list \<Rightarrow> bool" for N H where
  written_empty: "written N H []"
| written_append: "written N H rows \<Longrightarrow> wf_json e \<Longrightarrow> store_append N H in_transaction d rows e = Inr rows' \<Longrightarrow>
     written N H rows'"

section \<open>Appending\<close>

lemma log_simps [simp]: "log [] tid = []"
  "log (rows @ [v]) tid = log rows tid @ (if v_trajectory v = tid then [v] else [])"
  by (simp_all add: log_def)

lemma chained_append:
  "chained (vs @ [v]) \<longleftrightarrow> chained vs \<and> v_seq v = int (length vs) + 1
     \<and> v_prev v = (if vs = [] then None else Some (v_hash (last vs)))"
proof -
  let ?Q = "\<lambda>xs i. v_seq (xs ! i) = int i + 1 \<and> v_prev (xs ! i) = (if i = 0 then None else Some (v_hash (xs ! (i - 1))))"
  have "(\<forall>i < length vs. ?Q (vs @ [v]) i) \<longleftrightarrow> (\<forall>i < length vs. ?Q vs i)"
    by (intro all_cong) (auto simp: nth_append)
  moreover have "?Q (vs @ [v]) (length vs) \<longleftrightarrow> v_seq v = int (length vs) + 1
     \<and> v_prev v = (if vs = [] then None else Some (v_hash (last vs)))"
    by (auto simp: nth_append last_conv_nth)
  ultimately show ?thesis unfolding chained_def by (simp only: length_append_singleton All_less_Suc) blast
qed

lemma chained_sorted: "chained vs \<Longrightarrow> sorted (map v_seq vs)"
  by (auto simp: chained_def sorted_iff_nth_mono)

lemma chained_rows: "chained (log rows tid) \<Longrightarrow> trajectory_rows rows tid = log rows tid"
  by (simp add: trajectory_rows_def log_def sort_key_id_if_sorted chained_sorted)

lemma chained_last:
  "chained (log rows tid) \<Longrightarrow> last_event rows tid = (if log rows tid = [] then None else Some (last (log rows tid)))"
  by (simp add: last_event_def chained_rows split: list.split)

lemma chained_last_seq: "chained vs \<Longrightarrow> vs \<noteq> [] \<Longrightarrow> v_seq (last vs) = int (length vs)"
  by (cases vs rule: rev_cases) (simp_all add: chained_append)

lemma store_append_Inr:
  assumes "store_append N H b d rows e = Inr rows'"
  obtains kvs bytes where "b" "validate_event N H True e = Inr kvs" "check_identity d e = Inr ()" "check_chain rows e = Inr ()"
    "check_provider rows e = Inr ()" "check_causes rows e = Inr ()" "check_rebound rows e = Inr ()"
    "canonical_event_json N e = Inr bytes" "rows' = rows @ [row_of e bytes]" "events_ok d rows'"
  using assms that
  by (auto simp: store_append_def res_simps event_simps canonical_event_bytes_def insert_event_def)

lemma opt_str_of_simps [simp]: "opt_str_of (jopt_str x) = x"
  by (cases x) (auto simp: opt_str_of_def jopt_str_def)

lemma store_append_log_ok:
  assumes "log_ok N H rows" "wf_json e" "store_append N H b d rows e = Inr rows'"
  shows "log_ok N H rows'"
proof -
  obtain kvs bytes where s: "validate_event N H True e = Inr kvs" "check_chain rows e = Inr ()"
    "canonical_event_json N e = Inr bytes" "rows' = rows @ [row_of e bytes]" "events_ok d rows'"
    by (rule store_append_Inr [OF assms(3)])
  let ?v = "row_of e bytes" and ?tid = "str_of (field e ''trajectory_id'')"
  have chained: "chained (log rows t)" for t using assms(1) by (simp add: log_ok_def)
  have "stored_event N H ?v" unfolding stored_event_def
    by (intro exI [of _ e] exI [of _ kvs]) (use assms(2) s in \<open>simp add: row_of_def\<close>)
  moreover have "chained (log rows ?tid @ [?v])"
    using s(2) chained [of ?tid] chained_last_seq [OF chained [of ?tid]]
    by (auto simp: chained_append check_chain_def Let_def event_simps chained_last [OF chained] row_of_def int_of_def
        jopt_str_def opt_str_of_def)
  moreover have "v_trajectory ?v = ?tid" by (simp add: row_of_def)
  ultimately show ?thesis
    using assms(1) s(5) by (auto simp: log_ok_def s(4) events_ok_def chained)
qed

lemma written_log_ok: "written N H rows \<Longrightarrow> log_ok N H rows"
proof (induction rule: written.induct)
  case written_empty
  show ?case by (simp add: log_ok_def chained_def)
next
  case (written_append rows e b d rows')
  then show ?case by (blast intro: store_append_log_ok)
qed

text \<open>C12: Every trajectory written through the store is a hash chain: its rows are numbered 1, 2, ... without
  gap, each carries the hash of its predecessor and the first none, every row is the canonical encoding of
  an event the validator accepts, and no event identifier occurs twice.\<close>

theorem trajectory_invariant: "written N H rows \<Longrightarrow> log_ok N H rows"
  by (rule written_log_ok)

section \<open>The provider protocol\<close>

definition the_event :: "event_row \<Rightarrow> json" where
  "the_event v = (case loads (v_json v) of None \<Rightarrow> JNull | Some e \<Rightarrow> e)"

definition invocation_events :: "event_row list \<Rightarrow> string \<Rightarrow> string \<Rightarrow> json list" where
  "invocation_events rows tid call = filter (\<lambda>c. field c ''invocation_id'' = JStr call) (map the_event (log rows tid))"

definition protocol :: "string list set" where
  "protocol =
     (let i = ''provider.dispatch_intent''; d = ''provider.dispatched''; s = ''provider.settled''
      in {[], [i], [i, d], [i, s], [i, d, s]})"

definition protocol_ok :: "event_row list \<Rightarrow> bool" where
  "protocol_ok rows \<longleftrightarrow> (\<forall>tid call. map event_type_of (invocation_events rows tid call) \<in> protocol)"

lemma row_read_back:
  assumes "nfc_ok N" "validate_event N H True e = Inr kvs" "wf_json e" "canonical_event_json N e = Inr bytes"
  obtains c where "loads bytes = Some c" "\<And>k. k \<in> set column_keys \<Longrightarrow> field c k = field e k"
proof -
  obtain kvs' where k: "loads bytes = Some (JObj kvs')" "\<And>k. k \<in> set column_keys \<Longrightarrow> jget kvs' k = jget kvs k"
    using column_read_back [OF assms] by blast
  have "field (JObj kvs') k = field e k" if "k \<in> set column_keys" for k
    using k(2) [OF that] valid_event(1) [OF assms(2)] by simp
  with k(1) that show ?thesis by blast
qed

lemma stored_decodes:
  assumes "nfc_ok N" "stored_event N H v"
  shows "decode_row v = Inr (the_event v)"
proof -
  from assms(2) obtain e kvs where "wf_json e" "validate_event N H True e = Inr kvs"
    "canonical_event_json N e = Inr (v_json v)" unfolding stored_event_def by blast
  with row_read_back [OF assms(1)] obtain c where "loads (v_json v) = Some c" by metis
  then show ?thesis by (simp add: decode_row_def the_event_def)
qed

lemma mapR_decode:
  "nfc_ok N \<Longrightarrow> \<forall>v \<in> set vs. stored_event N H v \<Longrightarrow> mapR decode_row vs = Inr (map the_event vs)"
  by (induction vs) (auto simp: stored_decodes)

lemma invocation_events_append:
  "the_event v = c \<Longrightarrow> invocation_events (rows @ [v]) tid call =
     invocation_events rows tid call @ (if v_trajectory v = tid \<and> field c ''invocation_id'' = JStr call then [c] else [])"
  by (auto simp: invocation_events_def)

lemma protocol_step:
  "ts \<in> {[], [i], [i, d], [i, s], [i, d, s]} \<Longrightarrow> ts \<noteq> [] \<Longrightarrow> t \<in> {d, s} \<Longrightarrow> t \<notin> set ts \<Longrightarrow>
   \<not> (t = d \<and> s \<in> set ts) \<Longrightarrow> ts @ [t] \<in> {[], [i], [i, d], [i, s], [i, d, s]}"
  by auto

text \<open>What an accepted provider event adds to its invocation.\<close>

lemma check_invocation_protocol:
  assumes "check_invocation prior e = Inr ()" "map event_type_of prior \<in> protocol"
    "event_type_of e \<in> {''provider.dispatch_intent'', ''provider.dispatched'', ''provider.settled''}"
  shows "map event_type_of prior @ [event_type_of e] \<in> protocol"
proof (cases "event_type_of e = ''provider.dispatch_intent''")
  case True
  with assms(1) show ?thesis by (simp add: check_invocation_def Let_def event_simps protocol_def)
next
  case False
  then obtain x where x: "filter (\<lambda>c. event_type_of c = ''provider.dispatch_intent'') prior = [x]"
    and ty: "event_type_of e \<notin> set (map event_type_of prior)"
      "\<not> (event_type_of e = ''provider.dispatched'' \<and> ''provider.settled'' \<in> set (map event_type_of prior))"
    using assms(1) by (auto simp: check_invocation_def Let_def event_simps split: list.splits)
  from x have ne: "map event_type_of prior \<noteq> []" by auto
  have t: "event_type_of e \<in> {''provider.dispatched'', ''provider.settled''}" using assms(3) False by blast
  show ?thesis unfolding protocol_def Let_def
    by (rule protocol_step [OF assms(2) [unfolded protocol_def Let_def] ne t ty])
qed

lemma provider_types:
  "ty \<in> set SUPPORTED_EVENT_TYPES \<Longrightarrow> starts_with ''provider.'' ty \<Longrightarrow>
   ty \<in> {''provider.dispatch_intent'', ''provider.dispatched'', ''provider.settled''}"
  unfolding SUPPORTED_EVENT_TYPES_def by (simp, elim disjE) simp_all

lemma store_append_protocol:
  assumes "nfc_ok N" "log_ok N H rows" "protocol_ok rows" "wf_json e" "store_append N H b d rows e = Inr rows'"
  shows "protocol_ok rows'"
proof -
  obtain kvs bytes where s: "validate_event N H True e = Inr kvs" "check_provider rows e = Inr ()"
    "canonical_event_json N e = Inr bytes" "rows' = rows @ [row_of e bytes]"
    by (rule store_append_Inr [OF assms(5)])
  note v = valid_event [OF s(1)]
  obtain c where c: "loads bytes = Some c" "\<And>k. k \<in> set column_keys \<Longrightarrow> field c k = field e k"
    using row_read_back [OF assms(1) s(1) assms(4) s(3)] by blast
  have ev: "the_event (row_of e bytes) = c" by (simp add: the_event_def row_of_def c(1))
  have cols: "field c ''invocation_id'' = field e ''invocation_id''" "event_type_of c = event_type_of e"
    using c(2) by (simp_all add: column_keys_def event_type_of_def)
  obtain ty where ty: "event_type_of e = ty" "ty \<in> set SUPPORTED_EVENT_TYPES" "validate_links N ty kvs = Inr ()"
    by (rule valid_fields [OF v(3)]) (use v(1) in \<open>simp add: event_type_of_def str_of_def\<close>)
  have provider: "starts_with ''provider.'' ty \<longleftrightarrow> field e ''invocation_id'' \<noteq> JNull"
    using valid_links(4) [OF ty(3)] v(1) by simp
  show ?thesis unfolding protocol_ok_def
  proof (intro allI)
    fix tid call
    let ?es = "invocation_events rows tid call"
    show "map event_type_of (invocation_events rows' tid call) \<in> protocol"
    proof (cases "str_of (field e ''trajectory_id'') = tid \<and> field e ''invocation_id'' = JStr call")
      case True
      then have p: "starts_with ''provider.'' ty" using provider by simp
      have "\<forall>w \<in> set (log rows tid). stored_event N H w" using assms(2) by (auto simp: log_ok_def log_def)
      moreover have "trajectory_rows rows tid = log rows tid" using assms(2) by (intro chained_rows) (simp add: log_ok_def)
      ultimately have "check_invocation ?es e = Inr ()"
        using s(2) p ty(1) True mapR_decode [OF assms(1)]
        by (auto simp: check_provider_def invocation_events_def)
      then have "map event_type_of ?es @ [event_type_of e] \<in> protocol"
        by (rule check_invocation_protocol) (use assms(3) provider_types [OF ty(2) p] ty(1) in \<open>simp_all add: protocol_ok_def\<close>)
      with True show ?thesis
        by (simp add: s(4) invocation_events_append [OF ev] cols) (simp add: row_of_def)
    next
      case False
      then show ?thesis
        using assms(3) by (auto simp: s(4) invocation_events_append [OF ev] cols protocol_ok_def) (simp add: row_of_def)
    qed
  qed
qed

lemma protocol_empty: "protocol_ok []"
  by (simp add: protocol_ok_def invocation_events_def protocol_def Let_def)

lemma written_protocol_ok: "nfc_ok N \<Longrightarrow> written N H rows \<Longrightarrow> protocol_ok rows"
proof -
  assume N: "nfc_ok N" and "written N H rows"
  from this(2) have "log_ok N H rows \<and> protocol_ok rows"
  proof (induction rule: written.induct)
    case written_empty
    show ?case by (simp add: protocol_empty log_ok_def chained_def)
  next
    case (written_append rows e b d rows')
    then show ?case using store_append_log_ok store_append_protocol [OF N] by blast
  qed
  then show ?thesis ..
qed

text \<open>C17: In every trajectory written through the store the provider events of an invocation are, in order, a
  dispatch intent, then at most one dispatch, then at most one settlement: none is missing its intent, none is
  repeated and nothing is dispatched after it settled.\<close>

theorem provider_protocol: "nfc_ok N \<Longrightarrow> written N H rows \<Longrightarrow> protocol_ok rows"
  by (rule written_protocol_ok)

end
