(* ===== verification/HashChain.thy ===== *)
theory HashChain
  imports TrajectoryLaws
begin

text \<open>
  A trajectory is tamper evident: as long as the hash does not collide on the bytes involved, the
  hash of its last event fixes every event before it.  The argument is that of any hash chain and is
  made once in a locale; the model's rows are an instance.
\<close>

section \<open>Hash chains\<close>

locale hash_chain =
  fixes hash :: "'r \<Rightarrow> 'h" and prev :: "'r \<Rightarrow> 'h option" and payload :: "'r \<Rightarrow> 'p" and good :: "'r \<Rightarrow> bool"
  assumes binding: "good a \<Longrightarrow> good b \<Longrightarrow> hash a = hash b \<Longrightarrow> payload a = payload b \<and> prev a = prev b"
begin

text \<open>Newest first.\<close>

fun linked :: "'r list \<Rightarrow> bool" where
  "linked [] = True"
| "linked [r] = (prev r = None)"
| "linked (r # s # rs) = (prev r = Some (hash s) \<and> linked (s # rs))"

lemma same_head:
  "linked (a # as) \<Longrightarrow> linked (b # bs) \<Longrightarrow> \<forall>r \<in> set (a # as) \<union> set (b # bs). good r \<Longrightarrow> hash a = hash b \<Longrightarrow>
   map payload (a # as) = map payload (b # bs)"
proof (induction as arbitrary: a b bs)
  case Nil
  then have "payload a = payload b" "prev a = prev b" using binding [of a b] by auto
  with Nil show ?case by (cases bs) auto
next
  case (Cons c cs)
  then have same: "payload a = payload b" "prev a = prev b" using binding [of a b] by auto
  show ?case
  proof (cases bs)
    case Nil
    with Cons.prems same show ?thesis by simp
  next
    case (Cons d ds)
    with Cons.prems same have "hash c = hash d" by simp
    with Cons Cons.prems have "map payload (c # cs) = map payload (d # ds)" by (intro Cons.IH) auto
    with Cons same show ?thesis by simp
  qed
qed

lemma linked_snoc:
  "(\<forall>i < length rs. prev (rs ! i) = (if i = 0 then None else Some (hash (rs ! (i - 1))))) \<Longrightarrow> linked (rev rs)"
proof (induction rs rule: rev_induct)
  case Nil
  show ?case by simp
next
  case (snoc r rs)
  have "linked (rev rs)"
  proof (rule snoc.IH, intro allI impI)
    fix i assume i: "i < length rs"
    with snoc.prems have "prev ((rs @ [r]) ! i) = (if i = 0 then None else Some (hash ((rs @ [r]) ! (i - 1))))" by simp
    with i show "prev (rs ! i) = (if i = 0 then None else Some (hash (rs ! (i - 1))))" by (auto simp: nth_append)
  qed
  moreover have "prev r = (if rs = [] then None else Some (hash (last rs)))"
    using snoc.prems [rule_format, of "length rs"] by (auto simp: nth_append last_conv_nth)
  ultimately show ?case by (cases rs rule: rev_cases) auto
qed

end

section \<open>The rows of a trajectory\<close>

text \<open>The bytes whose digest an event carries: its canonical encoding without the digest.\<close>

definition hashed_bytes :: "event_row \<Rightarrow> string" where
  "hashed_bytes v = dumps (JObj (filter (\<lambda>(k, w). k \<noteq> ''event_hash'') (entries (the_event v))))"

lemma map_of_without: "map_of (filter (\<lambda>(k, w). k \<noteq> h) kvs) k = (if k = h then None else map_of kvs k)"
  by (induction kvs) auto

lemma distinct_without: "distinct (map fst kvs) \<Longrightarrow> distinct (map fst (filter (\<lambda>(k, w). k \<noteq> h) kvs))"
  by (induction kvs) auto

text \<open>Normalising the fields one by one: dropping one first makes no difference to the others.\<close>

lemma normalize_without:
  assumes "nfc_ok N" "wf_json (JObj kvs)" "\<forall>k \<in> set (keys kvs). ascii k" "normalize N (JObj kvs) = Inr n"
    "normalize N (JObj (filter (\<lambda>(k, w). k \<noteq> h) kvs)) = Inr m"
  obtains ps qs where "n = JObj ps" "m = JObj qs" "distinct (map fst ps)" "distinct (map fst qs)"
    "\<And>k. map_of qs k = (if k = h then None else map_of ps k)"
proof -
  let ?rest = "filter (\<lambda>(k, w). k \<noteq> h) kvs"
  from assms(4,5) obtain ps qs where p: "n = JObj ps" "m = JObj qs"
    and np: "normalize_pairs N [] kvs = Inr ps" "normalize_pairs N [] ?rest = Inr qs" by (auto simp: res_simps)
  have d: "distinct (map fst kvs)" "distinct (map fst ?rest)" using assms(2) distinct_without by auto
  note P = normalize_pairs_map [OF np(1) d(1)] and Q = normalize_pairs_map [OF np(2) d(2)]
  have N: "N k = k" if "k \<in> fst ` set kvs" for k using that assms(1,3) by (auto simp: nfc_ascii keys_def)
  have "N ` fst ` set kvs = fst ` set kvs" "N ` fst ` set ?rest = fst ` set ?rest"
    using N by (auto simp: image_image cong: image_cong_simp)
  then have keys: "fst ` set ps = fst ` set kvs" "fst ` set qs = fst ` set ?rest" using P Q by simp_all
  have "map_of qs k = (if k = h then None else map_of ps k)" for k
  proof (cases "map_of ?rest k")
    case None
    then have "map_of qs k = None" using keys(2) by (metis map_of_eq_None_iff)
    moreover have "k = h \<or> map_of ps k = None" using None keys(1) by (metis map_of_eq_None_iff map_of_without)
    ultimately show ?thesis by auto
  next
    case (Some w)
    then have w: "map_of kvs k = Some w" "k \<noteq> h" by (auto simp: map_of_without split: if_splits)
    then have "N k = k" using N by (metis map_of_eq_None_iff option.distinct(1))
    with P Q Some w show ?thesis by fastforce
  qed
  moreover have "wf_json n" "wf_json m" using normalize_makes_fixed(1) [OF assms(1)] assms(4,5) by blast+
  ultimately show ?thesis using that p by auto
qed

lemma dumps_inj:
  "wf_json v \<Longrightarrow> no_reals v \<Longrightarrow> wf_json w \<Longrightarrow> no_reals w \<Longrightarrow> dumps v = dumps w \<Longrightarrow> sort_keys v = sort_keys w"
  using loads_dumps(1) [of v] loads_dumps(1) [of w] by simp

text \<open>What a stored row says about its event, its digest and its link.\<close>

definition seals :: "(string \<Rightarrow> string) \<Rightarrow> event_row \<Rightarrow> (string \<times> json) list \<Rightarrow> bool" where
  "seals H v cs \<longleftrightarrow> the_event v = JObj cs \<and> wf_json (JObj cs) \<and> no_reals (JObj cs) \<and> v_json v = dumps (JObj cs)
     \<and> map_of cs ''event_hash'' = Some (JStr (v_hash v)) \<and> jget cs ''prev_event_hash'' = jopt_str (v_prev v)
     \<and> v_hash v = ''sha256:'' @ H (hashed_bytes v)"

lemma stored_seals:
  assumes N: "nfc_ok N" and "stored_event N H v"
  obtains cs where "seals H v cs"
proof -
  from assms(2) obtain e kvs where e: "wf_json e" "validate_event N H True e = Inr kvs"
    "canonical_event_json N e = Inr (v_json v)" "v = row_of e (v_json v)" unfolding stored_event_def by blast
  note valid = valid_event [OF e(2)]
  let ?rest = "filter (\<lambda>(k, w). k \<noteq> ''event_hash'') kvs"
  obtain b where b: "canonical_event_json N (JObj ?rest) = Inr b" "jget kvs ''event_hash'' = JStr (''sha256:'' @ H b)"
    using valid(4) by (auto simp: validate_hash_def event_digest_def res_simps event_simps)
  obtain n where n: "normalize N (JObj kvs) = Inr n" "v_json v = dumps n" "loads (v_json v) = Some (sort_keys n)"
    "nfixed N n" "wf_json n" using canonical_read_back [OF N e(3) [unfolded valid(1)]] by metis
  obtain m where m: "normalize N (JObj ?rest) = Inr m" "b = dumps m" using canonical_read_back [OF N b(1)] by metis
  have "\<forall>k \<in> set (keys kvs). ascii k" using valid(2) ascii_top_level by blast
  with normalize_without [OF N e(1) [unfolded valid(1)] _ n(1) m(1)] obtain ps qs where p: "n = JObj ps" "m = JObj qs"
    "distinct (map fst ps)" "distinct (map fst qs)"
    "\<And>k. map_of qs k = (if k = ''event_hash'' then None else map_of ps k)" by metis
  define cs where "cs = sort_key fst (map keyed ps)"
  have cs: "sort_keys n = JObj cs" by (simp add: p(1) cs_def sort_keys_obj del: sort_keys.simps)
  have ev: "the_event v = JObj cs" by (simp add: the_event_def n(3) cs)
  have wf: "wf_json (JObj cs)" "no_reals (JObj cs)"
    using wf_sort_keys [OF n(5)] no_reals_sort_keys [OF nfixed_no_reals [OF n(4)]] cs by simp_all
  have look: "map_of cs k = map_option sort_keys (map_of ps k)" for k
    unfolding cs_def using map_of_sort_key [of "map keyed ps"] p(3) by (simp add: map_of_keyed comp_def)
  have hashed: "hashed_bytes v = b"
  proof -
    have "sort_keys (JObj (filter (\<lambda>(k, w). k \<noteq> ''event_hash'') cs)) = sort_keys (JObj qs)"
      by (subst sort_keys_obj_eq_iff)
        (use wf(1) distinct_without p(4) in \<open>auto simp: map_of_without p(5) look option.map_comp comp_def\<close>)
    then show ?thesis by (simp add: hashed_bytes_def ev entries_def m(2) p(2) dumps_def del: sort_keys.simps)
  qed
  have cols: "jget cs k = jget kvs k" if k: "k \<in> set column_keys" for k
    using column_read_back [OF N e(2,1,3)] n(3) cs k by (metis json.inject(6) option.inject)
  have "v = row_of (JObj kvs) (v_json v)" using e(4) valid(1) by simp
  then have col: "v_hash v = str_of (jget kvs ''event_hash'')" "v_prev v = opt_str_of (jget kvs ''prev_event_hash'')"
    unfolding row_of_def by (metis event_row.select_convs(12) field_obj, metis event_row.select_convs(11) field_obj)
  have prev: "jget kvs ''prev_event_hash'' = jopt_str (v_prev v)"
    by (rule valid_fields [OF valid(3)]) (auto simp: col(2) jopt_str_def opt_str_of_def)
  have hash: "jget kvs ''event_hash'' = JStr (v_hash v)" using b(2) col(1) by (simp add: str_of_def)
  have "map_of cs ''event_hash'' = Some (JStr (v_hash v))"
    using cols [of "''event_hash''"] hash by (simp add: jget_def column_keys_def split: option.splits)
  moreover have "v_json v = dumps (JObj cs)" using n(2) cs dumps_sort_keys [of n] by simp
  moreover have "jget cs ''prev_event_hash'' = jopt_str (v_prev v)" using cols prev by (simp add: column_keys_def)
  moreover have "v_hash v = ''sha256:'' @ H (hashed_bytes v)" using hash hashed b(2) by simp
  ultimately show ?thesis using that [of cs] ev wf unfolding seals_def by blast
qed

lemma jopt_str_inj: "jopt_str a = jopt_str b \<longleftrightarrow> a = b"
  by (cases a; cases b) (auto simp: jopt_str_def)

lemma sort_jopt_str [simp]: "sort_keys (jopt_str a) = jopt_str a"
  by (cases a) (auto simp: jopt_str_def)

text \<open>A row whose hashed bytes are among those on which the hash does not collide.\<close>

definition committed_to :: "(string \<Rightarrow> string) \<Rightarrow> (string \<Rightarrow> string) \<Rightarrow> string set \<Rightarrow> event_row \<Rightarrow> bool" where
  "committed_to N H B v \<longleftrightarrow> nfc_ok N \<and> inj_on H B \<and> stored_event N H v \<and> hashed_bytes v \<in> B"

lemma committed_binding:
  assumes "committed_to N H B a" "committed_to N H B b" "v_hash a = v_hash b"
  shows "v_json a = v_json b \<and> v_prev a = v_prev b"
proof -
  from assms obtain cs ds where cs: "seals H a cs" and ds: "seals H b ds"
    using stored_seals unfolding committed_to_def by metis
  let ?w = "filter (\<lambda>(k, w). k \<noteq> ''event_hash'')"
  from assms cs ds have "hashed_bytes a = hashed_bytes b"
    by (auto simp: seals_def committed_to_def dest: inj_onD)
  then have "dumps (JObj (?w cs)) = dumps (JObj (?w ds))"
    using cs ds by (simp add: hashed_bytes_def seals_def entries_def)
  moreover have ok: "wf_json (JObj (?w xs))" "no_reals (JObj (?w xs))" if "seals H x xs" for x xs
    using that by (auto simp: seals_def distinct_without)
  ultimately have "sort_keys (JObj (?w cs)) = sort_keys (JObj (?w ds))"
    using cs ds by (intro dumps_inj) blast+
  then have same: "map_option sort_keys (map_of (?w cs) k) = map_option sort_keys (map_of (?w ds) k)" for k
    using ok(1) [OF cs] ok(1) [OF ds] sort_keys_obj_eq_iff [of "?w cs" "?w ds"] by auto
  have every: "map_option sort_keys (map_of cs k) = map_option sort_keys (map_of ds k)" for k
    using same [of k] cs ds assms(3) by (auto simp: map_of_without seals_def split: if_splits)
  then have "sort_keys (JObj cs) = sort_keys (JObj ds)"
    using cs ds sort_keys_obj_eq_iff [of cs ds] by (auto simp: seals_def)
  then have "v_json a = v_json b"
    using cs ds dumps_sort_keys by (metis seals_def)
  moreover have "sort_keys (jget cs ''prev_event_hash'') = sort_keys (jget ds ''prev_event_hash'')"
    using every [of "''prev_event_hash''"] by (auto simp: jget_def split: option.splits)
  ultimately show ?thesis using cs ds by (simp add: seals_def jopt_str_inj)
qed

interpretation rows: hash_chain v_hash v_prev v_json "committed_to N H B"
  by unfold_locales (rule committed_binding)

definition bytes_of :: "event_row list \<Rightarrow> string set" where
  "bytes_of vs = hashed_bytes ` set vs"

text \<open>C11: Two trajectories written through the store (in any two tables) whose last events carry the same hash
  are the same, event for event, unless the hash collides on the bytes of their events.  The hypotheses say
  that the normaliser is idempotent and keeps ASCII text, as NFC does, and that the hash is free of
  collisions on the bytes involved.\<close>

theorem trajectory_tamper_evident:
  assumes "nfc_ok N" "written N H rows" "written N H rows'"
    "inj_on H (bytes_of (log rows tid) \<union> bytes_of (log rows' tid'))"
    "log rows tid \<noteq> []" "log rows' tid' \<noteq> []" "v_hash (last (log rows tid)) = v_hash (last (log rows' tid'))"
  shows "map v_json (log rows tid) = map v_json (log rows' tid')"
proof -
  let ?a = "rev (log rows tid)" and ?b = "rev (log rows' tid')"
  let ?B = "bytes_of (log rows tid) \<union> bytes_of (log rows' tid')"
  have ok: "log_ok N H rows" "log_ok N H rows'" using assms(2,3) by (auto intro: written_log_ok)
  then have "rows.linked ?a" "rows.linked ?b"
    by (auto simp: log_ok_def chained_def intro!: rows.linked_snoc)
  moreover have "\<forall>v \<in> set ?a \<union> set ?b. committed_to N H ?B v"
    using ok assms(1,4) by (auto simp: committed_to_def bytes_of_def log_ok_def log_def)
  moreover obtain x xs y ys where "?a = x # xs" "?b = y # ys" using assms(5,6) by (metis list.exhaust rev_is_Nil_conv)
  moreover from this have "v_hash x = v_hash y" using assms(5,6,7) by (metis hd_rev list.sel(1))
  ultimately have "map v_json ?a = map v_json ?b" using rows.same_head by metis
  then show ?thesis by (simp add: rev_map [symmetric])
qed

end
