(* ===== verification/SealLaws.thy ===== *)
theory SealLaws
  imports TrajectoryLaws
begin

text \<open>
  Sealing and verifying agree: the bytes of a sealed event, read back, are an event the validator
  accepts again, with the same digest and the same bytes.  The validator does not look at the order
  of keys, so it accepts an event with its keys sorted whenever it accepts the event.
\<close>

section \<open>Looking through sorted keys\<close>

named_theorems sorted_simps \<open>reading a value whose keys are sorted\<close>

definition sorted_obj :: "(string \<times> json) list \<Rightarrow> (string \<times> json) list" where
  "sorted_obj kvs = sort_key fst (map keyed kvs)"

lemma sort_keys_sorted_obj: "sort_keys (JObj kvs) = JObj (sorted_obj kvs)"
  by (simp add: sorted_obj_def sort_keys_obj del: sort_keys.simps)

lemma sort_keys_leaf [sorted_simps]:
  "sort_keys v = JNull \<longleftrightarrow> v = JNull" "sort_keys v = JStr s \<longleftrightarrow> v = JStr s" "sort_keys v = JInt i \<longleftrightarrow> v = JInt i"
  "sort_keys v = JBool b \<longleftrightarrow> v = JBool b" "is_bool (sort_keys v) = is_bool v"
  by (cases v; simp)+

lemma sort_keys_cases:
  "sort_keys v = JObj ps \<longleftrightarrow> (\<exists>kvs. v = JObj kvs \<and> ps = sorted_obj kvs)"
  "sort_keys v = JArr ys \<longleftrightarrow> (\<exists>xs. v = JArr xs \<and> ys = map sort_keys xs)"
  by (cases v; auto simp: sort_keys_sorted_obj simp del: sort_keys.simps(2))+

lemma jget_sorted_obj [sorted_simps]: "distinct (map fst kvs) \<Longrightarrow> jget (sorted_obj kvs) k = sort_keys (jget kvs k)"
  unfolding sorted_obj_def by (rule jget_sort_keys)

lemma keys_sorted_obj [sorted_simps]: "set (keys (sorted_obj kvs)) = set (keys kvs)"
  by (simp add: sorted_obj_def keys_def image_image)

lemma ev_keys_sorted:
  "ev_keys v expected label = Inr kvs \<Longrightarrow> ev_keys (sort_keys v) expected label = Inr (sorted_obj kvs)"
  by (auto simp: event_simps sort_keys_sorted_obj sorted_simps simp del: sort_keys.simps)

text \<open>A check that still passes when the keys of its argument are sorted.\<close>

definition unsorted_ok :: "(json \<Rightarrow> (traj_error, unit) res) \<Rightarrow> bool" where
  "unsorted_ok f \<longleftrightarrow> (\<forall>v. wf_json v \<longrightarrow> f v = Inr () \<longrightarrow> f (sort_keys v) = Inr ())"

named_theorems unsorted_intros \<open>checks that do not look at the order of keys\<close>

lemma unsortedD: "unsorted_ok f \<Longrightarrow> wf_json v \<Longrightarrow> f v = Inr () \<Longrightarrow> f (sort_keys v) = Inr ()"
  by (simp add: unsorted_ok_def)

definition kept :: "(traj_error, 'a) res \<Rightarrow> (traj_error, 'b) res \<Rightarrow> bool" where
  "kept c c' \<longleftrightarrow> (is_ok c \<longrightarrow> is_ok c')"

named_theorems kept_intros \<open>a check that passes still passes\<close>

lemma is_ok_unit: "is_ok (c :: (traj_error, unit) res) \<longleftrightarrow> c = Inr ()"
  by (cases c) auto

lemma keptD: "kept c c' \<Longrightarrow> c = Inr () \<Longrightarrow> c' = Inr ()" for c c' :: "(traj_error, unit) res"
  by (simp add: kept_def is_ok_unit)

lemma kept_refl [kept_intros]: "kept c c"
  by (simp add: kept_def)

lemma kept_allR_Cons [kept_intros]: "kept c c' \<Longrightarrow> kept (allR cs) (allR cs') \<Longrightarrow> kept (allR (c # cs)) (allR (c' # cs'))"
  by (simp add: kept_def is_ok_unit event_simps)

lemma kept_allR_append: "kept (allR cs) (allR cs') \<Longrightarrow> kept (allR ds) (allR ds') \<Longrightarrow> kept (allR (cs @ ds)) (allR (cs' @ ds'))"
  by (auto simp: kept_def is_ok_unit event_simps)

lemma kept_needR [kept_intros]: "(b \<Longrightarrow> b') \<Longrightarrow> kept (needR b m) (needR b' m)"
  by (simp add: kept_def is_ok_unit event_simps)

lemma kept_if: "(b \<longleftrightarrow> b') \<Longrightarrow> (b \<Longrightarrow> kept c c') \<Longrightarrow> (\<not> b \<Longrightarrow> kept d d') \<Longrightarrow>
    kept (if b then c else d) (if b' then c' else d')"
  by simp

lemma kept_unsorted [kept_intros]: "unsorted_ok f \<Longrightarrow> wf_json v \<Longrightarrow> kept (f v) (f (sort_keys v))"
  by (simp add: kept_def is_ok_unit unsorted_ok_def)

lemma kept_keys:
  assumes "wf_json v"
    "\<And>kvs. distinct (map fst kvs) \<Longrightarrow> (\<And>k. wf_json (jget kvs k)) \<Longrightarrow> kept (g kvs) (g' (sorted_obj kvs))"
  shows "kept (bindR (ev_keys v expected label) g) (bindR (ev_keys (sort_keys v) expected label) g')"
proof (cases "ev_keys v expected label")
  case (Inr kvs)
  then have "v = JObj kvs" by (simp add: event_simps)
  then have "distinct (map fst kvs)" "\<And>k. wf_json (jget kvs k)" using assms(1) wf_json_jget by auto
  with assms(2) Inr ev_keys_sorted [OF Inr] show ?thesis by simp
qed (simp add: kept_def)

lemma unsorted_obj:
  assumes "\<And>kvs. distinct (map fst kvs) \<Longrightarrow> (\<And>k. wf_json (jget kvs k)) \<Longrightarrow> kept (g kvs) (g (sorted_obj kvs))"
  shows "unsorted_ok (\<lambda>v. bindR (ev_keys v expected label) g)"
  unfolding unsorted_ok_def by (intro allI impI keptD [OF kept_keys]) (use assms in auto)

lemma unsorted_leaf [unsorted_intros]:
  "unsorted_ok (\<lambda>v. ev_integer m v label)" "unsorted_ok (\<lambda>v. ev_boolean v label)"
  "unsorted_ok (\<lambda>v. ev_shape ok c N v label)" "unsorted_ok (\<lambda>v. ev_ref_id N v label)"
  "unsorted_ok (\<lambda>v. ev_enum N allowed v label)"
  by (auto simp: unsorted_ok_def event_simps)

lemma unsorted_nullable [unsorted_intros]:
  "unsorted_ok (\<lambda>v. f v label) \<Longrightarrow> unsorted_ok (\<lambda>v. nullable f v label)"
  by (auto simp: unsorted_ok_def event_simps)

lemma kept_other [kept_intros]:
  "kept (ev_enum_with_other_digest N allowed v d l1 l2)
     (ev_enum_with_other_digest N allowed (sort_keys v) (sort_keys d) l1 l2)"
proof -
  have "sort_keys v = v \<and> sort_keys d = d" if "ev_enum_with_other_digest N allowed v d l1 l2 = Inr ()"
  proof -
    from that have "ev_enum N allowed v l1 = Inr ()" "nullable (ev_digest N) d l2 = Inr ()"
      by (simp_all add: ev_enum_with_other_digest_def allR_Inr)
    then show ?thesis by (auto simp: event_simps shaped)
  qed
  then show ?thesis by (auto simp: kept_def is_ok_unit)
qed

lemma kept_if_checks [kept_intros]:
  "(b \<longleftrightarrow> b') \<Longrightarrow> (b \<Longrightarrow> kept (allR cs) (allR cs')) \<Longrightarrow> (\<not> b \<Longrightarrow> kept (allR ds) (allR ds')) \<Longrightarrow>
   kept (allR (if b then cs else ds)) (allR (if b' then cs' else ds'))"
  by simp

section \<open>Each check\<close>

lemma unsorted_usage [unsorted_intros]: "unsorted_ok (\<lambda>v. validate_usage N v label)"
  unfolding validate_usage_def TOKEN_KEYS_def
  by (rule unsorted_obj)
    (simp only: Let_def sorted_simps list.map append.simps list.pred_inject, intro kept_intros unsorted_intros, blast+)

lemma unsorted_secrets: "reject_detectable_secrets v = Inr () \<Longrightarrow> reject_detectable_secrets (sort_keys v) = Inr ()"
proof (induction v)
  case (JObj kvs)
  have "reject_detectable_secrets (sort_keys w) = Inr ()" if "(k, w) \<in> set kvs" for k w
    using JObj.IH [OF that snds.intros] JObj.prems that by (force simp: event_simps)
  then show ?case by (auto simp: sort_keys_obj event_simps keyed_def simp del: sort_keys.simps)
qed (auto simp: event_simps)

lemma kept_seal [kept_intros]:
  "wf_json v \<Longrightarrow> kept (validate_seal N k v label) (validate_seal N (sort_keys k) (sort_keys v) label)"
  unfolding validate_seal_def ev_identifier_def ev_hex_def
  by (rule kept_keys, assumption)
    (simp only: sorted_simps, intro kept_intros unsorted_intros; simp add: sorted_simps image_iff)

lemma bindR_assoc: "bindR (bindR m f) g = bindR m (\<lambda>x. bindR (f x) g)"
  by (cases m) auto

lemma bindR_unit: "bindR c (\<lambda>_. Inr ()) = c" for c :: "('e, unit) res"
  by (cases c) auto

lemma unsorted_ref: "unsorted_ok (\<lambda>v. bindR (validate_evidence_ref N v label) (\<lambda>_. Inr ()))"
  unfolding validate_evidence_ref_def bindR_assoc bindR.simps(2) bindR_unit shaped
  by (rule unsorted_obj) (simp only: sorted_simps, intro kept_intros unsorted_intros, blast+)

section \<open>Evidence references\<close>

lemma ref_sorted:
  assumes "wf_json v" "validate_evidence_ref N v label = Inr r"
  shows "validate_evidence_ref N (sort_keys v) label = Inr (sorted_obj r)" "v = JObj r"
proof -
  show v: "v = JObj r" using assms(2) by (auto simp: validate_evidence_ref_def res_simps event_simps)
  have "bindR (validate_evidence_ref N (sort_keys v) label) (\<lambda>_. Inr ()) = Inr ()"
    by (rule unsortedD [OF unsorted_ref assms(1)]) (simp add: assms(2))
  then obtain r' where "validate_evidence_ref N (sort_keys v) label = Inr r'" by (auto simp: res_simps)
  moreover from this have "sort_keys v = JObj r'" by (auto simp: validate_evidence_ref_def res_simps event_simps)
  ultimately show "validate_evidence_ref N (sort_keys v) label = Inr (sorted_obj r)"
    using v by (simp add: sort_keys_sorted_obj del: sort_keys.simps)
qed

lemma ref_identity:
  assumes "validate_evidence_ref N v label = Inr r"
  obtains i seal tok where "jget r ''ref_id'' = JStr i" "jget r ''seal'' = JObj seal" "jget seal ''run_token'' = JStr tok"
  using assms that unfolding validate_evidence_ref_def validate_seal_def
  by (auto simp: res_simps event_simps shaped)

definition refs_wf :: "(json \<times> (string \<times> json) list) list \<Rightarrow> bool" where
  "refs_wf refs \<longleftrightarrow> (\<forall>(i, r) \<in> set refs. wf_json (JObj r))"

abbreviation sorted_refs :: "(json \<times> (string \<times> json) list) list \<Rightarrow> (json \<times> (string \<times> json) list) list" where
  "sorted_refs \<equiv> map (apsnd sorted_obj)"

lemma fst_sorted_refs: "fst ` set (sorted_refs refs) = fst ` set refs"
  by (simp add: image_image)

lemma refs_sorted:
  "\<lbrakk>\<forall>v \<in> set vs. wf_json v; validate_evidence_refs N tok i acc vs = Inr refs; refs_wf acc;
    \<forall>t. tok = Some t \<longrightarrow> sort_keys t = t\<rbrakk> \<Longrightarrow>
   validate_evidence_refs N tok i (sorted_refs acc) (map sort_keys vs) = Inr (sorted_refs refs) \<and> refs_wf refs"
proof (induction vs arbitrary: i acc)
  case Nil
  then show ?case by simp
next
  case (Cons v vs)
  let ?label = "''evidence_refs['' @ str_of_nat i @ '']''"
  from Cons.prems(2) obtain r where r: "validate_evidence_ref N v ?label = Inr r" "jget r ''ref_id'' \<notin> fst ` set acc"
    "case tok of None \<Rightarrow> True | Some tok \<Rightarrow> (case jget r ''seal'' of JObj seal \<Rightarrow> jget seal ''run_token'' = tok | _ \<Rightarrow> False)"
    "validate_evidence_refs N tok (Suc i) (acc @ [(jget r ''ref_id'', r)]) vs = Inr refs"
    by (auto simp only: validate_evidence_refs.simps res_simps)
  have wf: "wf_json v" using Cons.prems(1) by simp
  note s = ref_sorted [OF wf r(1)]
  obtain j seal tk where id: "jget r ''ref_id'' = JStr j" "jget r ''seal'' = JObj seal" "jget seal ''run_token'' = JStr tk"
    by (rule ref_identity [OF r(1)])
  have d: "distinct (map fst r)" "distinct (map fst seal)"
    using wf s(2) wf_json_jget [of r "''seal''"] id(2) by auto
  have id': "jget (sorted_obj r) ''ref_id'' = jget r ''ref_id''" "jget (sorted_obj r) ''seal'' = JObj (sorted_obj seal)"
    "jget (sorted_obj seal) ''run_token'' = JStr tk"
    using d id by (simp_all add: sorted_simps sort_keys_sorted_obj del: sort_keys.simps(2))
  have "validate_evidence_refs N tok (Suc i) (sorted_refs (acc @ [(jget r ''ref_id'', r)])) (map sort_keys vs)
      = Inr (sorted_refs refs) \<and> refs_wf refs"
    using Cons.prems wf s(2) by (intro Cons.IH) (auto simp: r(4) refs_wf_def)
  then show ?case
    using s(1) r(2,3) id id' by (simp add: check_def fst_sorted_refs del: set_map split: option.splits)
qed

section \<open>Bodies\<close>

lemma ref_field_kept [kept_intros]:
  "kept (ref_field N refs v label) (ref_field N (sorted_refs refs) (sort_keys v) label)"
proof -
  have "kept (ref_field N refs v label) (ref_field N refs (sort_keys v) label)"
    by (cases v) (simp_all add: kept_def is_ok_unit ref_field_def event_simps)
  then show ?thesis by (simp only: ref_field_def fst_sorted_refs)
qed

lemma sealed_by_sorted:
  assumes "wf_json (JObj r)" "sealed_by_manifest r"
  shows "sealed_by_manifest (sorted_obj r)"
proof -
  from assms(2) obtain seal where s: "jget r ''seal'' = JObj seal" "jget seal ''kind'' = JStr ''db-committed-run-manifest''"
    "jget r ''kind'' = JStr ''run-manifest''" by (auto simp: sealed_by_manifest_def split: json.splits)
  have d: "distinct (map fst r)" "distinct (map fst seal)"
    using assms(1) wf_json_jget [of r "''seal''"] s(1) by auto
  have "jget (sorted_obj r) ''seal'' = JObj (sorted_obj seal)"
    using d s by (simp add: sorted_simps sort_keys_sorted_obj del: sort_keys.simps(2))
  with d s show ?thesis by (simp add: sealed_by_manifest_def sorted_simps)
qed

lemma sealed_refs_sorted:
  "refs_wf refs \<Longrightarrow> list_ex (\<lambda>(i, r). sealed_by_manifest r) refs \<Longrightarrow>
   list_ex (\<lambda>(i, r). sealed_by_manifest r) (sorted_refs refs)"
  by (induction refs) (auto simp: refs_wf_def simp del: wf_json.simps intro: sealed_by_sorted)

lemma outcome_kept [kept_intros]:
  "distinct (map fst b) \<Longrightarrow> kept (check_outcome N b label) (check_outcome N (sorted_obj b) label)"
  unfolding check_outcome_def
  apply (simp only: sorted_simps)
  apply (rule kept_if)
  apply (rule refl)
  apply (rule kept_other)
  apply (rule kept_needR)
  apply assumption
  done

lemmas body_defs = body_created_def body_transition_def body_claimed_def body_settled_def body_intent_def
  body_dispatched_def body_provider_settled_def body_bound_def body_rebound_def body_sealed_def

lemma kept_ref_nullable [kept_intros]:
  "kept (nullable (ref_field N refs) v label) (nullable (ref_field N (sorted_refs refs)) (sort_keys v) label)"
  using ref_field_kept [of N refs v label] by (auto simp: kept_def is_ok_unit event_simps)

lemma kept_bodies:
  assumes "wf_json v"
  shows "kept (body_created N label v) (body_created N label (sort_keys v))"
    and "kept (body_transition N label v) (body_transition N label (sort_keys v))"
    and "kept (body_claimed N label v) (body_claimed N label (sort_keys v))"
    and "kept (body_intent N label v) (body_intent N label (sort_keys v))"
  unfolding body_defs shaped
  by (rule kept_keys [OF assms], simp only: sorted_simps, intro kept_intros unsorted_intros, blast+)+

lemma kept_bodies_refs:
  assumes "wf_json v" "refs_wf refs"
  shows "kept (body_settled N label refs v) (body_settled N label (sorted_refs refs) (sort_keys v))"
    and "kept (body_dispatched N label refs v) (body_dispatched N label (sorted_refs refs) (sort_keys v))"
    and "kept (body_provider_settled N label refs v) (body_provider_settled N label (sorted_refs refs) (sort_keys v))"
    and "kept (body_bound N label refs v) (body_bound N label (sorted_refs refs) (sort_keys v))"
    and "kept (body_rebound N label refs v) (body_rebound N label (sorted_refs refs) (sort_keys v))"
    and "kept (body_sealed label refs v) (body_sealed label (sorted_refs refs) (sort_keys v))"
  unfolding body_defs shaped
  subgoal by (rule kept_keys [OF assms(1)], simp only: sorted_simps, intro kept_intros unsorted_intros)
    (use sealed_refs_sorted [OF assms(2)] in blast)+
  subgoal by (rule kept_keys [OF assms(1)], simp only: sorted_simps, intro kept_intros)
  subgoal by (rule kept_keys [OF assms(1)], simp only: sorted_simps, intro kept_intros unsorted_intros, blast+)
  subgoal by (rule kept_keys [OF assms(1)], simp only: sorted_simps, intro kept_intros unsorted_intros, blast+)
  subgoal by (rule kept_keys [OF assms(1)], simp only: sorted_simps, intro kept_intros unsorted_intros, blast+)
  subgoal by (rule kept_keys [OF assms(1)], simp only: sorted_simps, intro kept_intros unsorted_intros) auto
  done

lemma kept_leaf:
  "kept (ev_enum N allowed v label) (ev_enum N allowed (sort_keys v) label)"
  "kept (ev_shape ok c N v label) (ev_shape ok c N (sort_keys v) label)"
  by (auto simp: kept_def is_ok_unit event_simps)

lemma sort_no_container: "\<not> is_container v \<Longrightarrow> sort_keys v = v"
  by (cases v) auto

lemma kept_sorted_unique [kept_intros]:
  assumes "\<And>xs. ok xs = ok (map sort_keys xs)"
  shows "kept (ev_sorted_unique v ok m) (ev_sorted_unique (sort_keys v) ok m)"
proof (cases v)
  case (JArr xs)
  show ?thesis
  proof (cases "list_ex is_container xs")
    case True
    with JArr show ?thesis by (simp add: kept_def ev_sorted_unique_def sorted_unique_def)
  next
    case False
    then have "map sort_keys xs = xs" by (induction xs) (auto simp: sort_no_container)
    with JArr show ?thesis by (simp add: kept_refl)
  qed
qed (simp_all add: kept_def ev_sorted_unique_def)

lemma items_of_sorted: "items_of (sort_keys v) = map sort_keys (items_of v)"
  by (cases v) (auto simp: items_of_def)

lemma kept_map: "(\<And>x. kept (f x) (g (h x))) \<Longrightarrow> kept (allR (map f xs)) (allR (map g (map h xs)))"
  by (induction xs) (simp_all add: kept_refl kept_allR_Cons)

lemma kept_baseline: "wf_json v \<Longrightarrow> kept (body_baseline N label v) (body_baseline N label (sort_keys v))"
  unfolding body_baseline_def shaped
  by (rule kept_keys, assumption, simp only: sorted_simps items_of_sorted,
      intro kept_intros kept_allR_append kept_map kept_leaf unsorted_intros; simp)

lemma kept_body:
  "wf_json v \<Longrightarrow> refs_wf refs \<Longrightarrow> kept (validate_body N ty v refs) (validate_body N ty (sort_keys v) (sorted_refs refs))"
  unfolding validate_body_def Let_def
  by (intro kept_if refl kept_bodies kept_bodies_refs kept_baseline kept_refl)

section \<open>The event\<close>

lemma kept_task:
  assumes "wf_json (JObj e)"
  shows "kept (validate_task N e) (validate_task N (sorted_obj e))"
proof -
  have d: "distinct (map fst e)" "wf_json (jget e ''task'')" using assms wf_json_jget by auto
  show ?thesis unfolding validate_task_def shaped
  proof (simp only: sorted_simps d(1), rule kept_keys [OF d(2)])
    fix t assume t: "distinct (map fst t)" "\<And>k. wf_json (jget t k)"
    have same: "as_str (sort_keys v) = as_str v" for v by (cases v) auto
    show "kept (allR [ev_shape IDENTIFIER '' is not a stable identifier'' N (jget t ''task_id'') ''task.task_id'',
           ev_integer 0 (jget t ''revision'') ''task.revision'',
           needR (\<exists>i\<in>set_option (as_str (jget t ''task_id'')). jget e ''trajectory_id'' = JStr (''task:'' @ i))
            ''trajectory_id does not match task_id''])
      (allR [ev_shape IDENTIFIER '' is not a stable identifier'' N (jget (sorted_obj t) ''task_id'') ''task.task_id'',
           ev_integer 0 (jget (sorted_obj t) ''revision'') ''task.revision'',
           needR (\<exists>i\<in>set_option (as_str (jget (sorted_obj t) ''task_id'')).
                     jget e ''trajectory_id'' = JStr (''task:'' @ i))
            ''trajectory_id does not match task_id''])"
      by (simp only: sorted_simps t(1) same) (intro kept_intros unsorted_intros t(2), assumption)
  qed
qed

lemma kept_run:
  assumes "wf_json v"
  shows "kept (validate_run N ty v) (validate_run N ty (sort_keys v))"
proof -
  let ?g = "\<lambda>r. allR [ev_shape IDENTIFIER '' is not a stable identifier'' N (jget r ''run_token'') ''run.run_token'',
      ev_shape IDENTIFIER '' is not a stable identifier'' N (jget r ''stage'') ''run.stage'',
      ev_integer 1 (jget r ''cycle'') ''run.cycle'', ev_integer 1 (jget r ''attempt'') ''run.attempt'']"
  have "kept (bindR (ev_keys v K l) ?g) (bindR (ev_keys (sort_keys v) K l) ?g)" for K l
    by (rule kept_keys [OF assms], simp only: sorted_simps, intro kept_intros unsorted_intros, blast+)
  then have "kept (if v = JNull then Inr () else bindR (ev_keys v K l) ?g)
      (if v = JNull then Inr () else bindR (ev_keys (sort_keys v) K l) ?g)" for K l
    by (simp add: kept_refl)
  then show ?thesis unfolding validate_run_def shaped
    by (simp only: sorted_simps) (intro kept_allR_Cons kept_refl, blast)
qed

lemma kept_links:
  assumes "distinct (map fst e)"
  shows "kept (validate_links N ty e) (validate_links N ty (sorted_obj e))"
proof -
  have leaf: "kept (nullable (ev_shape ok c N) v l) (nullable (ev_shape ok c N) (sort_keys v) l)" for ok c v l
    by (auto simp: kept_def is_ok_unit event_simps)
  show ?thesis unfolding validate_links_def shaped Let_def
    by (simp only: sorted_simps assms items_of_sorted)
      (intro kept_allR_append kept_allR_Cons kept_map kept_leaf leaf kept_refl kept_sorted_unique refl)
qed

lemma kept_actor: "wf_json v \<Longrightarrow> kept (validate_actor N v) (validate_actor N (sort_keys v))"
  unfolding validate_actor_def shaped
  by (rule kept_keys, assumption, simp only: sorted_simps, intro kept_intros unsorted_intros, blast+)

lemma evidence_sorted:
  assumes "wf_json (JObj e)" "validate_evidence N e = Inr refs" "validate_run N ty (jget e ''run'') = Inr ()"
  shows "validate_evidence N (sorted_obj e) = Inr (sorted_refs refs) \<and> refs_wf refs"
proof -
  have d: "distinct (map fst e)" "\<And>k. wf_json (jget e k)" using assms(1) wf_json_jget by auto
  obtain xs where xs: "jget e ''evidence_refs'' = JArr xs" using assms(2) by (auto simp: validate_evidence_def split: json.splits)
  define tok where "tok = (case jget e ''run'' of JObj r \<Rightarrow> Some (jget r ''run_token'') | _ \<Rightarrow> None)"
  have tok: "(case sort_keys (jget e ''run'') of JObj r \<Rightarrow> Some (jget r ''run_token'') | _ \<Rightarrow> None) = tok
      \<and> (\<forall>t. tok = Some t \<longrightarrow> sort_keys t = t)"
  proof (cases "jget e ''run''")
    case (JObj r)
    with assms(3) have "\<exists>s. jget r ''run_token'' = JStr s"
      by (auto simp: validate_run_def event_simps res_simps shaped)
    moreover have "distinct (map fst r)" using d(2) [of "''run''"] JObj by simp
    ultimately show ?thesis
      using JObj by (auto simp: tok_def sort_keys_sorted_obj sorted_simps simp del: sort_keys.simps(2))
  qed (auto simp: tok_def)
  have "validate_evidence_refs N tok 0 (sorted_refs []) (map sort_keys xs) = Inr (sorted_refs refs) \<and> refs_wf refs"
    by (rule refs_sorted) (use assms(2) xs tok d(2) [of "''evidence_refs''"] in
        \<open>auto simp: validate_evidence_def tok_def refs_wf_def\<close>)
  then show ?thesis using xs tok by (simp add: validate_evidence_def sorted_simps d(1))
qed

lemma kept_fields:
  assumes "wf_json (JObj e)" "validate_fields N e = Inr ()"
  shows "validate_fields N (sorted_obj e) = Inr ()"
proof -
  have d: "distinct (map fst e)" "\<And>k. wf_json (jget e k)" using assms(1) wf_json_jget by auto
  from assms(2) obtain ty refs where ty: "ev_text N (jget e ''event_type'') ''event_type'' = Inr ty"
    and run: "validate_run N ty (jget e ''run'') = Inr ()" and refs: "validate_evidence N e = Inr refs"
    by (auto simp: validate_fields_def res_simps allR_Inr)
  have ev: "validate_evidence N (sorted_obj e) = Inr (sorted_refs refs)" "refs_wf refs"
    using evidence_sorted [OF assms(1) refs run] by auto
  have ty': "ev_text N (sort_keys (jget e ''event_type'')) ''event_type'' = Inr ty"
    using ty by (auto simp: event_simps)
  have body: "kept (validate_body N ty (jget e ''body'') refs) (validate_body N ty (sort_keys (jget e ''body'')) (sorted_refs refs))"
    by (rule kept_body [OF d(2) ev(2)])
  note pieces = kept_task [OF assms(1), THEN keptD] kept_run [OF d(2), THEN keptD] kept_links [OF d(1), THEN keptD]
    kept_actor [OF d(2), THEN keptD] body [THEN keptD] kept_leaf [THEN keptD]
  show ?thesis
    using assms(2) unfolding validate_fields_def ev_uuid_def ev_digest_def
    by (simp only: sorted_simps d(1) ty ty' ev(1) refs bindR.simps bindR_Inr_iff allR_Inr) 
      (auto intro: pieces simp: event_simps)
qed

section \<open>Sealing\<close>

lemma nfixed_sort_keys: "nfixed N v \<Longrightarrow> nfixed N (sort_keys v)"
proof (induction v)
  case (JObj kvs)
  then have "nfixed N (sort_keys (snd p))" if "p \<in> set kvs" for p using that snds.intros by fastforce
  with JObj.prems show ?case unfolding sort_keys_obj by (auto simp: keyed_def)
qed auto

lemma canonical_fixed: "nfixed N v \<Longrightarrow> wf_json v \<Longrightarrow> canonical_event_json N v = Inr (dumps v)"
  by (simp add: canonical_event_json_def normalize_fixed(1))

abbreviation unhashed :: "(string \<times> json) list \<Rightarrow> (string \<times> json) list" where
  "unhashed \<equiv> filter (\<lambda>(k, w). k \<noteq> ''event_hash'')"

lemma map_of_unhashed: "map_of (unhashed kvs) k = (if k = ''event_hash'' then None else map_of kvs k)"
  by (induction kvs) auto

lemma wf_unhashed: "wf_json (JObj kvs) \<Longrightarrow> wf_json (JObj (unhashed kvs))"
  by (induction kvs) auto

lemma nfixed_unhashed: "nfixed N (JObj kvs) \<Longrightarrow> nfixed N (JObj (unhashed kvs))"
  by simp

lemma map_of_sorted_obj: "distinct (map fst kvs) \<Longrightarrow> map_of (sorted_obj kvs) k = map_option sort_keys (map_of kvs k)"
  unfolding sorted_obj_def using map_of_sort_key [of "map keyed kvs"] by (simp add: map_of_keyed comp_def)

lemma dumps_unhashed_sorted:
  assumes "wf_json (JObj kvs)"
  shows "dumps (JObj (unhashed (sorted_obj kvs))) = dumps (JObj (unhashed kvs))"
proof -
  have d: "distinct (map fst kvs)" using assms by simp
  have "wf_json (JObj (sorted_obj kvs))" using wf_sort_keys [OF assms] by (simp only: sort_keys_sorted_obj)
  then have "distinct (map fst (unhashed (sorted_obj kvs)))" "distinct (map fst (unhashed kvs))"
    using wf_unhashed assms by (metis wf_json.simps(2))+
  then have "sort_keys (JObj (unhashed (sorted_obj kvs))) = sort_keys (JObj (unhashed kvs))"
    by (subst sort_keys_obj_eq_iff) (simp_all add: map_of_unhashed map_of_sorted_obj [OF d] option.map_comp comp_def)
  then show ?thesis by (simp add: dumps_def del: sort_keys.simps)
qed

lemma sorted_valid:
  assumes "nfixed N (JObj kvs)" "wf_json (JObj kvs)" "validate_event N H True (JObj kvs) = Inr kvs"
  shows "validate_event N H True (sort_keys (JObj kvs)) = Inr (sorted_obj kvs)"
proof -
  note v = valid_event [OF assms(3)]
  have d: "distinct (map fst kvs)" using assms(2) by simp
  have "reject_detectable_secrets (JObj kvs) = Inr ()" using assms(3) by (auto simp: validate_event_def res_simps)
  from unsorted_secrets [OF this] have secrets: "reject_detectable_secrets (JObj (sorted_obj kvs)) = Inr ()"
    by (simp only: sort_keys_sorted_obj)
  have fixed: "nfixed N (JObj (sorted_obj kvs))" "wf_json (JObj (sorted_obj kvs))"
    using nfixed_sort_keys [OF assms(1)] wf_sort_keys [OF assms(2)] by (simp_all only: sort_keys_sorted_obj)
  have "event_digest N H (sorted_obj kvs) = event_digest N H kvs"
    using canonical_fixed [OF nfixed_unhashed [OF assms(1)] wf_unhashed [OF assms(2)]]
      canonical_fixed [OF nfixed_unhashed [OF fixed(1)] wf_unhashed [OF fixed(2)]] dumps_unhashed_sorted [OF assms(2)]
    by (simp only: event_digest_def)
  with v(4) have "validate_hash N H (sorted_obj kvs) = Inr ()"
    by (auto simp: validate_hash_def res_simps event_simps shaped sorted_simps d)
  then show ?thesis
    using v(2) kept_fields [OF assms(2) v(3)] unfolding sort_keys_sorted_obj validate_event_def secrets
    by (simp add: ev_keys_def check_def sorted_simps)
qed

lemma dict_set_all: "\<forall>p \<in> set kvs. P p \<Longrightarrow> P (k, v) \<Longrightarrow> \<forall>p \<in> set (dict_set k v kvs). P p"
  by (induction k v kvs rule: dict_set.induct) auto

lemma sealed_verifies:
  assumes "nfc_ok N" "seal_event N H e = Inr s"
  shows "\<exists>bytes. canonical_event_bytes N H s = Inr bytes \<and> loads bytes = Some (sort_keys s)
    \<and> canonical_event_bytes N H (sort_keys s) = Inr bytes"
proof -
  from assms(2) obtain n kvs where n: "normalize N e = Inr n" "validate_event N H False n = Inr kvs"
    and s: "\<exists>h. s = JObj (dict_set ''event_hash'' (JStr h) kvs)" "\<exists>k. validate_event N H True s = Inr k"
    by (auto simp: seal_event_def res_simps Let_def)
  from s(1) obtain h where h: "s = JObj (dict_set ''event_hash'' (JStr h) kvs)" by blast
  let ?k = "dict_set ''event_hash'' (JStr h) kvs"
  have valid: "validate_event N H True (JObj ?k) = Inr ?k"
    using s(2) h valid_event(1) by blast
  have "n = JObj kvs" using n(2) by (auto simp: validate_event_def res_simps event_simps)
  with normalize_makes_fixed(1) [OF assms(1) n(1)] have fixed: "nfixed N (JObj kvs)" "wf_json (JObj kvs)" by auto
  have "N h = h" using valid_event(4) [OF valid] by (auto simp: validate_hash_def res_simps event_simps shaped jget_def)
  moreover have "N ''event_hash'' = ''event_hash''" by (rule nfc_ascii [OF assms(1)]) (simp add: ascii_def)
  ultimately have "\<forall>p \<in> set ?k. N (fst p) = fst p \<and> nfixed N (snd p) \<and> wf_json (snd p)"
    using fixed by (intro dict_set_all) auto
  then have ok: "nfixed N (JObj ?k)" "wf_json (JObj ?k)"
    using fixed(2) distinct_dict_set by auto
  have "canonical_event_json N s = Inr (dumps s)" "canonical_event_json N (sort_keys s) = Inr (dumps s)"
    using canonical_fixed [OF ok] canonical_fixed [OF nfixed_sort_keys [OF ok(1)] wf_sort_keys [OF ok(2)]] h
    by (simp_all del: sort_keys.simps)
  moreover have "loads (dumps s) = Some (sort_keys s)"
    using loads_dumps(1) [OF ok(2) nfixed_no_reals [OF ok(1)]] h by simp
  ultimately show ?thesis
    using valid sorted_valid [OF ok valid] h
    by (intro exI [of _ "dumps s"]) (simp add: canonical_event_bytes_def del: sort_keys.simps)
qed

text \<open>C18: A sealed event verifies, and so do its persisted bytes: \<open>canonical_event_bytes\<close> accepts what
  \<open>seal_event\<close> returns, reading those bytes back gives the same event up to the order of keys, and that event is
  accepted again with the same digest and the same bytes.\<close>

theorem seal_verify:
  assumes "nfc_ok N" "seal_event N H e = Inr s"
  shows "\<exists>bytes. canonical_event_bytes N H s = Inr bytes \<and> loads bytes = Some (sort_keys s)
    \<and> canonical_event_bytes N H (sort_keys s) = Inr bytes"
  by (rule sealed_verifies [OF assms])

end
