(* ===== verification/TrajSample.thy ===== *)
theory TrajSample
  imports HashChain SealLaws
begin

text \<open>A trajectory of one event, for evaluating the event model.\<close>

definition trail_hash :: "string \<Rightarrow> string" where
  "trail_hash s = replicate 64 CHR ''a''"

definition trail_task :: task_row where
  "trail_task = \<lparr>t_id = ''t1'', t_type = ''bugfix'', t_status = ''queued'', t_stop_reason = None,
     t_current_stage = ''review'', t_owner = Some ''claude'', t_revision = 0, t_profile_hash = ''p'', t_input_hash = ''i'',
     t_profile_snapshot_path = ''/h/p.json'', t_input_snapshot_path = ''/h/i.md'', t_artifact_dir = ''/h/tasks/t1'',
     t_transitions_count = 0, t_max_transitions = 6, t_resume_allowance = 0, t_lease_token = None,
     t_created_at = 0, t_updated_at = 0, t_workspace_dir = None\<rparr>"

definition trail_db :: db where
  "trail_db = empty_db\<lparr>db_tasks := [trail_task]\<rparr>"

definition trail_draft :: json where
  "trail_draft = draft_event [] trail_task ''task.created'' ''00000000-0000-4000-8000-000000000001'' 5
     (JObj [(''profile_digest'', JStr (''sha256:'' @ replicate 64 CHR ''b'')),
            (''input_digest'', JStr (''sha256:'' @ replicate 64 CHR ''c''))])
     (default_args\<lparr>a_retention := ''structural''\<rparr>)"

definition trail_event :: json where
  "trail_event = JObj (entries trail_draft @ [(''event_hash'', JStr (''sha256:'' @ trail_hash []))])"

section \<open>Text that no secret pattern can match\<close>

text \<open>Every match of the pattern contains a character of \<open>Q\<close>.\<close>

fun demands :: "re \<Rightarrow> (char \<Rightarrow> bool) \<Rightarrow> bool" where
  "demands (Cls P) Q = (\<forall>c. P c \<longrightarrow> Q c)"
| "demands (Seq p q) Q = (demands p Q \<or> demands q Q)"
| "demands (Alt p q) Q = (demands p Q \<and> demands q Q)"
| "demands _ Q = False"

lemma star_from_rest:
  assumes "\<And>s t. t \<in> set (f s) \<Longrightarrow> set (fst (snd t)) \<subseteq> set (fst (snd s))"
  shows "t \<in> set (star_from f n s) \<Longrightarrow> set (fst (snd t)) \<subseteq> set (fst (snd s))"
proof (induction n arbitrary: s)
  case 0
  then show ?case by simp
next
  case (Suc n)
  from Suc.prems consider "t = s" | u where "u \<in> set (f s)" "t \<in> set (star_from f n u)" by auto
  then show ?case
  proof cases
    case 2
    with assms [of u s] Suc.IH [of u] show ?thesis by blast
  qed simp
qed

lemma rmatch_rest: "t \<in> set (rmatch p s) \<Longrightarrow> set (fst (snd t)) \<subseteq> set (fst (snd s))"
proof (induction p arbitrary: s t)
  case (Star p)
  from Star.prems have t: "t \<in> set (star_from (rmatch p) (length (fst (snd s))) s)" by simp
  show ?case by (rule star_from_rest [OF _ t]) (rule Star.IH)
next
  case (Seq p q)
  from Seq.prems obtain u where "u \<in> set (rmatch p s)" "t \<in> set (rmatch q u)" by auto
  with Seq.IH show ?case by blast
next
  case (Alt p q)
  from Alt.prems have "t \<in> set (rmatch p s) \<or> t \<in> set (rmatch q s)" by simp
  with Alt.IH show ?case by blast
next
  case (Cap p)
  obtain b r g where s: "s = (b, r, g)" by (cases s)
  with Cap.prems obtain u where "u \<in> set (rmatch p s)" "fst (snd t) = fst (snd u)" by auto
  with Cap.IH show ?case by auto
next
  case (Cls P)
  then show ?case by (cases s) (auto split: list.splits if_splits)
next
  case Eps
  then show ?case by simp
next
  case Bol
  then show ?case by (cases s) (auto split: if_splits)
next
  case Eol
  then show ?case by (cases s) (auto split: if_splits)
next
  case WordB
  then show ?case by (cases s) (auto split: if_splits)
qed

lemma demands_match: "demands p Q \<Longrightarrow> t \<in> set (rmatch p s) \<Longrightarrow> \<exists>c \<in> set (fst (snd s)). Q c"
proof (induction p Q arbitrary: s t rule: demands.induct)
  case (1 P Q)
  then show ?case by (cases s) (auto split: list.splits if_splits)
next
  case (2 p q Q)
  then obtain u where u: "u \<in> set (rmatch p s)" "t \<in> set (rmatch q u)" by auto
  with 2 rmatch_rest [OF u(1)] show ?case by (metis demands.simps(2) subsetD)
qed auto

lemma demands_search:
  assumes "demands p Q" "\<forall>c \<in> set s. \<not> Q c"
  shows "\<not> re_search p s"
proof -
  have none: "rmatch p (b, r, g) = []" if "set r \<subseteq> set s" for b r g
  proof (rule ccontr)
    assume "rmatch p (b, r, g) \<noteq> []"
    then obtain t where "t \<in> set (rmatch p (b, r, g))" by (cases "rmatch p (b, r, g)") auto
    from demands_match [OF assms(1) this] that assms(2) show False by auto
  qed
  have "set r \<subseteq> set s \<Longrightarrow> search_from p b r = None" for b r
    by (induction r arbitrary: b) (auto simp: none)
  then show ?thesis by (simp add: re_search_def)
qed

lemma demands_seqs: "demands (seqs ps) Q \<longleftrightarrow> (\<exists>p \<in> set ps. demands p Q)"
  by (induction ps rule: seqs.induct) auto

definition unlike_secret :: "string \<Rightarrow> bool" where
  "unlike_secret s \<longleftrightarrow> CHR ''B'' \<notin> set s \<and> CHR ''K'' \<notin> set s
     \<and> (list_all (\<lambda>c. c \<notin> set ''_-'') s \<or> list_all (\<lambda>c. c \<notin> set ''gxk'') s)
     \<and> (list_all (\<lambda>c. c \<notin> set '':='') s \<or> list_all (\<lambda>c. lower_char c \<notin> set ''tyw'') s)"

lemma unlike_secret_ok: "unlike_secret s \<Longrightarrow> reject_detectable_secrets (JStr s) = Inr ()"
proof -
  assume s: "unlike_secret s"
  have lower: "lower_char (CHR ''t'') = CHR ''t''" "lower_char (CHR ''y'') = CHR ''y''" "lower_char (CHR ''w'') = CHR ''w''"
    by code_simp+
  have d1: "demands (DETECTABLE_SECRET_PATTERNS ! 0) (\<lambda>c. c = CHR ''B'')"
    and d2: "demands (DETECTABLE_SECRET_PATTERNS ! 1) (\<lambda>c. c \<in> set ''_-'')"
      "demands (DETECTABLE_SECRET_PATTERNS ! 1) (\<lambda>c. c \<in> set ''gxk'')"
    and d3: "demands (DETECTABLE_SECRET_PATTERNS ! 2) (\<lambda>c. c = CHR ''K'')"
    and d4: "demands (DETECTABLE_SECRET_PATTERNS ! 3) (\<lambda>c. c \<in> set '':='')"
      "demands (DETECTABLE_SECRET_PATTERNS ! 3) (\<lambda>c. lower_char c \<in> set ''tyw'')"
    by (simp_all add: DETECTABLE_SECRET_PATTERNS_def demands_seqs lit_def ilit_def cls_of_def lower)
  have "\<not> re_search (DETECTABLE_SECRET_PATTERNS ! i) s" if "i < 4" for i
  proof -
    from that consider "i = 0" | "i = 1" | "i = 2" | "i = 3" by linarith
    then show ?thesis
    proof cases
      case 1
      have "\<not> re_search (DETECTABLE_SECRET_PATTERNS ! 0) s"
        by (rule demands_search [OF d1]) (use s in \<open>auto simp: unlike_secret_def\<close>)
      with 1 show ?thesis by simp
    next
      case 2
      with s show ?thesis unfolding unlike_secret_def list_all_iff
        using demands_search [OF d2(1)] demands_search [OF d2(2)] by metis
    next
      case 3
      have "\<not> re_search (DETECTABLE_SECRET_PATTERNS ! 2) s"
        by (rule demands_search [OF d3]) (use s in \<open>auto simp: unlike_secret_def\<close>)
      with 3 show ?thesis by simp
    next
      case 4
      with s show ?thesis unfolding unlike_secret_def list_all_iff
        using demands_search [OF d4(1)] demands_search [OF d4(2)] by metis
    qed
  qed
  moreover have "length DETECTABLE_SECRET_PATTERNS = 4" by (simp add: DETECTABLE_SECRET_PATTERNS_def)
  ultimately have "\<not> list_ex (\<lambda>p. re_search p s) DETECTABLE_SECRET_PATTERNS"
    by (auto simp: list_ex_iff in_set_conv_nth)
  then show ?thesis by (simp add: needR_def)
qed

section \<open>The sample event\<close>

fun leaves :: "json \<Rightarrow> string list" where
  "leaves (JStr s) = [s]"
| "leaves (JArr xs) = concat (map leaves xs)"
| "leaves (JObj kvs) = concat (map (\<lambda>p. leaves (snd p)) kvs)"
| "leaves _ = []"

lemma reject_leaves:
  "(\<And>s. s \<in> set (leaves v) \<Longrightarrow> reject_detectable_secrets (JStr s) = Inr ()) \<Longrightarrow> reject_detectable_secrets v = Inr ()"
proof (induction v)
  case (JObj kvs)
  have "reject_detectable_secrets w = Inr ()" if "(k, w) \<in> set kvs" for k w
  proof (rule JObj.IH [OF that])
    show "w \<in> Basic_BNFs.snds (k, w)" by simp
    fix s assume "s \<in> set (leaves w)"
    with that have "s \<in> set (leaves (JObj kvs))" by force
    then show "reject_detectable_secrets (JStr s) = Inr ()" by (rule JObj.prems)
  qed
  then show ?case by (auto simp: event_simps simp del: reject_detectable_secrets.simps(1))
next
  case (JArr xs)
  have "reject_detectable_secrets x = Inr ()" if "x \<in> set xs" for x
  proof (rule JArr.IH [OF that])
    fix s assume "s \<in> set (leaves x)"
    with that have "s \<in> set (leaves (JArr xs))" by auto
    then show "reject_detectable_secrets (JStr s) = Inr ()" by (rule JArr.prems)
  qed
  then show ?case by (simp add: event_simps)
next
  case (JStr s)
  show ?case by (rule JStr) simp
qed auto

lemma trail_leaves:
  "leaves trail_event = [''task:t1'', ''00000000-0000-4000-8000-000000000001'', ''task.created'', ''t1'', ''controller'',
     ''native-orchestrator'', ''sha256:'' @ replicate 64 CHR ''b'', ''sha256:'' @ replicate 64 CHR ''c'', ''internal'',
     ''structural'', ''trajectory-v1'', ''sha256:'' @ replicate 64 CHR ''a'']"
  by code_simp

lemma trail_unlike: "list_all unlike_secret (tl (leaves trail_event))"
  by code_simp

lemma trail_secrets: "reject_detectable_secrets trail_event = Inr ()"
proof (rule reject_leaves)
  have first: "reject_detectable_secrets (JStr ''task:t1'') = Inr ()" by code_simp
  fix s assume "s \<in> set (leaves trail_event)"
  then have "s = ''task:t1'' \<or> s \<in> set (tl (leaves trail_event))" unfolding trail_leaves by simp
  then show "reject_detectable_secrets (JStr s) = Inr ()"
    using first unlike_secret_ok trail_unlike by (auto simp: list_all_iff simp del: reject_detectable_secrets.simps)
qed

lemma trail_fields: "validate_fields (\<lambda>s. s) (entries trail_event) = Inr ()"
  by code_simp

lemma trail_hashed: "validate_hash (\<lambda>s. s) trail_hash (entries trail_event) = Inr ()"
  by code_simp

lemma trail_keys: "set (keys (entries trail_event)) = set TOP_LEVEL_KEYS"
  by code_simp

lemma trail_event_obj: "trail_event = JObj (entries trail_event)"
  by (simp add: trail_event_def entries_def)

lemma trail_valid: "validate_event (\<lambda>s. s) trail_hash True trail_event = Inr (entries trail_event)"
proof -
  have "ev_keys trail_event TOP_LEVEL_KEYS ''trajectory event'' = Inr (entries trail_event)"
    using ev_keys_Inr trail_keys trail_event_obj by blast
  then show ?thesis using trail_secrets trail_fields trail_hashed by (simp add: validate_event_def)
qed

lemma trail_canonical: "canonical_event_json (\<lambda>s. s) trail_event = Inr (dumps trail_event)"
  by code_simp

lemma trail_checks:
  "check_identity trail_db trail_event = Inr ()" "check_chain [] trail_event = Inr ()" "check_provider [] trail_event = Inr ()"
  "check_causes [] trail_event = Inr ()" "check_rebound [] trail_event = Inr ()"
  by code_simp+

definition trail_rows :: "event_row list" where
  "trail_rows = [row_of trail_event (dumps trail_event)]"

lemma trail_stored: "events_ok trail_db trail_rows"
  unfolding trail_rows_def by code_simp

lemma trail_append: "store_append (\<lambda>s. s) trail_hash True trail_db [] trail_event = Inr trail_rows"
  using trail_checks trail_stored
  by (simp add: store_append_def trail_valid canonical_event_bytes_def trail_canonical allR.simps insert_event_def
      trail_rows_def check_def)

lemma trail_wf: "wf_json trail_event"
  by code_simp

lemma trail_written: "written (\<lambda>s. s) trail_hash trail_rows"
  by (rule written_append [OF written_empty trail_wf trail_append])

lemma nfc_ok_id: "nfc_ok (\<lambda>s. s)"
  by (simp add: nfc_ok_def)

section \<open>The properties on the sample\<close>

lemma trajectory_invariant_witness: "log_ok (\<lambda>s. s) trail_hash trail_rows \<and> trail_rows \<noteq> []"
  using trajectory_invariant [OF trail_written] by (simp add: trail_rows_def)

lemma provider_protocol_witness: "protocol_ok trail_rows \<and> trail_rows \<noteq> []"
  using provider_protocol [OF nfc_ok_id trail_written] by (simp add: trail_rows_def)

lemma trajectory_tamper_evident_witness:
  "map v_json (log trail_rows ''task:t1'') = map v_json (log trail_rows ''task:t1'') \<and> log trail_rows ''task:t1'' \<noteq> []"
proof -
  have tid: "v_trajectory (row_of trail_event (dumps trail_event)) = ''task:t1''" unfolding row_of_def by code_simp
  have log: "log trail_rows ''task:t1'' = trail_rows" by (simp add: log_def trail_rows_def tid)
  have "inj_on trail_hash (bytes_of trail_rows \<union> bytes_of trail_rows)" by (simp add: bytes_of_def trail_rows_def)
  with trajectory_tamper_evident [OF nfc_ok_id trail_written trail_written, of "''task:t1''" "''task:t1''"] log
  show ?thesis by (simp add: trail_rows_def)
qed

lemma trail_seal: "seal_event (\<lambda>s. s) trail_hash trail_draft = Inr trail_event"
proof -
  have n: "normalize (\<lambda>s. s) trail_draft = Inr trail_draft" by code_simp
  have keys: "ev_keys trail_draft (removeAll ''event_hash'' TOP_LEVEL_KEYS) ''trajectory event'' = Inr (entries trail_draft)"
    by code_simp
  have fields: "validate_fields (\<lambda>s. s) (entries trail_draft) = Inr ()" by code_simp
  have "reject_detectable_secrets trail_draft = Inr ()"
    using trail_secrets by (auto simp: trail_event_def trail_draft_def draft_event_def entries_def Let_def event_simps
        simp del: reject_detectable_secrets.simps(1))
  with keys fields have v: "validate_event (\<lambda>s. s) trail_hash False trail_draft = Inr (entries trail_draft)"
    by (simp add: validate_event_def)
  have c: "canonical_event_json (\<lambda>s. s) trail_draft = Inr (dumps trail_draft)" by code_simp
  have "JObj (dict_set ''event_hash'' (JStr (''sha256:'' @ trail_hash (dumps trail_draft))) (entries trail_draft)) = trail_event"
    by code_simp
  with n v c trail_valid show ?thesis by (simp add: seal_event_def Let_def)
qed

lemma seal_verify_witness:
  "\<exists>bytes. canonical_event_bytes (\<lambda>s. s) trail_hash trail_event = Inr bytes \<and> loads bytes = Some (sort_keys trail_event)
    \<and> canonical_event_bytes (\<lambda>s. s) trail_hash (sort_keys trail_event) = Inr bytes"
  by (rule seal_verify [OF nfc_ok_id trail_seal])

end
