(* ===== verification/Emission.thy ===== *)
theory Emission
  imports Trajectory Convergence
begin

text \<open>
  The trajectory events the controller emits (\<open>_trajectory_*\<close> of \<open>orchestrator/controller.py\<close>): the
  codes, usage and identifiers it puts into them, the evidence references it makes from the sealed
  files, and the events of a transition, a claim, a settled run and an unsealed run.  The files of
  the moment are the parameter \<open>files\<close>; how a path resolves and which paths are symbolic links are
  parameters of the environment.
\<close>

section \<open>Codes\<close>

definition TRAJECTORY_REASON_ALIASES :: "(string \<times> string) list" where
  "TRAJECTORY_REASON_ALIASES =
     [(''submitted'', ''task_created''), (''manual_resume'', ''resumed''), (''manual_rerun_stage'', ''resumed''),
      (''user_decision_required'', ''needs_user_decision'')]"

text \<open>The code of a value and, for \<open>other\<close>, the digest of the value.\<close>

definition trajectory_code ::
  "traj_env \<Rightarrow> string list \<Rightarrow> (string \<times> string) list \<Rightarrow> string option \<Rightarrow> string option \<times> string option" where
  "trajectory_code T allowed aliases v =
     (case v of
        None \<Rightarrow> (None, None)
      | Some s \<Rightarrow>
        let code = (case map_of aliases s of None \<Rightarrow> s | Some c \<Rightarrow> c) in
        if code \<in> set allowed then (Some code, None) else (Some ''other'', Some (digest_text T s)))"

definition usage_json :: "json \<Rightarrow> json \<Rightarrow> json \<Rightarrow> json \<Rightarrow> json \<Rightarrow> json \<Rightarrow> json" where
  "usage_json basis i ou t code digest = JObj
     [(''basis'', basis), (''input_tokens'', i), (''output_tokens'', ou), (''total_tokens'', t),
      (''unavailable_reason_code'', code), (''unavailable_reason_digest'', digest)]"

definition no_usage_json :: "json \<Rightarrow> json \<Rightarrow> json" where
  "no_usage_json code digest = usage_json (JStr ''unavailable'') JNull JNull JNull code digest"

definition trajectory_usage :: "traj_env \<Rightarrow> run_result \<Rightarrow> json" where
  "trajectory_usage T r =
     (let reported = (rr_usage_input r \<noteq> JNull \<or> rr_usage_output r \<noteq> JNull \<or> rr_usage_total r \<noteq> JNull);
          basis = field (rr_execution_receipt r) ''usage_basis''
      in if reported \<and> basis \<in> JStr ` set [''per-turn'', ''cumulative'', ''delta-from-cumulative'']
         then usage_json basis (rr_usage_input r) (rr_usage_output r) (rr_usage_total r) JNull JNull
         else
           let raw = (if reported then ''usage_basis_unverified''
                      else case rr_usage_unavailable r of None \<Rightarrow> ''runner_usage_unavailable''
                           | Some s \<Rightarrow> if s = [] then ''runner_usage_unavailable'' else s)
           in if raw \<in> set [''provider_cli_usage_not_reported'', ''runner_usage_unavailable'', ''usage_basis_unverified'',
                            ''not_applicable_provider_preflight_failed'']
              then no_usage_json (JStr raw) JNull
              else no_usage_json (JStr ''other'') (JStr (digest_text T raw)))"

definition trajectory_identifier :: "string option \<Rightarrow> string \<Rightarrow> string" where
  "trajectory_identifier v fallback =
     (case v of
        None \<Rightarrow> fallback
      | Some s \<Rightarrow>
        let candidate = take 128 (map (\<lambda>c. if is_alnum c \<or> c \<in> set ''._:-'' then lower_char c else CHR ''-'') s)
        in case candidate of [] \<Rightarrow> fallback | c # _ \<Rightarrow> if is_alnum c then candidate else fallback)"

definition trajectory_session_ref :: "traj_env \<Rightarrow> json \<Rightarrow> string option" where
  "trajectory_session_ref T v =
     (case v of JStr s \<Rightarrow> if s = [] then None else Some (''session-'' @ take 32 (te_sha T s)) | _ \<Rightarrow> None)"

section \<open>Emitting\<close>

datatype emit_error =
    EmitTraj traj_error
  | ControllerError string
  | FileMissing
  | EmitTypeError

type_synonym 'a ectl = "(traj_state, emit_error, 'a) st"

text \<open>\<open>_trajectory_add\<close> after an append: the identifiers of the events of this operation.\<close>

definition emit :: "traj_env \<Rightarrow> db \<Rightarrow> string \<Rightarrow> string \<Rightarrow> int \<Rightarrow> json \<Rightarrow> event_args \<Rightarrow> unit ectl" where
  "emit T d task_id event_type recorded_at body a =
     (\<lambda>w. case writer_append T d task_id event_type recorded_at body a w of
        (Inl e, w') \<Rightarrow> (Inl (EmitTraj e), w')
      | (Inr None, w') \<Rightarrow> (Inr (), w')
      | (Inr (Some i), w') \<Rightarrow> (Inr (), w'\<lparr>ts_events := ts_events w' @ [i]\<rparr>))"

definition emit_created :: "traj_env \<Rightarrow> db \<Rightarrow> string \<Rightarrow> int \<Rightarrow> string \<Rightarrow> string \<Rightarrow> unit ectl" where
  "emit_created T d task_id now_ms profile_hash input_hash =
     emit T d task_id ''task.created'' now_ms
       (JObj [(''profile_digest'', JStr (''sha256:'' @ profile_hash)), (''input_digest'', JStr (''sha256:'' @ input_hash))])
       (default_args\<lparr>a_retention := ''structural''\<rparr>)"

definition transition_body :: "traj_env \<Rightarrow> transition_row \<Rightarrow> json" where
  "transition_body T x =
     (let (reason_code, reason_digest) = trajectory_code T TRANSITION_REASON_CODES TRAJECTORY_REASON_ALIASES (x_reason x);
          (outcome_code, outcome_digest) = trajectory_code T OUTCOME_CODES [] (x_outcome x)
      in JObj [(''transition_seq'', JInt (x_seq x)), (''operation_id'', JStr (x_operation_id x)),
               (''from_status'', jopt_str (x_from_status x)), (''to_status'', JStr (x_to_status x)),
               (''reason_code'', jopt_str reason_code), (''reason_digest'', jopt_str reason_digest),
               (''outcome_code'', jopt_str outcome_code), (''outcome_digest'', jopt_str outcome_digest)])"

definition emit_transition :: "traj_env \<Rightarrow> db \<Rightarrow> string \<Rightarrow> int \<Rightarrow> unit ectl" where
  "emit_transition T d task_id seq =
     (if \<not> enabled T then retS ()
      else case find (\<lambda>x. x_task_id x = task_id \<and> x_seq x = seq) (db_transitions d) of
         None \<Rightarrow> raiseS EmitTypeError
       | Some x \<Rightarrow> emit T d task_id ''task.transition.committed'' (x_at x) (transition_body T x) default_args)"

text \<open>What the controller knows of the runner of a claim.\<close>

record runner_view =
  rv_reviewer :: bool
  rv_name :: string
  rv_session :: json
  rv_protected :: bool

definition emit_stage_claimed :: "traj_env \<Rightarrow> db \<Rightarrow> string \<Rightarrow> run_row \<Rightarrow> runner_view \<Rightarrow> unit ectl" where
  "emit_stage_claimed T d task_id r runner =
     (let role = (if rv_reviewer runner then ''reviewer'' else ''executor'');
          policy = JObj [(''owner'', JStr (r_owner r)),
                         (''model'', JStr (case r_model r of None \<Rightarrow> ''unspecified'' | Some m \<Rightarrow> if m = [] then ''unspecified'' else m)),
                         (''role'', JStr role)];
          capability = JObj [(''runner'', JStr (rv_name runner)), (''protected_roots'', JBool (rv_protected runner))]
      in thenS (emit T d task_id ''stage.claimed'' (r_started_at r)
             (JObj [(''lease_digest'', JStr (digest_text T (case r_lease_token r of None \<Rightarrow> [] | Some l \<Rightarrow> l))),
                    (''owner_role'', JStr role)])
             (default_args\<lparr>a_run := Some r\<rparr>))
           (emit T d task_id ''provider.dispatch_intent'' (r_started_at r)
             (JObj [(''policy_digest'', JStr (''sha256:'' @ te_sha T (canonical_json policy))),
                    (''capability_digest'', JStr (''sha256:'' @ te_sha T (canonical_json capability)))])
             (default_args\<lparr>a_run := Some r, a_invocation := Some (r_run_token r), a_provider := Some (r_owner r),
                           a_model := Some (trajectory_identifier (r_model r) ''unspecified''),
                           a_session := trajectory_session_ref T (rv_session runner), a_retention := ''structural''\<rparr>)))"

section \<open>Evidence\<close>

record path_env =
  pe_files :: "string \<Rightarrow> string option"
  pe_resolve :: "string \<Rightarrow> string option"
  pe_symlink :: "string \<Rightarrow> bool"

text \<open>\<open>candidate.relative_to(root)\<close> on lexical paths.\<close>

definition relative_names :: "string \<Rightarrow> string \<Rightarrow> string list option" where
  "relative_names candidate root =
     (if posix_root candidate = posix_root root \<and> starts_with (posix_names root) (posix_names candidate)
      then Some (drop (length (posix_names root)) (posix_names candidate)) else None)"

text \<open>The paths from the root down to a name.\<close>

definition cursors :: "string \<Rightarrow> string list \<Rightarrow> string list" where
  "cursors root names = map (\<lambda>k. join_with ''/'' (root # take (Suc k) names)) [0..<length names]"

definition task_local :: "path_env \<Rightarrow> string \<Rightarrow> string \<Rightarrow> (emit_error, string) res" where
  "task_local P root candidate =
     check (posix_root candidate \<noteq> []) (ControllerError ''trajectory evidence path is not controller-generated'')
      (case relative_names candidate root of
         None \<Rightarrow> Inl (ControllerError ''trajectory evidence escaped the task artifact root'')
       | Some names \<Rightarrow>
         check (''..'' \<notin> set names) (ControllerError ''trajectory evidence path is not normalized'')
          (check (\<not> list_ex (pe_symlink P) (cursors root names))
             (ControllerError ''trajectory evidence path contains a symlink'')
            (check (pe_files P candidate \<noteq> None) (ControllerError ''trajectory evidence is not a regular task artifact'')
              (case pe_resolve P candidate of
                 None \<Rightarrow> Inl FileMissing
               | Some resolved \<Rightarrow>
                 check (relative_names resolved root \<noteq> None)
                   (ControllerError ''trajectory evidence escaped the task artifact root'') (Inr resolved)))))"

text \<open>The manifest the run's row names, with its hash and its binding checked.\<close>

definition bound_manifest :: "traj_env \<Rightarrow> path_env \<Rightarrow> string \<Rightarrow> task_row \<Rightarrow> run_row \<Rightarrow> string option \<Rightarrow>
   (emit_error, (string \<times> json) list \<times> int) res" where
  "bound_manifest T P root t r manifest_hash =
     check (manifest_hash \<noteq> None \<and> manifest_hash = r_manifest_hash r)
       (ControllerError ''trajectory evidence is not bound to the committed run manifest'')
      (let path = (case r_manifest_path r of None \<Rightarrow> [] | Some p \<Rightarrow> p) in
       bindR (task_local P root path)
        (\<lambda>_. let raw = (case pe_files P path of None \<Rightarrow> [] | Some b \<Rightarrow> b) in
          check (Some (te_sha T raw) = manifest_hash) (ControllerError ''trajectory evidence manifest hash mismatch'')
           (check (utf8_valid raw \<and> loads raw \<noteq> None) (ControllerError ''trajectory evidence manifest is invalid'')
             (let manifest = the (loads raw) in
              case field manifest ''schema_version'' of
                JInt version \<Rightarrow>
                  check (version \<in> set SUPPORTED_MANIFEST_VERSIONS)
                    (ControllerError ''trajectory evidence manifest version is unsupported'')
                   (check (field manifest ''task_id'' = JStr (t_id t) \<and> field manifest ''run_token'' = JStr (r_run_token r))
                     (ControllerError ''trajectory evidence manifest binding mismatch'') (Inr (entries manifest, version)))
              | _ \<Rightarrow> Inl (ControllerError ''trajectory evidence manifest version is unsupported'')))))"

text \<open>The file a reference of this kind must be, and its hash.\<close>

definition expected_evidence ::
  "run_row \<Rightarrow> string \<Rightarrow> (string \<times> json) list \<Rightarrow> string \<Rightarrow> (emit_error, string \<times> string) res" where
  "expected_evidence r kind manifest manifest_hash =
     (if kind = ''final-response'' then
        (case validate_sealed_boundary manifest of
           Inl (BoundaryTypeError) \<Rightarrow> Inl EmitTypeError
         | Inl _ \<Rightarrow> Inl (ControllerError ''trajectory evidence final response seal is invalid'')
         | Inr b \<Rightarrow> Inr (sb_path b, sb_digest b))
      else if kind \<in> set [''run-manifest'', ''transport-receipt'', ''session-binding'', ''checkpoint'']
      then Inr (case r_manifest_path r of None \<Rightarrow> [] | Some p \<Rightarrow> p, manifest_hash)
      else Inl (ControllerError ''trajectory evidence kind is unsupported''))"

definition evidence_json ::
  "string \<Rightarrow> string \<Rightarrow> string \<Rightarrow> string \<Rightarrow> string \<Rightarrow> int \<Rightarrow> string \<Rightarrow> int \<Rightarrow> string \<Rightarrow> string \<Rightarrow> string \<Rightarrow> json" where
  "evidence_json ref_id kind relative digest path nbytes seal_kind version run_token manifest_hash sensitivity = JObj
     [(''ref_id'', JStr (''evref:'' @ ref_id)), (''kind'', JStr kind), (''relative_path'', JStr relative),
      (''sha256'', JStr digest), (''size_bytes'', JInt nbytes),
      (''media_type'', JStr (if drop (length path - 5) path = ''.json'' \<and> path_name path \<noteq> ''.json''
                             then ''application/json'' else ''text/plain'')),
      (''seal'', JObj [(''kind'', JStr seal_kind), (''schema_version'', JInt version), (''run_token'', JStr run_token),
                       (''manifest_hash'', JStr manifest_hash)]),
      (''sensitivity'', JStr sensitivity), (''retention_class'', JStr ''sealed-evidence''),
      (''availability_at_append'', JStr ''present'')]"

definition trajectory_evidence_ref ::
  "traj_env \<Rightarrow> path_env \<Rightarrow> task_row \<Rightarrow> run_row \<Rightarrow> string \<Rightarrow> string \<Rightarrow> string \<Rightarrow> string \<Rightarrow> string option \<Rightarrow> json ectl" where
  "trajectory_evidence_ref T P t r path kind sensitivity seal_kind manifest_hash =
     (case pe_resolve P (t_artifact_dir t) of
        None \<Rightarrow> raiseS FileMissing
      | Some root \<Rightarrow>
        bindS (liftR (task_local P root path))
         (\<lambda>resolved. bindS (liftR (bound_manifest T P root t r manifest_hash))
          (\<lambda>(manifest, version). bindS (liftR (expected_evidence r kind manifest (the manifest_hash)))
           (\<lambda>(expected_path, expected_hash). bindS (liftR (task_local P root expected_path))
            (\<lambda>located. thenS (checkS (located = resolved)
                 (ControllerError ''trajectory evidence path does not match its committed seal''))
              (let raw = (case pe_files P path of None \<Rightarrow> [] | Some b \<Rightarrow> b);
                   relative = join_with ''/'' (case relative_names resolved root of None \<Rightarrow> [] | Some names \<Rightarrow> names)
               in thenS (checkS (te_sha T raw = expected_hash) (ControllerError ''trajectory evidence payload hash mismatch''))
                 (\<lambda>w. (Inr (evidence_json (te_uuid4 T (ts_uuids w)) kind relative (te_sha T raw) path (int (length raw)) seal_kind
                            version (r_run_token r) (the manifest_hash) sensitivity),
                        w\<lparr>ts_uuids := Suc (ts_uuids w)\<rparr>))))))))"

section \<open>A settled run\<close>

definition or_int :: "int option \<Rightarrow> int \<Rightarrow> int" where
  "or_int a d = (case a of None \<Rightarrow> d | Some n \<Rightarrow> if n = 0 then d else n)"

definition int_or_zero :: "int option \<Rightarrow> int" where
  "int_or_zero a = or_int a 0"

text \<open>The session of the receipt: the binding's identifier, else the provider's.\<close>

definition receipt_session :: "json \<Rightarrow> json" where
  "receipt_session receipt =
     (let bound = (case field receipt ''session_binding'' of JObj b \<Rightarrow> jget b ''session_id'' | _ \<Rightarrow> JNull)
      in if bound = JNull then field receipt ''provider_session_id'' else bound)"

definition was_dispatched :: "run_result \<Rightarrow> bool" where
  "was_dispatched result =
     (let invoked = field (rr_execution_receipt result) ''invocation_verified'' in
      if invoked \<noteq> JNull then truthy invoked
      else rr_started_at_ms result \<noteq> None \<and> rr_containment_stop result = None)"

definition result_class :: "string \<Rightarrow> string" where
  "result_class c =
     (if c = ''waiting_user'' then ''success''
      else if c \<in> set [''success'', ''blocked'', ''paused'', ''failed''] then c else ''unknown'')"

text \<open>The last session event of the trajectory.\<close>

definition latest_session :: "event_row list \<Rightarrow> string \<Rightarrow> (traj_error, json option) res" where
  "latest_session rows task_id =
     bindR (mapR decode_row (filter (\<lambda>v. v_event_type v \<in> set [''session.bound'', ''session.rebound''])
         (trajectory_rows rows (''task:'' @ task_id))))
       (\<lambda>prior. Inr (if prior = [] then None else Some (last prior)))"

definition settled_at :: "run_row \<Rightarrow> int \<Rightarrow> int" where
  "settled_at r now_ms = or_int (r_ended_at r) now_ms"

text \<open>The session event of a settled run, when its session is new; the reference it carries.\<close>

definition emit_session ::
  "traj_env \<Rightarrow> path_env \<Rightarrow> db \<Rightarrow> task_row \<Rightarrow> run_row \<Rightarrow> string \<Rightarrow> json \<Rightarrow> string option \<Rightarrow> int \<Rightarrow> json list ectl" where
  "emit_session T P d t r manifest_path receipt session now_ms =
     (case session of
        None \<Rightarrow> retS []
      | Some s \<Rightarrow>
        bindS (getS ts_rows)
         (\<lambda>rows. bindS (liftR (case latest_session rows (t_id t) of Inl e \<Rightarrow> Inl (EmitTraj e) | Inr x \<Rightarrow> Inr x))
          (\<lambda>latest.
            if (case latest of None \<Rightarrow> False | Some e \<Rightarrow> field e ''session_ref'' = JStr s) then retS []
            else
              let kind = (if latest = None then ''session-binding'' else ''checkpoint'') in
              bindS (trajectory_evidence_ref T P t r manifest_path kind ''sensitive'' kind (r_manifest_hash r))
               (\<lambda>ref. let (event_type, body) =
                    (case latest of
                       None \<Rightarrow> (''session.bound'',
                         JObj [(''role'', JStr (if field receipt ''role'' = JStr ''reviewer'' then ''reviewer'' else ''executor'')),
                               (''binding_ref'', field ref ''ref_id'')])
                     | Some e \<Rightarrow> (''session.rebound'',
                         JObj [(''predecessor_event_id'', field e ''event_id''), (''reason_code'', JStr ''provider_session_replaced''),
                               (''reason_digest'', JNull), (''checkpoint_ref'', field ref ''ref_id'')]))
                 in thenS (emit T d (t_id t) event_type (settled_at r now_ms) body
                      (default_args\<lparr>a_session := Some s, a_refs := [ref], a_retention := ''sealed-evidence''\<rparr>))
                    (retS [ref])))))"

definition emit_run_settled ::
  "traj_env \<Rightarrow> path_env \<Rightarrow> db \<Rightarrow> string \<Rightarrow> string \<Rightarrow> run_result \<Rightarrow> int \<Rightarrow> unit ectl" where
  "emit_run_settled T P d task_id run_token result now_ms =
     (if \<not> enabled T then retS ()
      else case (find_task d task_id, find_run d run_token) of
        (None, _) \<Rightarrow> raiseS (ControllerError (''task not found: '' @ task_id))
      | (_, None) \<Rightarrow> raiseS EmitTypeError
      | (Some t, Some r) \<Rightarrow>
        (case r_manifest_path r of
           None \<Rightarrow> raiseS EmitTypeError
         | Some path \<Rightarrow>
           (case pe_files P path of
              None \<Rightarrow> raiseS FileMissing
            | Some raw \<Rightarrow>
              (case loads raw of
                 None \<Rightarrow> raiseS (EmitTraj JSONDecodeError)
               | Some manifest \<Rightarrow>
                 bindS (trajectory_evidence_ref T P t r path ''run-manifest'' ''internal'' ''db-committed-run-manifest'' (r_manifest_hash r))
                 (\<lambda>manifest_ref. bindS (trajectory_evidence_ref T P t r path ''transport-receipt'' ''internal'' ''controller-receipt''
                      (r_manifest_hash r))
                 (\<lambda>receipt_ref. bindS (trajectory_evidence_ref T P t r (str_of (field manifest ''final_response_path'')) ''final-response''
                      ''sensitive'' ''db-committed-run-manifest'' (r_manifest_hash r))
                 (\<lambda>final_ref.
                    let receipt = rr_execution_receipt result;
                        session = trajectory_session_ref T (receipt_session receipt);
                        model = trajectory_identifier (case rr_model result of None \<Rightarrow> r_model r
                                  | Some m \<Rightarrow> if m = [] then r_model r else Some m) ''unspecified'';
                        call = default_args\<lparr>a_run := Some r, a_invocation := Some run_token, a_session := session,
                                            a_provider := Some (r_owner r), a_model := Some model\<rparr>
                    in thenS (whenS (was_dispatched result)
                         (emit T d task_id ''provider.dispatched'' (or_int (rr_started_at_ms result) (r_started_at r))
                           (JObj [(''transport_receipt_ref'', field receipt_ref ''ref_id'')]) (call\<lparr>a_refs := [receipt_ref]\<rparr>)))
                      (thenS (emit T d task_id ''provider.settled'' (or_int (rr_ended_at_ms result) (settled_at r now_ms))
                         (JObj [(''result_class'', JStr (result_class (rr_classification result))),
                                (''elapsed_ms'', JInt (int_or_zero (r_duration_ms r))), (''usage'', trajectory_usage T result),
                                (''final_response_ref'', field final_ref ''ref_id'')])
                         (call\<lparr>a_actor_kind := ''provider'', a_actor_id := r_owner r, a_refs := [final_ref]\<rparr>))
                      (bindS (emit_session T P d t r path receipt session now_ms)
                      (\<lambda>session_refs. thenS (emit T d task_id ''evidence.sealed'' (settled_at r now_ms)
                           (JObj [(''seal_version'', JInt RUN_MANIFEST_SCHEMA_VERSION)])
                           (default_args\<lparr>a_run := Some r, a_refs := [manifest_ref, receipt_ref, final_ref] @ session_refs,
                                         a_retention := ''sealed-evidence''\<rparr>))
                       (let (outcome_code, outcome_digest) = trajectory_code T OUTCOME_CODES [] (rr_outcome result) in
                        emit T d task_id ''stage.settled'' (settled_at r now_ms)
                          (JObj [(''classification'', JStr (rr_classification result)), (''outcome_code'', jopt_str outcome_code),
                                 (''outcome_digest'', jopt_str outcome_digest), (''elapsed_ms'', JInt (int_or_zero (r_duration_ms r))),
                                 (''usage'', trajectory_usage T result), (''sealed'', JBool (r_sealed r))])
                          (default_args\<lparr>a_run := Some r, a_refs := (if r_sealed r then [manifest_ref] else [])\<rparr>))))))))))))"

definition emit_unsealed_run ::
  "traj_env \<Rightarrow> db \<Rightarrow> string \<Rightarrow> run_row \<Rightarrow> string \<Rightarrow> int \<Rightarrow> string \<Rightarrow> unit ectl" where
  "emit_unsealed_run T d task_id r classification recorded_at reason_code =
     (if \<not> enabled T then retS ()
      else let (outcome_code, outcome_digest) = trajectory_code T OUTCOME_CODES [] (r_outcome r) in
        emit T d task_id ''stage.settled'' recorded_at
          (JObj [(''classification'', JStr classification), (''outcome_code'', jopt_str outcome_code),
                 (''outcome_digest'', jopt_str outcome_digest), (''elapsed_ms'', JInt (int_or_zero (r_duration_ms r))),
                 (''usage'', no_usage_json (JStr reason_code) JNull), (''sealed'', JBool False)])
          (default_args\<lparr>a_run := Some r\<rparr>))"

end
