(* ===== verification/EmissionLaws.thy ===== *)
theory EmissionLaws
  imports Emission SealLaws
begin

text \<open>
  The controller's events fit the schema and keep the log: the codes, identifiers and usage it puts
  into an event pass the validator's checks, every emission leaves a table the store could have
  written, and a settled run leaves its events in a fixed order.
\<close>

section \<open>Codes, identifiers, usage\<close>

text \<open>SHA-256 digests are 64 hexadecimal digits.\<close>

definition sha_ok :: "(string \<Rightarrow> string) \<Rightarrow> bool" where
  "sha_ok H \<longleftrightarrow> (\<forall>s. HEX_DIGEST (H s))"

lemma HEX_ascii: "HEX_DIGEST s \<Longrightarrow> ascii s"
  by (auto simp: HEX_DIGEST_def ascii_def list_all_iff is_hex_lower_def is_digit_def Let_def)

lemma digest_text_ok:
  assumes "sha_ok (te_sha T)" "nfc_ok (te_nfc T)"
  shows "DIGEST (digest_text T s) \<and> te_nfc T (digest_text T s) = digest_text T s \<and> digest_text T s \<noteq> []"
proof -
  have h: "HEX_DIGEST (te_sha T s)" using assms(1) by (simp add: sha_ok_def)
  have "ascii (digest_text T s)" unfolding digest_text_def using HEX_ascii [OF h] by (simp add: ascii_def)
  with h nfc_ascii [OF assms(2)] show ?thesis by (simp add: DIGEST_def digest_text_def)
qed

lemma ascii_vocabulary: "list_all ascii OUTCOME_CODES" "list_all ascii TRANSITION_REASON_CODES" "list_all ascii EVENT_TASK_STATUSES"
  by code_simp+

lemma vocabulary_nonempty: "[] \<notin> set OUTCOME_CODES" "[] \<notin> set TRANSITION_REASON_CODES" "[] \<notin> set EVENT_TASK_STATUSES"
  by (simp_all add: OUTCOME_CODES_def TRANSITION_REASON_CODES_def EVENT_TASK_STATUSES_def)

lemma code_accepted:
  assumes "sha_ok (te_sha T)" "nfc_ok (te_nfc T)" "list_all ascii allowed" "[] \<notin> set allowed" "''other'' \<in> set allowed"
    "''other'' \<notin> snd ` set aliases" "trajectory_code T allowed aliases (Some s) = (code, digest)"
  shows "ev_enum_with_other_digest (te_nfc T) allowed (jopt_str code) (jopt_str digest) l1 l2 = Inr () \<longleftrightarrow>
    (s \<noteq> ''other'' \<or> map_of aliases ''other'' \<noteq> None)"
proof -
  define c where "c = (case map_of aliases s of None \<Rightarrow> s | Some c \<Rightarrow> c)"
  have c: "c = ''other'' \<longleftrightarrow> s = ''other'' \<and> map_of aliases ''other'' = None"
  proof -
    have "map_of aliases s \<noteq> Some ''other''"
      using assms(6) map_of_SomeD [of aliases s "''other''"] by (metis imageI snd_conv)
    then show ?thesis by (auto simp: c_def split: option.splits)
  qed
  have word: "te_nfc T w = w \<and> w \<noteq> []" if "w \<in> set allowed" for w
    using that assms(2,3,4) nfc_ascii by (auto simp: list_all_iff)
  show ?thesis
  proof (cases "c \<in> set allowed")
    case True
    with assms(7) have "code = Some c" "digest = None" by (simp_all add: trajectory_code_def c_def [symmetric] Let_def)
    with True word [OF True] c show ?thesis by (simp add: jopt_str_def ev_other_Inr)
  next
    case False
    with assms(7) have "code = Some ''other''" "digest = Some (digest_text T s)"
      by (simp_all add: trajectory_code_def c_def [symmetric] Let_def)
    moreover have "c \<noteq> ''other''" using False assms(5) by auto
    ultimately show ?thesis
      using word [OF assms(5)] digest_text_ok [OF assms(1,2), of s] assms(5) c by (simp add: jopt_str_def ev_other_Inr)
  qed
qed

lemma is_alnum_lower: "is_alnum c \<Longrightarrow> is_identifier_start (lower_char c)"
  by (auto simp: is_alnum_def is_alpha_def is_identifier_start_def lower_char_def is_upper_alpha_def is_lower_alpha_def
      is_digit_def Let_def)


lemma reported_tokens:
  "nullable (ev_integer 0) v l = Inr () \<longleftrightarrow> v = JNull \<or> (\<exists>i \<ge> 0. v = JInt i)"
  by (auto simp: event_simps)

text \<open>C39: The usage the controller puts into an event passes the validator, whatever the provider reported,
  as long as each reported count is a natural number: an unknown basis or reason is recorded as such.\<close>

theorem trajectory_usage_accepted:
  assumes "nfc_ok (te_nfc T)" "sha_ok (te_sha T)"
    "\<forall>v \<in> {rr_usage_input r, rr_usage_output r, rr_usage_total r}. v = JNull \<or> (\<exists>i \<ge> 0. v = JInt i)"
  shows "validate_usage (te_nfc T) (trajectory_usage T r) label = Inr ()"
proof -
  have bases: "list_all (\<lambda>s. ascii s \<and> s \<noteq> []) USAGE_BASES" "list_all (\<lambda>s. ascii s \<and> s \<noteq> []) USAGE_UNAVAILABLE_REASON_CODES"
    by code_simp+
  then have word: "te_nfc T w = w \<and> w \<noteq> []" if "w \<in> set USAGE_BASES \<union> set USAGE_UNAVAILABLE_REASON_CODES" for w
    using that nfc_ascii [OF assms(1)] by (auto simp: list_all_iff)
  have none: "validate_usage (te_nfc T) (no_usage_json (JStr c) d) label = Inr ()"
    if "c \<in> set USAGE_UNAVAILABLE_REASON_CODES"
      "if c = ''other'' then \<exists>s. d = JStr (digest_text T s) else d = JNull" for c d
    using that word [of c] word [of "''unavailable''"] digest_text_ok [OF assms(2,1)]
    by (auto simp: no_usage_json_def usage_json_def validate_usage_def TOKEN_KEYS_def res_simps event_simps keys_def jget_def
        USAGE_BASES_def split: if_splits)
  have some: "validate_usage (te_nfc T) (usage_json (JStr b) i n t JNull JNull) label = Inr ()"
    if "b \<in> set [''per-turn'', ''cumulative'', ''delta-from-cumulative'']"
      "\<forall>v \<in> {i, n, t}. v = JNull \<or> (\<exists>k \<ge> 0. v = JInt k)" for b i n t
  proof -
    have tokens: "nullable (ev_integer 0) v l = Inr ()" if "v \<in> {i, n, t}" for v l
      using that \<open>\<forall>v \<in> {i, n, t}. _ v\<close> unfolding reported_tokens by blast
    have "b \<in> set USAGE_BASES" "b \<noteq> ''unavailable''" using that(1) by (auto simp: USAGE_BASES_def)
    with word [of b] tokens show ?thesis
      by (simp add: usage_json_def validate_usage_def TOKEN_KEYS_def allR_Inr ev_enum_Inr ev_keys_def keys_def jget_def
          check_def needR_def Let_def insert_commute)
  qed
  have codes: "c \<in> set USAGE_UNAVAILABLE_REASON_CODES"
    if "c \<in> set [''provider_cli_usage_not_reported'', ''runner_usage_unavailable'', ''usage_basis_unverified'',
        ''not_applicable_provider_preflight_failed'', ''other'']" for c
    using that by (simp add: USAGE_UNAVAILABLE_REASON_CODES_def)
  let ?B = "JStr ` set [''per-turn'', ''cumulative'', ''delta-from-cumulative'']"
  show ?thesis
  proof (cases "(rr_usage_input r \<noteq> JNull \<or> rr_usage_output r \<noteq> JNull \<or> rr_usage_total r \<noteq> JNull)
      \<and> field (rr_execution_receipt r) ''usage_basis'' \<in> ?B")
    case True
    then obtain b where b: "field (rr_execution_receipt r) ''usage_basis'' = JStr b"
      "b \<in> set [''per-turn'', ''cumulative'', ''delta-from-cumulative'']" by blast
    from True have "trajectory_usage T r = usage_json (JStr b) (rr_usage_input r) (rr_usage_output r) (rr_usage_total r) JNull JNull"
      unfolding trajectory_usage_def Let_def b(1) by (rule if_P)
    with some [OF b(2) assms(3)] show ?thesis by simp
  next
    case False
    let ?R = "[''provider_cli_usage_not_reported'', ''runner_usage_unavailable'', ''usage_basis_unverified'',
               ''not_applicable_provider_preflight_failed'']"
    obtain raw where raw: "trajectory_usage T r =
        (if raw \<in> set ?R then no_usage_json (JStr raw) JNull else no_usage_json (JStr ''other'') (JStr (digest_text T raw)))"
      using False unfolding trajectory_usage_def Let_def by (simp only: if_False)
    show ?thesis
    proof (cases "raw \<in> set ?R")
      case True
      then have "raw \<noteq> ''other''" "raw \<in> set USAGE_UNAVAILABLE_REASON_CODES" using codes by auto
      then show ?thesis using none [of raw JNull] unfolding raw if_P [OF True] by (simp only: if_False)
    next
      case False
      have "''other'' \<in> set USAGE_UNAVAILABLE_REASON_CODES" using codes by simp
      then show ?thesis using none [of "''other''" "JStr (digest_text T raw)"] unfolding raw if_not_P [OF False] by auto
    qed
  qed
qed

text \<open>C38: Which transitions can be recorded: the event of a well-formed transition with a reason passes the validator
  exactly when neither its reason nor its outcome is the word \<open>other\<close>.  A profile may name an outcome \<open>other\<close>;
  the controller then writes the code \<open>other\<close> without the digest the validator requires.\<close>

theorem transition_body_accepted:
  assumes "nfc_ok (te_nfc T)" "sha_ok (te_sha T)" "1 \<le> x_seq x" "IDENTIFIER (x_operation_id x)"
    "x_to_status x \<in> set EVENT_TASK_STATUSES" "x_from_status x = None \<or> the (x_from_status x) \<in> set EVENT_TASK_STATUSES"
    "x_reason x \<noteq> None"
  shows "validate_body (te_nfc T) ''task.transition.committed'' (transition_body T x) refs = Inr ()
    \<longleftrightarrow> x_reason x \<noteq> Some ''other'' \<and> x_outcome x \<noteq> Some ''other''"
proof -
  note N = assms(1) and H = assms(2)
  obtain r where r: "x_reason x = Some r" using assms(7) by blast
  obtain rc rd where rc: "trajectory_code T TRANSITION_REASON_CODES TRAJECTORY_REASON_ALIASES (x_reason x) = (rc, rd)" by force
  obtain oc od where oc: "trajectory_code T OUTCOME_CODES [] (x_outcome x) = (oc, od)" by force
  have reason: "ev_enum_with_other_digest (te_nfc T) TRANSITION_REASON_CODES (jopt_str rc) (jopt_str rd) l1 l2 = Inr ()
      \<longleftrightarrow> r \<noteq> ''other''" for l1 l2
    using code_accepted [OF H N ascii_vocabulary(2) vocabulary_nonempty(2) _ _ rc [unfolded r], of l1 l2]
    by (simp add: TRANSITION_REASON_CODES_def TRAJECTORY_REASON_ALIASES_def)
  have outcome: "(if jopt_str oc \<noteq> JNull
      then ev_enum_with_other_digest (te_nfc T) OUTCOME_CODES (jopt_str oc) (jopt_str od) l1 l2
      else needR (jopt_str od = JNull) l3) = Inr () \<longleftrightarrow> x_outcome x \<noteq> Some ''other''" for l1 l2 l3
  proof (cases "x_outcome x")
    case None
    with oc show ?thesis by (simp add: trajectory_code_def jopt_str_def needR_def)
  next
    case (Some s)
    have "jopt_str oc \<noteq> JNull" using oc Some by (cases oc) (auto simp: trajectory_code_def jopt_str_def Let_def split: if_splits)
    moreover have "ev_enum_with_other_digest (te_nfc T) OUTCOME_CODES (jopt_str oc) (jopt_str od) l1 l2 = Inr ()
        \<longleftrightarrow> s \<noteq> ''other''"
      using code_accepted [OF H N ascii_vocabulary(1) vocabulary_nonempty(1) _ _ oc [unfolded Some], of l1 l2]
      by (simp add: OUTCOME_CODES_def)
    ultimately show ?thesis using Some by simp
  qed
  have status: "ev_enum (te_nfc T) EVENT_TASK_STATUSES (JStr s) l = Inr ()" if "s \<in> set EVENT_TASK_STATUSES" for s l
    using that ascii_vocabulary(3) vocabulary_nonempty(3) nfc_ascii [OF N] by (auto simp: ev_enum_Inr list_all_iff)
  have from_status: "nullable (ev_enum (te_nfc T) EVENT_TASK_STATUSES) (jopt_str (x_from_status x)) l = Inr ()" for l
    using assms(6) status by (auto simp: nullable_def jopt_str_def split: option.split)
  have op: "ev_identifier (te_nfc T) (JStr (x_operation_id x)) l = Inr ()" for l
    using assms(4) IDENTIFIER_ascii nfc_ascii [OF N] by (auto simp: ev_identifier_def ev_shape_Inr IDENTIFIER_def)
  have seq: "ev_integer 1 (JInt (x_seq x)) l = Inr ()" for l using assms(3) by (simp add: ev_integer_Inr)
  have body: "validate_body (te_nfc T) ''task.transition.committed'' b refs
      = body_transition (te_nfc T) (''body['' @ ''task.transition.committed'' @ '']'') b" for b
    by (simp add: validate_body_def Let_def)
  show ?thesis
    unfolding body body_transition_def transition_body_def rc oc prod.case
    by (simp add: ev_keys_def keys_def check_def jget_def allR_Inr check_outcome_def seq op from_status status [OF assms(5)]
        reason outcome r insert_commute del: append.simps split del: if_split cong: if_cong)
qed

section \<open>What an operation appends\<close>

lemma jget_dict_set: "jget (dict_set k v kvs) k' = (if k' = k then v else jget kvs k')"
  by (induction k v kvs rule: dict_set.induct) (auto simp: jget_def)

lemma seal_event_Inr:
  assumes "nfc_ok N" "seal_event N H e = Inr s"
  obtains kvs h where "normalize N e = Inr (JObj kvs)" "s = JObj (dict_set ''event_hash'' (JStr h) kvs)" "wf_json s"
proof -
  from assms(2) obtain n kvs where n: "normalize N e = Inr n" "validate_event N H False n = Inr kvs"
    and s: "\<exists>h. s = JObj (dict_set ''event_hash'' (JStr h) kvs)"
    by (auto simp: seal_event_def res_simps Let_def)
  have kvs: "n = JObj kvs" using n(2) by (auto simp: validate_event_def res_simps event_simps)
  obtain h where h: "s = JObj (dict_set ''event_hash'' (JStr h) kvs)" using s by blast
  have "wf_json (JObj kvs)" using normalize_makes_fixed(1) [OF assms(1) n(1)] kvs by simp
  then have "\<forall>p \<in> set (dict_set ''event_hash'' (JStr h) kvs). wf_json (snd p)" by (intro dict_set_all) auto
  with \<open>wf_json (JObj kvs)\<close> have "wf_json s" using h distinct_dict_set by auto
  with that n(1) kvs h show ?thesis by blast
qed

lemma sealed_draft_type:
  assumes "nfc_ok N" "ascii ty" "seal_event N H (draft_event rows t ty i at body a) = Inr s"
  shows "field s ''event_type'' = JStr ty"
proof -
  obtain kvs h where k: "normalize N (draft_event rows t ty i at body a) = Inr (JObj kvs)"
    "s = JObj (dict_set ''event_hash'' (JStr h) kvs)"
    by (rule seal_event_Inr [OF assms(1,3)])
  obtain ds where d: "draft_event rows t ty i at body a = JObj ds" "distinct (map fst ds)" "''event_type'' \<in> set (keys ds)"
    "jget ds ''event_type'' = JStr ty"
    by (simp add: draft_event_def Let_def keys_def jget_def)
  have "N ''event_type'' = ''event_type''" by (rule nfc_ascii [OF assms(1)]) (simp add: ascii_def)
  then obtain ps where "JObj kvs = JObj ps" "normalize N (jget ds ''event_type'') = Inr (jget ps ''event_type'')"
    using field_normalize [OF k(1) [unfolded d(1)] d(2,3)] by metis
  with d(4) nfc_ascii [OF assms(1,2)] show ?thesis by (simp add: k(2) jget_dict_set)
qed

text \<open>\<open>emits T S m\<close>: the computation only appends to the table, through the store; what it appends is, by
  event types, a word of \<open>S\<close> when it returns and a proper prefix of one when it raises.\<close>

definition word_of :: "'a list set \<Rightarrow> bool \<Rightarrow> 'a list \<Rightarrow> bool" where
  "word_of S done ts \<longleftrightarrow> (if done then ts \<in> S else \<exists>rest. rest \<noteq> [] \<and> ts @ rest \<in> S)"

definition then_words :: "'a list set \<Rightarrow> 'a list set \<Rightarrow> 'a list set" where
  "then_words S S' = {s @ s' | s s'. s \<in> S \<and> s' \<in> S'}"

definition emits :: "traj_env \<Rightarrow> string list set \<Rightarrow> 'a ectl \<Rightarrow> bool" where
  "emits T S m \<longleftrightarrow> (\<forall>w. \<exists>vs. ts_rows (snd (m w)) = ts_rows w @ vs
     \<and> (written (te_nfc T) (te_sha T) (ts_rows w) \<longrightarrow> written (te_nfc T) (te_sha T) (ts_rows w @ vs))
     \<and> word_of S (is_ok (fst (m w))) (map v_event_type vs))"

lemma emitsD:
  assumes "emits T S m" "m w = (r, w')"
  obtains vs where "ts_rows w' = ts_rows w @ vs"
    "written (te_nfc T) (te_sha T) (ts_rows w) \<longrightarrow> written (te_nfc T) (te_sha T) (ts_rows w @ vs)"
    "word_of S (is_ok r) (map v_event_type vs)"
  using assms unfolding emits_def by (metis fst_conv snd_conv)

lemma emitsI:
  assumes "\<And>w r w'. m w = (r, w') \<Longrightarrow> \<exists>vs. ts_rows w' = ts_rows w @ vs
     \<and> (written (te_nfc T) (te_sha T) (ts_rows w) \<longrightarrow> written (te_nfc T) (te_sha T) (ts_rows w @ vs))
     \<and> word_of S (is_ok r) (map v_event_type vs)"
  shows "emits T S m"
  using assms unfolding emits_def by (metis prod.collapse)

lemma word_of_mono: "word_of S b ts \<Longrightarrow> S \<subseteq> S' \<Longrightarrow> word_of S' b ts"
  by (auto simp: word_of_def split: if_splits)

lemma word_of_stops: "word_of S False ts \<Longrightarrow> S' \<noteq> {} \<Longrightarrow> word_of (then_words S S') False ts"
proof -
  assume "word_of S False ts" "S' \<noteq> {}"
  then obtain rest s' where "rest \<noteq> []" "ts @ rest \<in> S" "s' \<in> S'" by (auto simp: word_of_def)
  then have "rest @ s' \<noteq> [] \<and> ts @ rest @ s' \<in> then_words S S'"
    unfolding then_words_def by (metis (mono_tags, lifting) append_assoc append_is_Nil_conv mem_Collect_eq)
  then show ?thesis unfolding word_of_def by auto
qed

lemma word_of_append: "word_of S True ts \<Longrightarrow> word_of S' b us \<Longrightarrow> word_of (then_words S S') b (ts @ us)"
proof -
  assume ts: "word_of S True ts" and us: "word_of S' b us"
  show ?thesis
  proof (cases b)
    case True
    with ts us show ?thesis by (auto simp: word_of_def then_words_def)
  next
    case False
    with us obtain rest where "rest \<noteq> []" "us @ rest \<in> S'" by (auto simp: word_of_def)
    with ts False have "rest \<noteq> [] \<and> (ts @ us) @ rest \<in> then_words S S'"
      unfolding then_words_def word_of_def by (simp, blast)
    with False show ?thesis unfolding word_of_def by auto
  qed
qed

lemma emits_writer:
  assumes N: "nfc_ok (te_nfc T)" and ty: "ascii ty"
  shows "emits T {if enabled T then [ty] else []} (emit T d task_id ty at body a)"
proof (rule emitsI)
  fix w r0 w0
  assume e: "emit T d task_id ty at body a w = (r0, w0)"
  let ?N = "te_nfc T" and ?H = "te_sha T"
  show "\<exists>vs. ts_rows w0 = ts_rows w @ vs \<and> (written ?N ?H (ts_rows w) \<longrightarrow> written ?N ?H (ts_rows w @ vs))
     \<and> word_of {if enabled T then [ty] else []} (is_ok r0) (map v_event_type vs)"
  proof (cases "enabled T \<and> is_ok (fst (writer_append T d task_id ty at body a w))")
    case True
    obtain r w' where wa: "writer_append T d task_id ty at body a w = (r, w')" by force
    with True have "\<exists>t eid s b i. seal_event ?N ?H (draft_event (ts_rows w) t ty eid at body a) = Inr s
        \<and> store_append ?N ?H b d (ts_rows w) s = Inr (ts_rows w') \<and> r = Inr (Some i)"
      by (auto simp: writer_append_def bindS_def thenS_def getS_def checkS_def raiseS_def retS_def liftR_def modS_def
          fresh_uuid_def split: prod.splits sum.splits option.splits if_splits) blast+
    then obtain t eid s b i where s: "seal_event ?N ?H (draft_event (ts_rows w) t ty eid at body a) = Inr s"
      and r: "store_append ?N ?H b d (ts_rows w) s = Inr (ts_rows w')" and i: "r = Inr (Some i)"
      by blast
    obtain bytes where v: "ts_rows w' = ts_rows w @ [row_of s bytes]" using r by (elim store_append_Inr)
    have "wf_json s" by (rule seal_event_Inr [OF N s])
    then have "written ?N ?H (ts_rows w) \<longrightarrow> written ?N ?H (ts_rows w')" using r written_append by blast
    moreover have "v_event_type (row_of s bytes) = ty"
      using sealed_draft_type [OF N ty s] by (simp add: row_of_def str_of_def event_type_of_def)
    ultimately show ?thesis using True wa v i e
      by (intro exI [of _ "[row_of s bytes]"]) (auto simp: emit_def word_of_def)
  next
    case False
    then have "ts_rows (snd (writer_append T d task_id ty at body a w)) = ts_rows w
        \<and> (if enabled T then \<not> is_ok (fst (writer_append T d task_id ty at body a w))
           else writer_append T d task_id ty at body a w = (Inr None, w))"
      by (auto simp: writer_append_def bindS_def thenS_def getS_def checkS_def raiseS_def retS_def liftR_def modS_def
          fresh_uuid_def split: prod.splits sum.splits option.splits if_splits)
    with e show ?thesis
      by (intro exI [of _ "[]"]) (auto simp: emit_def word_of_def split: prod.splits sum.splits option.splits if_splits)
  qed
qed

text \<open>Composition: a computation that leaves the table alone may come first, and words concatenate.\<close>

lemma emits_ret: "emits T {[]} (retS x)"
  by (rule emitsI) (simp add: retS_def word_of_def)

lemma emits_raise: "s \<in> S \<Longrightarrow> s \<noteq> [] \<Longrightarrow> emits T S (raiseS e)"
  by (rule emitsI) (auto simp: raiseS_def word_of_def)

lemma emits_quiet:
  assumes "quiet ts_rows m" "\<And>x. emits T S (f x)" "s \<in> S" "s \<noteq> []"
  shows "emits T S (bindS m f)"
proof (rule emitsI)
  fix w r1 w1
  assume b: "bindS m f w = (r1, w1)"
  obtain r w' where m: "m w = (r, w')" by force
  have rows: "ts_rows w' = ts_rows w" using quietD [OF assms(1) m] .
  show "\<exists>vs. ts_rows w1 = ts_rows w @ vs
     \<and> (written (te_nfc T) (te_sha T) (ts_rows w) \<longrightarrow> written (te_nfc T) (te_sha T) (ts_rows w @ vs))
     \<and> word_of S (is_ok r1) (map v_event_type vs)"
  proof (cases r)
    case (Inl e)
    with m b rows assms(3,4) show ?thesis by (intro exI [of _ "[]"]) (auto simp: bindS_def word_of_def)
  next
    case (Inr x)
    with m b have "f x w' = (r1, w1)" by (simp add: bindS_def)
    from emitsD [OF assms(2) this] rows show ?thesis by metis
  qed
qed

lemma emits_bind:
  assumes "emits T S m" "\<And>x. emits T S' (f x)" "S' \<noteq> {}"
  shows "emits T (then_words S S') (bindS m f)"
proof (rule emitsI)
  fix w r1 w1
  assume b: "bindS m f w = (r1, w1)"
  let ?ok = "written (te_nfc T) (te_sha T)"
  obtain r w' where m: "m w = (r, w')" by force
  obtain vs where vs: "ts_rows w' = ts_rows w @ vs" "?ok (ts_rows w) \<longrightarrow> ?ok (ts_rows w @ vs)"
    "word_of S (is_ok r) (map v_event_type vs)"
    by (rule emitsD [OF assms(1) m])
  show "\<exists>vs. ts_rows w1 = ts_rows w @ vs \<and> (?ok (ts_rows w) \<longrightarrow> ?ok (ts_rows w @ vs))
     \<and> word_of (then_words S S') (is_ok r1) (map v_event_type vs)"
  proof (cases r)
    case (Inl e)
    with m b have "r1 = Inl e" "w1 = w'" by (simp_all add: bindS_def)
    with vs Inl word_of_stops [OF _ assms(3)] show ?thesis by (intro exI [of _ vs]) simp
  next
    case (Inr x)
    with m b have f: "f x w' = (r1, w1)" by (simp add: bindS_def)
    obtain us where us: "ts_rows w1 = ts_rows w' @ us" "?ok (ts_rows w') \<longrightarrow> ?ok (ts_rows w' @ us)"
      "word_of S' (is_ok r1) (map v_event_type us)"
      by (rule emitsD [OF assms(2) f])
    have "word_of (then_words S S') (is_ok r1) (map v_event_type vs @ map v_event_type us)"
      by (rule word_of_append [OF _ us(3)]) (use vs(3) Inr in simp)
    with vs(1,2) us(1,2) show ?thesis by (intro exI [of _ "vs @ us"] conjI) auto
  qed
qed

lemma emits_then: "emits T S m \<Longrightarrow> emits T S' k \<Longrightarrow> S' \<noteq> {} \<Longrightarrow> emits T (then_words S S') (thenS m k)"
  unfolding thenS_def by (rule emits_bind)

lemma emits_mono: "emits T S m \<Longrightarrow> S \<subseteq> S' \<Longrightarrow> emits T S' m"
  unfolding emits_def by (meson word_of_mono)

lemma emits_on: "enabled T \<Longrightarrow> nfc_ok (te_nfc T) \<Longrightarrow> ascii ty \<Longrightarrow> emits T {[ty]} (emit T d task_id ty at body a)"
  using emits_writer [of T ty d task_id at body a] by simp

section \<open>A settled run\<close>

lemma quiet_evidence_ref: "quiet ts_rows (trajectory_evidence_ref T P t r path kind s k h)"
proof -
  have fresh: "quiet ts_rows (\<lambda>w. (Inr (f w), w\<lparr>ts_uuids := Suc (ts_uuids w)\<rparr>))" for f :: "traj_state \<Rightarrow> json"
    by (simp add: quiet_def)
  show ?thesis unfolding trajectory_evidence_ref_def Let_def
    by (intro quiet_intros fresh)
qed

lemma emits_session:
  assumes "enabled T" "nfc_ok (te_nfc T)"
  shows "emits T {[], [''session.bound''], [''session.rebound'']} (emit_session T P d t r path receipt session now)"
proof -
  have bound: "emits T {[''session.bound'']} (emit T d id ''session.bound'' at b a)"
    and rebound: "emits T {[''session.rebound'']} (emit T d id ''session.rebound'' at b a)" for id at b a
    by (rule emits_on [OF assms]; simp add: ascii_def)+
  have ret: "emits T {[], [''session.bound''], [''session.rebound'']} (retS x)" for x :: "json list"
    by (rule emits_mono [OF emits_ret]) simp
  have one: "emits T {[], [''session.bound''], [''session.rebound'']} (thenS m (retS x))"
    if "emits T {[ty]} m" "ty = ''session.bound'' \<or> ty = ''session.rebound''" for m :: "unit ectl" and ty and x :: "json list"
    by (rule emits_mono [OF emits_then [OF that(1) emits_ret]]) (use that(2) in \<open>auto simp: then_words_def\<close>)
  note quiet = emits_quiet [where s = "[''session.bound'']"]
  show ?thesis
  proof (cases session)
    case None
    then show ?thesis using ret by (simp add: emit_session_def)
  next
    case (Some s)
    show ?thesis unfolding emit_session_def Some option.case
      by (intro quiet quiet_intros quiet_evidence_ref)
        (auto simp: Let_def intro: ret one bound rebound quiet [OF quiet_evidence_ref] split: option.split)
  qed
qed

text \<open>The words of a settled run.\<close>

definition settled_orders :: "traj_env \<Rightarrow> bool \<Rightarrow> string list set" where
  "settled_orders T dispatched =
     (if \<not> enabled T then {[]}
      else (\<lambda>s. (if dispatched then [''provider.dispatched''] else []) @ [''provider.settled''] @ s
              @ [''evidence.sealed'', ''stage.settled'']) ` {[], [''session.bound''], [''session.rebound'']})"

lemma emits_when: "(b \<Longrightarrow> emits T {s} m) \<Longrightarrow> emits T {if b then s else []} (whenS b m)"
  by (simp add: whenS_def emits_ret)

lemma emits_run_settled:
  assumes "nfc_ok (te_nfc T)"
  shows "emits T (settled_orders T (was_dispatched result)) (emit_run_settled T P d task_id run_token result now_ms)"
proof (cases "enabled T")
  case False
  then show ?thesis by (simp add: settled_orders_def emit_run_settled_def emits_ret)
next
  case on: True
  let ?S = "settled_orders T (was_dispatched result)"
  define word where "word = (if was_dispatched result then [''provider.dispatched''] else [])
      @ [''provider.settled'', ''evidence.sealed'', ''stage.settled'']"
  have some: "word \<in> ?S" "word \<noteq> []" using on by (auto simp: settled_orders_def word_def)
  note raise = emits_raise [OF some] and quiet = emits_quiet [OF quiet_evidence_ref _ some]
  have emit: "emits T {[ty]} (emit T d task_id ty at b a)"
    if "ty \<in> {''provider.dispatched'', ''provider.settled'', ''evidence.sealed'', ''stage.settled''}" for ty at b a
    by (rule emits_on [OF on assms]) (use that in \<open>auto simp: ascii_def\<close>)
  have body: "emits T ?S (thenS (whenS (was_dispatched result) (emit T d task_id ''provider.dispatched'' a1 b1 c1))
      (thenS (emit T d task_id ''provider.settled'' a2 b2 c2)
        (bindS (emit_session T P d t r path receipt session now_ms)
          (\<lambda>refs. thenS (emit T d task_id ''evidence.sealed'' a3 b3 (c3 refs))
             (case p of (c, e) \<Rightarrow> emit T d task_id ''stage.settled'' a4 (b4 c e) (c4 c e))))))"
    for a1 b1 c1 a2 b2 c2 t r path receipt session a3 b3 c3 p a4 b4 c4
  proof -
    let ?finish = "\<lambda>refs :: json list. thenS (emit T d task_id ''evidence.sealed'' a3 b3 (c3 refs))
             (case p of (c, e) \<Rightarrow> emit T d task_id ''stage.settled'' a4 (b4 c e) (c4 c e))"
    have e: "emits T {[''evidence.sealed'', ''stage.settled'']} (?finish refs)" for refs
    proof -
      obtain c k where p: "p = (c, k)" by (cases p)
      show ?thesis unfolding p prod.case
        by (rule emits_mono [OF emits_then [OF emit emit]]) (auto simp: then_words_def)
    qed
    have s: "emits T (then_words {[], [''session.bound''], [''session.rebound'']} {[''evidence.sealed'', ''stage.settled'']})
        (bindS (emit_session T P d t r path receipt session now_ms) ?finish)"
      by (rule emits_bind [OF emits_session [OF on assms] e]) simp
    have q: "emits T (then_words {[''provider.settled'']} (then_words {[], [''session.bound''], [''session.rebound'']}
          {[''evidence.sealed'', ''stage.settled'']}))
        (thenS (emit T d task_id ''provider.settled'' a2 b2 c2)
          (bindS (emit_session T P d t r path receipt session now_ms) ?finish))"
      by (rule emits_then [OF emit s]) (auto simp: then_words_def)
    have w: "emits T {if was_dispatched result then [''provider.dispatched''] else []}
        (whenS (was_dispatched result) (emit T d task_id ''provider.dispatched'' a1 b1 c1))"
      by (rule emits_when) (simp add: emit)
    show ?thesis
      by (rule emits_mono [OF emits_then [OF w q]]) (use on in \<open>auto simp: then_words_def settled_orders_def\<close>)
  qed
  show ?thesis
    unfolding emit_run_settled_def if_not_P [OF not_not [THEN iffD2, OF on]] Let_def
    by (auto intro!: raise quiet body split: option.split)
qed


end
