(* ===== verification/Recording.thy ===== *)
theory Recording
  imports Driver Emission TrajectoryLaws EmissionLaws
begin

text \<open>
  The controller with its trajectory writer: each call the lifecycle operations make on the writer is
  the emission of \<open>Emission\<close> on the tables and files of that moment, inside the operation's
  transaction, and the commit compares the new events with the tables (\<open>_trajectory_commit\<close>).
  Whatever the controller does, the trajectories it leaves are well formed.
\<close>

section \<open>The writer behind the controller\<close>

record recorder =
  rc_traj :: traj_env
  rc_resolve :: "string \<Rightarrow> string option"
  rc_symlink :: "string \<Rightarrow> bool"
  rc_runner :: "string \<Rightarrow> runner_view"
  rc_clock :: int

text \<open>The state of the writer and the task whose events the open operation collects.\<close>

record recording =
  rec_state :: traj_state
  rec_task :: string

definition fresh_recording :: recording where
  "fresh_recording = \<lparr>rec_state = \<lparr>ts_rows = [], ts_uuids = 0, ts_in_transaction = True, ts_events = []\<rparr>, rec_task = []\<rparr>"

definition open_list :: "string \<Rightarrow> recording \<Rightarrow> recording" where
  "open_list task_id s = s\<lparr>rec_state := (rec_state s)\<lparr>ts_events := []\<rparr>, rec_task := task_id\<rparr>"

definition emit_baseline :: "traj_env \<Rightarrow> db \<Rightarrow> string \<Rightarrow> int \<Rightarrow> unit ectl" where
  "emit_baseline T d task_id recorded_at =
     (\<lambda>w. case ensure_legacy_baseline T d task_id recorded_at w of
        (Inl e, w') \<Rightarrow> (Inl (EmitTraj e), w')
      | (Inr None, w') \<Rightarrow> (Inr (), w')
      | (Inr (Some i), w') \<Rightarrow> (Inr (), w'\<lparr>ts_events := ts_events w' @ [i]\<rparr>))"

fun emit_message :: "emit_error \<Rightarrow> string" where
  "emit_message (EmitTraj (TrajectoryError s)) = s"
| "emit_message (EmitTraj PyTypeError) = ''TypeError''"
| "emit_message (EmitTraj JSONDecodeError) = ''JSONDecodeError''"
| "emit_message (ControllerError s) = s"
| "emit_message FileMissing = ''FileNotFoundError''"
| "emit_message EmitTypeError = ''TypeError''"

definition run_emission :: "unit ectl \<Rightarrow> recording \<Rightarrow> (string, recording) res" where
  "run_emission m s =
     (case m (rec_state s) of (Inl e, _) \<Rightarrow> Inl (emit_message e) | (Inr _, t) \<Rightarrow> Inr (s\<lparr>rec_state := t\<rparr>))"

definition paths_of :: "recorder \<Rightarrow> (string \<Rightarrow> string option) \<Rightarrow> path_env" where
  "paths_of R files = \<lparr>pe_files = files, pe_resolve = rc_resolve R, pe_symlink = rc_symlink R\<rparr>"

fun emission :: "recorder \<Rightarrow> traj_call \<Rightarrow> db \<Rightarrow> (string \<Rightarrow> string option) \<Rightarrow> unit ectl" where
  "emission R (TBaseline i at) d files = emit_baseline (rc_traj R) d i at"
| "emission R (TCreated i at profile_hash input_hash) d files = emit_created (rc_traj R) d i at profile_hash input_hash"
| "emission R (TTransition i seq) d files = emit_transition (rc_traj R) d i seq"
| "emission R (TClaimed i token) d files =
     (case find_run d token of
        None \<Rightarrow> raiseS EmitTypeError
      | Some r \<Rightarrow> emit_stage_claimed (rc_traj R) d i r (rc_runner R (r_owner r)))"
| "emission R (TSettled i token result) d files =
     emit_run_settled (rc_traj R) (paths_of R files) d i token result (rc_clock R)"
| "emission R (TUnsealed i token classification at reason) d files =
     (case find_run d token of
        None \<Rightarrow> raiseS EmitTypeError
      | Some r \<Rightarrow> emit_unsealed_run (rc_traj R) d i r classification at reason)"

text \<open>An operation starts its list of events with its first call.\<close>

fun opens :: "traj_call \<Rightarrow> string option" where
  "opens (TBaseline i at) = Some i"
| "opens (TCreated i at p h) = Some i"
| "opens _ = None"

definition record_call ::
  "recorder \<Rightarrow> traj_call \<Rightarrow> db \<Rightarrow> (string \<Rightarrow> string option) \<Rightarrow> recording \<Rightarrow> (string, recording) res" where
  "record_call R c d files s =
     run_emission (emission R c d files) (case opens c of None \<Rightarrow> s | Some i \<Rightarrow> open_list i s)"

text \<open>The first diagnostic, if any; the same before and after the commit.\<close>

definition record_parity :: "recorder \<Rightarrow> bool \<Rightarrow> db \<Rightarrow> recording \<Rightarrow> string option" where
  "record_parity R committed d s =
     (case parity_diagnostics (rc_traj R) d (ts_rows (rec_state s)) (rec_task s) (ts_events (rec_state s)) of
        [] \<Rightarrow> None | (code, _) # _ \<Rightarrow> Some code)"

definition recording_env :: "recorder \<Rightarrow> recording env \<Rightarrow> recording env" where
  "recording_env R env = env\<lparr>traj_start := fresh_recording, traj_do := record_call R, parity := record_parity R\<rparr>"

section \<open>Properties of the writer's state that every call keeps\<close>

definition trail_ok :: "('t \<Rightarrow> bool) \<Rightarrow> 't world \<Rightarrow> bool" where
  "trail_ok I w \<longleftrightarrow> I (w_traj w) \<and> (case w_txn w of None \<Rightarrow> True | Some (d, t) \<Rightarrow> I t)"

definition keeps :: "('t \<Rightarrow> bool) \<Rightarrow> ('t, 'a) ctl \<Rightarrow> bool" where
  "keeps I m \<longleftrightarrow> (\<forall>w. trail_ok I w \<longrightarrow> trail_ok I (snd (m w)))"

named_theorems keeps_intros \<open>computations that keep a property of the writer's state\<close>

lemma keepsD: "keeps I m \<Longrightarrow> m w = (r, w') \<Longrightarrow> trail_ok I w \<Longrightarrow> trail_ok I w'"
  by (auto simp: keeps_def dest: spec [of _ w])

lemma keepsI: "(\<And>w r w'. m w = (r, w') \<Longrightarrow> trail_ok I w \<Longrightarrow> trail_ok I w') \<Longrightarrow> keeps I m"
  unfolding keeps_def by (metis prod.collapse)

lemma keeps_quiet: "quiet core m \<Longrightarrow> keeps I m"
  by (rule keepsI) (auto simp: trail_ok_def core_def dest: quietD)

lemma keeps_bindS [keeps_intros]:
  assumes "keeps I m" "\<And>x. keeps I (f x)"
  shows "keeps I (bindS m f)"
proof (rule keepsI)
  fix w r w' assume b: "bindS m f w = (r, w')" and i: "trail_ok I w"
  from b show "trail_ok I w'"
    by (cases rule: bindS_cases) (use assms i in \<open>blast dest: keepsD\<close>)+
qed

lemma keeps_thenS [keeps_intros]: "keeps I m \<Longrightarrow> keeps I k \<Longrightarrow> keeps I (thenS m k)"
  unfolding thenS_def by (rule keeps_bindS)

lemma keeps_prims [keeps_intros]:
  "keeps I (retS x)" "keeps I (raiseS e)" "keeps I (getS f)" "keeps I (getD q)" "keeps I (liftR s)"
  "keeps I (checkS b e)" "keeps I (now env)" "keeps I (uuid4 env)" "keeps I (iso_now env)"
  by (rule keeps_quiet, intro quiet_intros)+

lemma keeps_whenS [keeps_intros]: "keeps I m \<Longrightarrow> keeps I (whenS b m)"
  by (simp add: whenS_def keeps_prims)

lemma keeps_cases [keeps_intros]:
  "keeps I m \<Longrightarrow> keeps I k \<Longrightarrow> keeps I (if b then m else k)"
  "keeps I m \<Longrightarrow> (\<And>y. keeps I (g y)) \<Longrightarrow> keeps I (case x of None \<Rightarrow> m | Some y \<Rightarrow> g y)"
  "(\<And>a b. keeps I (h a b)) \<Longrightarrow> keeps I (case z of (a, b) \<Rightarrow> h a b)"
  "(\<And>a b. keeps I (h2 a b c)) \<Longrightarrow> keeps I ((case z of (a, b) \<Rightarrow> h2 a b) c)"
  by (auto split: option.split prod.split)

lemma keeps_forS [keeps_intros]: "(\<And>x. keeps I (f x)) \<Longrightarrow> keeps I (forS xs f)"
  by (induction xs) (auto intro: keeps_intros)

lemma keeps_catchS [keeps_intros]:
  assumes "keeps I m" "\<And>e. keeps I (h e)"
  shows "keeps I (catchS m h)"
proof (rule keepsI)
  fix w r w' assume c: "catchS m h w = (r, w')" and i: "trail_ok I w"
  obtain r1 w1 where m: "m w = (r1, w1)" by force
  with i assms(1) have "trail_ok I w1" by (blast dest: keepsD)
  with c m assms(2) show "trail_ok I w'" by (cases r1) (auto simp: catchS_def dest: keepsD)
qed

lemma keeps_stmt [keeps_intros]: "keeps I (stmt g)" "keeps I (stmt_count h)"
  by (rule keepsI; auto simp: stmt_def stmt_count_def trail_ok_def split: sum.splits)+

lemma keeps_rollback [keeps_intros]: "keeps I (modS rollback)"
  by (rule keepsI) (auto simp: modS_def rollback_def trail_ok_def split: option.splits)

lemma keeps_txn [keeps_intros]: "keeps I body \<Longrightarrow> keeps I (txn body)"
proof -
  assume body: "keeps I body"
  have "keeps I begin_txn"
    by (rule keepsI) (auto simp: begin_txn_def trail_ok_def split: option.splits)
  then show ?thesis unfolding txn_def by (intro keeps_intros body)
qed

lemma keeps_traj_commit [keeps_intros]: "keeps I (traj_commit env)"
  by (rule keepsI) (auto simp: traj_commit_def trail_ok_def Let_def split: option.splits)

lemmas keeps_reads [keeps_intros] =
  keeps_quiet [OF quiet_task_of] keeps_quiet [OF quiet_verify] keeps_quiet [OF quiet_profile_for] keeps_quiet [OF quiet_envelope]
  keeps_quiet [OF quiet_read_input] keeps_quiet [OF quiet_evidence] keeps_quiet [OF quiet_release] keeps_quiet [OF quiet_seal]
  keeps_quiet [OF quiet_announce] keeps_quiet [OF quiet_prepare] keeps_quiet [OF quiet_atomic_write]
  keeps_quiet [OF quiet_set_file(1)] keeps_quiet [OF quiet_set_file(2)] keeps_quiet [OF quiet_set_file(3)]
  keeps_quiet [OF quiet_remove_tree]

text \<open>The contract of the writer: every call keeps the property of its state.\<close>

locale recorded =
  fixes env :: "'t env" and I :: "'t \<Rightarrow> bool"
  assumes starts: "I (traj_start env)"
    and calls: "I t \<Longrightarrow> traj_do env c d files t = Inr t' \<Longrightarrow> I t'"
begin

lemma keeps_traj: "keeps I (traj env c)"
  by (rule keepsI) (auto simp: traj_def trail_ok_def split: sum.splits intro: calls)

lemma keeps_transition: "keeps I (insert_transition env i op tok st ow eg oc fs ts rs)" "keeps I (notify env i q why msg)"
  unfolding insert_transition_def notify_def by (intro keeps_intros)+

lemma keeps_claim: "keeps I (claim_stage env i)"
  unfolding claim_stage_def claim_body_def start_run_def stop_for_cap_def Let_def
  by (intro keeps_intros keeps_traj keeps_transition)

lemma keeps_commit: "keeps I (commit_run env i tok result p)"
  unfolding commit_run_def commit_body_def commit_stopped_def commit_hold_def commit_edge_def close_run_def Let_def
  by (intro keeps_intros keeps_traj keeps_transition)

lemma keeps_submit: "keeps I (submit env ty data input sfx i op ws)"
  unfolding submit_def submit_body_def Let_def
  by (intro keeps_intros keeps_traj keeps_transition)

lemma keeps_others:
  "keeps I (resume_txn env i op rerun)" "keeps I (block_orphaned_running env t)" "keeps I (record_preflight_stop env i st pr)"
  unfolding resume_txn_def resume_body_def block_orphaned_running_def block_orphaned_body_def record_preflight_stop_def
    preflight_stop_body_def Let_def
  by (intro keeps_intros keeps_traj keeps_transition)+

lemma step_keeps: "step env w w' \<Longrightarrow> trail_ok I w \<Longrightarrow> trail_ok I w'"
proof (induction rule: step.induct)
  case (outside w' w)
  then show ?case by (simp add: trail_ok_def core_def)
qed (blast dest: keepsD [OF keeps_submit] keepsD [OF keeps_claim] keepsD [OF keeps_commit] keepsD [OF keeps_others(1)]
    keepsD [OF keeps_others(2)] keepsD [OF keeps_others(3)] keepsD [OF keeps_stmt(1)])+

lemma reachable_keeps: "reachable env w \<Longrightarrow> trail_ok I w"
proof (induction rule: reachable.induct)
  case (initial w)
  then show ?case by (simp add: trail_ok_def starts)
qed (rule step_keeps)

end

section \<open>The controller's writer\<close>

lemma emits_any: "emits T S m \<Longrightarrow> emits T UNIV m"
  by (rule emits_mono) simp_all

lemma emits_any_then: "emits T UNIV m \<Longrightarrow> emits T UNIV k \<Longrightarrow> emits T UNIV (thenS m k)"
  by (rule emits_mono [OF emits_then]) auto

lemma baseline_appends:
  "ensure_legacy_baseline T d i at w = (r, w') \<Longrightarrow> ts_rows w' = ts_rows w
     \<or> (\<exists>body a. writer_append T d i ''migration.baseline'' at body a w = (r, w'))"
  unfolding ensure_legacy_baseline_def
  by (auto simp: bindS_def getS_def liftR_def retS_def raiseS_def Let_def split: prod.splits sum.splits option.splits if_splits)

lemma emits_baseline:
  assumes "nfc_ok (te_nfc T)"
  shows "emits T UNIV (emit_baseline T d i at)"
proof (rule emitsI)
  fix w r w' assume b: "emit_baseline T d i at w = (r, w')"
  have "ts_rows w' = ts_rows w \<or> (\<exists>body a. emit T d i ''migration.baseline'' at body a w = (r, w'))"
  proof -
    obtain r1 w1 where e: "ensure_legacy_baseline T d i at w = (r1, w1)" by force
    from baseline_appends [OF e] show ?thesis
    proof (elim disjE exE)
      assume "ts_rows w1 = ts_rows w"
      with b e show ?thesis by (auto simp: emit_baseline_def split: sum.splits option.splits)
    next
      fix body a assume "writer_append T d i ''migration.baseline'' at body a w = (r1, w1)"
      with b e have "emit T d i ''migration.baseline'' at body a w = (r, w')" by (simp add: emit_baseline_def emit_def)
      then show ?thesis by blast
    qed
  qed
  then show "\<exists>vs. ts_rows w' = ts_rows w @ vs \<and> (written (te_nfc T) (te_sha T) (ts_rows w) \<longrightarrow>
      written (te_nfc T) (te_sha T) (ts_rows w @ vs)) \<and> word_of UNIV (is_ok r) (map v_event_type vs)"
  proof (elim disjE exE)
    assume "ts_rows w' = ts_rows w"
    then show ?thesis by (intro exI [of _ "[]"]) (auto simp: word_of_def)
  next
    fix body a assume e: "emit T d i ''migration.baseline'' at body a w = (r, w')"
    have "emits T UNIV (emit T d i ''migration.baseline'' at body a)"
      by (rule emits_any [OF emits_writer [OF assms]]) (simp add: ascii_def)
    from emitsD [OF this e] show ?thesis by blast
  qed
qed

lemma emits_emission:
  assumes "nfc_ok (te_nfc (rc_traj R))"
  shows "emits (rc_traj R) UNIV (emission R c d files)"
proof -
  have emit: "emits (rc_traj R) UNIV (emit (rc_traj R) d i ty at b a)" if "ascii ty" for i ty at b a
    by (rule emits_any [OF emits_writer [OF assms that]])
  have raise: "emits (rc_traj R) UNIV (raiseS e)" for e :: emit_error and x :: unit
    by (rule emits_raise [of "[[]]"]) simp_all
  have ret: "emits (rc_traj R) UNIV (retS x)" for x :: unit
    by (rule emits_any [OF emits_ret])
  show ?thesis
    using emits_baseline [OF assms] emits_any [OF emits_run_settled [OF assms]]
    by (cases c)
      (auto simp: emit_created_def emit_transition_def emit_stage_claimed_def emit_unsealed_run_def Let_def ascii_def
        intro!: emit raise ret emits_any_then split: option.split prod.split)
qed

text \<open>The tables the writer leaves are tables of the store.\<close>

definition well_recorded :: "recorder \<Rightarrow> recording \<Rightarrow> bool" where
  "well_recorded R s \<longleftrightarrow> (nfc_ok (te_nfc (rc_traj R)) \<longrightarrow>
     written (te_nfc (rc_traj R)) (te_sha (rc_traj R)) (ts_rows (rec_state s)))"

lemma record_call_kept:
  assumes "well_recorded R s" "record_call R c d files s = Inr s'"
  shows "well_recorded R s'"
  unfolding well_recorded_def
proof
  let ?T = "rc_traj R"
  assume N: "nfc_ok (te_nfc ?T)"
  define s0 where "s0 = (case opens c of None \<Rightarrow> s | Some i \<Rightarrow> open_list i s)"
  have rows: "ts_rows (rec_state s0) = ts_rows (rec_state s)"
    by (simp add: s0_def open_list_def split: option.split)
  obtain u t where m: "emission R c d files (rec_state s0) = (Inr u, t)" and s': "s' = s0\<lparr>rec_state := t\<rparr>"
    using assms(2) by (auto simp: record_call_def s0_def [symmetric] run_emission_def split: prod.splits sum.splits)
  obtain vs where "ts_rows t = ts_rows (rec_state s0) @ vs"
    "written (te_nfc ?T) (te_sha ?T) (ts_rows (rec_state s0)) \<longrightarrow> written (te_nfc ?T) (te_sha ?T) (ts_rows (rec_state s0) @ vs)"
    by (rule emitsD [OF emits_emission [OF N] m])
  with assms(1) N rows show "written (te_nfc ?T) (te_sha ?T) (ts_rows (rec_state s'))"
    by (simp add: well_recorded_def s')
qed

interpretation trail: recorded "recording_env R env" "well_recorded R"
proof
  show "well_recorded R (traj_start (recording_env R env))"
    by (simp add: recording_env_def well_recorded_def fresh_recording_def written_empty)
qed (auto simp: recording_env_def intro: record_call_kept)

text \<open>C19: The controller and its trajectory writer together: in every state the controller can reach, whatever
  commands, failures, rollbacks and crashes led there, no transaction is open, the lifecycle tables satisfy their
  invariant, and every trajectory is a gapless hash chain of accepted events in which the provider events of each
  invocation follow their protocol.\<close>

theorem recorded_lifecycle:
  assumes "nfc_ok (te_nfc (rc_traj R))" "reachable (recording_env R env) w"
  shows "w_txn w = None \<and> lifecycle_ok (w_db w)
    \<and> log_ok (te_nfc (rc_traj R)) (te_sha (rc_traj R)) (ts_rows (rec_state (w_traj w)))
    \<and> protocol_ok (ts_rows (rec_state (w_traj w)))"
proof -
  have "written (te_nfc (rc_traj R)) (te_sha (rc_traj R)) (ts_rows (rec_state (w_traj w)))"
    using trail.reachable_keeps [OF assms(2)] assms(1) by (simp add: trail_ok_def well_recorded_def)
  then show ?thesis
    using reachable_stored [OF assms(2)] written_log_ok written_protocol_ok [OF assms(1)] by (simp add: stored_ok_def)
qed

end
