(* ===== verification/RecordSample.thy ===== *)
theory RecordSample
  imports Recording Sample TrajSample
begin

text \<open>The recorded controller on small inputs.\<close>

lemma trail_sha_ok: "sha_ok trail_hash"
proof -
  have "HEX_DIGEST (replicate 64 CHR ''a'')" by code_simp
  then show ?thesis by (simp add: sha_ok_def trail_hash_def)
qed

definition trail_writer :: traj_env where
  "trail_writer = \<lparr>te_nfc = (\<lambda>s. s), te_sha = trail_hash,
     te_uuid4 = (\<lambda>n. ''00000000-0000-4000-8000-00000000'' @ pad4 (int n)), te_uuid5 = (\<lambda>s. ''00000000-0000-5000-8000-000000000000''),
     te_mode = ''write''\<rparr>"


definition trail_result :: run_result where
  "trail_result = (base_result (Some 0) [] (Some ''approved'') ''success'' [] False)
     \<lparr>rr_usage_input := JInt 10, rr_started_at_ms := Some 5, rr_execution_receipt := JObj [(''usage_basis'', JStr ''per-turn'')]\<rparr>"

lemma trajectory_usage_accepted_witness:
  "validate_usage (te_nfc trail_writer) (trajectory_usage trail_writer trail_result) ''usage'' = Inr ()"
  using trajectory_usage_accepted [of trail_writer trail_result "''usage''"] nfc_ok_id trail_sha_ok
  by (simp add: trail_writer_def trail_result_def base_result_def)

definition trail_transition :: "string \<Rightarrow> transition_row" where
  "trail_transition outcome = \<lparr>x_task_id = ''t1'', x_seq = 2, x_operation_id = ''op-1'', x_run_token = None, x_stage = None,
     x_owner = None, x_edge = None, x_outcome = Some outcome, x_from_status = Some ''running'', x_to_status = ''queued'',
     x_reason = Some ''stage_committed'', x_at = 7\<rparr>"

lemma transition_body_accepted_witness:
  "validate_body (te_nfc trail_writer) ''task.transition.committed'' (transition_body trail_writer (trail_transition ''approved'')) [] = Inr ()
   \<and> validate_body (te_nfc trail_writer) ''task.transition.committed'' (transition_body trail_writer (trail_transition ''other'')) []
     \<noteq> Inr ()"
proof -
  have op: "IDENTIFIER ''op-1''" by code_simp
  show ?thesis
    using transition_body_accepted [of trail_writer "trail_transition ''approved''" "[]"]
      transition_body_accepted [of trail_writer "trail_transition ''other''" "[]"] nfc_ok_id trail_sha_ok op
    by (simp add: trail_writer_def trail_transition_def EVENT_TASK_STATUSES_def)
qed

definition trail_run :: run_row where
  "trail_run = \<lparr>r_run_token = ''r1'', r_task_id = ''t1'', r_stage = ''review'', r_cycle = 1, r_attempt = 1, r_owner = ''claude'',
     r_status = ''success'', r_lease_token = None, r_exit_code = Some 0, r_outcome = Some ''approved'', r_log_path = ''/h/l'',
     r_manifest_path = Some ''/h/tasks/t1/m.json'', r_manifest_hash = Some (trail_hash []), r_sealed = True, r_model = None,
     r_duration_ms = Some 3, r_usage_input = JNull, r_usage_output = JNull, r_usage_total = JNull, r_usage_unavailable = None,
     r_preflight_status = None, r_preflight_reason = None, r_started_at = 5, r_ended_at = Some 8\<rparr>"

definition trail_state :: traj_state where
  "trail_state = \<lparr>ts_rows = trail_rows, ts_uuids = 1, ts_in_transaction = True, ts_events = []\<rparr>"

definition trail_paths :: path_env where
  "trail_paths = \<lparr>pe_files = (\<lambda>p. None), pe_resolve = Some, pe_symlink = (\<lambda>p. False)\<rparr>"


definition trail_recorder :: recorder where
  "trail_recorder = \<lparr>rc_traj = trail_writer, rc_resolve = Some, rc_symlink = (\<lambda>p. False),
     rc_runner = (\<lambda>ow. \<lparr>rv_reviewer = False, rv_name = ''ConfiguredRunner'', rv_session = JNull, rv_protected = False\<rparr>), rc_clock = 9\<rparr>"

definition recorded_base :: "recording env" where
  "recorded_base = \<lparr>sha = sample_sha, uuid_of = (\<lambda>n. ''u'' @ str_of_int (int n)), time_of = int,
     iso_of = (\<lambda>n. ''now''), io_fails = (\<lambda>n. False), resolve_path = Some, home = ''/h'', traj_start = fresh_recording,
     traj_do = (\<lambda>c d f t. Inr t), parity = (\<lambda>b d t. None), runner_model = (\<lambda>ow. None), command_preview = (\<lambda>ow. ''run'')\<rparr>"

definition recorded_submitted :: "recording world" where
  "recorded_submitted = snd (submit (recording_env trail_recorder recorded_base) (pf_type sample_profile) (to_dict sample_profile)
     (Some ''hello'') ''.md'' (Some ''t1'') None None
     \<lparr>w_db = empty_db, w_traj = fresh_recording, w_txn = None, w_files = (\<lambda>p. None), w_dirs = [],
      w_uuids = 0, w_ticks = 0, w_ios = 0\<rparr>)"

lemma recorded_submitted_reachable: "reachable (recording_env trail_recorder recorded_base) recorded_submitted"
  unfolding recorded_submitted_def
  by (rule further [OF initial submitted]) (auto simp: recording_env_def intro: prod.collapse [symmetric])

lemma recorded_lifecycle_witness:
  "lifecycle_ok (w_db recorded_submitted) \<and> protocol_ok (ts_rows (rec_state (w_traj recorded_submitted)))"
  using recorded_lifecycle [OF _ recorded_submitted_reachable] nfc_ok_id by (simp add: trail_recorder_def trail_writer_def)

end
