(* ===== verification/Replay.thy ===== *)
theory Replay
  imports Emission
begin

text \<open>
  Freezing a trajectory and folding it into a projection (\<open>orchestrator/trajectory_replay.py\<close>): the snapshot of the
  event table, of the canonical rows and of the availability of the evidence; the reducer, which only looks at the snapshot;
  the rendering for an audience.  The dicts the reducer builds are JSON objects here, updated in the same order; what it returns
  is a record with the fields of \<open>ProjectionResult\<close>.  Python's \<open>==\<close> on decoded values is \<open>py_eq\<close>.
\<close>

section \<open>Values\<close>

text \<open>\<open>==\<close> identifies a boolean with the integer it is; a real number is compared by its literal.\<close>

fun plain_numbers :: "json \<Rightarrow> json" where
  "plain_numbers (JBool b) = JInt (if b then 1 else 0)"
| "plain_numbers (JArr xs) = JArr (map plain_numbers xs)"
| "plain_numbers (JObj kvs) = JObj (map (\<lambda>(k, v). (k, plain_numbers v)) kvs)"
| "plain_numbers v = v"

definition py_eq :: "json \<Rightarrow> json \<Rightarrow> bool" where
  "py_eq a b \<longleftrightarrow> json_eq (plain_numbers a) (plain_numbers b)"

text \<open>\<open>{**d, ...}\<close> and \<open>d.update(...)\<close>.\<close>

definition dict_update :: "(string \<times> json) list \<Rightarrow> (string \<times> json) list \<Rightarrow> (string \<times> json) list" where
  "dict_update d ps = fold (\<lambda>(k, v) d. dict_set k v d) ps d"

definition pick :: "string list \<Rightarrow> json \<Rightarrow> json" where
  "pick ks v = JObj (map (\<lambda>k. (k, field v k)) ks)"

datatype replay_error =
    ReplayTrajectory traj_error
  | ReplayTypeError
  | ReplayAttributeError
  | ReplayValueError

fun has_nan :: "json \<Rightarrow> bool" where
  "has_nan (JReal s) = (s \<in> set [''NaN'', ''Infinity'', ''-Infinity''])"
| "has_nan (JArr xs) = list_ex has_nan xs"
| "has_nan (JObj kvs) = list_ex (\<lambda>(k, v). has_nan v) kvs"
| "has_nan _ = False"

definition canonical_json_bytes :: "json \<Rightarrow> (replay_error, string) res" where
  "canonical_json_bytes v = (if has_nan v then Inl ReplayValueError else Inr (dumps v))"

definition sha_json :: "(string \<Rightarrow> string) \<Rightarrow> json \<Rightarrow> (replay_error, json) res" where
  "sha_json H v = bindR (canonical_json_bytes v) (\<lambda>b. Inr (JStr (''sha256:'' @ H b)))"

fun unhashable :: "json \<Rightarrow> bool" where
  "unhashable (JArr _) = True" | "unhashable (JObj _) = True" | "unhashable _ = False"

text \<open>\<open>v in {...}\<close> for a set of strings.\<close>

definition in_strings :: "json \<Rightarrow> string list \<Rightarrow> (replay_error, bool) res" where
  "in_strings v ws = (if unhashable v then Inl ReplayTypeError else Inr (v \<in> JStr ` set ws))"

section \<open>Vocabulary\<close>

definition SNAPSHOT_VERSION :: int where "SNAPSHOT_VERSION = 1"
definition PROJECTION_VERSION :: int where "PROJECTION_VERSION = 1"

definition AUDIENCES :: "string list" where
  "AUDIENCES = [''public'', ''internal'', ''sensitive'']"

definition UNSUPPORTED_DOMAINS :: "string list" where
  "UNSUPPORTED_DOMAINS = [''approval'', ''context'', ''gate'', ''join'', ''prompt'', ''subagent'', ''tool'']"

definition SENSITIVITY_RANK :: "string \<Rightarrow> nat" where
  "SENSITIVITY_RANK s = (if s = ''public'' then 0 else if s = ''internal'' then 1 else 2)"

definition STRUCTURAL_CODES :: "string list" where
  "STRUCTURAL_CODES =
     [''duplicate_event_id'', ''event_invalid'', ''evidence_corrupt'', ''evidence_inventory_mismatch'', ''hash_chain_broken'',
      ''parent_invalid'', ''provider_event_duplicate'', ''provider_event_unpaired'', ''run_identity_mismatch'', ''sequence_gap'',
      ''session_predecessor_invalid'', ''snapshot_invalid'', ''task_revision_regression'', ''trajectory_mismatch'']"

section \<open>Freezing\<close>

definition state_task :: "task_row \<Rightarrow> json" where
  "state_task t = JObj
     [(''id'', JStr (t_id t)), (''status'', JStr (t_status t)), (''stop_reason'', jopt_str (t_stop_reason t)),
      (''current_stage'', JStr (t_current_stage t)), (''owner'', jopt_str (t_owner t)), (''revision'', JInt (t_revision t)),
      (''profile_hash'', JStr (t_profile_hash t)), (''input_hash'', JStr (t_input_hash t)),
      (''transitions_count'', JInt (t_transitions_count t)), (''created_at'', JInt (t_created_at t)),
      (''updated_at'', JInt (t_updated_at t))]"

definition state_run :: "run_row \<Rightarrow> json" where
  "state_run r = JObj
     [(''run_token'', JStr (r_run_token r)), (''stage'', JStr (r_stage r)), (''cycle'', JInt (r_cycle r)),
      (''attempt'', JInt (r_attempt r)), (''owner'', JStr (r_owner r)), (''status'', JStr (r_status r)),
      (''outcome'', jopt_str (r_outcome r)), (''sealed'', JInt (if r_sealed r then 1 else 0)),
      (''manifest_hash'', jopt_str (r_manifest_hash r)), (''model'', jopt_str (r_model r)),
      (''duration_ms'', jopt_int (r_duration_ms r)), (''usage_input_tokens'', r_usage_input r),
      (''usage_output_tokens'', r_usage_output r), (''usage_total_tokens'', r_usage_total r),
      (''usage_unavailable_reason'', jopt_str (r_usage_unavailable r)), (''started_at'', JInt (r_started_at r)),
      (''ended_at'', jopt_int (r_ended_at r))]"

definition canonical_state :: "db \<Rightarrow> task_row \<Rightarrow> json" where
  "canonical_state d t = JObj
     [(''task'', state_task t),
      (''stage_runs'', JArr (map state_run (sort_key r_started_at (runs_of d (t_id t))))),
      (''transitions'', JArr (map transition_snapshot (sort_key x_seq (transitions_of d (t_id t)))))]"

text \<open>Whether a sealed file is still what its reference says.\<close>

definition availability :: "traj_env \<Rightarrow> path_env \<Rightarrow> string \<Rightarrow> json \<Rightarrow> string" where
  "availability T P root ref =
     (let relative = str_of (field ref ''relative_path''); names = posix_names relative;
          candidate = join_with ''/'' (root # names)
      in if posix_root relative \<noteq> [] \<or> names = [] \<or> ''..'' \<in> set names then ''corrupt''
         else if list_ex (pe_symlink P) (cursors root names) then ''corrupt''
         else case pe_files P candidate of
            None \<Rightarrow> if field ref ''retention_class'' = JStr ''ephemeral-ref'' then ''expired'' else ''unavailable''
          | Some content \<Rightarrow>
            (case pe_resolve P candidate of
               None \<Rightarrow> ''corrupt''
             | Some resolved \<Rightarrow>
               if relative_names resolved root = None then ''corrupt''
               else if field ref ''size_bytes'' \<noteq> JInt (int (length content)) then ''corrupt''
               else if field ref ''sha256'' = JStr (te_sha T content) then ''present'' else ''corrupt''))"

definition REF_KEYS :: "string list" where
  "REF_KEYS = [''ref_id'', ''kind'', ''sha256'', ''size_bytes'', ''media_type'', ''sensitivity'', ''retention_class'',
     ''availability_at_append'']"

definition inventory_item :: "traj_env \<Rightarrow> path_env \<Rightarrow> string \<Rightarrow> json \<Rightarrow> json" where
  "inventory_item T P root ref =
     JObj (entries (pick REF_KEYS ref) @ [(''availability'', JStr (availability T P root ref))])"

definition refs_of :: "json \<Rightarrow> json list" where
  "refs_of e = items_of (field e ''evidence_refs'')"

fun take_inventory :: "json list \<Rightarrow> (string \<times> json) list \<Rightarrow> (replay_error, (string \<times> json) list) res" where
  "take_inventory [] acc = Inr acc"
| "take_inventory (item # items) acc =
     (let i = str_of (field item ''ref_id'') in
      check (case map_of acc i of None \<Rightarrow> True | Some prior \<Rightarrow> py_eq prior item)
        (ReplayTrajectory (TrajectoryError ''evidence ref_id changed across events'')) (take_inventory items (dict_set i item acc)))"

definition raised :: "string \<Rightarrow> json \<Rightarrow> string" where
  "raised level v = (if SENSITIVITY_RANK level < SENSITIVITY_RANK (str_of (field v ''sensitivity'')) then str_of (field v ''sensitivity'')
     else level)"

text \<open>\<open>sorted\<close> on the keys of a dict.\<close>

definition by_key :: "(string \<times> 'a) list \<Rightarrow> 'a list" where
  "by_key d = map snd (sort_key fst d)"

definition read_event :: "traj_env \<Rightarrow> event_row \<Rightarrow> (replay_error, json) res" where
  "read_event T v =
     (case bindR (decode_row v) (\<lambda>e. bindR (canonical_event_bytes (te_nfc T) (te_sha T) e) (\<lambda>bytes. Inr (e, bytes))) of
        Inl e \<Rightarrow> Inl (ReplayTrajectory e)
      | Inr (e, bytes) \<Rightarrow>
        check (bytes = v_json v) (ReplayTrajectory (TrajectoryError ''stored trajectory event is not canonical'')) (Inr e))"

definition last_or_null :: "json list \<Rightarrow> string \<Rightarrow> json" where
  "last_or_null es k = (if es = [] then JNull else field (last es) k)"

definition manifest_json :: "json \<Rightarrow> int \<Rightarrow> json \<Rightarrow> json \<Rightarrow> json \<Rightarrow> json \<Rightarrow> json \<Rightarrow> json \<Rightarrow> json \<Rightarrow> json" where
  "manifest_json created event_count inventory_digest first_seq last_seq head ordered_digest sensitivity source = JObj
     [(''created_from'', created), (''event_count'', JInt event_count), (''evidence_inventory_digest'', inventory_digest),
      (''first_seq'', first_seq), (''last_seq'', last_seq), (''event_head_hash'', head),
      (''ordered_events_digest'', ordered_digest), (''sensitivity'', sensitivity), (''source_db_snapshot_hash'', source)]"

definition freeze_snapshot ::
  "traj_env \<Rightarrow> path_env \<Rightarrow> (string \<Rightarrow> string) \<Rightarrow> db \<Rightarrow> event_row list \<Rightarrow> string \<Rightarrow> int \<Rightarrow> (replay_error, json) res" where
  "freeze_snapshot T P resolve_dir d rows task_id captured_at =
     (case find_task d task_id of
        None \<Rightarrow> Inl (ReplayTrajectory (TrajectoryError ''trajectory task does not exist''))
      | Some t \<Rightarrow>
        let stored = trajectory_rows rows (''task:'' @ task_id); root = resolve_dir (t_artifact_dir t);
            created = JStr ''live-acquisition'';
            ordered = JArr (map (\<lambda>v. JStr (v_json v)) stored)
        in bindR (mapR (read_event T) stored)
         (\<lambda>events. bindR (take_inventory (map (inventory_item T P root) (concat (map refs_of events))) [])
          (\<lambda>by_id.
            let inventory = JArr (by_key by_id); state = canonical_state d t;
                sensitivity = fold (\<lambda>v level. raised level v) (concat (map (\<lambda>e. e # refs_of e) events)) ''internal''
            in bindR (sha_json (te_sha T) inventory)
             (\<lambda>inventory_digest. bindR (sha_json (te_sha T) state)
              (\<lambda>source. bindR (sha_json (te_sha T) ordered)
               (\<lambda>ordered_digest.
                 let first_seq = (if events = [] then JNull else field (hd events) ''seq'');
                     head = last_or_null events ''event_hash'';
                     manifest = manifest_json created (int (length events)) inventory_digest first_seq
                       (last_or_null events ''seq'') head ordered_digest (JStr sensitivity) source;
                     snapshot =
                       [(''snapshot_version'', JInt SNAPSHOT_VERSION), (''trajectory_id'', JStr (''task:'' @ task_id)),
                        (''captured_at_ms'', JInt captured_at), (''created_from'', created), (''ordered_events'', ordered),
                        (''event_head_hash'', head), (''evidence_inventory'', inventory), (''canonical_state'', state),
                        (''source_db_snapshot_hash'', source), (''sensitivity'', JStr sensitivity), (''manifest'', manifest)]
                 in bindR (sha_json (te_sha T) (JObj snapshot))
                     (\<lambda>digest. Inr (JObj (snapshot @ [(''snapshot_digest'', digest)])))))))))"

section \<open>The result\<close>

record diagnostic =
  dg_code :: string
  dg_seq :: json
  dg_event :: json
  dg_expected :: json
  dg_actual :: json

record unknown_fact =
  uk_code :: string
  uk_seq :: json
  uk_event :: json
  uk_ref :: json

record projection =
  pj_version :: int
  pj_trajectory :: json
  pj_head :: json
  pj_integrity :: string
  pj_completeness :: string
  pj_task :: "(string \<times> json) list option"
  pj_attempts :: "json list"
  pj_invocations :: "json list"
  pj_sessions :: "json list"
  pj_evidence :: "json list"
  pj_boundaries :: "json list"
  pj_usage :: "(string \<times> json list) list"
  pj_unsupported :: "string list"
  pj_unknowns :: "unknown_fact list"
  pj_diagnostics :: "diagnostic list"
  pj_manifest :: json

definition diag :: "string \<Rightarrow> json \<Rightarrow> json \<Rightarrow> json \<Rightarrow> diagnostic" where
  "diag code e expected actual =
     \<lparr>dg_code = code, dg_seq = field e ''seq'', dg_event = field e ''event_id'', dg_expected = expected, dg_actual = actual\<rparr>"

definition plain_diag :: "string \<Rightarrow> diagnostic" where
  "plain_diag code = diag code JNull JNull JNull"

definition event_diag :: "bool \<Rightarrow> string \<Rightarrow> json \<Rightarrow> diagnostic list" where
  "event_diag b code e = (if b then [diag code e JNull JNull] else [])"

definition an_unknown :: "string \<Rightarrow> json \<Rightarrow> json \<Rightarrow> unknown_fact" where
  "an_unknown code e ref = \<lparr>uk_code = code, uk_seq = field e ''seq'', uk_event = field e ''event_id'', uk_ref = ref\<rparr>"

definition empty_projection :: "string \<Rightarrow> json \<Rightarrow> projection" where
  "empty_projection code trajectory =
     \<lparr>pj_version = PROJECTION_VERSION, pj_trajectory = trajectory, pj_head = JNull, pj_integrity = ''corrupt'',
      pj_completeness = ''incomplete'', pj_task = None, pj_attempts = [], pj_invocations = [], pj_sessions = [],
      pj_evidence = [], pj_boundaries = [], pj_usage = [], pj_unsupported = UNSUPPORTED_DOMAINS, pj_unknowns = [],
      pj_diagnostics = [plain_diag code], pj_manifest = JNull\<rparr>"

section \<open>Reading the events back\<close>

definition snapshot_event :: "traj_env \<Rightarrow> json \<Rightarrow> json option" where
  "snapshot_event T raw =
     (case raw of
        JStr s \<Rightarrow>
          (case loads s of
             None \<Rightarrow> None
           | Some e \<Rightarrow> (case canonical_event_bytes (te_nfc T) (te_sha T) e of Inr b \<Rightarrow> if b = s then Some e else None | Inl _ \<Rightarrow> None))
      | _ \<Rightarrow> None)"

definition snapshot_events :: "traj_env \<Rightarrow> json \<Rightarrow> json list \<times> diagnostic list" where
  "snapshot_events T snapshot =
     (case field snapshot ''ordered_events'' of
        JArr raws \<Rightarrow> (List.map_filter (snapshot_event T) raws,
          concat (map (\<lambda>raw. if snapshot_event T raw = None then [plain_diag ''event_invalid''] else []) raws))
      | _ \<Rightarrow> ([], [plain_diag ''snapshot_invalid'']))"

section \<open>The chain\<close>

text \<open>The parent and the causes.\<close>

definition refers_to :: "json \<Rightarrow> json list" where
  "refers_to e = field e ''parent_event_id'' # items_of (field e ''causal_event_ids'')"

definition chain_diags :: "json \<Rightarrow> int \<Rightarrow> json list \<Rightarrow> json \<Rightarrow> json \<Rightarrow> diagnostic list" where
  "chain_diags trajectory expected_seq seen prev e =
     event_diag (field e ''trajectory_id'' \<noteq> trajectory) ''trajectory_mismatch'' e
     @ event_diag (field e ''seq'' \<noteq> JInt expected_seq) ''sequence_gap'' e
     @ event_diag (field e ''event_id'' \<in> set seen) ''duplicate_event_id'' e
     @ (if field e ''prev_event_hash'' \<noteq> prev then [diag ''hash_chain_broken'' e prev (field e ''prev_event_hash'')] else [])
     @ event_diag (list_ex (\<lambda>r. r \<noteq> JNull \<and> r \<notin> set seen) (refers_to e)) ''parent_invalid'' e"

text \<open>\<open>seen\<close>: the identifiers so far, which are also the keys of \<open>by_id\<close>.\<close>

fun chain_pass :: "json \<Rightarrow> int \<Rightarrow> json list \<Rightarrow> json \<Rightarrow> json list \<Rightarrow> diagnostic list" where
  "chain_pass trajectory q seen prev [] = []"
| "chain_pass trajectory q seen prev (e # es) =
     (if set (keys (entries e)) \<noteq> set TOP_LEVEL_KEYS
      then diag ''event_invalid'' e JNull JNull # chain_pass trajectory (q + 1) seen prev es
      else chain_diags trajectory q seen prev e
        @ chain_pass trajectory (q + 1) (field e ''event_id'' # seen) (field e ''event_hash'') es)"

text \<open>The canonical runs by token; a token that is missing, no text or repeated is reported.\<close>

fun canonical_runs :: "json list \<Rightarrow> (string \<times> json) list \<Rightarrow> (string \<times> json) list \<times> diagnostic list" where
  "canonical_runs [] acc = (acc, [])"
| "canonical_runs (item # items) acc =
     (let token = str_of (field item ''run_token'') in
      if token = [] \<or> token \<in> fst ` set acc
      then (let (runs, ds) = canonical_runs items acc in (runs, plain_diag ''snapshot_invalid'' # ds))
      else canonical_runs items (acc @ [(token, item)]))"

section \<open>The fold\<close>

record fold_state =
  fs_diags :: "diagnostic list"
  fs_attempts :: "(string \<times> (string \<times> json) list) list"
  fs_invocations :: "(string \<times> (string \<times> json) list) list"
  fs_sessions :: "json list"
  fs_boundaries :: "json list"
  fs_usage :: "(string \<times> json list) list"
  fs_task :: "(string \<times> json) list option"
  fs_baseline :: "(string \<times> json) list option"
  fs_revision :: "int option"

definition fold_start :: "diagnostic list \<Rightarrow> fold_state" where
  "fold_start ds = \<lparr>fs_diags = ds, fs_attempts = [], fs_invocations = [], fs_sessions = [], fs_boundaries = [], fs_usage = [],
     fs_task = None, fs_baseline = None, fs_revision = None\<rparr>"

definition report :: "bool \<Rightarrow> string \<Rightarrow> json \<Rightarrow> fold_state \<Rightarrow> fold_state" where
  "report b code e s = s\<lparr>fs_diags := fs_diags s @ event_diag b code e\<rparr>"

definition revision_of :: "json \<Rightarrow> json" where
  "revision_of e = field (field e ''task'') ''revision''"

definition run_mismatch :: "(string \<times> json) list \<Rightarrow> json \<Rightarrow> bool" where
  "run_mismatch runs e =
     (let run = field e ''run'' in
      run \<noteq> JNull \<and> (case map_of runs (str_of (field run ''run_token'')) of
         None \<Rightarrow> True
       | Some r \<Rightarrow> list_ex (\<lambda>k. \<not> py_eq (field r k) (field run k)) [''run_token'', ''stage'', ''cycle'', ''attempt'']))"

definition fold_common :: "(string \<times> json) list \<Rightarrow> json \<Rightarrow> fold_state \<Rightarrow> fold_state" where
  "fold_common runs e s =
     (let revision = int_of (revision_of e);
          s1 = report (case fs_revision s of None \<Rightarrow> False | Some before \<Rightarrow> revision < before) ''task_revision_regression'' e s
      in report (run_mismatch runs e) ''run_identity_mismatch'' e (s1\<lparr>fs_revision := Some revision\<rparr>))"

definition set_task :: "(string \<times> json) list \<Rightarrow> (string \<times> json) list \<Rightarrow> fold_state \<Rightarrow> fold_state" where
  "set_task fresh update s =
     s\<lparr>fs_task := Some (case fs_task s of None \<Rightarrow> fresh | Some t \<Rightarrow> dict_update t update)\<rparr>"

definition task_entry :: "json \<Rightarrow> json \<Rightarrow> json \<Rightarrow> (string \<times> json) list" where
  "task_entry e status transition_seq =
     [(''task_id'', field (field e ''task'') ''task_id''), (''revision'', revision_of e), (''status'', status),
      (''transition_seq'', transition_seq)]"

definition fold_created :: "json \<Rightarrow> fold_state \<Rightarrow> fold_state" where
  "fold_created e s = s\<lparr>fs_task := Some (task_entry e (JStr ''queued'') JNull)\<rparr>"

definition fold_baseline :: "json \<Rightarrow> fold_state \<Rightarrow> fold_state" where
  "fold_baseline e s =
     (let body = field e ''body''; through = field body ''coverage_through_transition_seq'' in
      set_task (task_entry e JNull through) [(''revision'', revision_of e), (''transition_seq'', through)]
        (s\<lparr>fs_baseline := Some [(''baseline_id'', field body ''baseline_id''), (''coverage_through_transition_seq'', through),
                                (''missing_domains'', field body ''missing_domains'')]\<rparr>))"

definition fold_transition :: "json \<Rightarrow> fold_state \<Rightarrow> fold_state" where
  "fold_transition e s =
     (let body = field e ''body'' in
      set_task (task_entry e (field body ''to_status'') (field body ''transition_seq''))
        [(''revision'', revision_of e), (''status'', field body ''to_status''), (''transition_seq'', field body ''transition_seq'')] s)"

definition run_token_of :: "json \<Rightarrow> string" where
  "run_token_of e = str_of (field (field e ''run'') ''run_token'')"

definition fold_claimed :: "json \<Rightarrow> fold_state \<Rightarrow> fold_state" where
  "fold_claimed e s =
     (let entry = dict_update (entries (field e ''run''))
            [(''status'', JStr ''running''), (''classification'', JNull), (''outcome_code'', JNull), (''outcome_digest'', JNull),
             (''sealed'', JBool False), (''manifest_hash'', JNull)]
      in s\<lparr>fs_attempts := dict_set (run_token_of e) entry (fs_attempts s),
           fs_task := map_option (\<lambda>t. dict_update t [(''revision'', revision_of e), (''status'', JStr ''running'')]) (fs_task s)\<rparr>)"

definition sealed_hash :: "json \<Rightarrow> json" where
  "sealed_hash e =
     (case remdups (map (\<lambda>r. field (field r ''seal'') ''manifest_hash'')
         (filter (\<lambda>r. field r ''kind'' = JStr ''run-manifest''
                    \<and> field (field r ''seal'') ''kind'' = JStr ''db-committed-run-manifest'') (refs_of e))) of
        [h] \<Rightarrow> h | _ \<Rightarrow> JNull)"

definition append_to :: "string \<Rightarrow> json \<Rightarrow> (string \<times> json list) list \<Rightarrow> (string \<times> json list) list" where
  "append_to k v d = dict_set k ((case map_of d k of None \<Rightarrow> [] | Some vs \<Rightarrow> vs) @ [v]) d"

definition fold_settled :: "json \<Rightarrow> fold_state \<Rightarrow> fold_state" where
  "fold_settled e s =
     (let token = run_token_of e; body = field e ''body''; usage = field body ''usage'';
          before = (case map_of (fs_attempts s) token of None \<Rightarrow> entries (field e ''run'') | Some a \<Rightarrow> a);
          status = (if field body ''classification'' \<in> JStr ` set [''success'', ''waiting_user'']
                    then JStr ''committed'' else field body ''classification'');
          entry = dict_update before
            [(''status'', status), (''classification'', field body ''classification''), (''outcome_code'', field body ''outcome_code''),
             (''outcome_digest'', field body ''outcome_digest''), (''elapsed_ms'', field body ''elapsed_ms''), (''usage'', usage),
             (''sealed'', field body ''sealed''), (''manifest_hash'', sealed_hash e)]
      in s\<lparr>fs_attempts := dict_set token entry (fs_attempts s),
           fs_usage := append_to (str_of (field usage ''basis''))
             (JObj [(''event_id'', field e ''event_id''), (''run_token'', JStr token), (''input_tokens'', field usage ''input_tokens''),
                    (''output_tokens'', field usage ''output_tokens''), (''total_tokens'', field usage ''total_tokens'')])
             (fs_usage s)\<rparr>)"

definition session_or :: "json \<Rightarrow> (string \<times> json) list \<Rightarrow> json" where
  "session_or e item = (if truthy (field e ''session_ref'') then field e ''session_ref'' else jget item ''session_ref'')"

definition fold_provider :: "string \<Rightarrow> json \<Rightarrow> fold_state \<Rightarrow> fold_state" where
  "fold_provider kind e s =
     (let call = str_of (field e ''invocation_id''); prior = map_of (fs_invocations s) call; body = field e ''body'';
          put = (\<lambda>item s. s\<lparr>fs_invocations := dict_set call item (fs_invocations s)\<rparr>)
      in if kind = ''provider.dispatch_intent''
         then put [(''invocation_id'', field e ''invocation_id''), (''run_token'', field (field e ''run'') ''run_token''),
                   (''provider'', field (field e ''actor'') ''provider''), (''model'', field (field e ''actor'') ''model''),
                   (''session_ref'', field e ''session_ref''), (''dispatch_state'', JStr ''unknown''),
                   (''result_state'', JStr ''unknown''), (''intent_event_id'', field e ''event_id'')]
                (report (prior \<noteq> None) ''provider_event_duplicate'' e s)
         else case prior of
            None \<Rightarrow> report True ''provider_event_unpaired'' e s
          | Some item \<Rightarrow>
            if kind = ''provider.dispatched''
            then put (dict_update item [(''dispatch_state'', JStr ''dispatched''), (''session_ref'', session_or e item),
                                        (''dispatched_event_id'', field e ''event_id'')])
                   (report (''dispatched_event_id'' \<in> set (keys item)) ''provider_event_duplicate'' e s)
            else
              let s1 = put (dict_update item [(''result_state'', field body ''result_class''), (''session_ref'', session_or e item),
                                              (''settled_event_id'', field e ''event_id''), (''elapsed_ms'', field body ''elapsed_ms''),
                                              (''usage'', field body ''usage'')])
                         (report (''settled_event_id'' \<in> set (keys item)) ''provider_event_duplicate'' e s)
              in if field body ''final_response_ref'' = JNull then s1
                 else s1\<lparr>fs_boundaries := fs_boundaries s1 @
                   [JObj [(''event_seq'', field e ''seq''), (''event_id'', field e ''event_id''),
                          (''invocation_id'', field e ''invocation_id''), (''final_response_ref'', field body ''final_response_ref'')]]\<rparr>)"

text \<open>The last session event with this identifier.\<close>

definition session_event :: "json list \<Rightarrow> json \<Rightarrow> json option" where
  "session_event sessions event_id = find (\<lambda>i. field i ''event_id'' = event_id) (rev sessions)"

definition session_item :: "json \<Rightarrow> json" where
  "session_item e =
     (let body = field e ''body'' in
      JObj [(''event_id'', field e ''event_id''), (''event_type'', JStr (event_type_of e)), (''session_ref'', field e ''session_ref''),
        (''predecessor_event_id'', field body ''predecessor_event_id''), (''role'', field body ''role''),
        (''reason_code'', field body ''reason_code''), (''binding_ref'', field body ''binding_ref''),
        (''checkpoint_ref'', field body ''checkpoint_ref'')])"

definition fold_session :: "json \<Rightarrow> fold_state \<Rightarrow> fold_state" where
  "fold_session e s =
     (let broken = (event_type_of e = ''session.rebound'' \<and>
            (case session_event (fs_sessions s) (field (field e ''body'') ''predecessor_event_id'') of
               None \<Rightarrow> True | Some p \<Rightarrow> field p ''session_ref'' = field e ''session_ref''));
          s1 = report broken ''session_predecessor_invalid'' e s
      in s1\<lparr>fs_sessions := fs_sessions s1 @ [session_item e]\<rparr>)"

definition fold_event :: "(string \<times> json) list \<Rightarrow> json \<Rightarrow> fold_state \<Rightarrow> fold_state" where
  "fold_event runs e s =
     (let kind = event_type_of e; s1 = fold_common runs e s in
      if kind = ''task.created'' then fold_created e s1
      else if kind = ''migration.baseline'' then fold_baseline e s1
      else if kind = ''task.transition.committed'' then fold_transition e s1
      else if kind = ''stage.claimed'' then fold_claimed e s1
      else if kind = ''stage.settled'' then fold_settled e s1
      else if starts_with ''provider.'' kind then fold_provider kind e s1
      else if kind \<in> set [''session.bound'', ''session.rebound''] then fold_session e s1
      else s1)"

section \<open>Against the canonical rows\<close>

text \<open>The outcome of a canonical run as an attempt records it.\<close>

definition expected_outcome :: "traj_env \<Rightarrow> json \<Rightarrow> (replay_error, json \<times> json) res" where
  "expected_outcome T outcome =
     (if outcome = JNull then Inr (JNull, JNull)
      else bindR (in_strings outcome OUTCOME_CODES)
        (\<lambda>known. let code = (if known then outcome else JStr ''other'') in
           if code = JStr ''other''
           then (case outcome of JStr s \<Rightarrow> Inr (code, JStr (digest_text T s)) | _ \<Rightarrow> Inl ReplayAttributeError)
           else Inr (code, JNull)))"

definition ATTEMPT_KEYS :: "string list" where
  "ATTEMPT_KEYS = [''run_token'', ''stage'', ''cycle'', ''attempt'', ''status'', ''outcome_code'', ''outcome_digest'', ''sealed'',
     ''manifest_hash'']"

definition expected_attempt :: "traj_env \<Rightarrow> json \<Rightarrow> (replay_error, json) res" where
  "expected_attempt T r =
     bindR (expected_outcome T (field r ''outcome''))
      (\<lambda>(code, digest). Inr (JObj
        [(''run_token'', field r ''run_token''), (''stage'', field r ''stage''), (''cycle'', field r ''cycle''),
         (''attempt'', field r ''attempt''), (''status'', field r ''status''), (''outcome_code'', code),
         (''outcome_digest'', digest), (''sealed'', JBool (truthy (field r ''sealed''))),
         (''manifest_hash'', field r ''manifest_hash'')]))"

definition mismatch_diag :: "traj_env \<Rightarrow> json \<Rightarrow> json \<Rightarrow> (replay_error, diagnostic list) res" where
  "mismatch_diag T expected actual =
     bindR (sha_json (te_sha T) expected)
      (\<lambda>h. bindR (sha_json (te_sha T) actual) (\<lambda>h'. Inr [diag ''canonical_mismatch'' JNull h h']))"

definition attempt_diags ::
  "traj_env \<Rightarrow> (string \<times> json) list \<Rightarrow> string \<times> (string \<times> json) list \<Rightarrow> (replay_error, diagnostic list) res" where
  "attempt_diags T runs a =
     (case map_of runs (fst a) of
        None \<Rightarrow> Inr []
      | Some r \<Rightarrow>
        bindR (expected_attempt T r)
         (\<lambda>expected. let actual = pick ATTEMPT_KEYS (JObj (snd a)) in
            if py_eq actual expected then Inr [] else mismatch_diag T expected actual))"

definition invocation_unknowns :: "json list \<Rightarrow> (string \<times> (string \<times> json) list) list \<Rightarrow> unknown_fact list" where
  "invocation_unknowns events calls =
     concat (map (\<lambda>(call, item).
       let e = (case find (\<lambda>e. event_type_of e = ''provider.dispatch_intent'' \<and> field e ''invocation_id'' = JStr call) (rev events) of
                  None \<Rightarrow> JNull | Some e \<Rightarrow> e)
       in (if jget item ''result_state'' = JStr ''unknown'' then [an_unknown ''provider_result_unknown'' e JNull] else [])
          @ (if jget item ''dispatch_state'' = JStr ''unknown'' then [an_unknown ''provider_handoff_unknown'' e JNull] else []))
       (sort_key fst calls))"

text \<open>The references of the events by identifier: the last one counts, a changed one is reported.\<close>

fun event_refs :: "(json \<times> json) list \<Rightarrow> (string \<times> json) list \<Rightarrow> (string \<times> json) list \<times> diagnostic list" where
  "event_refs [] acc = (acc, [])"
| "event_refs ((e, ref) # rest) acc =
     (let i = str_of (field ref ''ref_id''); comparable = pick REF_KEYS ref;
          changed = (case map_of acc i of None \<Rightarrow> False | Some prior \<Rightarrow> prior \<noteq> comparable);
          (refs, ds) = event_refs rest (dict_set i comparable acc)
      in (refs, event_diag changed ''evidence_inventory_mismatch'' e @ ds))"

definition INVENTORY_KEYS :: "string list" where
  "INVENTORY_KEYS = REF_KEYS @ [''availability'']"

definition inventory_shape :: "json \<Rightarrow> bool" where
  "inventory_shape item \<longleftrightarrow> (case item of JObj kvs \<Rightarrow> set (keys kvs) = set INVENTORY_KEYS \<and> is_str (jget kvs ''ref_id'') | _ \<Rightarrow> False)"

definition item_facts :: "json list \<Rightarrow> json \<Rightarrow> (replay_error, diagnostic list \<times> unknown_fact list) res" where
  "item_facts events item =
     (let a = field item ''availability'' in
      if a = JStr ''corrupt''
      then (case field item ''sha256'' of
              JStr h \<Rightarrow> Inr ([diag ''evidence_corrupt'' JNull (JStr (''sha256:'' @ h)) JNull], [])
            | _ \<Rightarrow> Inl ReplayTypeError)
      else bindR (in_strings a [''unavailable'', ''expired''])
        (\<lambda>absent. if \<not> absent then Inr ([], [])
           else case find (\<lambda>e. field item ''ref_id'' \<in> set (map (\<lambda>r. field r ''ref_id'') (refs_of e))) events of
               None \<Rightarrow> Inr ([], [])
             | Some e \<Rightarrow> Inr ([], [an_unknown (if a = JStr ''expired'' then ''evidence_expired'' else ''evidence_unavailable'')
                                    e (field item ''ref_id'')])))"

fun inventory_pass ::
  "json list \<Rightarrow> json list \<Rightarrow> (string \<times> json) list \<Rightarrow> diagnostic list \<Rightarrow> unknown_fact list \<Rightarrow>
   (replay_error, (string \<times> json) list \<times> diagnostic list \<times> unknown_fact list) res" where
  "inventory_pass events [] acc ds us = Inr (acc, ds, us)"
| "inventory_pass events (item # items) acc ds us =
     (if \<not> inventory_shape item then inventory_pass events items acc (ds @ [plain_diag ''snapshot_invalid'']) us
      else bindR (item_facts events item)
        (\<lambda>(d, u). inventory_pass events items (dict_set (str_of (field item ''ref_id'')) item acc) (ds @ d) (us @ u)))"

definition inventory_diags :: "(string \<times> json) list \<Rightarrow> (string \<times> json) list \<Rightarrow> diagnostic list" where
  "inventory_diags inventory refs =
     (if fst ` set inventory \<noteq> fst ` set refs then [plain_diag ''evidence_inventory_mismatch'']
      else if list_ex (\<lambda>(i, expected). \<not> py_eq (pick REF_KEYS (case map_of inventory i of None \<Rightarrow> JNull | Some a \<Rightarrow> a)) expected) refs
      then [plain_diag ''evidence_inventory_mismatch''] else [])"

definition task_diags :: "traj_env \<Rightarrow> (string \<times> json) list option \<Rightarrow> json \<Rightarrow> (replay_error, diagnostic list) res" where
  "task_diags T lifecycle task =
     (case lifecycle of
        None \<Rightarrow> Inr [plain_diag ''canonical_mismatch'']
      | Some t \<Rightarrow>
        let pair = (\<lambda>v. pick [''status'', ''revision''] v) in
        if jget t ''status'' \<noteq> JNull \<and> \<not> (py_eq (jget t ''status'') (field task ''status'') \<and> py_eq (jget t ''revision'') (field task ''revision''))
        then mismatch_diag T (pair task) (pair (JObj t)) else Inr [])"

text \<open>Every canonical transition after the baseline has its event.\<close>

definition transition_diags :: "json list \<Rightarrow> (string \<times> json) list option \<Rightarrow> json list \<Rightarrow> diagnostic list" where
  "transition_diags events baseline transitions =
     (let canonical = List.map_filter as_int (map (\<lambda>x. field x ''seq'') transitions);
          live = map (\<lambda>e. int_of (field (field e ''body'') ''transition_seq''))
                   (filter (\<lambda>e. event_type_of e = ''task.transition.committed'') events);
          through = (case baseline of None \<Rightarrow> 0 | Some b \<Rightarrow> int_of (jget b ''coverage_through_transition_seq''))
      in if list_all (\<lambda>q. q \<le> through \<or> q \<in> set live) canonical then [] else [plain_diag ''canonical_mismatch''])"

section \<open>The projection\<close>

definition integrity :: "diagnostic list \<Rightarrow> unknown_fact list \<Rightarrow> string" where
  "integrity ds us =
     (if list_ex (\<lambda>g. dg_code g \<in> set STRUCTURAL_CODES) ds then ''corrupt''
      else if list_ex (\<lambda>g. dg_code g = ''canonical_mismatch'') ds then ''mismatch''
      else if us \<noteq> [] then ''incomplete'' else ''ok'')"

definition completeness :: "bool \<Rightarrow> string \<Rightarrow> unknown_fact list \<Rightarrow> string" where
  "completeness baseline status us =
     (if us \<noteq> [] \<or> status \<in> set [''corrupt'', ''mismatch''] then ''incomplete''
      else if baseline then ''partial'' else ''complete'')"

definition SNAPSHOT_KEYS :: "string list" where
  "SNAPSHOT_KEYS =
     [''snapshot_version'', ''trajectory_id'', ''captured_at_ms'', ''created_from'', ''ordered_events'', ''event_head_hash'',
      ''evidence_inventory'', ''canonical_state'', ''source_db_snapshot_hash'', ''sensitivity'', ''manifest'', ''snapshot_digest'']"

definition objects_of :: "json \<Rightarrow> json list option" where
  "objects_of v = (case v of JArr xs \<Rightarrow> if list_all (\<lambda>x. case x of JObj _ \<Rightarrow> True | _ \<Rightarrow> False) xs then Some xs else None | _ \<Rightarrow> None)"

text \<open>The task, the runs and the transitions of a well-shaped canonical state.\<close>

definition state_parts :: "json \<Rightarrow> (json \<times> json list \<times> json list) option" where
  "state_parts state =
     (case state of
        JObj kvs \<Rightarrow>
          if set (keys kvs) = set [''task'', ''stage_runs'', ''transitions'']
          then (case (jget kvs ''task'', objects_of (jget kvs ''stage_runs''), objects_of (jget kvs ''transitions'')) of
                  (JObj t, Some runs, Some xs) \<Rightarrow> Some (JObj t, runs, xs) | _ \<Rightarrow> None)
          else None
      | _ \<Rightarrow> None)"

text \<open>The checks that refuse a snapshot, in order; \<open>Inr (Some p)\<close> is a refusal.\<close>

definition refuse_binding :: "traj_env \<Rightarrow> (string \<times> json) list \<Rightarrow> json \<Rightarrow> (replay_error, projection option) res" where
  "refuse_binding T s state =
     (let tid = jget s ''trajectory_id''; no = Some (empty_projection ''snapshot_invalid'' tid) in
      case tid of
        JStr i \<Rightarrow>
          if \<not> starts_with ''task:'' i then Inr no
          else bindR (in_strings (jget s ''created_from'') [''live-acquisition'', ''test-fixture'', ''legacy-baseline''])
           (\<lambda>created. if \<not> created then Inr no
             else bindR (in_strings (jget s ''sensitivity'') SENSITIVITIES)
              (\<lambda>level. if \<not> level then Inr no
                else bindR (sha_json (te_sha T) state)
                 (\<lambda>h. Inr (if py_eq (jget s ''source_db_snapshot_hash'') h then None else no))))
      | _ \<Rightarrow> Inr no)"

text \<open>What the manifest must be, from the events and the inventory.\<close>

definition manifest_diags :: "traj_env \<Rightarrow> (string \<times> json) list \<Rightarrow> json list \<Rightarrow> json list \<Rightarrow> (replay_error, diagnostic list) res" where
  "manifest_diags T s events inventory =
     bindR (sha_json (te_sha T) (JArr inventory))
      (\<lambda>inventory_digest. bindR (sha_json (te_sha T) (jget s ''ordered_events''))
       (\<lambda>ordered_digest.
         let first_seq = (if events = [] then JNull else field (hd events) ''seq'');
             head = last_or_null events ''event_hash'';
             manifest = manifest_json (jget s ''created_from'') (int (length events)) inventory_digest first_seq
               (last_or_null events ''seq'') head ordered_digest (jget s ''sensitivity'') (jget s ''source_db_snapshot_hash'')
         in Inr (if py_eq (jget s ''manifest'') manifest \<and> py_eq (jget s ''event_head_hash'') head then []
                 else [plain_diag ''snapshot_invalid''])))"

text \<open>The comparisons after the fold, and the result.\<close>

definition finish_projection ::
  "traj_env \<Rightarrow> (string \<times> json) list \<Rightarrow> json list \<Rightarrow> json list \<Rightarrow> (string \<times> json) list \<Rightarrow> json \<Rightarrow> json list \<Rightarrow> fold_state \<Rightarrow>
   (replay_error, projection) res" where
  "finish_projection T s events inventory by_token task transitions f =
     bindR (mapR (attempt_diags T by_token) (fs_attempts f))
      (\<lambda>ds4. let (refs, ds5) = event_refs (concat (map (\<lambda>e. map (Pair e) (refs_of e)) events)) [] in
       bindR (inventory_pass events inventory [] [] (invocation_unknowns events (fs_invocations f)))
        (\<lambda>(by_ref, ds6, unknowns). bindR (task_diags T (fs_task f) task)
         (\<lambda>ds7.
           let ds = fs_diags f @ concat ds4 @ ds5 @ ds6 @ inventory_diags by_ref refs @ ds7
                  @ transition_diags events (fs_baseline f) transitions;
               status = integrity ds unknowns
           in Inr \<lparr>pj_version = PROJECTION_VERSION, pj_trajectory = jget s ''trajectory_id'', pj_head = jget s ''event_head_hash'',
                   pj_integrity = status, pj_completeness = completeness (fs_baseline f \<noteq> None) status unknowns,
                   pj_task = fs_task f, pj_attempts = by_key (map (\<lambda>(k, a). (k, JObj a)) (fs_attempts f)),
                   pj_invocations = by_key (map (\<lambda>(k, a). (k, JObj a)) (fs_invocations f)), pj_sessions = fs_sessions f,
                   pj_evidence = by_key by_ref, pj_boundaries = fs_boundaries f, pj_usage = sort_key fst (fs_usage f),
                   pj_unsupported = UNSUPPORTED_DOMAINS, pj_unknowns = unknowns, pj_diagnostics = ds,
                   pj_manifest = jget s ''manifest''\<rparr>)))"

definition fold_projection ::
  "traj_env \<Rightarrow> (string \<times> json) list \<Rightarrow> json \<times> json list \<times> json list \<Rightarrow> (replay_error, projection) res" where
  "fold_projection T s parts =
     (let (task, runs, transitions) = parts;
          tid = jget s ''trajectory_id'';
          (events, ds0) = snapshot_events T (JObj s);
          ds1 = ds0 @ chain_pass tid 1 [] JNull events
      in case jget s ''evidence_inventory'' of
         JArr inventory \<Rightarrow>
           bindR (manifest_diags T s events inventory)
            (\<lambda>ds2. let (by_token, ds3) = canonical_runs runs [] in
              finish_projection T s events inventory by_token task transitions
                (fold (fold_event by_token) events (fold_start (ds1 @ ds2 @ ds3))))
       | _ \<Rightarrow> Inr (empty_projection ''snapshot_invalid'' tid))"

definition reduce_snapshot :: "traj_env \<Rightarrow> json \<Rightarrow> int \<Rightarrow> string list \<Rightarrow> (replay_error, projection) res" where
  "reduce_snapshot T snapshot version audience =
     (let name = (\<lambda>v. if is_str v then v else JNull) in
      if version \<noteq> PROJECTION_VERSION then Inr (empty_projection ''snapshot_version_unsupported'' JNull)
      else if audience = [] \<or> \<not> set audience \<subseteq> set AUDIENCES then Inr (empty_projection ''snapshot_invalid'' JNull)
      else case snapshot of
        JObj s \<Rightarrow>
          if set (keys s) \<noteq> set SNAPSHOT_KEYS then Inr (empty_projection ''snapshot_invalid'' JNull)
          else if \<not> py_eq (jget s ''snapshot_version'') (JInt SNAPSHOT_VERSION)
          then Inr (empty_projection ''snapshot_version_unsupported'' (name (jget s ''trajectory_id'')))
          else (case state_parts (jget s ''canonical_state'') of
             None \<Rightarrow> Inr (empty_projection ''snapshot_invalid'' (name (jget s ''trajectory_id'')))
           | Some parts \<Rightarrow>
             bindR (sha_json (te_sha T) (JObj (filter (\<lambda>(k, v). k \<noteq> ''snapshot_digest'') s)))
              (\<lambda>h. if \<not> py_eq (jget s ''snapshot_digest'') h
                then Inr (empty_projection ''snapshot_invalid'' (name (jget s ''trajectory_id'')))
                else bindR (refuse_binding T s (jget s ''canonical_state''))
                  (\<lambda>refusal. case refusal of Some p \<Rightarrow> Inr p | None \<Rightarrow> fold_projection T s parts)))
      | _ \<Rightarrow> Inr (empty_projection ''snapshot_invalid'' JNull))"

section \<open>Rendering\<close>

definition diagnostic_json :: "diagnostic \<Rightarrow> json" where
  "diagnostic_json g = JObj [(''code'', JStr (dg_code g)), (''event_seq'', dg_seq g), (''event_id'', dg_event g),
     (''expected_digest'', dg_expected g), (''actual_digest'', dg_actual g)]"

definition unknown_json :: "unknown_fact \<Rightarrow> json" where
  "unknown_json u = JObj [(''code'', JStr (uk_code u)), (''event_seq'', uk_seq u), (''event_id'', uk_event u), (''ref_id'', uk_ref u)]"

definition projection_json :: "projection \<Rightarrow> json list \<Rightarrow> json" where
  "projection_json r graph = JObj
     [(''projection_version'', JInt (pj_version r)), (''trajectory_id'', pj_trajectory r), (''input_head_hash'', pj_head r),
      (''integrity_status'', JStr (pj_integrity r)), (''completeness'', JStr (pj_completeness r)),
      (''task_lifecycle'', case pj_task r of None \<Rightarrow> JNull | Some t \<Rightarrow> JObj t), (''stage_attempts'', JArr (pj_attempts r)),
      (''invocations'', JArr (pj_invocations r)), (''sessions'', JArr (pj_sessions r)), (''evidence_graph'', JArr graph),
      (''model_visible_boundary_index'', JArr (pj_boundaries r)),
      (''usage_by_basis'', JObj (map (\<lambda>(k, vs). (k, JArr vs)) (pj_usage r))),
      (''unsupported_domains'', JArr (map JStr (pj_unsupported r))), (''unknowns'', JArr (map unknown_json (pj_unknowns r))),
      (''diagnostics'', JArr (map diagnostic_json (pj_diagnostics r))), (''snapshot_manifest'', pj_manifest r)]"

text \<open>\<open>d.get(k, fallback)\<close>.\<close>

definition get_or :: "json \<Rightarrow> string \<Rightarrow> json \<Rightarrow> json" where
  "get_or v k fallback = (case map_of (entries v) k of None \<Rightarrow> fallback | Some w \<Rightarrow> w)"

definition available :: "projection \<Rightarrow> json \<Rightarrow> json" where
  "available r ref_id =
     (case find (\<lambda>item. field item ''ref_id'' = ref_id) (rev (pj_evidence r)) of
        None \<Rightarrow> JStr ''unavailable'' | Some item \<Rightarrow> get_or item ''availability'' (JStr ''unavailable''))"

definition render_ref :: "projection \<Rightarrow> string list \<Rightarrow> json \<Rightarrow> json" where
  "render_ref r allowed ref = JObj
     ([(''ref_id'', field ref ''ref_id''), (''sha256'', field ref ''sha256''), (''availability'', available r (field ref ''ref_id''))]
      @ (if field ref ''sensitivity'' \<in> JStr ` set allowed
         then [(''kind'', field ref ''kind''), (''size_bytes'', field ref ''size_bytes''), (''media_type'', field ref ''media_type''),
               (''sensitivity'', field ref ''sensitivity'')] else []))"

definition render_event :: "projection \<Rightarrow> string list \<Rightarrow> json \<Rightarrow> json" where
  "render_event r allowed e = JObj
     [(''seq'', field e ''seq''), (''event_id'', field e ''event_id''), (''event_type'', field e ''event_type''),
      (''recorded_at_ms'', field e ''recorded_at_ms''), (''task_revision'', revision_of e), (''run'', field e ''run''),
      (''invocation_id'', field e ''invocation_id''), (''session_ref'', field e ''session_ref''), (''actor'', field e ''actor''),
      (''body'', field e ''body''), (''evidence_refs'', JArr (map (render_ref r allowed) (refs_of e))),
      (''sensitivity'', field e ''sensitivity''), (''event_hash'', field e ''event_hash'')]"

definition render_item :: "string list \<Rightarrow> json \<Rightarrow> (replay_error, json) res" where
  "render_item allowed item =
     bindR (in_strings (field item ''sensitivity'') allowed)
      (\<lambda>shown. Inr (if shown then item
         else JObj [(''ref_id'', field item ''ref_id''), (''sha256'', field item ''sha256''),
                    (''availability'', get_or item ''availability'' (JStr ''unavailable''))]))"

definition render_projection :: "traj_env \<Rightarrow> json \<Rightarrow> projection \<Rightarrow> string list \<Rightarrow> (replay_error, json) res" where
  "render_projection T snapshot r allowed =
     check (allowed \<noteq> [] \<and> set allowed \<subseteq> set AUDIENCES)
       (ReplayTrajectory (TrajectoryError ''unsupported R0 audience policy''))
      (bindR (mapR (render_item allowed) (pj_evidence r))
       (\<lambda>graph. Inr (JObj
         [(''schema_version'', JInt 1), (''projection'', projection_json r graph),
          (''snapshot'', JObj [(''captured_at_ms'', field snapshot ''captured_at_ms''), (''manifest'', field snapshot ''manifest''),
                               (''snapshot_digest'', field snapshot ''snapshot_digest'')]),
          (''events'', JArr (map (render_event r allowed) (fst (snapshot_events T snapshot))))])))"

definition projection_bytes :: "json \<Rightarrow> (replay_error, string) res" where
  "projection_bytes v = bindR (canonical_json_bytes v) (\<lambda>b. Inr (b @ [nl]))"

section \<open>The command\<close>

text \<open>
  \<open>trajectory-r0\<close> of \<open>orchestrator/cli.py\<close>: the exit code and what goes to the standard output.  \<open>raw\<close> is the text
  of the snapshot, \<open>None\<close> when it cannot be read.  An \<open>AttributeError\<close> is not among the exceptions the command handles.
\<close>

definition trajectory_r0 :: "traj_env \<Rightarrow> string option \<Rightarrow> string list option \<Rightarrow> (replay_error, int \<times> string) res" where
  "trajectory_r0 T raw audience =
     (let failed = (2, []); audiences = (case audience of None \<Rightarrow> [''public'', ''internal''] | Some a \<Rightarrow> if a = [] then [''public'', ''internal''] else a)
      in if te_mode T \<noteq> ''read'' then Inr failed
         else case (case raw of None \<Rightarrow> None | Some s \<Rightarrow> loads s) of
            None \<Rightarrow> Inr failed
          | Some snapshot \<Rightarrow>
            (case bindR (reduce_snapshot T snapshot PROJECTION_VERSION audiences)
                    (\<lambda>r. bindR (render_projection T snapshot r audiences)
                      (\<lambda>shown. bindR (projection_bytes shown)
                        (\<lambda>b. Inr (if pj_integrity r \<in> set [''corrupt'', ''mismatch''] then 2 else 0, b)))) of
               Inr out \<Rightarrow> Inr out
             | Inl ReplayAttributeError \<Rightarrow> Inl ReplayAttributeError
             | Inl _ \<Rightarrow> Inr failed))"

end
