(* ===== verification/ReplayLaws.thy ===== *)
theory ReplayLaws
  imports Replay TrajectoryLaws
begin

text \<open>
  The reducer and the store agree: what the store wrote replays without a broken chain, an unpaired provider event or a
  dangling session.  The frozen snapshot of a table is never refused, and the rendering shows an audience no more of a
  reference than the audience may see.
\<close>

section \<open>Decoded events\<close>

text \<open>What the reducer expects of an event \<open>c\<close> that follows the events \<open>es\<close> of its trajectory.\<close>

definition ids :: "json list \<Rightarrow> json list" where
  "ids es = map (\<lambda>e. field e ''event_id'') es"

definition calls_of :: "string \<Rightarrow> json list \<Rightarrow> string list" where
  "calls_of call es = map event_type_of (filter (\<lambda>e. field e ''invocation_id'' = JStr call) es)"

definition follows :: "string \<Rightarrow> json list \<Rightarrow> json \<Rightarrow> bool" where
  "follows tid es c \<longleftrightarrow> field c ''trajectory_id'' = JStr tid \<and> field c ''seq'' = JInt (int (length es) + 1)
     \<and> field c ''event_id'' \<notin> set (ids es) \<and> field c ''prev_event_hash'' = last_or_null es ''event_hash''
     \<and> (\<forall>r \<in> set (refers_to c). r \<noteq> JNull \<longrightarrow> r \<in> set (ids es))
     \<and> (\<forall>call. field c ''invocation_id'' = JStr call \<longrightarrow> calls_of call es @ [event_type_of c] \<in> protocol)
     \<and> (starts_with ''provider.'' (event_type_of c) \<longleftrightarrow> field c ''invocation_id'' \<noteq> JNull)
     \<and> (field c ''invocation_id'' \<noteq> JNull \<longrightarrow> (\<exists>call. field c ''invocation_id'' = JStr call))
     \<and> (event_type_of c = ''session.rebound'' \<longrightarrow>
         (\<exists>p \<in> set es. field p ''event_id'' = field (field c ''body'') ''predecessor_event_id''
            \<and> event_type_of p \<in> {''session.bound'', ''session.rebound''} \<and> field p ''session_ref'' \<noteq> field c ''session_ref''))"

fun sound_from :: "string \<Rightarrow> json list \<Rightarrow> json list \<Rightarrow> bool" where
  "sound_from tid pre [] = True"
| "sound_from tid pre (e # es) = (follows tid pre e \<and> sound_from tid (pre @ [e]) es)"

lemma sound_from_append: "sound_from tid pre (es @ [c]) \<longleftrightarrow> sound_from tid pre es \<and> follows tid (pre @ es) c"
  by (induction es arbitrary: pre) auto

section \<open>The store's tables decode to sound trajectories\<close>

lemma stored_fields:
  assumes "nfc_ok N" "stored_event N H v"
  shows "field (the_event v) ''event_id'' = JStr (v_event_id v)" "field (the_event v) ''event_hash'' = JStr (v_hash v)"
proof -
  from assms(2) obtain e kvs where e: "wf_json e" "validate_event N H True e = Inr kvs"
    "canonical_event_json N e = Inr (v_json v)" "v = row_of e (v_json v)" unfolding stored_event_def by blast
  obtain c where c: "loads (v_json v) = Some c" "\<And>k. k \<in> set column_keys \<Longrightarrow> field c k = field e k"
    using row_read_back [OF assms(1) e(2,1,3)] by blast
  note ve = valid_event [OF e(2)]
  obtain i where i: "field e ''event_id'' = JStr i" by (rule valid_fields [OF ve(3)]) (simp add: ve(1))
  obtain h where h: "field e ''event_hash'' = JStr h"
    using ve(4) by (auto simp: validate_hash_def res_simps event_simps shaped ve(1))
  have "v_event_id v = str_of (field e ''event_id'')" "v_hash v = str_of (field e ''event_hash'')"
    by (subst e(4), simp add: row_of_def)+
  with i h c show "field (the_event v) ''event_id'' = JStr (v_event_id v)" "field (the_event v) ''event_hash'' = JStr (v_hash v)"
    by (simp_all add: the_event_def column_keys_def str_of_def)
qed

lemma ids_stored:
  "nfc_ok N \<Longrightarrow> \<forall>v \<in> set vs. stored_event N H v \<Longrightarrow> ids (map the_event vs) = map (JStr \<circ> v_event_id) vs"
  by (induction vs) (auto simp: ids_def stored_fields)

lemma normalize_texts:
  "\<forall>x \<in> set xs. \<exists>s. x = JStr s \<and> N s = s \<Longrightarrow> normalize_items N xs = Inr xs"
  by (induction xs) auto

lemma sort_keys_texts: "\<forall>x \<in> set xs. \<exists>s. x = JStr s \<Longrightarrow> sort_keys (JArr xs) = JArr xs"
  by (induction xs) auto

text \<open>The causes of an accepted event survive the canonical encoding.\<close>

lemma causes_read_back:
  assumes "nfc_ok N" "validate_event N H True e = Inr kvs" "wf_json e" "canonical_event_json N e = Inr bytes"
    "loads bytes = Some c"
  shows "refers_to c = refers_to e" "\<And>r. r \<in> set (refers_to e) \<Longrightarrow> r = JNull \<or> (\<exists>s. r = JStr s \<and> s \<noteq> [])"
proof -
  note v = valid_event [OF assms(2)]
  obtain ty where "validate_links N ty kvs = Inr ()" by (rule valid_fields [OF v(3)])
  then obtain xs where xs: "jget kvs ''causal_event_ids'' = JArr xs" "\<forall>x \<in> set xs. \<exists>s. x = JStr s \<and> N s = s \<and> s \<noteq> []"
    and parent: "jget kvs ''parent_event_id'' = JNull \<or> (\<exists>s. jget kvs ''parent_event_id'' = JStr s \<and> s \<noteq> [])"
    by (auto simp: validate_links_def ev_sorted_unique_def items_of_def Let_def res_simps event_simps shaped split: json.splits)
  have d: "distinct (map fst kvs)" using assms(3) v(1) by simp
  have top: "''causal_event_ids'' \<in> set TOP_LEVEL_KEYS" by (simp add: TOP_LEVEL_KEYS_def)
  obtain kvs' m where m: "loads bytes = Some (JObj kvs')" "normalize N (jget kvs ''causal_event_ids'') = Inr m"
    "jget kvs' ''causal_event_ids'' = sort_keys m"
    by (rule field_read_back [OF assms(1) assms(4) [unfolded v(1)] d _ ascii_top_level [OF top]]) (use v(2) top in auto)
  have "normalize_items N xs = Inr xs" by (rule normalize_texts) (use xs(2) in blast)
  then have "m = JArr xs" using m(2) xs(1) by simp
  moreover have "sort_keys (JArr xs) = JArr xs" by (rule sort_keys_texts) (use xs(2) in blast)
  ultimately have "field c ''causal_event_ids'' = field e ''causal_event_ids''" using m assms(5) xs v(1) by simp
  moreover obtain qs where "loads bytes = Some (JObj qs)" "\<And>k. k \<in> set column_keys \<Longrightarrow> jget qs k = jget kvs k"
    using column_read_back [OF assms(1-4)] by blast
  then have "field c ''parent_event_id'' = field e ''parent_event_id''" using assms(5) v(1) by (simp add: column_keys_def)
  ultimately show "refers_to c = refers_to e" by (simp add: refers_to_def)
  show "\<And>r. r \<in> set (refers_to e) \<Longrightarrow> r = JNull \<or> (\<exists>s. r = JStr s \<and> s \<noteq> [])"
    using parent xs v(1) by (auto simp: refers_to_def items_of_def)
qed

lemma predecessor_read_back:
  assumes "nfc_ok N" "validate_event N H True e = Inr kvs" "wf_json e" "canonical_event_json N e = Inr bytes"
    "loads bytes = Some c" "event_type_of e = ''session.rebound''"
  obtains s where "field (field c ''body'') ''predecessor_event_id'' = JStr s" "field (field e ''body'') ''predecessor_event_id'' = JStr s"
proof -
  note v = valid_event [OF assms(2)]
  obtain refs where b: "validate_body N ''session.rebound'' (jget kvs ''body'') refs = Inr ()"
    by (rule valid_fields [OF v(3)]) (use assms(6) v(1) in \<open>simp add: event_type_of_def str_of_def\<close>)
  then obtain body s where body: "jget kvs ''body'' = JObj body" "''predecessor_event_id'' \<in> set (keys body)"
    "jget body ''predecessor_event_id'' = JStr s" "N s = s"
    by (auto simp: validate_body_def body_rebound_def Let_def res_simps event_simps shaped)
  have d: "distinct (map fst kvs)" using assms(3) v(1) by simp
  have "wf_json (jget kvs ''body'')" using wf_json_jget assms(3) v(1) by metis
  then have db: "distinct (map fst body)" using body(1) by simp
  have top: "''body'' \<in> set TOP_LEVEL_KEYS" by (simp add: TOP_LEVEL_KEYS_def)
  obtain kvs' m where m: "loads bytes = Some (JObj kvs')" "normalize N (jget kvs ''body'') = Inr m" "jget kvs' ''body'' = sort_keys m"
    by (rule field_read_back [OF assms(1) assms(4) [unfolded v(1)] d _ ascii_top_level [OF top]]) (use v(2) top in auto)
  have asc: "N ''predecessor_event_id'' = ''predecessor_event_id''" by (rule nfc_ascii [OF assms(1)]) (simp add: ascii_def)
  obtain ps where ps: "m = JObj ps" "normalize N (jget body ''predecessor_event_id'') = Inr (jget ps ''predecessor_event_id'')"
    using field_normalize [OF m(2) [unfolded body(1)] db body(2) asc] by metis
  have "wf_json m" using normalize_makes_fixed(1) [OF assms(1) m(2)] by simp
  then have "distinct (map fst ps)" using ps(1) by simp
  then have "field (field c ''body'') ''predecessor_event_id'' = sort_keys (jget ps ''predecessor_event_id'')"
    using m(1,3) assms(5) ps(1) by (simp add: sort_keys_obj jget_sort_keys del: sort_keys.simps)
  moreover have "jget ps ''predecessor_event_id'' = JStr s" using ps(2) body(3,4) by simp
  ultimately show ?thesis using that [of s] body(1,3) v(1) by simp
qed

lemma log_stored: "log_ok N H rows \<Longrightarrow> \<forall>v \<in> set (log rows tid). stored_event N H v"
  by (auto simp: log_ok_def log_def)

lemma chained_head:
  assumes "nfc_ok N" "\<forall>v \<in> set vs. stored_event N H v"
  shows "jopt_str (map_option v_hash (if vs = [] then None else Some (last vs)))
    = last_or_null (map the_event vs) ''event_hash''"
proof (cases "vs = []")
  case True
  then show ?thesis by (simp add: last_or_null_def jopt_str_def)
next
  case False
  then have "stored_event N H (last vs)" using assms(2) by simp
  from stored_fields(2) [OF assms(1) this] False show ?thesis by (simp add: last_or_null_def jopt_str_def last_map)
qed

lemma texts_of: "t \<in> set (List.map_filter as_str xs) \<longleftrightarrow> JStr t \<in> set xs"
proof (induction xs)
  case (Cons x xs)
  then show ?case by (cases x) (auto simp: List.map_filter_simps)
qed (simp add: List.map_filter_simps)

text \<open>The event the store accepts follows the decoded events of its trajectory.\<close>

lemma append_follows:
  assumes N: "nfc_ok N" and ok: "log_ok N H rows" and e: "wf_json e" "store_append N H b d rows e = Inr rows'"
    and protocol: "protocol_ok rows'" and bytes: "canonical_event_json N e = Inr bytes" "loads bytes = Some c"
    and tid: "str_of (field e ''trajectory_id'') = tid"
  shows "follows tid (map the_event (log rows tid)) c"
proof -
  obtain kvs bytes' where s: "validate_event N H True e = Inr kvs" "check_chain rows e = Inr ()" "check_causes rows e = Inr ()"
    "check_rebound rows e = Inr ()" "canonical_event_json N e = Inr bytes'" "rows' = rows @ [row_of e bytes']" "events_ok d rows'"
    by (rule store_append_Inr [OF e(2)])
  have row: "rows' = rows @ [row_of e bytes]" using s(5,6) bytes(1) by simp
  note v = valid_event [OF s(1)]
  let ?es = "map the_event (log rows tid)"
  obtain c' where "loads bytes = Some c'" "\<And>k. k \<in> set column_keys \<Longrightarrow> field c' k = field e k"
    using row_read_back [OF N s(1) e(1) bytes(1)] by blast
  then have col: "field c k = field e k" if "k \<in> set column_keys" for k using that bytes(2) by simp
  obtain ty q i where f: "jget kvs ''event_type'' = JStr ty" "jget kvs ''event_id'' = JStr i" "validate_task N kvs = Inr ()"
    "validate_links N ty kvs = Inr ()"
    by (rule valid_fields [OF v(3)])
  obtain j where j: "jget kvs ''trajectory_id'' = JStr (''task:'' @ j)" by (rule valid_task [OF f(3)])
  have kind: "event_type_of c = event_type_of e" "event_type_of e = ty"
    using col [of "''event_type''"] f(1) v(1) by (simp_all add: event_type_of_def column_keys_def str_of_def)
  have tr: "field e ''trajectory_id'' = JStr tid" using tid j v(1) by (simp add: str_of_def)
  note stored = log_stored [OF ok, of tid]
  note idl = ids_stored [OF N stored]
  have chained: "chained (log rows tid)" using ok by (simp add: log_ok_def)
  have 1: "field c ''trajectory_id'' = JStr tid" using col tr by (simp add: column_keys_def)
  have link: "field e ''seq'' = JInt (int (length (log rows tid)) + 1)"
    "field e ''prev_event_hash'' = jopt_str (map_option v_hash (if log rows tid = [] then None else Some (last (log rows tid))))"
    using s(2) tid chained_last_seq [OF chained]
    by (auto simp: check_chain_def Let_def event_simps chained_last [OF chained])
  have 2: "field c ''seq'' = JInt (int (length ?es) + 1)" "field c ''prev_event_hash'' = last_or_null ?es ''event_hash''"
    using col link chained_head [OF N stored] by (simp_all add: column_keys_def)
  have "v_event_id (row_of e bytes) \<notin> v_event_id ` set rows" using s(7) row by (auto simp: events_ok_def)
  then have "i \<notin> v_event_id ` set (log rows tid)" using f(2) v(1) by (auto simp: row_of_def str_of_def log_def)
  then have 3: "field c ''event_id'' \<notin> set (ids ?es)" using col f(2) v(1) by (auto simp: idl column_keys_def)
  have 4: "r \<in> set (ids ?es)" if r: "r \<in> set (refers_to c)" "r \<noteq> JNull" for r
  proof -
    from causes_read_back [OF N s(1) e(1) bytes] r obtain t where t: "r = JStr t" "t \<noteq> []" "r \<in> set (refers_to e)" by metis
    then have "t \<in> set (referenced e)" by (simp add: referenced_def refers_to_def [symmetric] texts_of)
    moreover have "v_event_id ` {w \<in> set rows. v_trajectory w = tid \<and> v_event_id w \<in> set (referenced e)} = set (referenced e)"
      using s(3) tid by (simp add: check_causes_def Let_def event_simps)
    ultimately have "t \<in> v_event_id ` {w \<in> set rows. v_trajectory w = tid \<and> v_event_id w \<in> set (referenced e)}"
      by (simp only:)
    then obtain w where "w \<in> set rows" "v_trajectory w = tid" "v_event_id w = t" by (elim imageE CollectE conjE) simp
    then have "w \<in> set (log rows tid)" by (simp add: log_def)
    then show ?thesis using t(1) \<open>v_event_id w = t\<close> unfolding idl by auto
  qed
  have ev: "the_event (row_of e bytes) = c" by (simp add: the_event_def row_of_def bytes(2))
  have call: "calls_of call ?es @ [event_type_of c] \<in> protocol" if "field c ''invocation_id'' = JStr call" for call
  proof -
    have "map event_type_of (invocation_events rows' tid call) \<in> protocol" using protocol by (simp add: protocol_ok_def)
    moreover have "v_trajectory (row_of e bytes) = tid" using tid by (simp add: row_of_def)
    ultimately show ?thesis using that
      by (simp add: row invocation_events_append [OF ev]) (simp add: invocation_events_def calls_of_def)
  qed
  have inv: "starts_with ''provider.'' (event_type_of c) \<longleftrightarrow> field c ''invocation_id'' \<noteq> JNull"
    "field c ''invocation_id'' = JNull \<or> (\<exists>call. field c ''invocation_id'' = JStr call)"
    using valid_links(4) [OF f(4)] f(4) col kind v(1)
    by (auto simp: column_keys_def validate_links_def Let_def res_simps event_simps shaped)
  have rebound: "\<exists>p \<in> set ?es. field p ''event_id'' = field (field c ''body'') ''predecessor_event_id''
      \<and> event_type_of p \<in> {''session.bound'', ''session.rebound''} \<and> field p ''session_ref'' \<noteq> field c ''session_ref''"
    if re: "event_type_of c = ''session.rebound''"
  proof -
    have re': "event_type_of e = ''session.rebound''" using re kind by simp
    obtain t where t: "field (field c ''body'') ''predecessor_event_id'' = JStr t"
      "field (field e ''body'') ''predecessor_event_id'' = JStr t"
      by (rule predecessor_read_back [OF N s(1) e(1) bytes re'])
    obtain w p where w: "find (\<lambda>v. v_trajectory v = tid \<and> v_event_id v = t) rows = Some w" "decode_row w = Inr p"
      "event_type_of p \<in> {''session.bound'', ''session.rebound''}" "field p ''session_ref'' \<noteq> field e ''session_ref''"
      using s(4) re' tid t(2)
      by (auto simp: check_rebound_def str_of_def res_simps event_simps split: option.splits)
    from w(1) have "w \<in> set (log rows tid)" "v_event_id w = t" by (auto simp: find_Some_iff log_def)
    moreover from this stored have "stored_event N H w" by blast
    ultimately have "p \<in> set ?es" "field p ''event_id'' = JStr t"
      using stored_decodes [OF N] stored_fields(1) [OF N] w(2) by auto
    with w(3,4) t(1) col show ?thesis by (auto simp: column_keys_def)
  qed
  show ?thesis unfolding follows_def using 1 2 3 4 call inv rebound by blast
qed

lemma written_sound:
  assumes N: "nfc_ok N"
  shows "written N H rows \<Longrightarrow> sound_from tid [] (map the_event (log rows tid))"
proof (induction rule: written.induct)
  case written_empty
  show ?case by simp
next
  case (written_append rows e b d rows')
  obtain kvs bytes where s: "validate_event N H True e = Inr kvs" "canonical_event_json N e = Inr bytes"
    "rows' = rows @ [row_of e bytes]"
    by (rule store_append_Inr [OF written_append(3)])
  obtain c where c: "loads bytes = Some c" using row_read_back [OF N s(1) written_append(2) s(2)] by blast
  have ok: "log_ok N H rows" "protocol_ok rows'"
    using written_log_ok [OF written_append(1)] written_protocol_ok [OF N written.written_append [OF written_append(1-3)]] by auto
  show ?case
  proof (cases "str_of (field e ''trajectory_id'') = tid")
    case True
    then have "log rows' tid = log rows tid @ [row_of e bytes]" by (simp add: s(3) row_of_def)
    moreover have "the_event (row_of e bytes) = c" by (simp add: the_event_def row_of_def c)
    ultimately show ?thesis
      using written_append.IH append_follows [OF N ok(1) written_append(2,3) ok(2) s(2) c True]
      by (simp add: sound_from_append)
  next
    case False
    then have "log rows' tid = log rows tid" by (simp add: s(3) row_of_def)
    with written_append.IH show ?thesis by simp
  qed
qed

section \<open>A sound trajectory replays without complaint\<close>

text \<open>The diagnostics about the events themselves.\<close>

definition CHAIN_CODES :: "string list" where
  "CHAIN_CODES = [''event_invalid'', ''trajectory_mismatch'', ''sequence_gap'', ''duplicate_event_id'', ''hash_chain_broken'',
     ''parent_invalid'', ''provider_event_duplicate'', ''provider_event_unpaired'', ''session_predecessor_invalid'']"

definition clean :: "diagnostic list \<Rightarrow> bool" where
  "clean ds \<longleftrightarrow> (\<forall>g \<in> set ds. dg_code g \<notin> set CHAIN_CODES)"

named_theorems clean_simps \<open>diagnostics about something else\<close>

lemma clean_lists [clean_simps]: "clean []" "clean (ds @ es) \<longleftrightarrow> clean ds \<and> clean es"
  "clean (g # ds) \<longleftrightarrow> dg_code g \<notin> set CHAIN_CODES \<and> clean ds" "clean (concat dss) \<longleftrightarrow> (\<forall>ds \<in> set dss. clean ds)"
  by (auto simp: clean_def)

lemma clean_one [clean_simps]: "dg_code (diag code e x y) = code" "dg_code (plain_diag code) = code"
  by (simp_all add: diag_def plain_diag_def)

lemma clean_event_diag [clean_simps]: "clean (event_diag b code e) \<longleftrightarrow> \<not> b \<or> code \<notin> set CHAIN_CODES"
  by (simp add: event_diag_def clean_simps)

lemma clean_report [clean_simps]:
  "clean (fs_diags (report b code e s)) \<longleftrightarrow> clean (fs_diags s) \<and> (\<not> b \<or> code \<notin> set CHAIN_CODES)"
  by (simp add: report_def clean_simps)

lemma chain_pass_clean:
  "\<lbrakk>sound_from tid pre es; \<forall>e \<in> set es. set (keys (entries e)) = set TOP_LEVEL_KEYS;
    q = int (length pre) + 1; set seen = set (ids pre); prev = last_or_null pre ''event_hash''\<rbrakk> \<Longrightarrow>
   clean (chain_pass (JStr tid) q seen prev es)"
proof (induction es arbitrary: pre q seen prev)
  case (Cons e es)
  then have f: "follows tid pre e" and k: "set (keys (entries e)) = set TOP_LEVEL_KEYS" by simp_all
  have "clean (chain_pass (JStr tid) (q + 1) (field e ''event_id'' # seen) (field e ''event_hash'') es)"
    by (rule Cons.IH [of "pre @ [e]"]) (use Cons.prems in \<open>auto simp: ids_def last_or_null_def\<close>)
  moreover have "chain_diags (JStr tid) q seen prev e = []"
    using f Cons.prems(3-5) by (auto simp: chain_diags_def event_diag_def follows_def list_ex_iff)
  ultimately show ?case using k by simp
qed (simp add: clean_simps)

text \<open>What the fold has collected from the events so far.\<close>

definition calls_known :: "json list \<Rightarrow> (string \<times> (string \<times> json) list) list \<Rightarrow> bool" where
  "calls_known es calls \<longleftrightarrow> (\<forall>call. case map_of calls call of
     None \<Rightarrow> calls_of call es = []
   | Some item \<Rightarrow> calls_of call es \<noteq> []
       \<and> (''dispatched_event_id'' \<in> set (keys item) \<longleftrightarrow> ''provider.dispatched'' \<in> set (calls_of call es))
       \<and> (''settled_event_id'' \<in> set (keys item) \<longleftrightarrow> ''provider.settled'' \<in> set (calls_of call es)))"

definition is_session :: "json \<Rightarrow> bool" where
  "is_session e \<longleftrightarrow> event_type_of e \<in> {''session.bound'', ''session.rebound''}"

definition folded :: "json list \<Rightarrow> fold_state \<Rightarrow> bool" where
  "folded es s \<longleftrightarrow> clean (fs_diags s) \<and> calls_known es (fs_invocations s)
     \<and> fs_sessions s = map session_item (filter is_session es)"

lemma keys_dict_update: "set (keys (dict_update d ps)) = set (keys d) \<union> set (keys ps)"
  unfolding dict_update_def
proof (induction ps arbitrary: d)
  case (Cons p ps)
  then show ?case by (cases p) (auto simp: keys_def set_keys_dict_set [unfolded set_map])
qed (simp add: keys_def)

lemma session_item_fields [simp]:
  "field (session_item e) ''event_id'' = field e ''event_id''" "field (session_item e) ''session_ref'' = field e ''session_ref''"
  by (simp_all add: session_item_def Let_def jget_def)

lemma found_in: "find P xs = Some x \<Longrightarrow> P x \<and> x \<in> set xs"
  by (induction xs) (auto split: if_splits)

lemma session_event_found:
  assumes "distinct (ids es)" "p \<in> set es" "is_session p"
  shows "session_event (map session_item (filter is_session es)) (field p ''event_id'') = Some (session_item p)"
proof -
  have inj: "q = p" if "q \<in> set es" "field q ''event_id'' = field p ''event_id''" for q
    using assms(1,2) that unfolding ids_def distinct_map by (metis inj_onD)
  have "find (\<lambda>i. field i ''event_id'' = field p ''event_id'') (rev (map session_item (filter is_session es))) \<noteq> None"
    using assms(2,3) by (auto simp: find_None_iff)
  then obtain i where i: "find (\<lambda>i. field i ''event_id'' = field p ''event_id'') (rev (map session_item (filter is_session es))) = Some i"
    by blast
  then have "i \<in> set (map session_item (filter is_session es))" "field i ''event_id'' = field p ''event_id''"
    using found_in [OF i] by (simp_all only: set_rev)
  then obtain q where "q \<in> set es" "i = session_item q" "field q ''event_id'' = field p ''event_id''" by auto
  with inj have "i = session_item p" by blast
  with i show ?thesis by (simp add: session_event_def)
qed

lemma common_keeps: "fs_invocations (fold_common runs e s) = fs_invocations s" "fs_sessions (fold_common runs e s) = fs_sessions s"
  "clean (fs_diags (fold_common runs e s)) \<longleftrightarrow> clean (fs_diags s)"
  by (simp_all add: fold_common_def Let_def clean_simps CHAIN_CODES_def) (simp_all add: report_def)

text \<open>The events the fold only reads the task and the attempts from.\<close>

lemma plain_folds_keep:
  "fs_invocations (fold_created e s) = fs_invocations s" "fs_sessions (fold_created e s) = fs_sessions s" "fs_diags (fold_created e s) = fs_diags s"
  "fs_invocations (fold_baseline e s) = fs_invocations s" "fs_sessions (fold_baseline e s) = fs_sessions s" "fs_diags (fold_baseline e s) = fs_diags s"
  "fs_invocations (fold_transition e s) = fs_invocations s" "fs_sessions (fold_transition e s) = fs_sessions s"
  "fs_diags (fold_transition e s) = fs_diags s"
  "fs_invocations (fold_claimed e s) = fs_invocations s" "fs_sessions (fold_claimed e s) = fs_sessions s" "fs_diags (fold_claimed e s) = fs_diags s"
  "fs_invocations (fold_settled e s) = fs_invocations s" "fs_sessions (fold_settled e s) = fs_sessions s" "fs_diags (fold_settled e s) = fs_diags s"
  by (simp_all add: fold_created_def fold_baseline_def fold_transition_def fold_claimed_def fold_settled_def set_task_def Let_def)

lemma calls_of_snoc:
  "calls_of call (es @ [e]) = calls_of call es @ (if field e ''invocation_id'' = JStr call then [event_type_of e] else [])"
  by (simp add: calls_of_def)

lemma protocol_last:
  assumes "ts @ [t] \<in> protocol"
  shows "t = ''provider.dispatch_intent'' \<and> ts = []
    \<or> t = ''provider.dispatched'' \<and> ts = [''provider.dispatch_intent'']
    \<or> t = ''provider.settled'' \<and> ts \<noteq> [] \<and> ''provider.settled'' \<notin> set ts"
proof -
  have "\<lbrakk>ts @ [t] \<in> {[], [i], [i, d], [i, s], [i, d, s]}; i \<noteq> s; d \<noteq> s\<rbrakk> \<Longrightarrow>
      t = i \<and> ts = [] \<or> t = d \<and> ts = [i] \<or> t = s \<and> ts \<noteq> [] \<and> s \<notin> set ts" for i d s :: string
    by (auto simp: append_eq_Cons_conv)
  from this [OF assms [unfolded protocol_def Let_def]] show ?thesis by simp
qed

lemma fold_provider_folded:
  assumes s: "clean (fs_diags s)" "calls_known es (fs_invocations s)" and call: "field e ''invocation_id'' = JStr call"
    and next_ok: "calls_of call es @ [event_type_of e] \<in> protocol"
  shows "clean (fs_diags (fold_provider (event_type_of e) e s))
    \<and> calls_known (es @ [e]) (fs_invocations (fold_provider (event_type_of e) e s))
    \<and> fs_sessions (fold_provider (event_type_of e) e s) = fs_sessions s"
proof -
  let ?f = "fold_provider (event_type_of e) e s" and ?ts = "calls_of call es"
  have other: "calls_of c (es @ [e]) = calls_of c es" if "c \<noteq> call" for c using that call by (simp add: calls_of_snoc)
  have own: "calls_of call (es @ [e]) = ?ts @ [event_type_of e]" using call by (simp add: calls_of_snoc)
  have known: "calls_known (es @ [e]) (dict_set call item (fs_invocations s))"
    if "(''dispatched_event_id'' \<in> set (keys item) \<longleftrightarrow> ''provider.dispatched'' \<in> set (?ts @ [event_type_of e]))"
      "(''settled_event_id'' \<in> set (keys item) \<longleftrightarrow> ''provider.settled'' \<in> set (?ts @ [event_type_of e]))" for item
    unfolding calls_known_def
  proof
    fix c
    show "case map_of (dict_set call item (fs_invocations s)) c of
        None \<Rightarrow> calls_of c (es @ [e]) = []
      | Some item \<Rightarrow> calls_of c (es @ [e]) \<noteq> []
          \<and> (''dispatched_event_id'' \<in> set (keys item) \<longleftrightarrow> ''provider.dispatched'' \<in> set (calls_of c (es @ [e])))
          \<and> (''settled_event_id'' \<in> set (keys item) \<longleftrightarrow> ''provider.settled'' \<in> set (calls_of c (es @ [e])))"
    proof (cases "c = call")
      case True
      with that own show ?thesis by simp
    next
      case False
      with other [OF False] s(2) [unfolded calls_known_def, rule_format, of c] show ?thesis
        by (cases "map_of (fs_invocations s) c") simp_all
    qed
  qed
  note here = s(2) [unfolded calls_known_def, rule_format, of call]
  from protocol_last [OF next_ok] show ?thesis
  proof (elim disjE conjE)
    assume t: "event_type_of e = ''provider.dispatch_intent''" "?ts = []"
    with here have "map_of (fs_invocations s) call = None" by (auto split: option.splits)
    with t s(1) known show ?thesis
      by (simp add: fold_provider_def Let_def call str_of_def clean_simps) (simp add: report_def keys_def)
  next
    assume t: "event_type_of e = ''provider.dispatched''" "?ts = [''provider.dispatch_intent'']"
    with here obtain item where i: "map_of (fs_invocations s) call = Some item" "''dispatched_event_id'' \<notin> set (keys item)"
      "''settled_event_id'' \<notin> set (keys item)" by (auto split: option.splits)
    let ?item = "dict_update item [(''dispatch_state'', JStr ''dispatched''), (''session_ref'', session_or e item),
        (''dispatched_event_id'', field e ''event_id'')]"
    have "set (keys ?item) = set (keys item) \<union> {''dispatch_state'', ''session_ref'', ''dispatched_event_id''}"
      by (simp add: keys_dict_update) (simp add: keys_def)
    with i t have "calls_known (es @ [e]) (dict_set call ?item (fs_invocations s))" by (intro known) simp_all
    with t i s(1) show ?thesis
      by (simp add: fold_provider_def Let_def call str_of_def clean_simps) (simp add: report_def)
  next
    assume t: "event_type_of e = ''provider.settled''" "?ts \<noteq> []" "''provider.settled'' \<notin> set ?ts"
    with here obtain item where i: "map_of (fs_invocations s) call = Some item" "''settled_event_id'' \<notin> set (keys item)"
      "''dispatched_event_id'' \<in> set (keys item) \<longleftrightarrow> ''provider.dispatched'' \<in> set ?ts" by (auto split: option.splits)
    let ?item = "dict_update item [(''result_state'', field (field e ''body'') ''result_class''), (''session_ref'', session_or e item),
        (''settled_event_id'', field e ''event_id''), (''elapsed_ms'', field (field e ''body'') ''elapsed_ms''),
        (''usage'', field (field e ''body'') ''usage'')]"
    have "set (keys ?item) = set (keys item) \<union> {''result_state'', ''session_ref'', ''settled_event_id'', ''elapsed_ms'', ''usage''}"
      by (simp add: keys_dict_update) (simp add: keys_def)
    with i t have "calls_known (es @ [e]) (dict_set call ?item (fs_invocations s))" by (intro known) simp_all
    with t i s(1) show ?thesis
      by (simp add: fold_provider_def Let_def call str_of_def clean_simps) (simp add: report_def)
  qed
qed

lemma fold_session_folded:
  assumes s: "clean (fs_diags s)" "fs_sessions s = map session_item (filter is_session es)" and e: "is_session e"
    and ids: "distinct (ids es)"
    and rebound: "event_type_of e = ''session.rebound'' \<longrightarrow>
       (\<exists>p \<in> set es. field p ''event_id'' = field (field e ''body'') ''predecessor_event_id'' \<and> is_session p
          \<and> field p ''session_ref'' \<noteq> field e ''session_ref'')"
  shows "clean (fs_diags (fold_session e s))" "fs_invocations (fold_session e s) = fs_invocations s"
    "fs_sessions (fold_session e s) = map session_item (filter is_session (es @ [e]))"
proof -
  have "\<not> (event_type_of e = ''session.rebound'' \<and>
      (case session_event (fs_sessions s) (field (field e ''body'') ''predecessor_event_id'') of
         None \<Rightarrow> True | Some p \<Rightarrow> field p ''session_ref'' = field e ''session_ref''))"
    (is "\<not> (_ \<and> ?broken)")
  proof
    assume b: "event_type_of e = ''session.rebound'' \<and> ?broken"
    with rebound obtain p where p: "p \<in> set es" "field p ''event_id'' = field (field e ''body'') ''predecessor_event_id''"
      "is_session p" "field p ''session_ref'' \<noteq> field e ''session_ref''" by blast
    with b session_event_found [OF ids p(1,3)] s(2) show False by simp
  qed
  with s e show "clean (fs_diags (fold_session e s))" "fs_invocations (fold_session e s) = fs_invocations s"
    "fs_sessions (fold_session e s) = map session_item (filter is_session (es @ [e]))"
    by (simp_all add: fold_session_def Let_def clean_simps) (simp_all add: report_def)
qed

lemma sound_distinct: "sound_from tid pre es \<Longrightarrow> distinct (ids pre) \<Longrightarrow> distinct (ids (pre @ es))"
proof (induction es arbitrary: pre)
  case (Cons e es)
  then have "distinct (ids (pre @ [e]))" by (auto simp: ids_def follows_def)
  with Cons.IH [of "pre @ [e]"] Cons.prems(1) show ?case by simp
qed simp

lemma provider_not_session: "starts_with ''provider.'' (event_type_of e) \<Longrightarrow> \<not> is_session e"
  by (auto simp: is_session_def)

lemma fold_event_folded:
  assumes s: "folded es s" and f: "follows tid es e" and ids: "distinct (ids es)"
  shows "folded (es @ [e]) (fold_event runs e s)"
proof -
  let ?s = "fold_common runs e s"
  have c: "clean (fs_diags ?s)" "calls_known es (fs_invocations ?s)" "fs_sessions ?s = map session_item (filter is_session es)"
    using s by (simp_all add: folded_def common_keeps)
  show ?thesis
  proof (cases "starts_with ''provider.'' (event_type_of e)")
    case True
    with f obtain call where call: "field e ''invocation_id'' = JStr call" "calls_of call es @ [event_type_of e] \<in> protocol"
      by (auto simp: follows_def)
    from True have "fold_event runs e s = fold_provider (event_type_of e) e ?s" by (auto simp: fold_event_def Let_def)
    with fold_provider_folded [OF c(1,2) call] c(3) provider_not_session [OF True] show ?thesis by (simp add: folded_def)
  next
    case False
    with f have none: "field e ''invocation_id'' = JNull" by (simp add: follows_def)
    then have "calls_of call (es @ [e]) = calls_of call es" for call by (simp add: calls_of_snoc)
    then have calls: "calls_known (es @ [e]) calls = calls_known es calls" for calls by (simp only: calls_known_def)
    show ?thesis
    proof (cases "is_session e")
      case True
      then have "event_type_of e = ''session.bound'' \<or> event_type_of e = ''session.rebound''" by (simp add: is_session_def)
      then have "fold_event runs e s = fold_session e ?s" by (auto simp: fold_event_def Let_def)
      moreover have "event_type_of e = ''session.rebound'' \<longrightarrow>
         (\<exists>p \<in> set es. field p ''event_id'' = field (field e ''body'') ''predecessor_event_id'' \<and> is_session p
            \<and> field p ''session_ref'' \<noteq> field e ''session_ref'')"
        using f by (auto simp: follows_def is_session_def)
      ultimately show ?thesis using fold_session_folded [OF c(1,3) True ids] c(2) by (simp add: folded_def calls)
    next
      case no: False
      with False c show ?thesis
        by (auto simp: folded_def calls fold_event_def Let_def plain_folds_keep is_session_def)
    qed
  qed
qed

lemma fold_folded:
  "sound_from tid pre es \<Longrightarrow> distinct (ids pre) \<Longrightarrow> folded pre s \<Longrightarrow> folded (pre @ es) (fold (fold_event runs) es s)"
proof (induction es arbitrary: pre s)
  case (Cons e es)
  then have "folded (pre @ [e]) (fold_event runs e s)" by (auto intro: fold_event_folded)
  moreover have "distinct (ids (pre @ [e]))" using Cons.prems by (auto simp: ids_def follows_def)
  ultimately show ?case using Cons.IH [of "pre @ [e]"] Cons.prems(1) by simp
qed simp

section \<open>The other diagnostics\<close>

lemma mismatch_clean: "mismatch_diag T x y = Inr ds \<Longrightarrow> clean ds"
  by (auto simp: mismatch_diag_def res_simps clean_simps CHAIN_CODES_def)

lemma attempt_clean: "attempt_diags T runs a = Inr ds \<Longrightarrow> clean ds"
  by (auto simp: attempt_diags_def res_simps Let_def clean_simps dest: mismatch_clean split: option.splits if_splits)

lemma attempts_clean: "mapR (attempt_diags T runs) xs = Inr dss \<Longrightarrow> clean (concat dss)"
  by (induction xs arbitrary: dss) (auto simp: res_simps clean_simps dest: attempt_clean)

lemma event_refs_clean: "clean (snd (event_refs ps acc))"
  by (induction ps acc rule: event_refs.induct) (auto simp: Let_def clean_simps CHAIN_CODES_def split: prod.splits)

lemma item_facts_clean: "item_facts events item = Inr (ds, us) \<Longrightarrow> clean ds"
  by (auto simp: item_facts_def Let_def res_simps clean_simps CHAIN_CODES_def split: if_splits json.splits option.splits)

lemma inventory_pass_clean: "clean ds \<Longrightarrow> inventory_pass events items acc ds us = Inr (by_ref, ds', us') \<Longrightarrow> clean ds'"
proof (induction events items acc ds us rule: inventory_pass.induct)
  case (2 events item items acc ds us)
  show ?case
  proof (cases "inventory_shape item")
    case True
    with 2 show ?thesis by (auto simp: res_simps clean_simps dest: item_facts_clean)
  next
    case False
    with 2 show ?thesis by (simp add: clean_simps CHAIN_CODES_def)
  qed
qed simp

lemma small_clean: "clean (inventory_diags a b)" "clean (transition_diags es base xs)" "task_diags T l t = Inr ds \<Longrightarrow> clean ds"
  by (auto simp: inventory_diags_def transition_diags_def task_diags_def Let_def clean_simps CHAIN_CODES_def
      dest: mismatch_clean split: option.splits if_splits)

lemma runs_clean: "clean (snd (canonical_runs items acc))"
proof (induction items acc rule: canonical_runs.induct)
  case (2 item items acc)
  let ?bad = "str_of (field item ''run_token'') = [] \<or> str_of (field item ''run_token'') \<in> fst ` set acc"
  show ?case
  proof (cases ?bad)
    case True
    moreover obtain found ds where "canonical_runs items acc = (found, ds)" by force
    ultimately show ?thesis using 2(1) [OF refl True] by (simp add: Let_def clean_simps CHAIN_CODES_def)
  next
    case False
    with 2(2) [OF refl False] show ?thesis by (simp add: Let_def)
  qed
qed (simp add: clean_simps)

lemma empty_clean: "code \<in> {''snapshot_invalid'', ''snapshot_version_unsupported''} \<Longrightarrow> clean (pj_diagnostics (empty_projection code t))"
  by (auto simp: empty_projection_def clean_simps CHAIN_CODES_def)

lemma manifest_clean: "manifest_diags T s events inventory = Inr ds \<Longrightarrow> clean ds"
  by (auto simp: manifest_diags_def Let_def res_simps clean_simps CHAIN_CODES_def split: if_splits)

lemma finish_clean:
  assumes "clean (fs_diags f)" "finish_projection T s events inventory by_token task transitions f = Inr r"
  shows "clean (pj_diagnostics r)"
proof -
  obtain refs ds5 where refs: "event_refs (concat (map (\<lambda>e. map (Pair e) (refs_of e)) events)) [] = (refs, ds5)" by force
  from assms(2) obtain ds4 by_ref ds6 us ds7 where d: "mapR (attempt_diags T by_token) (fs_attempts f) = Inr ds4"
    "inventory_pass events inventory [] [] (invocation_unknowns events (fs_invocations f)) = Inr (by_ref, ds6, us)"
    "task_diags T (fs_task f) task = Inr ds7"
    "pj_diagnostics r = fs_diags f @ concat ds4 @ ds5 @ ds6 @ inventory_diags by_ref refs @ ds7
       @ transition_diags events (fs_baseline f) transitions"
    unfolding finish_projection_def refs Let_def prod.case by (auto simp: res_simps)
  have "clean ds5" using event_refs_clean [of "concat (map (\<lambda>e. map (Pair e) (refs_of e)) events)" "[]"] refs by simp
  moreover have "clean ds6" by (rule inventory_pass_clean [OF _ d(2)]) (simp add: clean_simps)
  ultimately show ?thesis
    using assms(1) attempts_clean [OF d(1)] small_clean(3) [OF d(3)] by (simp add: d(4) clean_simps small_clean(1,2))
qed

lemma fold_projection_clean:
  assumes events: "snapshot_events T (JObj s) = (events, [])" and tid: "jget s ''trajectory_id'' = JStr tid"
    and sound: "sound_from tid [] events" and keys: "\<forall>e \<in> set events. set (keys (entries e)) = set TOP_LEVEL_KEYS"
    and r: "fold_projection T s parts = Inr r"
  shows "clean (pj_diagnostics r)"
proof (cases "jget s ''evidence_inventory''")
  case (JArr inventory)
  obtain task runs transitions where parts: "parts = (task, runs, transitions)" by (cases parts)
  obtain by_token ds3 where runs: "canonical_runs runs [] = (by_token, ds3)" by force
  let ?f = "\<lambda>ds2. fold (fold_event by_token) events (fold_start (chain_pass (JStr tid) 1 [] JNull events @ ds2 @ ds3))"
  from r obtain ds2 where d: "manifest_diags T s events inventory = Inr ds2"
    "finish_projection T s events inventory by_token task transitions (?f ds2) = Inr r"
    unfolding fold_projection_def Let_def parts prod.case events tid JArr json.case runs append_Nil by (auto simp: res_simps)
  have "clean (chain_pass (JStr tid) 1 [] JNull events)"
    by (rule chain_pass_clean [OF sound keys]) (simp_all add: ids_def last_or_null_def)
  then have "folded [] (fold_start (chain_pass (JStr tid) 1 [] JNull events @ ds2 @ ds3))"
    using runs_clean [of runs "[]"] runs manifest_clean [OF d(1)]
    by (simp add: folded_def fold_start_def calls_known_def calls_of_def clean_simps)
  from fold_folded [OF sound _ this] have "folded ([] @ events) (?f ds2)" by (simp add: ids_def)
  then show ?thesis by (intro finish_clean [OF _ d(2)]) (simp add: folded_def)
qed (use r in \<open>auto simp: fold_projection_def Let_def empty_clean split: prod.splits\<close>)

lemma reduce_clean:
  assumes "\<And>s parts r. snapshot = JObj s \<Longrightarrow> fold_projection T s parts = Inr r \<Longrightarrow> clean (pj_diagnostics r)"
    "reduce_snapshot T snapshot version audience = Inr r"
  shows "clean (pj_diagnostics r)"
proof -
  have binding: "clean (pj_diagnostics p)" if "refuse_binding T s state = Inr (Some p)" for s state p
    using that by (auto simp: refuse_binding_def Let_def res_simps empty_clean split: json.splits if_splits)
  show ?thesis
    using assms(2) unfolding reduce_snapshot_def Let_def
    by (auto simp: res_simps empty_clean split: if_splits json.splits option.splits intro: assms(1) dest: binding)
qed

section \<open>Replaying what was frozen\<close>

lemma read_events:
  assumes "mapR (read_event T) vs = Inr events"
  shows "events = map the_event vs" "\<forall>e \<in> set events. \<exists>kvs. validate_event (te_nfc T) (te_sha T) True e = Inr kvs"
    "List.map_filter (snapshot_event T) (map (\<lambda>v. JStr (v_json v)) vs) = events"
    "\<forall>v \<in> set vs. snapshot_event T (JStr (v_json v)) \<noteq> None"
proof -
  have one: "e = the_event v \<and> (\<exists>kvs. validate_event (te_nfc T) (te_sha T) True e = Inr kvs)
      \<and> snapshot_event T (JStr (v_json v)) = Some e" if "read_event T v = Inr e" for v e
    using that by (auto simp: read_event_def decode_row_def the_event_def snapshot_event_def canonical_event_bytes_def res_simps
        split: sum.splits option.splits)
  from assms have all: "list_all2 (\<lambda>v e. read_event T v = Inr e) vs events" by (simp add: mapR_Inr_nth)
  then show "events = map the_event vs" "\<forall>e \<in> set events. \<exists>kvs. validate_event (te_nfc T) (te_sha T) True e = Inr kvs"
    "List.map_filter (snapshot_event T) (map (\<lambda>v. JStr (v_json v)) vs) = events"
    "\<forall>v \<in> set vs. snapshot_event T (JStr (v_json v)) \<noteq> None"
    by (induction rule: list_all2_induct) (auto simp: List.map_filter_simps dest: one)
qed

lemma freeze_parts:
  assumes "freeze_snapshot T P resolve_dir d rows task_id at = Inr snap"
  obtains t s events inventory state source digest level manifest where
    "find_task d task_id = Some t" "state = canonical_state d t" "snap = JObj (s @ [(''snapshot_digest'', digest)])"
    "mapR (read_event T) (trajectory_rows rows (''task:'' @ task_id)) = Inr events"
    "sha_json (te_sha T) state = Inr source" "sha_json (te_sha T) (JObj s) = Inr digest"
    "level = fold (\<lambda>v level. raised level v) (concat (map (\<lambda>e. e # refs_of e) events)) ''internal''"
    "s = [(''snapshot_version'', JInt 1), (''trajectory_id'', JStr (''task:'' @ task_id)), (''captured_at_ms'', JInt at),
       (''created_from'', JStr ''live-acquisition''),
       (''ordered_events'', JArr (map (\<lambda>v. JStr (v_json v)) (trajectory_rows rows (''task:'' @ task_id)))),
       (''event_head_hash'', last_or_null events ''event_hash''), (''evidence_inventory'', JArr inventory),
       (''canonical_state'', state), (''source_db_snapshot_hash'', source), (''sensitivity'', JStr level), (''manifest'', manifest)]"
  using assms that unfolding freeze_snapshot_def
  by (auto simp: Let_def res_simps SNAPSHOT_VERSION_def split: option.splits)

lemma snapshot_events_of_freeze:
  assumes "mapR (read_event T) vs = Inr events" "jget s ''ordered_events'' = JArr (map (\<lambda>v. JStr (v_json v)) vs)"
  shows "snapshot_events T (JObj s) = (events, [])"
  using read_events(3,4) [OF assms(1)] by (auto simp: snapshot_events_def assms(2))

text \<open>C20: The store and the reducer agree: whatever task, lifecycle tables and files the snapshot is taken with, a trajectory
  written through the store replays without a complaint about its events: none is unreadable, foreign, missing, repeated or out
  of order, no link of the hash chain is broken, no parent or cause dangles, no provider event is unpaired or repeated and no
  session replaces an unknown one.\<close>

theorem replay_of_written:
  assumes "nfc_ok (te_nfc T)" "written (te_nfc T) (te_sha T) rows"
    "freeze_snapshot T P resolve_dir d rows task_id at = Inr snap"
    "reduce_snapshot T snap version audience = Inr r"
  shows "clean (pj_diagnostics r)"
proof (rule reduce_clean [OF _ assms(4)])
  fix s0 parts r0 assume s0: "snap = JObj s0" and r0: "fold_projection T s0 parts = Inr r0"
  obtain s events digest where f: "snap = JObj (s @ [(''snapshot_digest'', digest)])"
    "mapR (read_event T) (trajectory_rows rows (''task:'' @ task_id)) = Inr events"
    "jget (s @ [(''snapshot_digest'', digest)]) ''trajectory_id'' = JStr (''task:'' @ task_id)"
    "jget (s @ [(''snapshot_digest'', digest)]) ''ordered_events''
       = JArr (map (\<lambda>v. JStr (v_json v)) (trajectory_rows rows (''task:'' @ task_id)))"
    by (rule freeze_parts [OF assms(3)]) (auto simp: jget_def)
  have s: "s0 = s @ [(''snapshot_digest'', digest)]" using s0 f(1) by simp
  have "trajectory_rows rows (''task:'' @ task_id) = log rows (''task:'' @ task_id)"
    using written_log_ok [OF assms(2)] by (intro chained_rows) (simp add: log_ok_def)
  then have "sound_from (''task:'' @ task_id) [] events"
    using written_sound [OF assms(1,2)] read_events(1) [OF f(2)] by simp
  moreover have "\<forall>e \<in> set events. set (keys (entries e)) = set TOP_LEVEL_KEYS"
    using read_events(2) [OF f(2)] valid_event(1,2) by (fastforce simp: entries_def)
  ultimately show "clean (pj_diagnostics r0)"
    using fold_projection_clean [OF snapshot_events_of_freeze [OF f(2)] _ _ _ r0] f(3,4) s by blast
qed

end
