(* ===== verification/ReplaySafety.thy ===== *)
theory ReplaySafety
  imports ReplayLaws
begin

text \<open>
  What a projection may be trusted for: it is \<open>ok\<close> only when nothing at all was found, a frozen snapshot is never refused,
  and the rendering shows of a reference only what the audience may see.
\<close>

section \<open>No diagnostic is without consequence\<close>

definition counted :: "diagnostic list \<Rightarrow> bool" where
  "counted ds \<longleftrightarrow> (\<forall>g \<in> set ds. dg_code g \<in> insert ''canonical_mismatch'' (set STRUCTURAL_CODES))"

named_theorems counted_simps \<open>diagnostics that decide the status\<close>

lemma counted_lists [counted_simps]: "counted []" "counted (ds @ es) \<longleftrightarrow> counted ds \<and> counted es"
  "counted (g # ds) \<longleftrightarrow> dg_code g \<in> insert ''canonical_mismatch'' (set STRUCTURAL_CODES) \<and> counted ds"
  "counted (concat dss) \<longleftrightarrow> (\<forall>ds \<in> set dss. counted ds)"
  by (auto simp: counted_def)

lemma counted_code [counted_simps]:
  "dg_code (diag code e x y) = code" "dg_code (plain_diag code) = code"
  "counted (event_diag b code e) \<longleftrightarrow> \<not> b \<or> code \<in> insert ''canonical_mismatch'' (set STRUCTURAL_CODES)"
  "counted (fs_diags (report b code e s)) \<longleftrightarrow>
     counted (fs_diags s) \<and> (\<not> b \<or> code \<in> insert ''canonical_mismatch'' (set STRUCTURAL_CODES))"
  by (auto simp: clean_one event_diag_def report_def counted_def)

lemma counted_chain: "counted (chain_pass t q seen prev es)"
  by (induction t q seen prev es rule: chain_pass.induct)
    (simp_all add: chain_diags_def counted_simps STRUCTURAL_CODES_def)

lemma counted_fold_provider: "counted (fs_diags s) \<Longrightarrow> counted (fs_diags (fold_provider kind e s))"
  by (simp add: fold_provider_def Let_def counted_simps STRUCTURAL_CODES_def split: option.split)

lemma counted_fold_event: "counted (fs_diags s) \<Longrightarrow> counted (fs_diags (fold_event runs e s))"
proof -
  assume "counted (fs_diags s)"
  then have common: "counted (fs_diags (fold_common runs e s))"
    by (simp add: fold_common_def Let_def counted_simps STRUCTURAL_CODES_def)
  then have "counted (fs_diags (fold_session e (fold_common runs e s)))"
    by (simp add: fold_session_def Let_def counted_simps STRUCTURAL_CODES_def)
  with common counted_fold_provider [OF common] show ?thesis
    by (simp add: fold_event_def Let_def plain_folds_keep)
qed

lemma counted_fold: "counted (fs_diags s) \<Longrightarrow> counted (fs_diags (fold (fold_event runs) es s))"
  by (induction es arbitrary: s) (simp_all add: counted_fold_event)

lemma counted_mismatch: "mismatch_diag T x y = Inr ds \<Longrightarrow> counted ds"
  by (auto simp: mismatch_diag_def res_simps counted_simps)

lemma counted_attempts: "mapR (attempt_diags T runs) xs = Inr dss \<Longrightarrow> counted (concat dss)"
  by (induction xs arbitrary: dss)
    (auto simp: attempt_diags_def res_simps Let_def counted_simps dest: counted_mismatch split: option.splits if_splits)

lemma counted_refs: "counted (snd (event_refs ps acc))"
  by (induction ps acc rule: event_refs.induct)
    (auto simp: Let_def counted_simps STRUCTURAL_CODES_def split: prod.splits)

lemma counted_facts: "item_facts events item = Inr (ds, us) \<Longrightarrow> counted ds"
  by (auto simp: item_facts_def Let_def res_simps counted_simps STRUCTURAL_CODES_def split: if_splits json.splits option.splits)

lemma counted_inventory: "counted ds \<Longrightarrow> inventory_pass events items acc ds us = Inr (by_ref, ds', us') \<Longrightarrow> counted ds'"
proof (induction events items acc ds us rule: inventory_pass.induct)
  case (2 events item items acc ds us)
  show ?case
  proof (cases "inventory_shape item")
    case True
    with 2 show ?thesis by (auto simp: res_simps counted_simps dest: counted_facts)
  next
    case False
    with 2 show ?thesis by (simp add: counted_simps STRUCTURAL_CODES_def)
  qed
qed simp

lemma counted_small: "counted (inventory_diags a b)" "counted (transition_diags es base xs)" "task_diags T l t = Inr ds \<Longrightarrow> counted ds"
  by (auto simp: inventory_diags_def transition_diags_def task_diags_def Let_def counted_simps STRUCTURAL_CODES_def
      dest: counted_mismatch split: option.splits if_splits)

lemma counted_runs: "counted (snd (canonical_runs items acc))"
proof (induction items acc rule: canonical_runs.induct)
  case (2 item items acc)
  let ?bad = "str_of (field item ''run_token'') = [] \<or> str_of (field item ''run_token'') \<in> fst ` set acc"
  show ?case
  proof (cases ?bad)
    case True
    moreover obtain found ds where "canonical_runs items acc = (found, ds)" by force
    ultimately show ?thesis using 2(1) [OF refl True] by (simp add: Let_def counted_simps STRUCTURAL_CODES_def)
  next
    case False
    with 2(2) [OF refl False] show ?thesis by (simp add: Let_def)
  qed
qed (simp add: counted_simps)

lemma counted_events: "counted (snd (snapshot_events T s))"
  by (auto simp: snapshot_events_def counted_simps STRUCTURAL_CODES_def split: json.split)

lemma integrity_ok: "counted ds \<Longrightarrow> integrity ds us = ''ok'' \<longleftrightarrow> ds = [] \<and> us = []"
  by (cases ds) (auto simp: integrity_def counted_def list_ex_iff)

lemma finish_ok:
  assumes "counted (fs_diags f)" "finish_projection T s events inventory by_token task transitions f = Inr r"
  shows "pj_integrity r = ''ok'' \<longleftrightarrow> pj_diagnostics r = [] \<and> pj_unknowns r = []"
proof -
  obtain refs ds5 where refs: "event_refs (concat (map (\<lambda>e. map (Pair e) (refs_of e)) events)) [] = (refs, ds5)" by force
  from assms(2) obtain ds4 by_ref ds6 us ds7 where d: "mapR (attempt_diags T by_token) (fs_attempts f) = Inr ds4"
    "inventory_pass events inventory [] [] (invocation_unknowns events (fs_invocations f)) = Inr (by_ref, ds6, us)"
    "task_diags T (fs_task f) task = Inr ds7"
    "pj_diagnostics r = fs_diags f @ concat ds4 @ ds5 @ ds6 @ inventory_diags by_ref refs @ ds7
       @ transition_diags events (fs_baseline f) transitions"
    "pj_unknowns r = us" "pj_integrity r = integrity (pj_diagnostics r) us"
    unfolding finish_projection_def refs Let_def prod.case by (auto simp: res_simps)
  have "counted ds5" using counted_refs [of "concat (map (\<lambda>e. map (Pair e) (refs_of e)) events)" "[]"] refs by simp
  moreover have "counted ds6" by (rule counted_inventory [OF _ d(2)]) (simp add: counted_simps)
  ultimately have "counted (pj_diagnostics r)"
    using assms(1) counted_attempts [OF d(1)] counted_small(3) [OF d(3)] by (simp add: d(4) counted_simps counted_small(1,2))
  then show ?thesis unfolding d(5,6) by (rule integrity_ok)
qed

definition judged :: "projection \<Rightarrow> bool" where
  "judged r \<longleftrightarrow> (pj_integrity r = ''ok'' \<longleftrightarrow> pj_diagnostics r = [] \<and> pj_unknowns r = [])"

lemma judged_empty: "judged (empty_projection code t)"
  by (simp add: judged_def empty_projection_def)

lemma judged_fold: "fold_projection T s parts = Inr r \<Longrightarrow> judged r"
proof (cases "jget s ''evidence_inventory''")
  case (JArr inventory)
  assume r: "fold_projection T s parts = Inr r"
  obtain task runs transitions where parts: "parts = (task, runs, transitions)" by (cases parts)
  obtain by_token ds3 where runs: "canonical_runs runs [] = (by_token, ds3)" by force
  obtain events ds0 where events: "snapshot_events T (JObj s) = (events, ds0)" by force
  let ?f = "\<lambda>ds2. fold (fold_event by_token) events
      (fold_start ((ds0 @ chain_pass (jget s ''trajectory_id'') 1 [] JNull events) @ ds2 @ ds3))"
  from r obtain ds2 where d: "manifest_diags T s events inventory = Inr ds2"
    "finish_projection T s events inventory by_token task transitions (?f ds2) = Inr r"
    unfolding fold_projection_def Let_def parts prod.case events JArr json.case runs by (auto simp: res_simps)
  have "counted ds2" using d(1)
    by (auto simp: manifest_diags_def Let_def res_simps counted_simps STRUCTURAL_CODES_def split: if_splits)
  then have "counted (fs_diags (?f ds2))"
    using counted_runs [of runs "[]"] runs counted_events [of T "JObj s"] events counted_chain
    by (intro counted_fold) (simp add: fold_start_def counted_simps)
  from finish_ok [OF this d(2)] show ?thesis by (simp add: judged_def)
qed (auto simp: fold_projection_def Let_def judged_empty split: prod.splits)

text \<open>C26: A projection is \<open>ok\<close> exactly when the reducer found nothing: for every snapshot, well formed or not, one
  diagnostic or one unknown fact is enough for another status, so no complaint is ever ignored.\<close>

theorem projection_ok_iff:
  assumes "reduce_snapshot T snapshot version audience = Inr r"
  shows "pj_integrity r = ''ok'' \<longleftrightarrow> pj_diagnostics r = [] \<and> pj_unknowns r = []"
proof -
  have binding: "judged p" if "refuse_binding T s state = Inr (Some p)" for s state p
    using that by (auto simp: refuse_binding_def Let_def res_simps judged_empty split: json.splits if_splits)
  have "judged r"
    using assms unfolding reduce_snapshot_def Let_def
    by (auto simp: res_simps judged_empty split: if_splits json.splits option.splits intro: judged_fold dest: binding)
  then show ?thesis by (simp add: judged_def)
qed

section \<open>A frozen snapshot is accepted\<close>

lemma py_eq_refl [simp]: "py_eq v v"
  by (simp add: py_eq_def json_eq_def)

lemma refs_sensitivity:
  "validate_evidence_refs N tok i acc vs = Inr refs \<Longrightarrow> \<forall>v \<in> set vs. field v ''sensitivity'' \<in> JStr ` set SENSITIVITIES"
proof (induction vs arbitrary: i acc)
  case (Cons v vs)
  then obtain r where r: "validate_evidence_ref N v (''evidence_refs['' @ str_of_nat i @ '']'') = Inr r"
    "validate_evidence_refs N tok (Suc i) (acc @ [(jget r ''ref_id'', r)]) vs = Inr refs" by (auto simp: res_simps)
  from r(1) have "field v ''sensitivity'' \<in> JStr ` set SENSITIVITIES"
    by (auto simp: validate_evidence_ref_def res_simps event_simps)
  with Cons.IH [OF r(2)] show ?case by simp
qed simp

lemma event_sensitivity:
  assumes "validate_event N H True e = Inr kvs" "v \<in> set (e # refs_of e)"
  shows "field v ''sensitivity'' \<in> JStr ` set SENSITIVITIES"
proof -
  note e = valid_event [OF assms(1)]
  have "jget kvs ''sensitivity'' \<in> JStr ` set SENSITIVITIES"
    using e(3) by (auto simp: validate_fields_def res_simps event_simps)
  moreover obtain refs where "validate_evidence N kvs = Inr refs" by (rule valid_fields [OF e(3)])
  then have "\<forall>v \<in> set (refs_of e). field v ''sensitivity'' \<in> JStr ` set SENSITIVITIES"
    using e(1) refs_sensitivity
    by (auto simp: validate_evidence_def refs_of_def items_of_def res_simps event_simps split: json.splits)
  ultimately show ?thesis using assms(2) e(1) by auto
qed

lemma raised_level:
  "level \<in> set SENSITIVITIES \<Longrightarrow> \<forall>v \<in> set vs. field v ''sensitivity'' \<in> JStr ` set SENSITIVITIES \<Longrightarrow>
   fold (\<lambda>v level. raised level v) vs level \<in> set SENSITIVITIES"
  by (induction vs arbitrary: level) (auto simp: raised_def str_of_def)

lemma frozen_accepted:
  assumes "freeze_snapshot T P resolve_dir d rows task_id at = Inr snap" "audience \<noteq> []" "set audience \<subseteq> set AUDIENCES"
  shows "\<exists>parts. state_parts (field snap ''canonical_state'') = Some parts
    \<and> reduce_snapshot T snap PROJECTION_VERSION audience = fold_projection T (entries snap) parts"
proof -
  obtain t s events inventory state source digest level manifest where
    f: "state = canonical_state d t" "snap = JObj (s @ [(''snapshot_digest'', digest)])"
    "mapR (read_event T) (trajectory_rows rows (''task:'' @ task_id)) = Inr events"
    "sha_json (te_sha T) state = Inr source" "sha_json (te_sha T) (JObj s) = Inr digest"
    "level = fold (\<lambda>v level. raised level v) (concat (map (\<lambda>e. e # refs_of e) events)) ''internal''"
    "s = [(''snapshot_version'', JInt 1), (''trajectory_id'', JStr (''task:'' @ task_id)), (''captured_at_ms'', JInt at),
       (''created_from'', JStr ''live-acquisition''),
       (''ordered_events'', JArr (map (\<lambda>v. JStr (v_json v)) (trajectory_rows rows (''task:'' @ task_id)))),
       (''event_head_hash'', last_or_null events ''event_hash''), (''evidence_inventory'', JArr inventory),
       (''canonical_state'', state), (''source_db_snapshot_hash'', source), (''sensitivity'', JStr level), (''manifest'', manifest)]"
    by (rule freeze_parts [OF assms(1)])
  have objects: "objects_of (JArr (map g xs)) = Some (map g xs)" if "\<And>x. \<exists>kvs. g x = JObj kvs" for g :: "'a \<Rightarrow> json" and xs
  proof -
    have "case g x of JObj _ \<Rightarrow> True | _ \<Rightarrow> False" for x using that [of x] by auto
    then show ?thesis by (simp add: objects_of_def list_all_iff)
  qed
  obtain parts where parts: "state_parts state = Some parts"
    by (simp add: f(1) canonical_state_def state_parts_def state_task_def jget_def keys_def objects state_run_def
        transition_snapshot_def insert_commute)
  have "level \<in> set SENSITIVITIES" unfolding f(6)
  proof (rule raised_level)
    show "''internal'' \<in> set SENSITIVITIES" by (simp add: SENSITIVITIES_def)
    show "\<forall>v \<in> set (concat (map (\<lambda>e. e # refs_of e) events)). field v ''sensitivity'' \<in> JStr ` set SENSITIVITIES"
      using read_events(2) [OF f(3)] event_sensitivity by fastforce
  qed
  then have binding: "refuse_binding T (s @ [(''snapshot_digest'', digest)]) state = Inr None"
    using f(4) by (simp add: refuse_binding_def Let_def f(7) jget_def in_strings_def)
  have keys: "set (keys (s @ [(''snapshot_digest'', digest)])) = set SNAPSHOT_KEYS"
    by (simp add: f(7) keys_def SNAPSHOT_KEYS_def insert_commute)
  have unhashed: "filter (\<lambda>(k, v). k \<noteq> ''snapshot_digest'') (s @ [(''snapshot_digest'', digest)]) = s"
    by (simp add: f(7))
  have fields: "jget (s @ [(''snapshot_digest'', digest)]) ''canonical_state'' = state"
    "jget (s @ [(''snapshot_digest'', digest)]) ''snapshot_version'' = JInt 1"
    "jget (s @ [(''snapshot_digest'', digest)]) ''snapshot_digest'' = digest"
    by (simp_all add: f(7) jget_def)
  have "reduce_snapshot T snap PROJECTION_VERSION audience = fold_projection T (s @ [(''snapshot_digest'', digest)]) parts"
    using assms(2,3) unfolding reduce_snapshot_def Let_def f(2) json.case keys unhashed fields f(5) parts option.case
    by (simp add: binding fields SNAPSHOT_VERSION_def)
  with parts fields(1) show ?thesis by (simp add: f(2) entries_def)
qed


section \<open>What an audience sees\<close>

text \<open>An event with everything but identity, digest and sensitivity struck from the references the audience may not see, and the
  path and the seal struck from all of them.\<close>

definition redact_ref :: "string list \<Rightarrow> json \<Rightarrow> json" where
  "redact_ref allowed ref =
     pick ([''ref_id'', ''sha256'', ''sensitivity'']
       @ (if field ref ''sensitivity'' \<in> JStr ` set allowed then [''kind'', ''size_bytes'', ''media_type''] else [])) ref"

definition redact :: "string list \<Rightarrow> json \<Rightarrow> json" where
  "redact allowed e = JObj (map (\<lambda>(k, v). (k, if k = ''evidence_refs'' then JArr (map (redact_ref allowed) (items_of v)) else v)) (entries e))"

lemma jget_map_entries:
  "jget (map (\<lambda>(k, v). (k, f k v)) kvs) k = (case map_of kvs k of None \<Rightarrow> JNull | Some v \<Rightarrow> f k v)"
  by (induction kvs) (auto simp: jget_def)

lemma field_redact: "k \<noteq> ''evidence_refs'' \<Longrightarrow> field (redact allowed e) k = field e k"
  unfolding redact_def field_obj jget_map_entries by (simp add: field_def jget_def split: option.split)

lemma refs_redact: "refs_of (redact allowed e) = map (redact_ref allowed) (refs_of e)"
  unfolding refs_of_def redact_def field_obj jget_map_entries by (simp add: field_def jget_def items_of_def split: option.split)

lemma render_redacted_ref: "render_ref r allowed (redact_ref allowed ref) = render_ref r allowed ref"
  by (simp add: render_ref_def redact_ref_def pick_def jget_def)

text \<open>C27: The rendering of an event keeps the secrets of its references: it is a function of the redacted event, so two events
  that differ only in the kind, size, media type, seal or path of references the audience may not see (or in the path or seal of
  any reference) look the same to that audience.\<close>

theorem render_hides:
  assumes "redact allowed e = redact allowed e'"
  shows "render_event r allowed e = render_event r allowed e'"
proof -
  have "render_event r allowed e = render_event r allowed (redact allowed e)" for e
    by (simp add: render_event_def revision_of_def field_redact refs_redact render_redacted_ref comp_def)
  with assms show ?thesis by metis
qed

end
