(* ===== verification/ReplaySample.thy ===== *)
theory ReplaySample
  imports ReplaySafety RecordSample
begin

text \<open>Freezing and replaying the sample trajectory.\<close>

lemma trail_decoded: "loads (dumps trail_event) = Some (sort_keys trail_event)"
  "canonical_event_bytes (\<lambda>s. s) trail_hash (sort_keys trail_event) = Inr (dumps trail_event)"
proof -
  obtain bytes where "canonical_event_bytes (\<lambda>s. s) trail_hash trail_event = Inr bytes" "loads bytes = Some (sort_keys trail_event)"
    "canonical_event_bytes (\<lambda>s. s) trail_hash (sort_keys trail_event) = Inr bytes"
    using sealed_verifies [OF nfc_ok_id trail_seal] by blast
  then show "loads (dumps trail_event) = Some (sort_keys trail_event)"
    "canonical_event_bytes (\<lambda>s. s) trail_hash (sort_keys trail_event) = Inr (dumps trail_event)"
    by (simp_all add: canonical_event_bytes_def trail_valid trail_canonical)
qed

lemma trail_rows_of: "trajectory_rows trail_rows ''task:t1'' = [row_of trail_event (dumps trail_event)]"
proof -
  have "v_trajectory (row_of trail_event (dumps trail_event)) = ''task:t1''" unfolding row_of_def by code_simp
  then show ?thesis by (simp add: trajectory_rows_def trail_rows_def)
qed

lemma trail_read: "read_event trail_writer (row_of trail_event (dumps trail_event)) = Inr (sort_keys trail_event)"
  by (simp add: read_event_def decode_row_def row_of_def trail_decoded trail_writer_def del: sort_keys.simps)

lemma trail_no_refs: "refs_of (sort_keys trail_event) = []"
  by code_simp

definition trail_snapshot :: json where
  "trail_snapshot = (case freeze_snapshot trail_writer trail_paths (\<lambda>p. p) trail_db trail_rows ''t1'' 9 of Inl _ \<Rightarrow> JNull | Inr s \<Rightarrow> s)"

lemma trail_state_plain: "has_nan (canonical_state trail_db trail_task) = False"
  by code_simp

lemma trail_found: "find_task trail_db ''t1'' = Some trail_task"
  by code_simp

lemma trail_frozen: "freeze_snapshot trail_writer trail_paths (\<lambda>p. p) trail_db trail_rows ''t1'' 9 = Inr trail_snapshot"
  "field trail_snapshot ''evidence_inventory'' = JArr []"
proof -
  have leaf: "has_nan (last_or_null [sort_keys trail_event] ''seq'') = False" "has_nan (last_or_null [sort_keys trail_event] ''event_hash'') = False"
    by code_simp+
  have "\<exists>s. freeze_snapshot trail_writer trail_paths (\<lambda>p. p) trail_db trail_rows ''t1'' 9 = Inr s
      \<and> field s ''evidence_inventory'' = JArr []"
    unfolding freeze_snapshot_def trail_found option.case Let_def
    using leaf
    by (simp add: trail_read trail_no_refs sha_json_def canonical_json_bytes_def by_key_def trail_state_plain trail_rows_of
        manifest_json_def last_or_null_def jget_def del: sort_keys.simps)
  then show "freeze_snapshot trail_writer trail_paths (\<lambda>p. p) trail_db trail_rows ''t1'' 9 = Inr trail_snapshot"
    "field trail_snapshot ''evidence_inventory'' = JArr []" by (auto simp: trail_snapshot_def)
qed

lemma trail_state_parts: "state_parts (canonical_state trail_db trail_task) = Some (state_task trail_task, [], [])"
  by code_simp

lemma trail_folds: "fold (fold_event []) [sort_keys trail_event] (fold_start ds)
    = fold_start ds\<lparr>fs_task := Some (task_entry (sort_keys trail_event) (JStr ''queued'') JNull), fs_revision := Some 0\<rparr>"
proof -
  have e: "event_type_of (sort_keys trail_event) = ''task.created''" "field (sort_keys trail_event) ''run'' = JNull"
    "revision_of (sort_keys trail_event) = JInt 0"
    by code_simp+
  show ?thesis
    by (simp add: fold_event_def Let_def e fold_created_def fold_common_def report_def run_mismatch_def event_diag_def fold_start_def int_of_def
        del: sort_keys.simps)
qed

lemma trail_task_diags: "task_diags trail_writer (Some (task_entry (sort_keys trail_event) (JStr ''queued'') JNull)) (state_task trail_task)
    = Inr []"
  by code_simp

lemma trail_projected: "\<exists>r. reduce_snapshot trail_writer trail_snapshot PROJECTION_VERSION [''public''] = Inr r"
proof -
  obtain t s events inventory state source digest level manifest where
    f: "find_task trail_db ''t1'' = Some t" "state = canonical_state trail_db t" "trail_snapshot = JObj (s @ [(''snapshot_digest'', digest)])"
    "mapR (read_event trail_writer) (trajectory_rows trail_rows (''task:'' @ ''t1'')) = Inr events"
    "sha_json (te_sha trail_writer) state = Inr source" "sha_json (te_sha trail_writer) (JObj s) = Inr digest"
    "level = fold (\<lambda>v level. raised level v) (concat (map (\<lambda>e. e # refs_of e) events)) ''internal''"
    "s = [(''snapshot_version'', JInt 1), (''trajectory_id'', JStr (''task:'' @ ''t1'')), (''captured_at_ms'', JInt 9),
       (''created_from'', JStr ''live-acquisition''),
       (''ordered_events'', JArr (map (\<lambda>v. JStr (v_json v)) (trajectory_rows trail_rows (''task:'' @ ''t1'')))),
       (''event_head_hash'', last_or_null events ''event_hash''), (''evidence_inventory'', JArr inventory),
       (''canonical_state'', state), (''source_db_snapshot_hash'', source), (''sensitivity'', JStr level), (''manifest'', manifest)]"
    by (rule freeze_parts [OF trail_frozen(1)])
  obtain parts where parts: "state_parts (field trail_snapshot ''canonical_state'') = Some parts"
    "reduce_snapshot trail_writer trail_snapshot PROJECTION_VERSION [''public''] = fold_projection trail_writer (entries trail_snapshot) parts"
    using frozen_accepted [OF trail_frozen(1), of "[''public'']"] by (auto simp: AUDIENCES_def)
  let ?s = "s @ [(''snapshot_digest'', digest)]"
  have events: "events = [sort_keys trail_event]" using f(4) by (simp add: trail_rows_of trail_read del: sort_keys.simps)
  have inventory: "inventory = []" using trail_frozen(2) by (simp add: f(3,8) jget_def)
  have ordered: "has_nan (jget ?s ''ordered_events'') = False" by (simp add: f(8) jget_def comp_def list_ex_iff)
  have read: "snapshot_events trail_writer (JObj ?s) = ([sort_keys trail_event], [])"
    using snapshot_events_of_freeze [OF f(4), of ?s] by (simp add: events f(8) jget_def del: sort_keys.simps)
  have field: "jget ?s ''canonical_state'' = canonical_state trail_db trail_task" "jget ?s ''evidence_inventory'' = JArr []"
    using f(1,2) by (simp_all add: f(8) jget_def trail_found inventory)
  then have p: "parts = (state_task trail_task, [], [])" using parts(1) by (simp add: f(3) trail_state_parts)
  obtain ds where ds: "manifest_diags trail_writer ?s [sort_keys trail_event] [] = Inr ds"
    using ordered by (simp add: manifest_diags_def sha_json_def canonical_json_bytes_def Let_def)
  have "\<exists>r. fold_projection trail_writer ?s parts = Inr r"
    unfolding fold_projection_def Let_def p prod.case read field json.case ds res_simps canonical_runs.simps trail_folds
    by (simp add: finish_projection_def fold_start_def invocation_unknowns_def trail_task_diags trail_no_refs Let_def del: sort_keys.simps)
  then show ?thesis using parts(2) by (simp add: f(3) entries_def)
qed

lemma replay_of_written_witness:
  "\<exists>r. reduce_snapshot trail_writer trail_snapshot PROJECTION_VERSION [''public''] = Inr r \<and> clean (pj_diagnostics r)"
  using trail_projected replay_of_written [OF _ _ trail_frozen(1)] nfc_ok_id trail_written by (auto simp: trail_writer_def)

lemma projection_ok_iff_witness:
  "\<exists>r. reduce_snapshot trail_writer trail_snapshot PROJECTION_VERSION [''public''] = Inr r
     \<and> (pj_integrity r = ''ok'' \<longleftrightarrow> pj_diagnostics r = [] \<and> pj_unknowns r = [])"
  using trail_projected projection_ok_iff [of trail_writer trail_snapshot PROJECTION_VERSION "[''public'']"] by blast


definition secret_ref :: "string \<Rightarrow> json" where
  "secret_ref media = JObj [(''ref_id'', JStr ''ref-1''), (''sha256'', JStr ''ab''), (''sensitivity'', JStr ''sensitive''),
     (''kind'', JStr ''log''), (''size_bytes'', JInt 3), (''media_type'', JStr media), (''relative_path'', JStr ''a/b'')]"

definition secret_event :: "string \<Rightarrow> json" where
  "secret_event media = JObj [(''seq'', JInt 1), (''evidence_refs'', JArr [secret_ref media])]"

lemma render_hides_witness:
  "render_event (empty_projection ''snapshot_invalid'' JNull) [''public''] (secret_event ''text/plain'')
     = render_event (empty_projection ''snapshot_invalid'' JNull) [''public''] (secret_event ''image/png'')
   \<and> render_event (empty_projection ''snapshot_invalid'' JNull) [''sensitive''] (secret_event ''text/plain'')
     \<noteq> render_event (empty_projection ''snapshot_invalid'' JNull) [''sensitive''] (secret_event ''image/png'')"
proof
  have "redact [''public''] (secret_event ''text/plain'') = redact [''public''] (secret_event ''image/png'')"
    by code_simp
  then show "render_event (empty_projection ''snapshot_invalid'' JNull) [''public''] (secret_event ''text/plain'')
     = render_event (empty_projection ''snapshot_invalid'' JNull) [''public''] (secret_event ''image/png'')"
    by (rule render_hides)
  show "render_event (empty_projection ''snapshot_invalid'' JNull) [''sensitive''] (secret_event ''text/plain'')
     \<noteq> render_event (empty_projection ''snapshot_invalid'' JNull) [''sensitive''] (secret_event ''image/png'')"
    by code_simp
qed

end
