(* ===== verification/Cards.thy ===== *)
theory Cards
  imports Db Events
begin

text \<open>
  The kanban tables of \<open>orchestrator/kanban/store.py\<close> and the rows the commands write.  A card is split the way the
  commands split it: the columns an operator may edit, which a command assigns by name, are the map \<open>kc_fields\<close>; the
  columns the engine owns are fields of their own.  A statement is accepted when the tables it leaves satisfy the constraints of the
  schema (keys, checks, references) and raises an integrity error otherwise.  The night table is only read by this program; of its
  columns the model has those that are read.  The two triggers that make events append-only have no counterpart: no statement of
  the model changes or removes an event.
\<close>

section \<open>Rows\<close>

record card =
  kc_id :: string
  kc_revision :: int
  kc_state :: string
  kc_fields :: "string \<Rightarrow> string option"
  kc_spec_hash :: "string option"
  kc_acceptance_hash :: "string option"
  kc_profile_hash :: "string option"
  kc_generation :: int
  kc_approval_actor :: "string option"
  kc_approval_at :: "int option"
  kc_approval_hash :: "string option"
  kc_approval_event :: "string option"
  kc_task :: "string option"
  kc_request :: "string option"
  kc_reason :: "string option"
  kc_evidence :: "string option"
  kc_created :: int
  kc_updated :: int

record kanban_event =
  ke_operation :: string
  ke_hash :: string
  ke_kind :: string
  ke_card :: "string option"
  ke_expected :: "int option"
  ke_revision :: "int option"
  ke_actor :: string
  ke_at :: int
  ke_result :: string
  ke_reason :: "string option"
  ke_payload :: "string option"
  ke_delta :: "string option"

record night =
  kn_claim_seq :: int
  kn_night_id :: string
  kn_card :: string
  kn_generation :: int
  kn_task :: string
  kn_request :: string
  kn_pool_claims :: string
  kn_phase :: string
  kn_stop_event :: "string option"

record quota_row =
  kq_id :: string
  kq_pool :: string
  kq_remaining :: int
  kq_observed :: int
  kq_recorded :: int
  kq_reset :: int
  kq_operator :: string
  kq_covered :: int
  kq_stale :: bool
  kq_stale_event :: "string option"

record cli_row =
  ko_attempted :: int
  ko_outcome :: string
  ko_error :: "string option"
  ko_observed :: "int option"
  ko_remaining :: "int option"
  ko_reset :: "int option"

record board =
  kb_cards :: "card list"
  kb_events :: "kanban_event list"
  kb_nights :: "night list"
  kb_quota :: "quota_row list"
  kb_cli :: "cli_row option"

section \<open>Constraints\<close>

definition WEEK_MS :: int where "WEEK_MS = 7 * 24 * 60 * 60 * 1000"

definition PRIORITIES :: "string list" where "PRIORITIES = [''high'', ''normal'', ''low'']"
definition EFFORTS :: "string list" where "EFFORTS = [''low'', ''medium'', ''high'']"

definition MANUAL_STATES :: "string list" where
  "MANUAL_STATES = [''inbox'', ''needs_clarification'', ''ready'', ''returned'', ''done'', ''archived'']"

definition CLI_ERRORS :: "string list" where
  "CLI_ERRORS = [''timeout'', ''authentication'', ''rpc'', ''protocol'', ''invalid_quota'', ''transport'', ''storage'',
     ''environment'', ''interrupted'']"

definition MAX_TIMESTAMP_MS :: int where "MAX_TIMESTAMP_MS = 253402300799999"

text \<open>An approval is an actor, a time, a hash and an event, or nothing.\<close>

definition approval_whole :: "card \<Rightarrow> bool" where
  "approval_whole c \<longleftrightarrow>
     (kc_approval_hash c = None \<and> kc_approval_actor c = None \<and> kc_approval_at c = None \<and> kc_approval_event c = None)
     \<or> (kc_approval_hash c \<noteq> None \<and> kc_approval_actor c \<noteq> None \<and> kc_approval_at c \<noteq> None \<and> kc_approval_event c \<noteq> None)"

definition card_checks :: "card \<Rightarrow> bool" where
  "card_checks c \<longleftrightarrow> 0 \<le> kc_revision c \<and> kc_fields c ''title'' \<noteq> None
     \<and> opt_all (\<lambda>p. p \<in> set PRIORITIES) (kc_fields c ''priority'') \<and> kc_fields c ''priority'' \<noteq> None
     \<and> kc_state c \<in> set MANUAL_STATES \<and> opt_all (\<lambda>e. e \<in> set EFFORTS) (kc_fields c ''effort'')
     \<and> 0 \<le> kc_generation c \<and> (kc_generation c > 0 \<or> kc_approval_hash c = None) \<and> approval_whole c"

definition kanban_event_checks :: "kanban_event \<Rightarrow> bool" where
  "kanban_event_checks e \<longleftrightarrow> ke_result e \<in> set [''accepted'', ''rejected''] \<and> ke_kind e \<noteq> ''stop_evidence''
     \<and> (ke_kind e \<noteq> ''approve'' \<or> ke_result e \<noteq> ''accepted'' \<or> ke_payload e \<noteq> None)
     \<and> (ke_result e \<noteq> ''rejected'' \<or> ke_reason e \<noteq> None)
     \<and> (ke_result e \<noteq> ''rejected'' \<or> ke_revision e = None)"

definition quota_checks :: "quota_row \<Rightarrow> bool" where
  "quota_checks q \<longleftrightarrow> 0 \<le> kq_remaining q \<and> kq_remaining q \<le> 10000 \<and> 0 \<le> kq_covered q \<and> kq_observed q \<le> kq_recorded q
     \<and> kq_observed q < kq_reset q \<and> kq_reset q \<le> kq_observed q + WEEK_MS \<and> (kq_stale q \<or> kq_stale_event q = None)"

definition cli_checks :: "cli_row \<Rightarrow> bool" where
  "cli_checks o' \<longleftrightarrow> 0 < ko_attempted o' \<and> ko_attempted o' \<le> MAX_TIMESTAMP_MS \<and> ko_outcome o' \<in> set [''ok'', ''failed'']
     \<and> opt_all (\<lambda>e. e \<in> set CLI_ERRORS) (ko_error o') \<and> (ko_outcome o' \<noteq> ''ok'' \<or> ko_observed o' \<noteq> None)
     \<and> ((ko_outcome o' = ''ok'' \<and> ko_error o' = None) \<or> (ko_outcome o' = ''failed'' \<and> ko_error o' \<noteq> None))
     \<and> (case (ko_observed o', ko_remaining o', ko_reset o') of
          (None, None, None) \<Rightarrow> True
        | (Some observed, Some remaining, Some reset) \<Rightarrow>
            0 \<le> remaining \<and> remaining \<le> 100 \<and> 0 < observed \<and> observed \<le> ko_attempted o' \<and> observed < reset
            \<and> reset \<le> observed + 604800000
        | _ \<Rightarrow> False)"

definition operations :: "board \<Rightarrow> string list" where
  "operations b = map ke_operation (kb_events b)"

definition board_ok :: "board \<Rightarrow> bool" where
  "board_ok b \<longleftrightarrow> distinct (map kc_id (kb_cards b)) \<and> list_all card_checks (kb_cards b)
     \<and> list_all (\<lambda>c. opt_all (\<lambda>i. i \<in> set (operations b)) (kc_approval_event c)
          \<and> opt_all (\<lambda>i. i \<in> set (operations b)) (kc_evidence c)) (kb_cards b)
     \<and> distinct (operations b) \<and> list_all kanban_event_checks (kb_events b)
     \<and> list_all (\<lambda>e. opt_all (\<lambda>i. i \<in> set (map kc_id (kb_cards b))) (ke_card e)) (kb_events b)
     \<and> distinct (map kq_id (kb_quota b)) \<and> list_all quota_checks (kb_quota b)
     \<and> list_all (\<lambda>q. opt_all (\<lambda>i. i \<in> set (operations b)) (kq_stale_event q)) (kb_quota b)
     \<and> opt_all cli_checks (kb_cli b)"

section \<open>Statements\<close>

datatype kanban_error =
    KanbanError string
  | KanbanIntegrity
  | KanbanTypeError
  | KanbanValueError
  | KanbanKeyError
  | KanbanAttributeError
  | KanbanOSError

definition stored_board :: "board \<Rightarrow> (kanban_error, board) res" where
  "stored_board b = (if board_ok b then Inr b else Inl KanbanIntegrity)"

definition insert_card :: "card \<Rightarrow> board \<Rightarrow> (kanban_error, board) res" where
  "insert_card c b = stored_board (b\<lparr>kb_cards := kb_cards b @ [c]\<rparr>)"

definition insert_kanban_event :: "kanban_event \<Rightarrow> board \<Rightarrow> (kanban_error, board) res" where
  "insert_kanban_event e b = stored_board (b\<lparr>kb_events := kb_events b @ [e]\<rparr>)"

definition insert_snapshot :: "quota_row \<Rightarrow> board \<Rightarrow> (kanban_error, board) res" where
  "insert_snapshot q b = stored_board (b\<lparr>kb_quota := kb_quota b @ [q]\<rparr>)"

text \<open>\<open>UPDATE kanban_cards ... WHERE card_id = ? AND revision = ?\<close>: the new tables and the row count.\<close>

definition update_cards :: "string \<Rightarrow> int \<Rightarrow> (card \<Rightarrow> card) \<Rightarrow> board \<Rightarrow> (kanban_error, board \<times> nat) res" where
  "update_cards i revision f b =
     (let hit = (\<lambda>c. kc_id c = i \<and> kc_revision c = revision) in
      bindR (stored_board (b\<lparr>kb_cards := map (\<lambda>c. if hit c then f c else c) (kb_cards b)\<rparr>))
       (\<lambda>b'. Inr (b', length (filter hit (kb_cards b)))))"

definition update_quota :: "(quota_row \<Rightarrow> bool) \<Rightarrow> (quota_row \<Rightarrow> quota_row) \<Rightarrow> board \<Rightarrow> (kanban_error, board) res" where
  "update_quota hit f b = stored_board (b\<lparr>kb_quota := map (\<lambda>q. if hit q then f q else q) (kb_quota b)\<rparr>)"

definition put_cli :: "cli_row \<Rightarrow> board \<Rightarrow> (kanban_error, board) res" where
  "put_cli o' b = stored_board (b\<lparr>kb_cli := Some o'\<rparr>)"

definition find_event :: "board \<Rightarrow> string \<Rightarrow> kanban_event option" where
  "find_event b i = find (\<lambda>e. ke_operation e = i) (kb_events b)"

definition empty_board :: board where
  "empty_board = \<lparr>kb_cards = [], kb_events = [], kb_nights = [], kb_quota = [], kb_cli = None\<rparr>"

lemma stored_board_Inr [simp]: "stored_board b = Inr b' \<longleftrightarrow> b' = b \<and> board_ok b"
  by (auto simp: stored_board_def)

lemma board_ok_empty: "board_ok empty_board"
  by (simp add: board_ok_def empty_board_def operations_def opt_all_def)

end
