(* ===== verification/Quota.thy ===== *)
theory Quota
  imports Cards
begin

text \<open>
  The admission arithmetic of \<open>orchestrator/kanban/quota.py\<close>: one pool, several pools, the newest snapshot of a pool and the
  debits after its watermark.  A snapshot or a claim that a caller hands over is a dict, so a missing key reads as \<open>None\<close>.
  Values other than integers, booleans, texts, lists and dicts do not occur in them.
\<close>

section \<open>Names\<close>

definition is_pool_start :: "char \<Rightarrow> bool" where
  "is_pool_start c \<longleftrightarrow> is_lower_alpha c \<or> is_digit c"

definition is_pool_char :: "char \<Rightarrow> bool" where
  "is_pool_char c \<longleftrightarrow> is_lower_alpha c \<or> is_digit c \<or> c \<in> set ''._:-''"

definition POOL_KEY :: "string \<Rightarrow> bool" where
  "POOL_KEY s \<longleftrightarrow> (case s of [] \<Rightarrow> False | c # cs \<Rightarrow> is_pool_start c \<and> length cs \<le> 63 \<and> list_all is_pool_char cs)"

definition SNAPSHOT_ID :: "string \<Rightarrow> bool" where
  "SNAPSHOT_ID s \<longleftrightarrow> (case s of [] \<Rightarrow> False
     | c # cs \<Rightarrow> is_alnum c \<and> length cs \<le> 127 \<and> list_all (\<lambda>c. is_alnum c \<or> c \<in> set ''._:-'') cs)"

definition valid_pool_key :: "json \<Rightarrow> bool" where
  "valid_pool_key v \<longleftrightarrow> (case v of JStr s \<Rightarrow> POOL_KEY s | _ \<Rightarrow> False)"

section \<open>One pool\<close>

definition DAYTIME_RESERVE_BP :: int where "DAYTIME_RESERVE_BP = 3500"
definition PER_NIGHT_CAP_BP :: int where "PER_NIGHT_CAP_BP = 800"
definition SNAPSHOT_MAX_AGE_MS :: int where "SNAPSHOT_MAX_AGE_MS = WEEK_MS"

record explanation =
  ex_eligible :: bool
  ex_reason :: "string option"
  ex_remaining :: "int option"
  ex_windows :: json
  ex_budget :: "int option"
  ex_estimate :: json
  ex_debited :: "int option"
  ex_snapshot :: json

text \<open>The arguments that have defaults.\<close>

record policy =
  py_reserve :: int
  py_cap :: int
  py_max_age :: int

definition default_policy :: policy where
  "default_policy = \<lparr>py_reserve = DAYTIME_RESERVE_BP, py_cap = PER_NIGHT_CAP_BP, py_max_age = SNAPSHOT_MAX_AGE_MS\<rparr>"

text \<open>A snapshot whose numbers are in range, as numbers; \<open>None\<close> for \<open>quota_invalid\<close>.\<close>

record reading =
  rd_remaining :: int
  rd_observed :: int
  rd_reset :: int
  rd_covered :: int
  rd_stale :: bool

definition read_snapshot ::
  "policy \<Rightarrow> int \<Rightarrow> (string \<times> json) list \<Rightarrow> json \<Rightarrow> json \<Rightarrow> (reading \<times> int \<times> int) option" where
  "read_snapshot p at s windows estimate =
     (case (as_int (jget s ''weekly_remaining_bp''), as_int (jget s ''observed_at''), as_int (jget s ''recorded_at''),
            as_int (jget s ''reset_at''), as_int (jget s ''covered_claim_seq''), as_int windows, as_int estimate) of
        (Some remaining, Some observed, Some recorded, Some reset, Some covered, Some w, Some e) \<Rightarrow>
          if valid_pool_key (jget s ''pool_key'') \<and> jget s ''source'' = JStr ''manual''
             \<and> 0 \<le> remaining \<and> remaining \<le> 10000 \<and> 0 \<le> covered
             \<and> jget s ''stale'' \<in> set [JInt 0, JInt 1, JBool False, JBool True]
             \<and> observed \<le> recorded \<and> recorded \<le> at \<and> 0 \<le> w \<and> 0 < e
             \<and> 0 \<le> py_reserve p \<and> py_reserve p \<le> 10000 \<and> 0 < py_cap p \<and> py_cap p \<le> 10000 \<and> 0 < py_max_age p
             \<and> observed \<le> at \<and> observed < reset \<and> reset \<le> observed + WEEK_MS
          then Some (\<lparr>rd_remaining = remaining, rd_observed = observed, rd_reset = reset, rd_covered = covered,
                      rd_stale = (jget s ''stale'' \<in> set [JInt 1, JBool True])\<rparr>, w, e)
          else None
      | _ \<Rightarrow> None)"

text \<open>What a claim takes when its sequence is past the watermark; \<open>None\<close> for a malformed claim.\<close>

definition claim_debit :: "int \<Rightarrow> json \<Rightarrow> int option" where
  "claim_debit covered claim =
     (case claim of
        JObj kvs \<Rightarrow>
          (case (as_int (jget kvs ''claim_seq''), as_int (jget kvs ''debit_bp'')) of
             (Some q, Some v) \<Rightarrow> if q \<le> 0 \<or> v < 0 then None else Some (if covered < q then v else 0)
           | _ \<Rightarrow> None)
      | _ \<Rightarrow> None)"

fun sum_claims :: "int \<Rightarrow> json list \<Rightarrow> int option" where
  "sum_claims covered [] = Some 0"
| "sum_claims covered (claim # claims) =
     (case claim_debit covered claim of None \<Rightarrow> None | Some v \<Rightarrow> map_option (\<lambda>rest. v + rest) (sum_claims covered claims))"

definition refused :: "(string \<times> json) list option \<Rightarrow> json \<Rightarrow> json \<Rightarrow> string \<Rightarrow> explanation" where
  "refused snapshot windows estimate reason =
     \<lparr>ex_eligible = False, ex_reason = Some reason, ex_remaining = None, ex_windows = windows, ex_budget = None,
      ex_estimate = estimate, ex_debited = None,
      ex_snapshot = (case snapshot of None \<Rightarrow> JNull | Some s \<Rightarrow> jget s ''snapshot_id'')\<rparr>"

definition judge :: "policy \<Rightarrow> (string \<times> json) list \<Rightarrow> int \<Rightarrow> int \<Rightarrow> int \<Rightarrow> int \<Rightarrow> explanation" where
  "judge p s remaining debit w e =
     (let left = remaining - debit; windows = max 1 w;
          budget = min (py_cap p) (max 0 (left - py_reserve p) div windows);
          reason = (if left \<le> py_reserve p then Some ''quota_reserve''
                    else if budget < e then Some ''quota_estimate_exceeds_budget'' else None)
      in \<lparr>ex_eligible = (reason = None), ex_reason = reason, ex_remaining = Some left, ex_windows = JInt windows,
          ex_budget = Some budget, ex_estimate = JInt e, ex_debited = Some debit, ex_snapshot = jget s ''snapshot_id''\<rparr>)"

definition evaluate_pool ::
  "policy \<Rightarrow> (string \<times> json) list option \<Rightarrow> json \<Rightarrow> json \<Rightarrow> json list \<Rightarrow> int \<Rightarrow> explanation" where
  "evaluate_pool p snapshot estimate windows claims at =
     (case snapshot of
        None \<Rightarrow> refused snapshot windows estimate ''quota_missing''
      | Some s \<Rightarrow>
        (case read_snapshot p at s windows estimate of
           None \<Rightarrow> refused snapshot windows estimate ''quota_invalid''
         | Some (r, w, e) \<Rightarrow>
           if rd_reset r \<le> at then refused snapshot windows estimate ''quota_reset_passed''
           else if rd_stale r \<or> py_max_age p \<le> at - rd_observed r then refused snapshot windows estimate ''quota_stale''
           else case sum_claims (rd_covered r) claims of
               None \<Rightarrow> refused snapshot windows estimate ''quota_invalid''
             | Some debit \<Rightarrow> judge p s (rd_remaining r) debit w e))"

section \<open>Several pools\<close>

definition evaluate_pools ::
  "string list \<Rightarrow> (string \<Rightarrow> (string \<times> json) list option) \<Rightarrow> (string \<Rightarrow> json) \<Rightarrow> (string \<Rightarrow> json list) \<Rightarrow> json \<Rightarrow> int
   \<Rightarrow> bool \<times> (string \<times> explanation) list" where
  "evaluate_pools required snapshots estimates claims windows at =
     (let pools = dedup required;
          one = (\<lambda>pool. if \<not> POOL_KEY pool then refused None windows (estimates pool) ''quota_invalid''
            else if estimates pool = JNull then refused (snapshots pool) windows JNull ''quota_missing''
            else evaluate_pool default_policy (snapshots pool) (estimates pool) windows (claims pool) at);
          results = map (\<lambda>pool. (pool, one pool)) pools
      in (pools \<noteq> [] \<and> list_all (\<lambda>(pool, x). ex_eligible x) results, results))"

section \<open>The tables\<close>

definition snapshot_json :: "quota_row \<Rightarrow> (string \<times> json) list" where
  "snapshot_json q =
     [(''snapshot_id'', JStr (kq_id q)), (''pool_key'', JStr (kq_pool q)), (''weekly_remaining_bp'', JInt (kq_remaining q)),
      (''observed_at'', JInt (kq_observed q)), (''recorded_at'', JInt (kq_recorded q)), (''reset_at'', JInt (kq_reset q)),
      (''source'', JStr ''manual''), (''operator'', JStr (kq_operator q)), (''covered_claim_seq'', JInt (kq_covered q)),
      (''stale'', JInt (if kq_stale q then 1 else 0)), (''stale_event_id'', jopt_str (kq_stale_event q))]"

text \<open>\<open>ORDER BY recorded_at DESC, rowid DESC LIMIT 1\<close>: rows are kept in the order of their row ids.\<close>

definition newest :: "quota_row list \<Rightarrow> quota_row option" where
  "newest rows = (if rows = [] then None else Some (List.last (sort_key kq_recorded rows)))"

definition latest_row :: "board \<Rightarrow> string \<Rightarrow> quota_row option" where
  "latest_row b pool = newest (filter (\<lambda>q. kq_pool q = pool) (kb_quota b))"

definition latest_snapshot :: "board \<Rightarrow> string \<Rightarrow> (string \<times> json) list option" where
  "latest_snapshot b pool = (if \<not> POOL_KEY pool then None else map_option snapshot_json (latest_row b pool))"

definition nights_by_seq :: "board \<Rightarrow> night list" where
  "nights_by_seq b = sort_key kn_claim_seq (kb_nights b)"

text \<open>\<open>pools.get(pool_key)\<close> of a stored claim: no entry, a well-formed debit, or an error.\<close>

definition pool_debit :: "string \<Rightarrow> night \<Rightarrow> (kanban_error, int option) res" where
  "pool_debit pool n =
     (case loads (kn_pool_claims n) of
        None \<Rightarrow> Inl KanbanValueError
      | Some v \<Rightarrow>
        (let claim = (case v of JObj kvs \<Rightarrow> jget kvs pool | _ \<Rightarrow> JNull) in
         if claim = JNull then Inr None
         else case (case claim of JObj kvs \<Rightarrow> as_int (jget kvs ''debit_bp'') | _ \<Rightarrow> None) of
             Some debit \<Rightarrow> if 0 \<le> debit then Inr (Some debit) else Inl KanbanValueError
           | None \<Rightarrow> Inl KanbanValueError))"

definition claim_json :: "int \<Rightarrow> int \<Rightarrow> json" where
  "claim_json q debit = JObj [(''claim_seq'', JInt q), (''debit_bp'', JInt debit)]"

definition claims_after_watermark :: "board \<Rightarrow> string \<Rightarrow> int \<Rightarrow> (kanban_error, json list) res" where
  "claims_after_watermark b pool covered =
     (if \<not> POOL_KEY pool \<or> covered < 0 then Inl KanbanValueError
      else bindR (mapR (\<lambda>n. bindR (pool_debit pool n) (\<lambda>d. Inr (kn_claim_seq n, d)))
                   (filter (\<lambda>n. covered < kn_claim_seq n) (nights_by_seq b)))
        (\<lambda>ds. Inr (List.map_filter (\<lambda>(q, d). map_option (claim_json q) d) ds)))"

end
