(* ===== verification/Yaml.thy ===== *)
theory Yaml
  imports Profile
begin

text \<open>
  \<open>parse_yaml_mapping\<close> of \<open>orchestrator/profile.py\<close>, the mapping-only YAML subset that profiles and risk rules are written
  in, and \<open>load_profile\<close>.  The code keeps a stack of the dicts that are open, each with its indentation, and changes them
  in place; here the stack holds the path of each open dict in the one tree.  \<open>ast.literal_eval\<close> on a text that starts with a
  quote is the parameter \<open>lit\<close>: \<open>None\<close> when it raises.
\<close>

datatype yaml_error =
    YamlTabs nat
  | YamlOddIndent nat
  | YamlSequence nat
  | YamlNoColon nat
  | YamlEmptyKey nat
  | YamlBadKey nat
  | YamlBadIndent nat
  | YamlJump nat
  | YamlDuplicate nat string
  | YamlQuoted nat
  | YamlNotString nat
  | YamlUnsupported nat

section \<open>Scalars\<close>

text \<open>\<open>int(text)\<close>: a sign, then digits with single underscores between them.\<close>

fun digit_groups :: "string \<Rightarrow> bool" where
  "digit_groups [] = False"
| "digit_groups [c] = is_digit c"
| "digit_groups (c # d # s) =
     (is_digit c \<and> (if d = CHR ''_'' then digit_groups s else digit_groups (d # s)))"

definition py_int :: "string \<Rightarrow> int option" where
  "py_int s =
     (let (negative, body) = (case s of [] \<Rightarrow> (False, [])
            | c # cs \<Rightarrow> if c = CHR ''-'' then (True, cs) else if c = CHR ''+'' then (False, cs) else (False, s));
          n = int (nat_of_digits 0 (filter is_digit body))
      in if digit_groups body then Some (if negative then - n else n) else None)"

definition quoted :: "string \<Rightarrow> bool" where
  "quoted s \<longleftrightarrow> s \<noteq> [] \<and> hd s \<in> {CHR 0x27, CHR 0x22}"

definition UNSUPPORTED_START :: "char list" where
  "UNSUPPORTED_START = ''[{&*!|>''"

definition parse_scalar :: "(string \<Rightarrow> json option) \<Rightarrow> string \<Rightarrow> nat \<Rightarrow> (yaml_error, json) res" where
  "parse_scalar lit s n =
     (if quoted s
      then (case lit s of None \<Rightarrow> Inl (YamlQuoted n) | Some v \<Rightarrow> check (is_str v) (YamlNotString n) (Inr v))
      else let lowered = lower s in
        if lowered \<in> set [''true'', ''false''] then Inr (JBool (lowered = ''true''))
        else if lowered \<in> set [''null'', ''~''] then Inr JNull
        else case py_int s of
            Some i \<Rightarrow> Inr (JInt i)
          | None \<Rightarrow> if s \<noteq> [] \<and> hd s \<in> set UNSUPPORTED_START then Inl (YamlUnsupported n) else Inr (JStr s))"

definition parse_key :: "(string \<Rightarrow> json option) \<Rightarrow> string \<Rightarrow> nat \<Rightarrow> (yaml_error, string) res" where
  "parse_key lit s n =
     check (s \<noteq> []) (YamlEmptyKey n)
      (bindR (if quoted s then parse_scalar lit s n else Inr (JStr s))
        (\<lambda>v. case v of JStr k \<Rightarrow> check (k \<noteq> []) (YamlBadKey n) (Inr k) | _ \<Rightarrow> Inl (YamlBadKey n)))"

section \<open>The tree\<close>

fun at_path :: "string list \<Rightarrow> (string \<times> json) list \<Rightarrow> (string \<times> json) list" where
  "at_path [] kvs = kvs"
| "at_path (p # ps) kvs = (case map_of kvs p of Some (JObj inner) \<Rightarrow> at_path ps inner | _ \<Rightarrow> [])"

fun put_at :: "string list \<Rightarrow> string \<Rightarrow> json \<Rightarrow> (string \<times> json) list \<Rightarrow> (string \<times> json) list" where
  "put_at [] k v kvs = kvs @ [(k, v)]"
| "put_at (p # ps) k v kvs =
     (case map_of kvs p of Some (JObj inner) \<Rightarrow> dict_set p (JObj (put_at ps k v inner)) kvs | _ \<Rightarrow> kvs)"

type_synonym yaml_state = "(int \<times> string list) list \<times> (string \<times> json) list"

definition indent_of :: "string \<Rightarrow> int" where
  "indent_of raw = int (length (takeWhile (\<lambda>c. c = CHR '' '') raw))"

definition skipped_line :: "string \<Rightarrow> bool" where
  "skipped_line raw \<longleftrightarrow> strip raw = [] \<or> starts_with ''#'' (lstrip raw)"

text \<open>One key with its value, under the innermost open dict that is less indented.\<close>

definition yaml_entry ::
  "(string \<Rightarrow> json option) \<Rightarrow> nat \<Rightarrow> int \<Rightarrow> string \<Rightarrow> yaml_state \<Rightarrow> (yaml_error, yaml_state) res" where
  "yaml_entry lit n indent content state =
     (let (key_text, _, value_text) = partition_sub '':'' content; (stack, root) = state in
      bindR (parse_key lit (strip key_text) n)
       (\<lambda>key. case dropWhile (\<lambda>(i, _). indent \<le> i) stack of
          [] \<Rightarrow> Inl (YamlBadIndent n)
        | (i, path) # open_dicts \<Rightarrow>
          check (indent \<le> i + 2) (YamlJump n)
           (check (key \<notin> set (keys (at_path path root))) (YamlDuplicate n key)
             (let value = strip value_text in
              if value = [] then Inr ((indent, path @ [key]) # (i, path) # open_dicts, put_at path key (JObj []) root)
              else bindR (parse_scalar lit value n) (\<lambda>v. Inr ((i, path) # open_dicts, put_at path key v root))))))"

definition yaml_line :: "(string \<Rightarrow> json option) \<Rightarrow> nat \<times> string \<Rightarrow> yaml_state \<Rightarrow> (yaml_error, yaml_state) res" where
  "yaml_line lit line state =
     (let (n, raw) = line; content = strip raw; indent = indent_of raw in
      if skipped_line raw then Inr state
      else check (CHR 0x09 \<notin> set (takeWhile is_space raw)) (YamlTabs n)
       (check (indent mod 2 = 0) (YamlOddIndent n)
         (check (\<not> starts_with ''-'' content) (YamlSequence n)
           (check (CHR '':'' \<in> set content) (YamlNoColon n) (yaml_entry lit n indent content state)))))"

fun yaml_lines :: "(string \<Rightarrow> json option) \<Rightarrow> (nat \<times> string) list \<Rightarrow> yaml_state \<Rightarrow> (yaml_error, yaml_state) res" where
  "yaml_lines lit [] state = Inr state"
| "yaml_lines lit (l # ls) state = bindR (yaml_line lit l state) (yaml_lines lit ls)"

definition parse_yaml_mapping :: "(string \<Rightarrow> json option) \<Rightarrow> string \<Rightarrow> (yaml_error, json) res" where
  "parse_yaml_mapping lit source =
     bindR (yaml_lines lit (enumerate 1 (splitlines source)) ([(-2, [])], [])) (\<lambda>state. Inr (JObj (snd state)))"

section \<open>Loading a profile\<close>

datatype load_error =
    LoadUnreadable string
  | LoadYaml yaml_error
  | LoadProfile profile_error

definition load_profile ::
  "(string \<Rightarrow> json option) \<Rightarrow> (string \<Rightarrow> string option) \<Rightarrow> string \<Rightarrow> (load_error, profile) res" where
  "load_profile lit fs path =
     (case fs path of
        None \<Rightarrow> Inl (LoadUnreadable path)
      | Some source \<Rightarrow>
        (case parse_yaml_mapping lit source of
           Inl e \<Rightarrow> Inl (LoadYaml e)
         | Inr data \<Rightarrow> (case validate_profile data of Inl e \<Rightarrow> Inl (LoadProfile e) | Inr p \<Rightarrow> Inr p)))"

section \<open>What a parsed text is\<close>

text \<open>The paths of the open dicts are the ends of one path, outermost last; each leads to a dict.\<close>

fun leads :: "string list \<Rightarrow> (string \<times> json) list \<Rightarrow> bool" where
  "leads [] kvs = True"
| "leads (p # ps) kvs = (case map_of kvs p of Some (JObj inner) \<Rightarrow> leads ps inner | _ \<Rightarrow> False)"

definition literal_ok :: "(string \<Rightarrow> json option) \<Rightarrow> bool" where
  "literal_ok lit \<longleftrightarrow> (\<forall>s v. lit s = Some v \<longrightarrow> wf_json v)"

lemma scalar_wf: "literal_ok lit \<Longrightarrow> parse_scalar lit s n = Inr v \<Longrightarrow> wf_json v"
  by (auto simp: parse_scalar_def literal_ok_def Let_def check_def split: if_splits option.splits)

lemma leads_put: "leads path kvs \<Longrightarrow> leads path' kvs \<Longrightarrow> k \<notin> set (keys (at_path path' kvs)) \<Longrightarrow> leads path (put_at path' k v kvs)"
proof (induction path' k v kvs arbitrary: path rule: put_at.induct)
  case (1 k v kvs)
  then show ?case by (cases path) (auto simp: map_add_def split: option.splits json.splits)
next
  case (2 p ps k v kvs)
  from 2(3) obtain inner where p: "map_of kvs p = Some (JObj inner)" by (auto split: option.splits json.splits)
  show ?case
  proof (cases path)
    case (Cons q qs)
    with 2 p show ?thesis by (auto split: option.splits json.splits)
  qed simp
qed

lemma leads_new: "leads path kvs \<Longrightarrow> k \<notin> set (keys (at_path path kvs)) \<Longrightarrow> leads (path @ [k]) (put_at path k (JObj []) kvs)"
proof (induction path k "JObj []" kvs rule: put_at.induct)
  case (1 k kvs)
  then have "map_of kvs k = None" by (simp add: keys_def map_of_eq_None_iff)
  then show ?case by (simp add: map_add_def)
next
  case (2 p ps k kvs)
  then show ?case by (auto split: option.splits json.splits)
qed

lemma keys_dict_set: "k \<in> set (keys kvs) \<Longrightarrow> keys (dict_set k v kvs) = keys kvs"
  by (induction kvs) (force simp: keys_def)+

lemma set_dict_set: "p \<in> set (dict_set k v kvs) \<Longrightarrow> p = (k, v) \<or> p \<in> set kvs"
  by (induction kvs) (auto split: if_splits)

lemma wf_put:
  "wf_json (JObj kvs) \<Longrightarrow> wf_json v \<Longrightarrow> leads path kvs \<Longrightarrow> k \<notin> set (keys (at_path path kvs)) \<Longrightarrow> wf_json (JObj (put_at path k v kvs))"
proof (induction path k v kvs rule: put_at.induct)
  case (1 k v kvs)
  then show ?case by (auto simp: keys_def)
next
  case (2 p ps k v kvs)
  from 2(4) obtain inner where p: "map_of kvs p = Some (JObj inner)" by (auto split: option.splits json.splits)
  then have mem: "(p, JObj inner) \<in> set kvs" by (rule map_of_SomeD)
  with 2(2) have "wf_json (JObj inner)" by fastforce
  with 2 p have inner: "wf_json (JObj (put_at ps k v inner))" by simp
  have "p \<in> set (keys kvs)" using mem by (force simp: keys_def)
  from keys_dict_set [OF this] have "map fst (dict_set p (JObj (put_at ps k v inner)) kvs) = map fst kvs" by (simp add: keys_def)
  with 2(2) inner p show ?case by (auto dest: set_dict_set)
qed

definition yaml_sound :: "yaml_state \<Rightarrow> bool" where
  "yaml_sound state \<longleftrightarrow> wf_json (JObj (snd state)) \<and> (\<forall>(i, path) \<in> set (fst state). leads path (snd state))"

lemma yaml_line_sound:
  assumes "literal_ok lit" "yaml_line lit l state = Inr state'" "yaml_sound state"
  shows "yaml_sound state'"
proof (cases "skipped_line (snd l)")
  case False
  obtain n raw where l: "l = (n, raw)" by (cases l)
  obtain stack root where st: "state = (stack, root)" by (cases state)
  obtain key_text sep value_text where kv: "partition_sub '':'' (strip raw) = (key_text, sep, value_text)" by (cases "partition_sub '':'' (strip raw)")
  from assms(2) False have "yaml_entry lit n (indent_of raw) (strip raw) state = Inr state'" by (simp add: yaml_line_def l Let_def res_simps)
  then have e: "yaml_entry lit n (indent_of raw) (strip raw) (stack, root) = Inr state'" by (simp add: st)
  then obtain i path rest where dw: "dropWhile (\<lambda>(i, _). indent_of raw \<le> i) stack = (i, path) # rest"
    by (cases "dropWhile (\<lambda>(i, _). indent_of raw \<le> i) stack") (auto simp: yaml_entry_def kv Let_def res_simps)
  from e obtain key where k: "key \<notin> set (keys (at_path path root))"
    and new: "state' = ((indent_of raw, path @ [key]) # (i, path) # rest, put_at path key (JObj []) root)
      \<or> (\<exists>v. parse_scalar lit (strip value_text) n = Inr v \<and> state' = ((i, path) # rest, put_at path key v root))"
    unfolding yaml_entry_def kv Let_def prod.case dw list.case by (auto simp: res_simps split: if_splits)
  have kept: "leads q root" if "(j, q) \<in> set ((i, path) # rest)" for j q
    using assms(3) that set_dropWhileD [of "(j, q)" "\<lambda>(i, _). indent_of raw \<le> i" stack] unfolding dw
    by (auto simp: yaml_sound_def st)
  have path: "leads path root" by (rule kept [of i]) simp
  have wf: "wf_json (JObj root)" using assms(3) by (simp add: yaml_sound_def st)
  have put: "yaml_sound ((i, path) # rest, put_at path key v root)" if "wf_json v" for v
  proof -
    have "leads q (put_at path key v root)" if "(j, q) \<in> set ((i, path) # rest)" for j q
      by (rule leads_put [OF kept [OF that] path k])
    then show ?thesis using wf_put [OF wf that path k] unfolding yaml_sound_def fst_conv snd_conv by blast
  qed
  from new show ?thesis
  proof (elim disjE exE conjE)
    assume s: "state' = ((indent_of raw, path @ [key]) # (i, path) # rest, put_at path key (JObj []) root)"
    show ?thesis using put [of "JObj []"] leads_new [OF path k] by (simp add: s yaml_sound_def)
  qed (use put scalar_wf [OF assms(1)] in blast)
qed (use assms(2,3) in \<open>auto simp: yaml_line_def Let_def split: prod.splits\<close>)

lemma parsed_wf:
  assumes "literal_ok lit" "parse_yaml_mapping lit source = Inr v"
  shows "wf_json v"
proof -
  have step: "yaml_line lit l s = Inr s' \<Longrightarrow> yaml_sound s \<Longrightarrow> yaml_sound s'" for l s s'
    using yaml_line_sound [OF assms(1)] by blast
  have "yaml_sound state'" if "yaml_lines lit ls state = Inr state'" "yaml_sound state" for ls state state'
    using that
  proof (induction ls arbitrary: state)
    case (Cons l ls)
    from Cons.prems(1) obtain s where "yaml_line lit l state = Inr s" "yaml_lines lit ls s = Inr state'" by (auto simp: res_simps)
    with Cons.IH step [OF this(1) Cons.prems(2)] show ?case by blast
  qed simp
  moreover have "yaml_sound ([(-2, [])], [])" by (simp add: yaml_sound_def)
  ultimately show ?thesis using assms(2) by (auto simp: parse_yaml_mapping_def yaml_sound_def res_simps simp del: wf_json.simps)
qed

end
