(* ===== verification/Artifact.thy ===== *)
theory Artifact
  imports Yaml JsonLaws
begin

text \<open>
  The task artifacts of \<open>orchestrator/start.py\<close>: \<open>_to_yaml\<close> and \<open>_read_yaml\<close>.  The reader walks a list of lines with an
  index; here each function returns the lines that are left.  A function call that does not consume a line is followed by one that
  does, so twice the number of lines bounds the depth of the recursion, which is what the fuel counts.
\<close>

section \<open>Writing\<close>

definition artifact_scalar :: "json \<Rightarrow> string" where
  "artifact_scalar v = (case v of JArr _ \<Rightarrow> [] | JObj _ \<Rightarrow> [] | _ \<Rightarrow> dumps_plain v)"

fun is_container :: "json \<Rightarrow> bool" where
  "is_container (JArr _) = True" | "is_container (JObj _) = True" | "is_container _ = False"

definition blanks :: "nat \<Rightarrow> string" where "blanks n = replicate n (CHR '' '')"

fun yaml_lines_of :: "nat \<Rightarrow> json \<Rightarrow> string list" where
  "yaml_lines_of n (JObj kvs) =
     concat (map (\<lambda>(k, v). if is_container v then (blanks n @ k @ '':'') # yaml_lines_of (n + 2) v
                         else [blanks n @ k @ '': '' @ artifact_scalar v]) kvs)"
| "yaml_lines_of n (JArr xs) =
     concat (map (\<lambda>v. if is_container v then (blanks n @ ''-'') # yaml_lines_of (n + 2) v
                    else [blanks n @ ''- '' @ artifact_scalar v]) xs)"
| "yaml_lines_of n v = [blanks n @ artifact_scalar v]"

definition to_yaml :: "json \<Rightarrow> string" where
  "to_yaml v = join_with [nl] (yaml_lines_of 0 v) @ [nl]"

section \<open>Reading\<close>

definition unsigned :: "string \<Rightarrow> string" where
  "unsigned s = (case s of [] \<Rightarrow> [] | c # cs \<Rightarrow> if c = CHR ''-'' \<or> c = CHR ''+'' then cs else s)"

definition py_float :: "string \<Rightarrow> bool" where
  "py_float s \<longleftrightarrow>
     (let body = unsigned (lower s); (mantissa, has_exp, expo) = partition_sub ''e'' body;
          (whole, point, frac) = partition_sub ''.'' mantissa
      in body \<in> set [''inf'', ''infinity'', ''nan'']
         \<or> ((has_exp \<longrightarrow> digit_groups (unsigned expo))
            \<and> (if point then (whole = [] \<or> digit_groups whole) \<and> (frac = [] \<or> digit_groups frac) \<and> (whole \<noteq> [] \<or> frac \<noteq> [])
               else digit_groups whole)))"

definition read_scalar :: "string \<Rightarrow> json" where
  "read_scalar s =
     (if s = ''null'' then JNull else if s = ''true'' then JBool True else if s = ''false'' then JBool False
      else case loads s of
          Some v \<Rightarrow> v
        | None \<Rightarrow> (case py_int s of Some i \<Rightarrow> JInt i | None \<Rightarrow> if py_float s then JReal s else JStr s))"

datatype artifact_error = ArtifactValueError | ArtifactFuel

definition line_indent :: "string \<Rightarrow> nat" where
  "line_indent s = length (takeWhile (\<lambda>c. c = CHR '' '') s)"

definition deeper :: "nat \<Rightarrow> string list \<Rightarrow> bool" where
  "deeper n ls \<longleftrightarrow> (case ls of [] \<Rightarrow> False | l # _ \<Rightarrow> n < line_indent l)"

type_synonym 'a artifact = "(artifact_error, 'a \<times> string list) res"

text \<open>What the first line of the rest is, for a mapping and for a list at indentation \<open>n\<close>.\<close>

datatype 'k line_kind = LineEnds | LineBad | LineValue 'k json | LineOpens 'k

definition value_line :: "'k \<Rightarrow> string \<Rightarrow> nat \<Rightarrow> string list \<Rightarrow> json \<Rightarrow> 'k line_kind" where
  "value_line key raw n rest blank =
     (if strip raw \<noteq> [] then LineValue key (read_scalar (strip raw))
      else if deeper n rest then LineOpens key else LineValue key blank)"

definition dict_line :: "nat \<Rightarrow> string list \<Rightarrow> string line_kind" where
  "dict_line n ls =
     (case ls of
        [] \<Rightarrow> LineEnds
      | l # rest \<Rightarrow>
        if line_indent l < n then LineEnds else if n < line_indent l then LineBad
        else let body = drop n l; (key, colon, raw) = partition_sub '':'' body in
          if starts_with ''-'' body then LineEnds else if \<not> colon then LineBad else value_line key raw n rest (JObj []))"

definition list_line :: "nat \<Rightarrow> string list \<Rightarrow> unit line_kind" where
  "list_line n ls =
     (case ls of
        [] \<Rightarrow> LineEnds
      | l # rest \<Rightarrow>
        if line_indent l < n then LineEnds else if line_indent l \<noteq> n then LineBad
        else let body = drop n l in if \<not> starts_with ''-'' body then LineEnds else value_line () (drop 1 body) n rest JNull)"

fun read_block :: "nat \<Rightarrow> string list \<Rightarrow> nat \<Rightarrow> json artifact"
and read_dict :: "nat \<Rightarrow> string list \<Rightarrow> nat \<Rightarrow> (string \<times> json) list \<Rightarrow> json artifact"
and read_list :: "nat \<Rightarrow> string list \<Rightarrow> nat \<Rightarrow> json list \<Rightarrow> json artifact" where
  "read_block 0 ls n = Inl ArtifactFuel"
| "read_block (Suc k) ls n =
     (if ls = [] then Inr (JObj [], []) else if starts_with ''-'' (drop n (hd ls)) then read_list k ls n [] else read_dict k ls n [])"
| "read_dict 0 ls n acc = Inl ArtifactFuel"
| "read_dict (Suc k) ls n acc =
     (case dict_line n ls of
        LineEnds \<Rightarrow> Inr (JObj acc, ls)
      | LineBad \<Rightarrow> Inl ArtifactValueError
      | LineValue key v \<Rightarrow> read_dict k (tl ls) n (dict_set key v acc)
      | LineOpens key \<Rightarrow>
          bindR (read_block k (tl ls) (line_indent (hd (tl ls)))) (\<lambda>(v, rest). read_dict k rest n (dict_set key v acc)))"
| "read_list 0 ls n acc = Inl ArtifactFuel"
| "read_list (Suc k) ls n acc =
     (case list_line n ls of
        LineEnds \<Rightarrow> Inr (JArr acc, ls)
      | LineBad \<Rightarrow> Inl ArtifactValueError
      | LineValue _ v \<Rightarrow> read_list k (tl ls) n (acc @ [v])
      | LineOpens _ \<Rightarrow>
          bindR (read_block k (tl ls) (line_indent (hd (tl ls)))) (\<lambda>(v, rest). read_list k rest n (acc @ [v])))"

definition read_yaml :: "string \<Rightarrow> (artifact_error, json) res" where
  "read_yaml source =
     (let ls = filter (\<lambda>l. strip l \<noteq> []) (splitlines source) in
      case ls of
        [] \<Rightarrow> Inr (JObj [])
      | l # _ \<Rightarrow> bindR (read_block (2 * length ls + 2) ls (line_indent l))
          (\<lambda>(v, rest). if rest = [] then Inr v else Inl ArtifactValueError))"

section \<open>The fuel is enough\<close>

text \<open>A block that is read leaves no more lines than it was given, and a loop consumes a line in each round.\<close>

lemma line_taken:
  "dict_line n [] = LineEnds" "list_line n [] = LineEnds"
  by (simp_all add: dict_line_def list_line_def)

lemma read_shrinks:
  "read_block k ls n = Inr (v, rest) \<Longrightarrow> length rest \<le> length ls"
  "read_dict k ls n acc = Inr (v, rest) \<Longrightarrow> length rest \<le> length ls"
  "read_list k ls n acc' = Inr (v, rest) \<Longrightarrow> length rest \<le> length ls"
proof (induction k ls n and k ls n acc and k ls n acc' arbitrary: v rest and v rest and v rest
    rule: read_block_read_dict_read_list.induct)
  case (2 k ls n)
  then show ?case by (auto split: if_splits)
next
  case (4 k ls n acc)
  show ?case
  proof (cases "dict_line n ls")
    case (LineValue key w)
    with 4 show ?thesis by fastforce
  next
    case (LineOpens key)
    with 4(4) obtain w rest' where r: "read_block k (tl ls) (line_indent (hd (tl ls))) = Inr (w, rest')"
      "read_dict k rest' n (dict_set key w acc) = Inr (v, rest)" by (auto simp: res_simps)
    from 4(2) [OF LineOpens r(1)] 4(3) [OF LineOpens r(2)] show ?thesis by fastforce
  qed (use 4(4) in auto)
next
  case (6 k ls n acc)
  show ?case
  proof (cases "list_line n ls")
    case (LineValue u w)
    with 6 show ?thesis by fastforce
  next
    case (LineOpens u)
    with 6(4) obtain w rest' where r: "read_block k (tl ls) (line_indent (hd (tl ls))) = Inr (w, rest')"
      "read_list k rest' n (acc @ [w]) = Inr (v, rest)" by (auto simp: res_simps)
    from 6(2) [OF LineOpens r(1)] 6(3) [OF LineOpens r(2)] show ?thesis by fastforce
  qed (use 6(4) in auto)
qed auto

lemma fuel_enough:
  "2 * length ls + 1 < k \<Longrightarrow> read_block k ls n \<noteq> Inl ArtifactFuel"
  "2 * length ls < k \<Longrightarrow> read_dict k ls n acc \<noteq> Inl ArtifactFuel"
  "2 * length ls < k \<Longrightarrow> read_list k ls n acc' \<noteq> Inl ArtifactFuel"
proof (induction k ls n and k ls n acc and k ls n acc' rule: read_block_read_dict_read_list.induct)
  case (2 k ls n)
  then show ?case by (auto split: if_splits)
next
  case (4 k ls n acc)
  then show ?case
  proof (cases "dict_line n ls")
    case (LineValue key v)
    then obtain l rest where "ls = l # rest" by (cases ls) (auto simp: line_taken)
    with LineValue 4 show ?thesis by simp
  next
    case (LineOpens key)
    then obtain l rest where ls: "ls = l # rest" by (cases ls) (auto simp: line_taken)
    show ?thesis
    proof (cases "read_block k rest (line_indent (hd rest))")
      case (Inl e)
      with LineOpens 4 ls show ?thesis by simp
    next
      case (Inr p)
      obtain v rest' where p: "p = (v, rest')" by (cases p)
      have "length rest' \<le> length rest" using read_shrinks(1) Inr p by blast
      with LineOpens 4 ls Inr p show ?thesis by simp
    qed
  qed simp_all
next
  case (6 k ls n acc)
  then show ?case
  proof (cases "list_line n ls")
    case (LineValue u v)
    then obtain l rest where "ls = l # rest" by (cases ls) (auto simp: line_taken)
    with LineValue 6 show ?thesis by simp
  next
    case (LineOpens u)
    then obtain l rest where ls: "ls = l # rest" by (cases ls) (auto simp: line_taken)
    show ?thesis
    proof (cases "read_block k rest (line_indent (hd rest))")
      case (Inl e)
      with LineOpens 6 ls show ?thesis by simp
    next
      case (Inr p)
      obtain v rest' where p: "p = (v, rest')" by (cases p)
      have "length rest' \<le> length rest" using read_shrinks(1) Inr p by blast
      with LineOpens 6 ls Inr p show ?thesis by simp
    qed
  qed simp_all
qed simp_all

lemma read_yaml_total: "read_yaml source \<noteq> Inl ArtifactFuel"
proof (cases "filter (\<lambda>l. strip l \<noteq> []) (splitlines source)")
  case (Cons l ls)
  have "read_block (2 * length (l # ls) + 2) (l # ls) n \<noteq> Inl ArtifactFuel" for n by (rule fuel_enough) simp
  then show ?thesis
    by (simp add: read_yaml_def Cons bindR_Inl_iff split: prod.split del: read_block.simps)
qed (simp add: read_yaml_def)

end
