(* ===== verification/ArtifactLaws.thy ===== *)
theory ArtifactLaws
  imports Artifact
begin

text \<open>An artifact that is written and read again is the same value, within the values the format can tell apart.\<close>

section \<open>What can be written\<close>

definition plain_key :: "string \<Rightarrow> bool" where
  "plain_key k \<longleftrightarrow> CHR '':'' \<notin> set k \<and> \<not> starts_with ''-'' k \<and> \<not> starts_with '' '' k \<and> list_all (\<lambda>c. \<not> is_line_end c) k"

fun artifact :: "json \<Rightarrow> bool" where
  "artifact (JObj kvs) = (distinct (map fst kvs) \<and> (\<forall>p \<in> set kvs. plain_key (fst p) \<and> artifact (snd p) \<and> snd p \<noteq> JArr []))"
| "artifact (JArr xs) = (\<forall>v \<in> set xs. artifact v \<and> v \<noteq> JArr [] \<and> v \<noteq> JObj [])"
| "artifact (JReal s) = False"
| "artifact _ = True"

section \<open>Scalars\<close>

lemma strip_id: "s = [] \<or> \<not> is_space (hd s) \<and> \<not> is_space (List.last s) \<Longrightarrow> strip s = s"
proof (cases "s = []")
  case False
  assume "s = [] \<or> \<not> is_space (hd s) \<and> \<not> is_space (List.last s)"
  with False have a: "\<not> is_space (hd s)" "\<not> is_space (hd (rev s))" by (auto simp: hd_rev)
  have "dropWhile is_space t = t" if "\<not> is_space (hd t)" for t using that by (cases t) auto
  with a show ?thesis by (simp add: strip_def lstrip_def rstrip_def)
qed (simp add: strip_def lstrip_def rstrip_def)

lemma digit_plain: "is_digit c \<Longrightarrow> \<not> is_space c \<and> \<not> is_line_end c"
  by (auto simp: is_digit_def is_space_def is_line_end_def Let_def)

lemma int_text: "str_of_int i \<noteq> [] \<and> (\<forall>c \<in> set (str_of_int i). \<not> is_space c \<and> \<not> is_line_end c)"
proof -
  have n: "str_of_nat n \<noteq> [] \<and> (\<forall>c \<in> set (str_of_nat n). \<not> is_space c \<and> \<not> is_line_end c)" for n
    using str_of_nat_digits [of n] digit_plain by (auto simp: list_all_iff)
  have "\<not> is_space (CHR ''-'') \<and> \<not> is_line_end (CHR ''-'')" by code_simp
  with n show ?thesis by (auto simp: str_of_int_def)
qed

lemma escaped_lines: "\<forall>c \<in> set (dumps_str s). \<not> is_line_end c"
proof -
  have h: "32 \<le> (of_char (hex_digit m) :: nat)" if "m < 16" for m using that by (simp add: hex_digit_def)
  have "\<forall>d \<in> set (escape_char c). 32 \<le> (of_char d :: nat)" for c
    by (auto simp: escape_char_def Let_def intro: h)
  then have "\<forall>d \<in> set (escape_char c). \<not> is_line_end d" for c by (fastforce simp: is_line_end_def Let_def)
  moreover have "\<not> is_line_end (CHR 0x22)" by code_simp
  ultimately show ?thesis by (auto simp: dumps_str_def)
qed

lemma scalar_text:
  assumes "artifact v" "\<not> is_container v"
  shows "strip (artifact_scalar v) = artifact_scalar v" "artifact_scalar v \<noteq> []" "\<forall>c \<in> set (artifact_scalar v). \<not> is_line_end c"
proof -
  have q: "\<not> is_space (CHR 0x22)" by code_simp
  have words: "strip ''null'' = ''null''" "strip ''true'' = ''true''" "strip ''false'' = ''false''"
    "list_all (\<lambda>c. \<not> is_line_end c) ''null''" "list_all (\<lambda>c. \<not> is_line_end c) ''true''" "list_all (\<lambda>c. \<not> is_line_end c) ''false''"
    by code_simp+
  show "strip (artifact_scalar v) = artifact_scalar v"
  proof (cases v)
    case (JInt i)
    with int_text [of i] show ?thesis by (intro strip_id) (auto simp: artifact_scalar_def)
  next
    case (JStr s)
    with q show ?thesis by (intro strip_id) (auto simp: artifact_scalar_def dumps_str_def)
  qed (use assms words in \<open>auto simp: artifact_scalar_def\<close>)
  show "artifact_scalar v \<noteq> []" using assms int_text by (cases v) (auto simp: artifact_scalar_def dumps_str_def)
  show "\<forall>c \<in> set (artifact_scalar v). \<not> is_line_end c"
    using assms int_text words(4-6) escaped_lines by (cases v) (auto simp: artifact_scalar_def list_all_iff)
qed

lemma read_artifact_scalar:
  assumes "artifact v" "\<not> is_container v"
  shows "read_scalar (artifact_scalar v) = v"
proof -
  have loads: "loads (dumps_plain w) = Some w" if "w = JInt i \<or> w = JStr s" for w i s
    using loads_dumps(1) [of w] that by (auto simp: dumps_def)
  show ?thesis
  proof (cases v)
    case (JInt i)
    have d: "\<not> is_digit (CHR ''n'')" "\<not> is_digit (CHR ''t'')" "\<not> is_digit (CHR ''f'')" by code_simp+
    obtain c q where "str_of_int i = c # q" "is_digit c \<or> c = CHR ''-''" using str_of_int_hd by metis
    then have "str_of_int i \<noteq> ''null'' \<and> str_of_int i \<noteq> ''true'' \<and> str_of_int i \<noteq> ''false''" using d by auto
    with JInt loads [of v i] show ?thesis by (auto simp: read_scalar_def artifact_scalar_def)
  next
    case (JStr s)
    with loads [of v _ s] show ?thesis by (auto simp: read_scalar_def artifact_scalar_def dumps_str_def)
  qed (use assms in \<open>auto simp: read_scalar_def artifact_scalar_def\<close>)
qed

section \<open>Lines\<close>

lemma partition_key: "c \<notin> set k \<Longrightarrow> partition_sub [c] (k @ c # t) = (k, True, t)"
proof -
  assume "c \<notin> set k"
  then have "find_sub [c] (k @ c # t) = Some (length k)" by (induction k) auto
  then show ?thesis by (simp add: partition_sub_def)
qed

lemma indent_blanks: "\<not> starts_with '' '' s \<Longrightarrow> line_indent (blanks n @ s) = n"
proof -
  assume "\<not> starts_with '' '' s"
  then have "takeWhile (\<lambda>c. c = CHR '' '') s = []" by (cases s) auto
  then show ?thesis by (induction n) (simp_all add: line_indent_def blanks_def)
qed

lemma drop_blanks [simp]: "length (blanks n) = n" "drop n (blanks n) = []"
  by (simp_all add: blanks_def)

definition entry_lines :: "nat \<Rightarrow> string \<times> json \<Rightarrow> string list" where
  "entry_lines n p =
     (if is_container (snd p) then (blanks n @ fst p @ '':'') # yaml_lines_of (n + 2) (snd p)
      else [blanks n @ fst p @ '': '' @ artifact_scalar (snd p)])"

definition item_lines :: "nat \<Rightarrow> json \<Rightarrow> string list" where
  "item_lines n v =
     (if is_container v then (blanks n @ ''-'') # yaml_lines_of (n + 2) v else [blanks n @ ''- '' @ artifact_scalar v])"

lemma lines_dict: "yaml_lines_of n (JObj kvs) = concat (map (entry_lines n) kvs)"
  by (auto simp: entry_lines_def intro!: arg_cong [where f = concat])

lemma lines_list: "yaml_lines_of n (JArr xs) = concat (map (item_lines n) xs)"
  by (auto simp: item_lines_def intro!: arg_cong [where f = concat])

declare yaml_lines_of.simps(1,2) [simp del]

text \<open>What may follow a block at indentation \<open>n\<close>.\<close>

definition follows :: "nat \<Rightarrow> string list \<Rightarrow> bool" where
  "follows n rest \<longleftrightarrow> rest = [] \<or> line_indent (hd rest) < n"

lemma entry_head:
  assumes "plain_key (fst p)"
  obtains l ls where "entry_lines n p = l # ls" "line_indent l = n" "\<not> starts_with ''-'' (drop n l)"
proof -
  have a: "\<not> starts_with '' '' (fst p @ CHR '':'' # t)" "\<not> starts_with ''-'' (fst p @ CHR '':'' # t)" for t
    using assms by (cases "fst p"; auto simp: plain_key_def)+
  show thesis
    using that a by (cases "is_container (snd p)") (auto simp: entry_lines_def indent_blanks)
qed

lemma item_head:
  obtains l ls where "item_lines n v = l # ls" "line_indent l = n" "starts_with ''-'' (drop n l)"
  using that by (cases "is_container v") (auto simp: item_lines_def indent_blanks)

lemma head_indent:
  assumes "artifact v" "is_container v" "yaml_lines_of n v \<noteq> []"
  obtains l ls where "yaml_lines_of n v = l # ls" "line_indent l = n" "starts_with ''-'' (drop n l) \<longleftrightarrow> (\<exists>xs. v = JArr xs)"
proof (cases v)
  case (JArr xs)
  with assms(3) obtain x xs' where xs: "xs = x # xs'" by (cases xs) (auto simp: lines_list)
  obtain l ls where "item_lines n x = l # ls" "line_indent l = n" "starts_with ''-'' (drop n l)" by (rule item_head)
  then show thesis by (intro that) (simp_all add: JArr xs lines_list)
next
  case (JObj kvs)
  with assms(3) obtain p kvs' where kvs: "kvs = p # kvs'" by (cases kvs) (auto simp: lines_dict)
  then have "plain_key (fst p)" using assms(1) JObj by simp
  then obtain l ls where "entry_lines n p = l # ls" "line_indent l = n" "\<not> starts_with ''-'' (drop n l)" by (rule entry_head)
  then show thesis by (intro that) (simp_all add: JObj kvs lines_dict)
qed (use assms(2) in auto)

section \<open>Reading a written block\<close>

lemma value_line_scalar:
  "artifact v \<Longrightarrow> \<not> is_container v \<Longrightarrow> value_line key (CHR '' '' # artifact_scalar v) n rest d = LineValue key v"
proof -
  assume v: "artifact v" "\<not> is_container v"
  have "strip (CHR '' '' # s) = strip s" for s by (simp add: strip_def lstrip_def is_space_def)
  with v show ?thesis by (simp add: value_line_def scalar_text read_artifact_scalar)
qed

lemma value_line_open:
  "value_line key [] n rest d = (if deeper n rest then LineOpens key else LineValue key d)"
  by (simp add: value_line_def strip_def lstrip_def rstrip_def)

lemma dict_line_entry:
  assumes "plain_key (fst p)"
  shows "dict_line n (entry_lines n p @ rest) =
    (if is_container (snd p) then value_line (fst p) [] n (yaml_lines_of (n + 2) (snd p) @ rest) (JObj [])
     else value_line (fst p) (CHR '' '' # artifact_scalar (snd p)) n rest (JObj []))"
proof -
  have a: "\<not> starts_with '' '' (fst p @ CHR '':'' # t)" "\<not> starts_with ''-'' (fst p @ CHR '':'' # t)" for t
    using assms by (cases "fst p"; auto simp: plain_key_def)+
  have "CHR '':'' \<notin> set (fst p)" using assms by (simp add: plain_key_def)
  from partition_key [OF this] a show ?thesis by (simp add: entry_lines_def dict_line_def indent_blanks)
qed

lemma list_line_item:
  "list_line n (item_lines n v @ rest) =
    (if is_container v then value_line () [] n (yaml_lines_of (n + 2) v @ rest) JNull
     else value_line () (CHR '' '' # artifact_scalar v) n rest JNull)"
  by (simp add: item_lines_def list_line_def indent_blanks)

lemma list_ends: "follows n rest \<Longrightarrow> list_line n rest = LineEnds" "follows n rest \<Longrightarrow> dict_line n rest = LineEnds"
  by (auto simp: follows_def list_line_def dict_line_def split: list.split)

lemma tl_lines: "tl (entry_lines n p @ rest) = (if is_container (snd p) then yaml_lines_of (n + 2) (snd p) else []) @ rest"
  "tl (item_lines n v @ rest) = (if is_container v then yaml_lines_of (n + 2) v else []) @ rest"
  by (simp_all add: entry_lines_def item_lines_def)

lemma length_lines:
  "length (entry_lines n p) = Suc (if is_container (snd p) then length (yaml_lines_of (n + 2) (snd p)) else 0)"
  "length (item_lines n v) = Suc (if is_container v then length (yaml_lines_of (n + 2) v) else 0)"
  by (simp_all add: entry_lines_def item_lines_def)

definition block_reads :: "json \<Rightarrow> bool" where
  "block_reads v \<longleftrightarrow> (\<forall>n k rest. yaml_lines_of n v \<noteq> [] \<longrightarrow> follows n rest \<longrightarrow> 2 * length (yaml_lines_of n v) + 1 < k
     \<longrightarrow> read_block k (yaml_lines_of n v @ rest) n = Inr (v, rest))"

lemma nonempty_lines: "is_container v \<Longrightarrow> yaml_lines_of n v = [] \<longleftrightarrow> v = JArr [] \<or> v = JObj []"
proof (cases v)
  case (JArr xs)
  then show ?thesis by (cases xs) (auto simp: lines_list item_lines_def)
next
  case (JObj kvs)
  then show ?thesis by (cases kvs) (auto simp: lines_dict entry_lines_def)
qed auto

text \<open>What stands after an entry: another entry, or what follows the block.\<close>

lemma after_entry:
  assumes "follows n rest" "\<forall>p \<in> set kvs. plain_key (fst p)"
  shows "follows (n + 2) (concat (map (entry_lines n) kvs) @ rest)" "\<not> deeper n (concat (map (entry_lines n) kvs) @ rest)"
proof -
  have "follows (n + 2) (concat (map (entry_lines n) kvs) @ rest) \<and> \<not> deeper n (concat (map (entry_lines n) kvs) @ rest)"
  proof (cases kvs)
    case Nil
    with assms(1) show ?thesis by (auto simp: follows_def deeper_def split: list.split)
  next
    case (Cons p ps)
    have "plain_key (fst p)" using assms(2) Cons by simp
    then obtain l ls where "entry_lines n p = l # ls" "line_indent l = n" by (rule entry_head)
    with Cons show ?thesis by (simp add: follows_def deeper_def)
  qed
  then show "follows (n + 2) (concat (map (entry_lines n) kvs) @ rest)" "\<not> deeper n (concat (map (entry_lines n) kvs) @ rest)" by auto
qed

lemma after_item:
  assumes "follows n rest"
  shows "follows (n + 2) (concat (map (item_lines n) xs) @ rest)" "\<not> deeper n (concat (map (item_lines n) xs) @ rest)"
proof -
  have "follows (n + 2) (concat (map (item_lines n) xs) @ rest) \<and> \<not> deeper n (concat (map (item_lines n) xs) @ rest)"
  proof (cases xs)
    case Nil
    with assms(1) show ?thesis by (auto simp: follows_def deeper_def split: list.split)
  next
    case (Cons v vs)
    obtain l ls where "item_lines n v = l # ls" "line_indent l = n" by (rule item_head)
    with Cons show ?thesis by (simp add: follows_def deeper_def)
  qed
  then show "follows (n + 2) (concat (map (item_lines n) xs) @ rest)" "\<not> deeper n (concat (map (item_lines n) xs) @ rest)" by auto
qed

lemma open_block:
  assumes "artifact v" "is_container v" "yaml_lines_of (n + 2) v \<noteq> []"
  shows "deeper n (yaml_lines_of (n + 2) v @ rest)" "line_indent (hd (yaml_lines_of (n + 2) v @ rest)) = n + 2"
proof -
  obtain l ls where "yaml_lines_of (n + 2) v = l # ls" "line_indent l = n + 2" by (rule head_indent [OF assms])
  then show "deeper n (yaml_lines_of (n + 2) v @ rest)" "line_indent (hd (yaml_lines_of (n + 2) v @ rest)) = n + 2"
    by (simp_all add: deeper_def)
qed

lemma dict_set_new: "k \<notin> fst ` set d \<Longrightarrow> dict_set k v d = d @ [(k, v)]"
  by (induction d) auto

lemma read_dict_lines:
  "\<forall>p \<in> set kvs. plain_key (fst p) \<and> artifact (snd p) \<and> snd p \<noteq> JArr [] \<and> (is_container (snd p) \<longrightarrow> block_reads (snd p)) \<Longrightarrow> distinct (map fst (acc @ kvs)) \<Longrightarrow>
   follows n rest \<Longrightarrow> 2 * length (concat (map (entry_lines n) kvs)) < k \<Longrightarrow>
   read_dict k (concat (map (entry_lines n) kvs) @ rest) n acc = Inr (JObj (acc @ kvs), rest)"
proof (induction kvs arbitrary: acc k)
  case Nil
  then show ?case by (cases k) (auto simp: list_ends)
next
  case (Cons p kvs)
  obtain key v where p: "p = (key, v)" by (cases p)
  let ?more = "concat (map (entry_lines n) kvs) @ rest"
  obtain m where k: "k = Suc m" using Cons.prems(4) by (cases k) auto
  have plain: "plain_key (fst p)" and v: "artifact v" "v \<noteq> JArr []" "is_container v \<Longrightarrow> block_reads v" using Cons.prems(1) p by auto
  have set: "dict_set key v acc = acc @ [p]" using Cons.prems(2) by (intro dict_set_new [THEN trans]) (auto simp: p)
  have more: "follows (n + 2) ?more" "\<not> deeper n ?more" using after_entry [OF Cons.prems(3), of kvs] Cons.prems(1) by auto
  have next_round: "read_dict m ?more n (dict_set key v acc) = Inr (JObj (acc @ p # kvs), rest)" if "2 * length (concat (map (entry_lines n) kvs)) < m"
    using Cons.IH [of "acc @ [p]" m] Cons.prems that by (simp add: set)
  have len: "2 * length (concat (map (entry_lines n) kvs)) < m" using Cons.prems(4) k length_lines(1) [of n p] by simp
  consider "\<not> is_container v" | "v = JObj []" | "is_container v" "yaml_lines_of (n + 2) v \<noteq> []"
    using nonempty_lines [of v "n + 2"] v(2) by blast
  then show ?case
  proof cases
    case 1
    with next_round [OF len] v(1) plain show ?thesis
      by (simp add: k dict_line_entry tl_lines p value_line_scalar)
  next
    case 2
    with next_round [OF len] plain more(2) show ?thesis
      by (simp add: k dict_line_entry tl_lines p value_line_open lines_dict)
  next
    case 3
    have "read_block m (yaml_lines_of (n + 2) v @ ?more) (n + 2) = Inr (v, ?more)"
      using v(3) [OF 3(1)] 3(2) more(1) Cons.prems(4) k length_lines(1) [of n p] 3(1) unfolding block_reads_def by (simp add: p)
    with next_round [OF len] plain open_block [OF v(1) 3] 3(1) show ?thesis
      by (simp add: k dict_line_entry tl_lines p value_line_open)
  qed
qed

lemma read_list_lines:
  "\<forall>v \<in> set xs. artifact v \<and> v \<noteq> JArr [] \<and> v \<noteq> JObj [] \<and> (is_container v \<longrightarrow> block_reads v) \<Longrightarrow>
   follows n rest \<Longrightarrow> 2 * length (concat (map (item_lines n) xs)) < k \<Longrightarrow>
   read_list k (concat (map (item_lines n) xs) @ rest) n acc = Inr (JArr (acc @ xs), rest)"
proof (induction xs arbitrary: acc k)
  case Nil
  then show ?case by (cases k) (auto simp: list_ends)
next
  case (Cons v xs)
  let ?more = "concat (map (item_lines n) xs) @ rest"
  obtain m where k: "k = Suc m" using Cons.prems(3) by (cases k) auto
  have v: "artifact v" "v \<noteq> JArr []" "v \<noteq> JObj []" "is_container v \<Longrightarrow> block_reads v" using Cons.prems(1) by auto
  have more: "follows (n + 2) ?more" using after_item [OF Cons.prems(2)] by auto
  have len: "2 * length (concat (map (item_lines n) xs)) < m" using Cons.prems(3) k length_lines(2) [of n v] by simp
  have next_round: "read_list m ?more n (acc @ [v]) = Inr (JArr (acc @ v # xs), rest)"
    using Cons.IH [of m "acc @ [v]"] Cons.prems len by simp
  consider "\<not> is_container v" | "is_container v" "yaml_lines_of (n + 2) v \<noteq> []"
    using nonempty_lines [of v "n + 2"] v(2,3) by blast
  then show ?case
  proof cases
    case 1
    with next_round v(1) show ?thesis by (simp add: k list_line_item tl_lines value_line_scalar)
  next
    case 2
    have "read_block m (yaml_lines_of (n + 2) v @ ?more) (n + 2) = Inr (v, ?more)"
      using v(4) [OF 2(1)] 2(2) more Cons.prems(3) k length_lines(2) [of n v] 2(1) unfolding block_reads_def by simp
    with next_round open_block [OF v(1) 2] 2(1) show ?thesis by (simp add: k list_line_item tl_lines value_line_open)
  qed
qed

lemma block_reads_all: "artifact v \<Longrightarrow> is_container v \<Longrightarrow> block_reads v"
proof (induction v)
  case (JArr xs)
  show ?case unfolding block_reads_def
  proof (intro allI impI)
    fix n k rest
    assume ls: "yaml_lines_of n (JArr xs) \<noteq> []" and f: "follows n rest" and k: "2 * length (yaml_lines_of n (JArr xs)) + 1 < k"
    then obtain m where m: "k = Suc m" by (cases k) auto
    obtain l ls where "yaml_lines_of n (JArr xs) = l # ls" "starts_with ''-'' (drop n l) \<longleftrightarrow> (\<exists>ys. JArr xs = JArr ys)"
      by (rule head_indent [OF JArr.prems ls])
    moreover have "read_list m (yaml_lines_of n (JArr xs) @ rest) n [] = Inr (JArr xs, rest)"
      unfolding lines_list using JArr k m f by (subst read_list_lines) (auto simp: lines_list)
    ultimately show "read_block k (yaml_lines_of n (JArr xs) @ rest) n = Inr (JArr xs, rest)" by (simp add: m)
  qed
next
  case (JObj kvs)
  show ?case unfolding block_reads_def
  proof (intro allI impI)
    fix n k rest
    assume ls: "yaml_lines_of n (JObj kvs) \<noteq> []" and f: "follows n rest" and k: "2 * length (yaml_lines_of n (JObj kvs)) + 1 < k"
    then obtain m where m: "k = Suc m" by (cases k) auto
    obtain l ls where "yaml_lines_of n (JObj kvs) = l # ls" "starts_with ''-'' (drop n l) \<longleftrightarrow> (\<exists>ys. JObj kvs = JArr ys)"
      by (rule head_indent [OF JObj.prems ls])
    moreover have "block_reads (snd p)" if "p \<in> set kvs" "is_container (snd p)" for p
      using JObj.IH [OF that(1) snds.intros] JObj.prems(1) that by (cases p) auto
    then have "read_dict m (yaml_lines_of n (JObj kvs) @ rest) n [] = Inr (JObj kvs, rest)"
      unfolding lines_dict using JObj.prems k m f by (subst read_dict_lines) (auto simp: lines_dict)
    ultimately show "read_block k (yaml_lines_of n (JObj kvs) @ rest) n = Inr (JObj kvs, rest)" by (simp add: m)
  qed
qed auto

section \<open>The whole text\<close>

definition printable :: "string \<Rightarrow> bool" where
  "printable l \<longleftrightarrow> list_all (\<lambda>c. \<not> is_line_end c) l \<and> list_ex (\<lambda>c. \<not> is_space c) l"

lemma strip_printable: "printable l \<Longrightarrow> strip l \<noteq> []"
  by (auto simp: printable_def list_ex_iff strip_def lstrip_def rstrip_def dropWhile_eq_Nil_conv)
    (metis dropWhile_eq_Nil_conv takeWhile_dropWhile_id Un_iff set_append set_takeWhileD)

lemma printable_parts:
  "printable (blanks n @ k @ '':'') \<longleftrightarrow> list_all (\<lambda>c. \<not> is_line_end c) k"
  "printable (blanks n @ k @ '': '' @ t) \<longleftrightarrow> list_all (\<lambda>c. \<not> is_line_end c) k \<and> list_all (\<lambda>c. \<not> is_line_end c) t"
  "printable (blanks n @ ''-'')" "printable (blanks n @ ''- '' @ t) \<longleftrightarrow> list_all (\<lambda>c. \<not> is_line_end c) t"
proof -
  have "\<not> is_line_end (CHR '' '')" "\<not> is_line_end (CHR '':'')" "\<not> is_line_end (CHR ''-'')" "\<not> is_space (CHR '':'')" "\<not> is_space (CHR ''-'')"
    by code_simp+
  then show "printable (blanks n @ k @ '':'') \<longleftrightarrow> list_all (\<lambda>c. \<not> is_line_end c) k"
    "printable (blanks n @ k @ '': '' @ t) \<longleftrightarrow> list_all (\<lambda>c. \<not> is_line_end c) k \<and> list_all (\<lambda>c. \<not> is_line_end c) t"
    "printable (blanks n @ ''-'')" "printable (blanks n @ ''- '' @ t) \<longleftrightarrow> list_all (\<lambda>c. \<not> is_line_end c) t"
    by (auto simp: printable_def blanks_def list_all_iff list_ex_iff)
qed

lemma lines_printable: "artifact v \<Longrightarrow> is_container v \<Longrightarrow> \<forall>l \<in> set (yaml_lines_of n v). printable l"
proof (induction v arbitrary: n)
  case (JArr xs)
  have "\<forall>l \<in> set (item_lines n v). printable l" if v: "v \<in> set xs" for v
    using JArr.IH [OF v] JArr.prems v scalar_text(3) [of v]
    by (auto simp: item_lines_def printable_parts list_all_iff simp del: append_Cons)
  then show ?case by (auto simp: lines_list)
next
  case (JObj kvs)
  have "\<forall>l \<in> set (entry_lines n p). printable l" if p: "p \<in> set kvs" for p
    using JObj.IH [OF p snds.intros] JObj.prems p scalar_text(3) [of "snd p"]
    by (cases p) (auto simp: entry_lines_def printable_parts list_all_iff plain_key_def simp del: append_Cons)
  then show ?case by (auto simp: lines_dict)
qed auto

lemma splitlines_line: "list_all (\<lambda>c. \<not> is_line_end c) l \<Longrightarrow> splitlines_acc acc (l @ nl # s) = (rev acc @ l) # splitlines_acc [] s"
proof (induction l arbitrary: acc)
  case Nil
  have "is_line_end nl" "nl \<noteq> CHR 0x0D" by code_simp+
  then show ?case by simp
next
  case (Cons c l)
  have "is_line_end (CHR 0x0D)" by code_simp
  with Cons.prems have "c \<noteq> CHR 0x0D" by auto
  with Cons show ?case by simp
qed

lemma splitlines_join:
  "ls \<noteq> [] \<Longrightarrow> \<forall>l \<in> set ls. list_all (\<lambda>c. \<not> is_line_end c) l \<Longrightarrow> splitlines (join_with [nl] ls @ [nl]) = ls"
proof (induction ls)
  case (Cons l ls)
  show ?case
  proof (cases ls)
    case Nil
    with Cons.prems splitlines_line [of l "[]" "[]"] show ?thesis by (simp add: splitlines_def)
  next
    case (Cons l' ls')
    then have "join_with [nl] (l # ls) @ [nl] = l @ nl # (join_with [nl] ls @ [nl])" by simp
    with Cons.IH Cons.prems Cons splitlines_line [of l "[]" "join_with [nl] ls @ [nl]"] show ?thesis by (simp add: splitlines_def)
  qed
qed simp

lemma written_artifact:
  assumes "artifact v" "is_container v" "v \<noteq> JArr []"
  shows "read_yaml (to_yaml v) = Inr v"
proof (cases "v = JObj []")
  case True
  have "splitlines [nl] = [[]]" by code_simp
  with True show ?thesis by (simp add: read_yaml_def to_yaml_def lines_dict strip_def lstrip_def rstrip_def)
next
  case False
  let ?ls = "yaml_lines_of 0 v"
  have ne: "?ls \<noteq> []" using nonempty_lines [OF assms(2)] False assms(3) by simp
  have p: "\<forall>l \<in> set ?ls. printable l" by (rule lines_printable [OF assms(1,2)])
  have "splitlines (to_yaml v) = ?ls" unfolding to_yaml_def by (rule splitlines_join [OF ne]) (use p in \<open>simp add: printable_def\<close>)
  moreover have "filter (\<lambda>l. strip l \<noteq> []) ?ls = ?ls" using p strip_printable by (simp add: filter_id_conv)
  moreover obtain l ls where l: "?ls = l # ls" "line_indent l = 0" by (rule head_indent [OF assms(1,2) ne])
  moreover have "read_block (2 * length ?ls + 2) (?ls @ []) 0 = Inr (v, [])"
    using block_reads_all [OF assms(1,2)] ne unfolding block_reads_def by (simp add: follows_def del: read_block.simps)
  ultimately show ?thesis by (simp add: read_yaml_def del: read_block.simps)
qed


text \<open>What does not survive: an empty list under a key is written as the bare key, so it is read back as an empty mapping,
  whatever stands before and after it.\<close>

theorem empty_list_lost:
  assumes "artifact (JObj (before @ (k, JObj []) # after))"
  shows "read_yaml (to_yaml (JObj (before @ (k, JArr []) # after))) = Inr (JObj (before @ (k, JObj []) # after))"
proof -
  have "yaml_lines_of 0 (JObj (before @ (k, JArr []) # after)) = yaml_lines_of 0 (JObj (before @ (k, JObj []) # after))"
    by (simp add: lines_dict lines_list entry_lines_def)
  with written_artifact [OF assms] show ?thesis by (simp add: to_yaml_def)
qed

definition sample_artifact :: json where
  "sample_artifact = JObj [(''task_id'', JStr ''t-1''), (''gate'', JObj [(''type'', JStr ''stop_gate''), (''open'', JBool True)]),
     (''steps'', JArr [JObj [(''n'', JInt (-3))], JStr ''a: b'', JArr [JNull]]), (''extra'', JObj [])]"

lemma sample_artifact_ok: "artifact sample_artifact" "is_container sample_artifact" "sample_artifact \<noteq> JArr []"
proof -
  have "plain_key k" if "k \<in> set [''task_id'', ''gate'', ''type'', ''open'', ''steps'', ''n'', ''extra'']" for k
  proof -
    have "list_all plain_key [''task_id'', ''gate'', ''type'', ''open'', ''steps'', ''n'', ''extra'']" by code_simp
    with that show ?thesis by auto
  qed
  then show "artifact sample_artifact" by (simp add: sample_artifact_def)
qed (simp_all add: sample_artifact_def)


lemma empty_list_lost_witness: "read_yaml (to_yaml (JObj [(''checks'', JArr [])])) = Inr (JObj [(''checks'', JObj [])])"
proof -
  have "plain_key ''checks''" by code_simp
  then show ?thesis using empty_list_lost [of "[]" "''checks''" "[]"] by simp
qed

end
