(* ===== verification/Progress.thy ===== *)
theory Progress
  imports Cards Envelope Execution Replay "HOL-Library.Option_ord" "HOL-Library.Product_Lexorder"
begin

text \<open>
  What the kanban commands read back from the journal: the worker observations and progress reports of
  \<open>orchestrator/kanban/commands.py\<close> and \<open>view.py\<close>, the summaries and locations of \<open>read.py\<close>, and the part of
  \<open>view.project\<close> the placement command relies on.  The rows are typed (\<open>Cards\<close>), so the tests of the code that only ask for
  the type of a column have no counterpart.  The JSON functions of SQLite are taken to agree with Python's decoder on texts without
  \<open>NaN\<close>, which is what the commands write.
\<close>

section \<open>Vocabulary\<close>

definition MAX_REVISION :: int where "MAX_REVISION = 2 ^ 63 - 1"

definition valid_revision :: "json \<Rightarrow> bool" where
  "valid_revision v \<longleftrightarrow> (case v of JInt i \<Rightarrow> 0 \<le> i \<and> i \<le> MAX_REVISION | _ \<Rightarrow> False)"

definition PROGRESS_STATUSES :: "string list" where
  "PROGRESS_STATUSES = [''not_started'', ''in_progress'', ''blocked'', ''needs_decision'', ''reported_done'']"

definition RESERVED_MARKERS :: "string list" where
  "RESERVED_MARKERS = [ENVELOPE_BEGIN, ENVELOPE_END, PLAN_BEGIN, PLAN_END, CONVERGENCE_BEGIN, CONVERGENCE_END]"

definition reserved_marker_in :: "string \<Rightarrow> string option" where
  "reserved_marker_in s = find (\<lambda>m. contains_sub m s) RESERVED_MARKERS"

abbreviation has_marker :: "string \<Rightarrow> bool" where
  "has_marker s \<equiv> reserved_marker_in s \<noteq> None"

definition SCOPE_FIELDS :: "string list" where
  "SCOPE_FIELDS =
     [''repo_path'', ''worktree_path'', ''git_common_dir'', ''change_name'', ''spec_path'', ''acceptance_path'',
      ''spec_review_pointer'', ''spec_review_hash'', ''base_head'', ''candidate_fingerprint'', ''risk'', ''estimate_by_pool'',
      ''allowed_commands'', ''profile_name'', ''provider'', ''model'', ''effort'', ''routing_digest'', ''config_digest'']"

definition DESCRIPTIVE_FIELDS :: "string list" where "DESCRIPTIVE_FIELDS = [''title'', ''note'', ''priority'']"
definition EDITABLE_FIELDS :: "string list" where "EDITABLE_FIELDS = SCOPE_FIELDS @ DESCRIPTIVE_FIELDS"

definition payload_hash :: "(string \<Rightarrow> string) \<Rightarrow> string \<Rightarrow> json \<Rightarrow> string" where
  "payload_hash H command payload = H (dumps (JObj [(''command'', JStr command), (''payload'', payload)]))"

definition progress_scope_digest :: "(string \<Rightarrow> string) \<Rightarrow> card \<Rightarrow> string" where
  "progress_scope_digest H c =
     H (dumps (JObj (map (\<lambda>k. (k, jopt_str (kc_fields c k))) SCOPE_FIELDS
       @ [(''approval_generation'', JInt (kc_generation c)), (''approval_hash'', jopt_str (kc_approval_hash c)),
          (''task_id'', jopt_str (kc_task c))])))"

section \<open>Worker observations\<close>

text \<open>The exceptions the progress command turns into a refusal: a \<open>ValueError\<close> with its message, or another one.\<close>

datatype worker_error = WorkerReason string | WorkerJson string | WorkerOther

definition WORKER_TERMINAL_STATES :: "string list" where
  "WORKER_TERMINAL_STATES = [''completed'', ''failed'', ''stopped'']"

definition OBSERVATION_KEYS :: "string list" where
  "OBSERVATION_KEYS =
     [''schema_version'', ''attempt_id'', ''supersedes_attempt_id'', ''previous_observation_operation_id'', ''provider'',
      ''thread_id'', ''turn_id'', ''coordinator'', ''observed_at_ms'', ''state'', ''source_ref'', ''handoff'']"

definition bounded_text :: "json \<Rightarrow> nat \<Rightarrow> bool \<Rightarrow> bool" where
  "bounded_text v limit blank \<longleftrightarrow> v = JNull \<and> blank
     \<or> (case v of JStr s \<Rightarrow> strip s \<noteq> [] \<and> length s \<le> limit \<and> \<not> has_marker s | _ \<Rightarrow> False)"

definition uuid_value :: "json \<Rightarrow> bool \<Rightarrow> bool" where
  "uuid_value v blank \<longleftrightarrow> (case v of JNull \<Rightarrow> blank | JStr s \<Rightarrow> canonical_uuid s | _ \<Rightarrow> False)"

definition one_of :: "json \<Rightarrow> string list \<Rightarrow> bool" where
  "one_of v ws \<longleftrightarrow> v \<in> JStr ` set ws"

definition observation_shape :: "(string \<times> json) list \<Rightarrow> json list \<Rightarrow> bool" where
  "observation_shape o' refs \<longleftrightarrow>
     jget o' ''schema_version'' = JInt 1 \<and> uuid_value (jget o' ''attempt_id'') False
     \<and> uuid_value (jget o' ''supersedes_attempt_id'') True \<and> uuid_value (jget o' ''previous_observation_operation_id'') True
     \<and> bounded_text (jget o' ''provider'') 100 False \<and> bounded_text (jget o' ''thread_id'') 500 False
     \<and> bounded_text (jget o' ''turn_id'') 500 True \<and> bounded_text (jget o' ''coordinator'') 500 False
     \<and> valid_revision (jget o' ''observed_at_ms'')
     \<and> one_of (jget o' ''state'') ([''submitted'', ''running'', ''unknown''] @ WORKER_TERMINAL_STATES)
     \<and> bounded_text (jget o' ''source_ref'') 1000 False \<and> jget o' ''source_ref'' \<in> set refs"

definition handoff_shape :: "json \<Rightarrow> json list \<Rightarrow> bool" where
  "handoff_shape h refs \<longleftrightarrow>
     (case h of
        JObj kvs \<Rightarrow> set (keys kvs) = set [''state'', ''owner'', ''next_step'', ''result_source_ref'']
          \<and> one_of (jget kvs ''state'') [''pending'', ''acknowledged'']
          \<and> bounded_text (jget kvs ''owner'') 500 True \<and> bounded_text (jget kvs ''next_step'') 4000 True
          \<and> bounded_text (jget kvs ''result_source_ref'') 1000 True
          \<and> (jget kvs ''result_source_ref'' = JNull \<or> jget kvs ''result_source_ref'' \<in> set refs)
          \<and> (jget kvs ''state'' = JStr ''acknowledged''
               \<longrightarrow> list_all (\<lambda>k. jget kvs k \<noteq> JNull) [''owner'', ''next_step'', ''result_source_ref''])
      | _ \<Rightarrow> False)"

definition terminal_observation :: "(string \<times> json) list \<Rightarrow> bool" where
  "terminal_observation o' \<longleftrightarrow> one_of (jget o' ''state'') WORKER_TERMINAL_STATES"

definition validate_worker_observation :: "json \<Rightarrow> json list \<Rightarrow> (worker_error, unit) res" where
  "validate_worker_observation observation refs =
     (case observation of
        JObj o' \<Rightarrow>
          check (set (keys o') = set OBSERVATION_KEYS \<and> observation_shape o' refs) (WorkerReason ''invalid_worker_observation'')
           (if \<not> terminal_observation o'
            then check (jget o' ''handoff'' = JNull) (WorkerReason ''unexpected_worker_handoff'') (Inr ())
            else check (handoff_shape (jget o' ''handoff'') refs) (WorkerReason ''invalid_worker_handoff'') (Inr ()))
      | _ \<Rightarrow> Inl (WorkerReason ''invalid_worker_observation''))"

section \<open>Reading a report back\<close>

text \<open>\<open>json.loads(column or 'null')\<close>.\<close>

definition column_json :: "string option \<Rightarrow> (worker_error, json) res" where
  "column_json column =
     (case column of
        None \<Rightarrow> Inr JNull
      | Some s \<Rightarrow> if s = [] then Inr JNull else case loads s of None \<Rightarrow> Inl (WorkerJson s) | Some v \<Rightarrow> Inr v)"

definition accepted :: "string list \<Rightarrow> kanban_event \<Rightarrow> bool" where
  "accepted kinds e \<longleftrightarrow> ke_kind e \<in> set kinds \<and> ke_result e = ''accepted''"

definition revision_within :: "card \<Rightarrow> kanban_event \<Rightarrow> bool" where
  "revision_within c e \<longleftrightarrow> (case ke_revision e of None \<Rightarrow> False | Some r \<Rightarrow> 1 \<le> r \<and> r \<le> kc_revision c)"

definition in_range :: "int \<Rightarrow> int \<Rightarrow> bool" where
  "in_range lowest i \<longleftrightarrow> lowest \<le> i \<and> i \<le> MAX_REVISION"

definition json_in_range :: "int \<Rightarrow> json \<Rightarrow> bool" where
  "json_in_range lowest v \<longleftrightarrow> (case v of JInt i \<Rightarrow> in_range lowest i | _ \<Rightarrow> False)"

definition PROGRESS_KEYS :: "string list" where
  "PROGRESS_KEYS = [''card_id'', ''expected_revision'', ''actor'', ''report_status'', ''summary'', ''blocker'', ''decision'',
     ''next_step'', ''source_refs'', ''worker_observation'']"

definition REPORT_TEXTS :: "string list" where
  "REPORT_TEXTS = [''summary'', ''blocker'', ''decision'', ''next_step'']"

definition short_or_null :: "json \<Rightarrow> bool" where
  "short_or_null v \<longleftrightarrow> (case v of JNull \<Rightarrow> True | JStr s \<Rightarrow> length s \<le> 4000 | _ \<Rightarrow> False)"

definition refs_shape :: "json \<Rightarrow> bool" where
  "refs_shape v \<longleftrightarrow> (case v of
     JArr xs \<Rightarrow> length xs \<le> 20 \<and> list_all (\<lambda>x. case x of JStr s \<Rightarrow> strip s \<noteq> [] \<and> length s \<le> 1000 | _ \<Rightarrow> False) xs
   | _ \<Rightarrow> False)"

definition framed :: "(string \<times> json) list \<Rightarrow> json list \<Rightarrow> bool" where
  "framed p refs \<longleftrightarrow> list_ex (\<lambda>v. case v of JStr s \<Rightarrow> has_marker s | _ \<Rightarrow> False) (map (jget p) (REPORT_TEXTS @ [''actor'']) @ refs)"

definition worker_binding_shape :: "kanban_event \<Rightarrow> json \<Rightarrow> bool" where
  "worker_binding_shape e b \<longleftrightarrow>
     (case b of
        JObj kvs \<Rightarrow> set (keys kvs) = set [''schema_version'', ''approval_generation'', ''scope_digest'', ''started_revision'']
          \<and> jget kvs ''schema_version'' = JInt 1 \<and> json_in_range 0 (jget kvs ''approval_generation'')
          \<and> json_in_range 1 (jget kvs ''started_revision'')
          \<and> (case (as_int (jget kvs ''started_revision''), ke_revision e) of (Some a, Some r) \<Rightarrow> a \<le> r | _ \<Rightarrow> False)
          \<and> (case jget kvs ''scope_digest'' of JStr s \<Rightarrow> length s = 64 \<and> list_all is_hex_lower s | _ \<Rightarrow> False)
      | _ \<Rightarrow> False)"

text \<open>The texts, the sources and the binding of a stored report, in the order of the code.\<close>

definition progress_payload :: "card \<Rightarrow> kanban_event \<Rightarrow> (string \<times> json) list \<Rightarrow> (worker_error, unit) res" where
  "progress_payload c e p =
     (let bad = (\<lambda>s. WorkerReason s); binding = jget p ''progress_binding'';
          ok_actor = (case jget p ''actor'' of JStr a \<Rightarrow> strip a \<noteq> [] \<and> length a \<le> 500 \<and> a = ke_actor e | _ \<Rightarrow> False)
      in check (set (keys p) \<subseteq> set (PROGRESS_KEYS @ [''progress_binding'', ''worker_binding''])) (bad ''invalid progress payload'')
       (check (jget p ''card_id'' = JStr (kc_id c) \<and> json_in_range 0 (jget p ''expected_revision'')
               \<and> Some (int_of (jget p ''expected_revision'')) = map_option (\<lambda>r. r - 1) (ke_revision e) \<and> ok_actor
               \<and> in_range 0 (ke_at e) \<and> one_of (jget p ''report_status'') PROGRESS_STATUSES
               \<and> (case jget p ''summary'' of JStr s \<Rightarrow> strip s \<noteq> [] | _ \<Rightarrow> False)) (bad ''invalid progress fields'')
         (check (list_all (\<lambda>k. short_or_null (jget p k)) REPORT_TEXTS) (bad ''invalid progress text'')
           (check (refs_shape (jget p ''source_refs'')) (bad ''invalid progress sources'')
             (check (\<not> framed p (items_of (jget p ''source_refs''))) (bad ''unsupported progress framing'')
               (check (case binding of JObj b \<Rightarrow> jget b ''schema_version'' = JInt 1 \<and> json_in_range 0 (jget b ''approval_generation'')
                         | _ \<Rightarrow> False) (bad ''invalid progress binding'')
                 (if ''worker_observation'' \<in> set (keys p)
                  then check (canonical_uuid (ke_operation e)) (bad ''invalid worker operation'')
                   (bindR (validate_worker_observation (jget p ''worker_observation'') (items_of (jget p ''source_refs'')))
                     (\<lambda>_. check (worker_binding_shape e (jget p ''worker_binding'')) (bad ''invalid worker binding'') (Inr ())))
                  else check (''worker_binding'' \<notin> set (keys p)) (bad ''orphan worker binding'') (Inr ()))))))))"

definition progress_event :: "card \<Rightarrow> kanban_event \<Rightarrow> (worker_error, (string \<times> json) list) res" where
  "progress_event c e =
     check (in_range 0 (kc_revision c) \<and> in_range 0 (kc_generation c) \<and> accepted [''report-progress''] e
            \<and> (case ke_revision e of None \<Rightarrow> False | Some r \<Rightarrow> in_range 1 r \<and> r \<le> kc_revision c))
       (WorkerReason ''invalid progress revision'')
      (bindR (column_json (ke_payload e))
        (\<lambda>v. case v of
           JObj p \<Rightarrow> bindR (progress_payload c e p) (\<lambda>_. Inr p)
         | _ \<Rightarrow> Inl (WorkerReason ''invalid progress payload'')))"

text \<open>Whether a binding still covers the card: the same approval and scope, and no scope edit since.\<close>

fun scope_unchanged :: "card \<Rightarrow> int \<Rightarrow> kanban_event list \<Rightarrow> (worker_error, bool) res" where
  "scope_unchanged c start [] = Inr True"
| "scope_unchanged c start (e # es) =
     (if \<not> accepted [''edit''] e then scope_unchanged c start es
      else check (revision_within c e) (WorkerReason ''invalid scope barrier'')
       (if the (ke_revision e) \<le> start then scope_unchanged c start es
        else bindR (column_json (ke_delta e))
         (\<lambda>v. case v of
            JObj d \<Rightarrow> if truthy (jget d ''scope_fields_changed'') then Inr False else scope_unchanged c start es
          | _ \<Rightarrow> Inl (WorkerReason ''unknown scope edit''))))"

definition worker_scope_current ::
  "(string \<Rightarrow> string) \<Rightarrow> card \<Rightarrow> (string \<times> json) list \<Rightarrow> kanban_event list \<Rightarrow> int \<Rightarrow> (worker_error, bool) res" where
  "worker_scope_current H c binding events start =
     (if jget binding ''approval_generation'' \<noteq> JInt (kc_generation c)
         \<or> jget binding ''scope_digest'' \<noteq> JStr (progress_scope_digest H c) then Inr False
      else scope_unchanged c start events)"

definition observation_event :: "kanban_event \<Rightarrow> bool" where
  "observation_event e \<longleftrightarrow> accepted [''report-progress''] e
     \<and> (case column_json (ke_payload e) of
          Inl _ \<Rightarrow> True
        | Inr (JObj p) \<Rightarrow> ''worker_observation'' \<in> set (keys p) \<or> ''worker_binding'' \<in> set (keys p)
        | Inr _ \<Rightarrow> True)"

text \<open>\<open>max(..., key=(result_revision, operation_id))\<close>, also \<open>ORDER BY result_revision DESC, operation_id DESC LIMIT 1\<close>.\<close>

definition latest_event :: "kanban_event list \<Rightarrow> kanban_event option" where
  "latest_event es = (if es = [] then None else Some (List.last (sort_key (\<lambda>e. (ke_revision e, ke_operation e)) es)))"

definition latest_worker_event ::
  "card \<Rightarrow> kanban_event list \<Rightarrow> (worker_error, (kanban_event \<times> (string \<times> json) list) option) res" where
  "latest_worker_event c events =
     (let candidates = filter observation_event events in
      case latest_event candidates of
        None \<Rightarrow> Inr None
      | Some e \<Rightarrow>
        check (list_all (revision_within c) candidates \<and> distinct (map ke_revision candidates)) (WorkerReason ''worker_history_unknown'')
         (bindR (progress_event c e)
           (\<lambda>p. check (''worker_observation'' \<in> set (keys p)) (WorkerReason ''worker_history_unknown'') (Inr (Some (e, p))))))"

datatype report = NoReport | UnknownReport | StaleReport | CurrentReport string

definition progress_report :: "(string \<Rightarrow> string) \<Rightarrow> card \<Rightarrow> kanban_event list \<Rightarrow> report" where
  "progress_report H c events =
     (let reports = filter (accepted [''report-progress'']) events in
      case latest_event reports of
        None \<Rightarrow> NoReport
      | Some e \<Rightarrow>
        if \<not> list_all (revision_within c) reports then UnknownReport
        else case progress_event c e of
            Inl _ \<Rightarrow> UnknownReport
          | Inr p \<Rightarrow>
            (case worker_scope_current H c (entries (jget p ''progress_binding'')) events (the (ke_revision e)) of
               Inl _ \<Rightarrow> UnknownReport
             | Inr current \<Rightarrow> if current then CurrentReport (str_of (jget p ''report_status'')) else StaleReport))"

section \<open>Where a card is\<close>

definition placed :: "string \<Rightarrow> bool" where
  "placed s \<longleftrightarrow> s \<in> set [''board'', ''backlog'']"

definition created_location :: "(string \<Rightarrow> string) \<Rightarrow> kanban_event \<Rightarrow> (string \<times> json) list \<Rightarrow> string option" where
  "created_location H e delta =
     (if ''queue_location'' \<notin> set (keys delta) then Some ''board''
      else case (jget delta ''queue_location'', column_json (ke_payload e)) of
          (JStr destination, Inr (JObj p)) \<Rightarrow>
            if placed destination \<and> ke_revision e = Some 0 \<and> jget p ''card_id'' = jopt_str (ke_card e)
               \<and> jget p ''actor'' = JStr (ke_actor e) \<and> is_obj (jget p ''fields'')
               \<and> ke_hash e = payload_hash H ''create'' (JObj p)
            then Some destination else None
        | _ \<Rightarrow> None)"

definition moved_location :: "(string \<Rightarrow> string) \<Rightarrow> int \<Rightarrow> kanban_event \<Rightarrow> json \<Rightarrow> string option" where
  "moved_location H revision e delta =
     (case (ke_revision e, ke_expected e, column_json (ke_payload e)) of
        (Some r, Some expected, Inr (JObj p)) \<Rightarrow>
          let fine = (\<lambda>k limit. case jget p k of JStr s \<Rightarrow> strip s \<noteq> [] \<and> length s \<le> limit \<and> \<not> has_marker s | _ \<Rightarrow> False) in
          if 1 \<le> r \<and> r \<le> revision \<and> expected = r - 1
             \<and> set (keys p) = set [''card_id'', ''expected_revision'', ''actor'', ''destination'', ''user_request'']
             \<and> jget p ''card_id'' = jopt_str (ke_card e) \<and> jget p ''expected_revision'' = JInt expected
             \<and> jget p ''actor'' = JStr (ke_actor e) \<and> 0 \<le> ke_at e \<and> fine ''actor'' 500 \<and> fine ''user_request'' 4000
          then (case jget p ''destination'' of
                  JStr destination \<Rightarrow>
                    if placed destination \<and> delta = JObj [(''queue_location'', JStr destination)]
                       \<and> ke_hash e = payload_hash H ''place'' (JObj p)
                    then Some destination else None
                | _ \<Rightarrow> None)
          else None
      | _ \<Rightarrow> None)"

text \<open>\<open>None\<close> for \<open>unknown\<close>.\<close>

definition event_location :: "(string \<Rightarrow> string) \<Rightarrow> int \<Rightarrow> kanban_event option \<Rightarrow> string option" where
  "event_location H revision event =
     (case event of
        None \<Rightarrow> Some ''board''
      | Some e \<Rightarrow>
        if \<not> in_range 0 revision then None
        else case column_json (ke_delta e) of
            Inl _ \<Rightarrow> None
          | Inr delta \<Rightarrow>
            if ke_kind e = ''create'' then (case delta of JObj d \<Rightarrow> created_location H e d | _ \<Rightarrow> None)
            else moved_location H revision e delta)"

section \<open>Summaries\<close>

definition sql_json :: "string option \<Rightarrow> json option" where
  "sql_json column = (case column of None \<Rightarrow> None | Some s \<Rightarrow>
     (case loads s of None \<Rightarrow> None | Some v \<Rightarrow> if has_nan v then None else Some v))"

definition user_report :: "kanban_event \<Rightarrow> bool" where
  "user_report e \<longleftrightarrow> ke_kind e = ''report-progress''
     \<and> (ke_actor e = ''USER'' \<or> (case sql_json (ke_payload e) of Some (JObj p) \<Rightarrow> jget p ''actor'' = JStr ''USER'' | _ \<Rightarrow> False))"

definition nonuser_report :: "kanban_event \<Rightarrow> bool" where
  "nonuser_report e \<longleftrightarrow> ke_kind e = ''report-progress'' \<and> ke_actor e \<noteq> ''USER''"

definition worker_event :: "kanban_event \<Rightarrow> bool" where
  "worker_event e \<longleftrightarrow> ke_kind e = ''report-progress''
     \<and> (case sql_json (ke_payload e) of
          Some (JObj p) \<Rightarrow> ''worker_observation'' \<in> set (keys p) \<or> ''worker_binding'' \<in> set (keys p)
        | _ \<Rightarrow> True)"

definition opaque_edit :: "kanban_event \<Rightarrow> bool" where
  "opaque_edit e \<longleftrightarrow> ke_kind e = ''edit'' \<and> (case sql_json (ke_delta e) of Some (JObj d) \<Rightarrow> False | _ \<Rightarrow> True)"

definition scope_edit :: "kanban_event \<Rightarrow> bool" where
  "scope_edit e \<longleftrightarrow> ke_kind e = ''edit''
     \<and> (case sql_json (ke_delta e) of Some (JObj d) \<Rightarrow>
          (case jget d ''scope_fields_changed'' of
             JArr xs \<Rightarrow> xs \<noteq> [] | JNull \<Rightarrow> False | JObj _ \<Rightarrow> True | v \<Rightarrow> truthy v)
        | _ \<Rightarrow> False)"

definition location_event :: "kanban_event \<Rightarrow> bool" where
  "location_event e \<longleftrightarrow> ke_kind e \<in> set [''place'', ''create'']"

record summary =
  sm_events :: "kanban_event list"
  sm_bad_card :: bool
  sm_bad_worker :: bool
  sm_bad_time :: bool
  sm_bad_revision :: bool
  sm_bad_edit :: bool
  sm_bad_night :: bool
  sm_location :: "string option"

definition events_of_card :: "board \<Rightarrow> string \<Rightarrow> kanban_event list" where
  "events_of_card b i = filter (\<lambda>e. ke_card e = Some i) (kb_events b)"

definition nights_of_card :: "board \<Rightarrow> string \<Rightarrow> night list" where
  "nights_of_card b i = filter (\<lambda>n. kn_card n = i) (kb_nights b)"

fun unique_events :: "string list \<Rightarrow> kanban_event list \<Rightarrow> kanban_event list" where
  "unique_events seen [] = []"
| "unique_events seen (e # es) =
     (if ke_operation e \<in> set seen then unique_events seen es else e # unique_events (ke_operation e # seen) es)"

text \<open>More rows than distinct revisions, where a row without a revision counts for none.\<close>

definition shared_revision :: "kanban_event list \<Rightarrow> bool" where
  "shared_revision es \<longleftrightarrow> length (remdups (List.map_filter ke_revision es)) < length es"

definition last_report_revision :: "kanban_event list \<Rightarrow> int" where
  "last_report_revision es = fold max (List.map_filter ke_revision (filter (accepted [''report-progress'']) es)) (-1)"

definition summary_of :: "(string \<Rightarrow> string) \<Rightarrow> board \<Rightarrow> card \<Rightarrow> summary" where
  "summary_of H b c =
     (let es = events_of_card b (kc_id c); done_events = filter (\<lambda>e. ke_result e = ''accepted'') es;
          newest = (\<lambda>P. case latest_event (filter P done_events) of None \<Rightarrow> [] | Some e \<Rightarrow> [e]);
          places = filter location_event done_events;
          bad_location = list_ex (\<lambda>e. event_location H (kc_revision c) (Some e) = None) places \<or> shared_revision places
      in \<lparr>sm_events = unique_events [] (concat (map newest
             [\<lambda>e. ke_kind e = ''report-progress'', user_report, nonuser_report, worker_event, opaque_edit, scope_edit])),
          sm_bad_card = (\<not> in_range 0 (kc_revision c) \<or> \<not> in_range 0 (kc_generation c)),
          sm_bad_worker = shared_revision (filter worker_event done_events),
          sm_bad_time = list_ex (\<lambda>e. ke_at e < 0) es,
          sm_bad_revision = list_ex (\<lambda>e. \<not> revision_within c e) (filter (accepted [''edit'', ''report-progress'']) es),
          sm_bad_edit = list_ex (\<lambda>e. opaque_edit e \<and> (case ke_revision e of None \<Rightarrow> False | Some r \<Rightarrow> last_report_revision es < r))
            (filter (accepted [''edit'']) es),
          sm_bad_night = list_ex (\<lambda>n. kn_phase n \<notin> set [''reserved'', ''submitted'', ''stopped'']) (nights_of_card b (kc_id c)),
          sm_location = (if bad_location then None else event_location H (kc_revision c) (latest_event places))\<rparr>)"

section \<open>The state of a card\<close>

definition TASK_STATUS_WORDS :: "string list" where
  "TASK_STATUS_WORDS = [''queued'', ''running'', ''paused'', ''blocked'', ''waiting_user'', ''failed'', ''done'', ''UserReview'',
     ''user_review'']"

datatype group = Archived | Decision | Finished | Building | Pending

record standing =
  sd_report :: report
  sd_anomalies :: bool
  sd_group :: group

definition pause_pending :: "card \<Rightarrow> task_row option \<Rightarrow> bool" where
  "pause_pending c task \<longleftrightarrow> kc_reason c = Some ''manual_pause_pending''
     \<or> (case task of None \<Rightarrow> False | Some t \<Rightarrow> t_stop_reason t = Some ''manual_pause_pending'')"

definition anomalous :: "board \<Rightarrow> card \<Rightarrow> task_row option \<Rightarrow> summary \<Rightarrow> report \<Rightarrow> bool" where
  "anomalous b c task s r \<longleftrightarrow>
     sm_bad_card s \<or> sm_bad_time s \<or> sm_bad_revision s \<or> sm_bad_edit s \<or> sm_bad_night s \<or> sm_location s = None
     \<or> kc_state c \<notin> set MANUAL_STATES \<or> (truthy (jopt_str (kc_task c)) \<and> task = None)
     \<or> (case task of None \<Rightarrow> False | Some t \<Rightarrow> t_status t \<notin> set TASK_STATUS_WORDS)
     \<or> list_ex (\<lambda>n. kn_phase n \<notin> set [''reserved'', ''submitted'', ''stopped'']) (nights_of_card b (kc_id c))
     \<or> r = UnknownReport \<or> list_ex (\<lambda>e. ke_at e < 0) (events_of_card b (kc_id c))"

definition reports :: "report \<Rightarrow> string list \<Rightarrow> bool" where
  "reports r ws \<longleftrightarrow> (case r of CurrentReport s \<Rightarrow> s \<in> set ws | _ \<Rightarrow> False)"

definition standing_of :: "(string \<Rightarrow> string) \<Rightarrow> board \<Rightarrow> card \<Rightarrow> task_row option \<Rightarrow> summary \<Rightarrow> standing" where
  "standing_of H b c task s =
     (let r = progress_report H c (events_of_card b (kc_id c));
          status = (case task of None \<Rightarrow> [] | Some t \<Rightarrow> t_status t); odd_state = anomalous b c task s r
      in \<lparr>sd_report = r, sd_anomalies = (odd_state \<and> kc_state c \<noteq> ''archived''),
          sd_group =
            (if kc_state c = ''archived'' then Archived
             else if odd_state \<or> pause_pending c task \<or> status \<in> set [''paused'', ''blocked'', ''waiting_user'', ''failed'']
                     \<or> kc_state c \<in> set [''needs_clarification'', ''returned''] \<or> reports r [''blocked'', ''needs_decision''] then Decision
             else if kc_state c = ''done'' \<or> status \<in> set [''done'', ''UserReview'', ''user_review'']
                     \<or> reports r [''reported_done''] then Finished
             else if status = ''running'' \<or> reports r [''in_progress''] then Building
             else Pending)\<rparr>)"

end
