(* ===== verification/Approval.thy ===== *)
theory Approval
  imports Progress Quota Yaml
begin

text \<open>
  The fields of a card command and the approval payload of \<open>orchestrator/kanban/commands.py\<close>: what an operator may write into a
  card, and what an approval freezes.  The files, the directories and how a path resolves are parameters.
\<close>

record board_env =
  be_sha :: "string \<Rightarrow> string"
  be_files :: "string \<Rightarrow> string option"
  be_dir :: "string \<Rightarrow> bool"
  be_resolve :: "string \<Rightarrow> string"
  be_home :: string
  be_literal :: "string \<Rightarrow> json option"
  be_decode_message :: "string \<Rightarrow> string"
  be_instant :: "string \<Rightarrow> int option"
  be_tasks :: db

section \<open>Text files\<close>

text \<open>The line ends of a file opened as text.\<close>

fun universal_newlines :: "string \<Rightarrow> string" where
  "universal_newlines [] = []"
| "universal_newlines (c # s) =
     (if c = CHR 0x0D
      then (case s of d # s' \<Rightarrow> if d = CHR 0x0A then nl # universal_newlines s' else nl # universal_newlines (d # s') | [] \<Rightarrow> [nl])
      else c # universal_newlines s)"

definition decoded :: "string \<Rightarrow> (kanban_error, string) res" where
  "decoded bytes = check (utf8_valid bytes) KanbanValueError (Inr (universal_newlines bytes))"

definition read_text :: "board_env \<Rightarrow> string \<Rightarrow> (kanban_error, string) res" where
  "read_text E path = (case be_files E path of None \<Rightarrow> Inl KanbanOSError | Some bytes \<Rightarrow> decoded bytes)"

definition is_file :: "board_env \<Rightarrow> string \<Rightarrow> bool" where
  "is_file E path \<longleftrightarrow> be_files E path \<noteq> None"

section \<open>Fields\<close>

definition JSON_OBJECT_FIELDS :: "string list" where "JSON_OBJECT_FIELDS = [''risk'', ''estimate_by_pool'']"
definition JSON_ARRAY_FIELDS :: "string list" where "JSON_ARRAY_FIELDS = [''allowed_commands'']"
definition JSON_FIELDS :: "string list" where "JSON_FIELDS = JSON_OBJECT_FIELDS @ JSON_ARRAY_FIELDS"

definition field_value_ok :: "string \<times> json \<Rightarrow> bool" where
  "field_value_ok kv \<longleftrightarrow>
     (let (k, v) = kv in
      if k \<in> set JSON_OBJECT_FIELDS then is_obj v
      else if k \<in> set JSON_ARRAY_FIELDS then (case v of JArr _ \<Rightarrow> True | _ \<Rightarrow> False)
      else v = JNull \<or> is_str v)"

text \<open>The fields, or the reason for refusing them.\<close>

definition read_fields :: "json \<Rightarrow> string list \<Rightarrow> (string, (string \<times> json) list) res" where
  "read_fields raw allow =
     (case raw of
        JNull \<Rightarrow> Inr []
      | JObj kvs \<Rightarrow>
          check (set (keys kvs) \<subseteq> set allow) ''unsupported_field'' (check (list_all field_value_ok kvs) ''invalid_fields'' (Inr kvs))
      | _ \<Rightarrow> Inl ''invalid_fields'')"

definition spaced :: "json \<Rightarrow> string" where
  "spaced v = dumps_line (sort_keys v)"

definition storable_value :: "string \<Rightarrow> json \<Rightarrow> string option" where
  "storable_value k v = (if k \<in> set JSON_FIELDS then Some (spaced v) else as_str v)"

definition storable :: "(string \<times> json) list \<Rightarrow> (string \<times> string option) list" where
  "storable fs = map (\<lambda>(k, v). (k, storable_value k v)) fs"

definition marker_in_fields :: "(string \<times> json) list \<Rightarrow> bool" where
  "marker_in_fields fs \<longleftrightarrow> list_ex (\<lambda>(k, v). (case v of JStr s \<Rightarrow> has_marker s | _ \<Rightarrow> False)
     \<or> (k \<in> set JSON_FIELDS \<and> has_marker (dumps_line v))) fs"

definition set_fields :: "(string \<times> string option) list \<Rightarrow> card \<Rightarrow> card" where
  "set_fields ps c = c\<lparr>kc_fields := fold (\<lambda>(k, v) f. f(k := v)) ps (kc_fields c)\<rparr>"

definition stored_json :: "(string \<times> string option) list \<Rightarrow> (string \<times> json) list" where
  "stored_json ps = map (\<lambda>(k, v). (k, jopt_str v)) ps"

section \<open>The approval payload\<close>

definition REQUIRED_APPROVAL_FIELDS :: "string list" where
  "REQUIRED_APPROVAL_FIELDS = SCOPE_FIELDS"

definition REQUIRED_RISK_KEYS :: "string list" where
  "REQUIRED_RISK_KEYS = [''money'', ''durable_state'', ''transaction'', ''mq'', ''concurrency'', ''migration'',
     ''cross_module_contract'', ''security'', ''irreversible_side_effect'']"

definition GATE_FORCING_RISK_KEYS :: "string list" where
  "GATE_FORCING_RISK_KEYS = [''money'', ''durable_state'', ''transaction'', ''migration'', ''security'', ''irreversible_side_effect'']"

definition APPROVAL_MARKER_KEYS :: "string list" where "APPROVAL_MARKER_KEYS = [''status'', ''approval'', ''decision'']"
definition APPROVAL_MARKER_VALUES :: "string list" where
  "APPROVAL_MARKER_VALUES = [''approved'', ''ready'', ''accepted'', ''final'']"

definition approving_line :: "string \<Rightarrow> bool" where
  "approving_line line \<longleftrightarrow>
     (let bare = strip (dropWhile (\<lambda>c. c \<in> set ''-*# '') (strip line)); (key, sep, value) = partition_sub '':'' bare
      in sep \<and> lower (strip key) \<in> set APPROVAL_MARKER_KEYS \<and> lower (strip value) \<in> set APPROVAL_MARKER_VALUES)"

definition spec_is_explicitly_approved :: "string \<Rightarrow> bool" where
  "spec_is_explicitly_approved s \<longleftrightarrow> list_ex approving_line (splitlines s)"

text \<open>A step of the check: go on with a value, refuse with a reason, or raise.\<close>

type_synonym 'a step = "(kanban_error, (string, 'a) res) res"

definition refuse :: "string \<Rightarrow> 'a step" where "refuse reason = Inr (Inl reason)"
definition go :: "'a \<Rightarrow> 'a step" where "go x = Inr (Inr x)"

definition andthen :: "'a step \<Rightarrow> ('a \<Rightarrow> 'b step) \<Rightarrow> 'b step" where
  "andthen m f = bindR m (\<lambda>r. case r of Inl reason \<Rightarrow> refuse reason | Inr x \<Rightarrow> f x)"

definition need :: "bool \<Rightarrow> string \<Rightarrow> 'a step \<Rightarrow> 'a step" where
  "need b reason m = (if b then m else refuse reason)"

definition read_source :: "board_env \<Rightarrow> string \<Rightarrow> string \<Rightarrow> string step" where
  "read_source E name path =
     need (is_file E path) (''missing_artifact:'' @ name)
      (bindR (read_text E path) (\<lambda>s. need (\<not> has_marker s) ''unsupported_input_framing'' (go s)))"

definition is_risk :: "json \<Rightarrow> bool" where
  "is_risk v \<longleftrightarrow> (case v of
     JObj kvs \<Rightarrow> set REQUIRED_RISK_KEYS \<subseteq> set (keys kvs) \<and> length kvs = length REQUIRED_RISK_KEYS \<and> list_all (\<lambda>(k, v). is_bool v) kvs
   | _ \<Rightarrow> False)"

definition is_estimate :: "json \<Rightarrow> bool" where
  "is_estimate v \<longleftrightarrow> (case v of
     JObj kvs \<Rightarrow> kvs \<noteq> [] \<and> list_all (\<lambda>(k, v). POOL_KEY k \<and> (case v of JInt i \<Rightarrow> 0 < i | _ \<Rightarrow> False)) kvs
   | _ \<Rightarrow> False)"

definition is_commands :: "json \<Rightarrow> bool" where
  "is_commands v \<longleftrightarrow> (case v of
     JArr xs \<Rightarrow> xs \<noteq> [] \<and> list_all (\<lambda>x. case x of JStr s \<Rightarrow> strip s \<noteq> [] | _ \<Rightarrow> False) xs
   | _ \<Rightarrow> False)"

definition column :: "card \<Rightarrow> string \<Rightarrow> string" where
  "column c k = (case kc_fields c k of None \<Rightarrow> [] | Some s \<Rightarrow> s)"

record sources =
  so_spec :: string
  so_acceptance :: string
  so_review :: string
  so_profile :: json

text \<open>The files an approval covers.\<close>

definition approval_sources :: "board_env \<Rightarrow> card \<Rightarrow> sources step" where
  "approval_sources E c =
     andthen (read_source E ''spec_path'' (column c ''spec_path''))
      (\<lambda>spec. andthen (read_source E ''acceptance_path'' (column c ''acceptance_path''))
       (\<lambda>acceptance. andthen (read_source E ''spec_review_pointer'' (column c ''spec_review_pointer''))
        (\<lambda>review. andthen (read_source E ''profile_name'' (column c ''profile_name''))
         (\<lambda>profile_text.
           case load_profile (be_literal E) (\<lambda>p. Some profile_text) (column c ''profile_name'') of
             Inl _ \<Rightarrow> refuse ''invalid_profile''
           | Inr p \<Rightarrow>
             need (spec_is_explicitly_approved spec) ''spec_not_approved''
              (need (strip acceptance \<noteq> []) ''acceptance_empty''
                (need (strip review \<noteq> []) ''spec_review_empty''
                  (need (kc_fields c ''spec_review_hash'' = Some (be_sha E review)) ''spec_review_hash_mismatch''
                    (go \<lparr>so_spec = spec, so_acceptance = acceptance, so_review = review, so_profile = to_dict p\<rparr>))))))))"

record contract =
  co_risk :: json
  co_estimate :: json
  co_commands :: json

definition approval_contract :: "card \<Rightarrow> contract step" where
  "approval_contract c =
     (case (loads (column c ''risk''), loads (column c ''estimate_by_pool''), loads (column c ''allowed_commands'')) of
        (Some risk, Some estimate, Some commands) \<Rightarrow>
          need (is_obj risk \<and> is_obj estimate \<and> (case commands of JArr _ \<Rightarrow> True | _ \<Rightarrow> False)) ''invalid_json_field''
           (need (is_risk risk) ''incomplete_risk''
             (need (is_estimate estimate) ''invalid_estimate''
               (need (is_commands commands) ''invalid_allowed_commands''
                 (need (\<not> list_ex (\<lambda>v. has_marker (str_of v)) (items_of commands)) ''unsupported_input_framing''
                   (need (column c ''effort'' \<in> set EFFORTS) ''invalid_effort''
                     (need (column c ''routing_digest'' \<noteq> [] \<and> column c ''config_digest'' \<noteq> []) ''missing_routing_config_digest''
                       (go \<lparr>co_risk = risk, co_estimate = estimate, co_commands = commands\<rparr>)))))))
      | _ \<Rightarrow> refuse ''invalid_json_field'')"

definition gate_required :: "json \<Rightarrow> bool" where
  "gate_required risk \<longleftrightarrow> list_ex (\<lambda>k. truthy (field risk k)) GATE_FORCING_RISK_KEYS"

definition frozen_payload :: "board_env \<Rightarrow> card \<Rightarrow> sources \<Rightarrow> contract \<Rightarrow> (string \<times> json) list" where
  "frozen_payload E c so co =
     (let col = (\<lambda>k. JStr (column c k)); path = (\<lambda>k. JStr (be_resolve E (column c k))) in
      [(''schema_version'', JInt 1), (''card_id'', JStr (kc_id c)), (''approval_generation'', JInt (kc_generation c + 1)),
       (''repo_path'', path ''repo_path''), (''worktree_path'', path ''worktree_path''), (''git_common_dir'', path ''git_common_dir''),
       (''base_head'', col ''base_head''), (''candidate_fingerprint'', col ''candidate_fingerprint''),
       (''change_name'', col ''change_name''), (''spec_path'', path ''spec_path''), (''spec_text'', JStr (so_spec so)),
       (''spec_hash'', JStr (be_sha E (so_spec so))), (''acceptance_path'', path ''acceptance_path''),
       (''acceptance_text'', JStr (so_acceptance so)), (''acceptance_hash'', JStr (be_sha E (so_acceptance so))),
       (''spec_review_pointer'', path ''spec_review_pointer''), (''spec_review_hash'', JStr (be_sha E (so_review so))),
       (''risk'', co_risk co), (''estimate_by_pool'', co_estimate co), (''allowed_commands'', co_commands co),
       (''profile_path'', path ''profile_name''), (''profile_snapshot'', so_profile so),
       (''profile_hash'', JStr (be_sha E (dumps (so_profile so)))), (''provider'', col ''provider''), (''model'', col ''model''),
       (''effort'', col ''effort''), (''routing_digest'', col ''routing_digest''), (''config_digest'', col ''config_digest''),
       (''allowed_write_roots'', JArr [path ''worktree_path'']),
       (''forbidden_side_effects'', JArr (map JStr [''commit'', ''push'', ''merge'', ''deploy'', ''destructive_cleanup''])),
       (''interpretation_envelope'', JBool False), (''execution_plan'', JBool False),
       (''gate_required'', JBool (gate_required (co_risk co)))])"

definition build_approval_payload :: "board_env \<Rightarrow> card \<Rightarrow> (string \<times> json) list step" where
  "build_approval_payload E c =
     (case find (\<lambda>k. column c k = []) REQUIRED_APPROVAL_FIELDS of
        Some k \<Rightarrow> refuse (''missing_scope:'' @ k)
      | None \<Rightarrow>
        (case find (\<lambda>k. \<not> be_dir E (column c k)) [''repo_path'', ''worktree_path'', ''git_common_dir''] of
           Some k \<Rightarrow> refuse (''missing_directory:'' @ k)
         | None \<Rightarrow>
           andthen (approval_sources E c) (\<lambda>so. andthen (approval_contract c) (\<lambda>co. go (frozen_payload E c so co)))))"

definition approval_hash :: "(string \<Rightarrow> string) \<Rightarrow> (string \<times> json) list \<Rightarrow> string" where
  "approval_hash H payload = H (dumps (JObj payload))"

end
