(* ===== verification/Closeout.thy ===== *)
theory Closeout
  imports Approval Artifact
begin

text \<open>
  The predicates of the \<open>done\<close> command of \<open>orchestrator/kanban/commands.py\<close>: the binding of a closeout, the reports it
  names, and the stop-gate chain on disk.  How Python prints a container is a parameter, as is \<open>datetime.fromisoformat\<close>
  (\<open>be_instant\<close>: the instant of an aware time, \<open>None\<close> for anything else).
\<close>

definition BINDING_BLOCK_FIELDS :: "string list" where
  "BINDING_BLOCK_FIELDS =
     [''night_task_id'', ''night_id'', ''card_id'', ''approval_generation'', ''approval_hash'', ''input_hash'', ''profile_hash'',
      ''final_candidate_fingerprint'', ''review_seal_hash'', ''audit_seal_hash'', ''apply_report_path'', ''apply_report_hash'',
      ''review_report_path'', ''review_report_hash'', ''audit_report_path'', ''audit_report_hash'']"

definition BINDING_EXTRA_FIELDS :: "string list" where
  "BINDING_EXTRA_FIELDS = [''night_request_id'', ''closeout_task_id'', ''terminal_done_at'', ''last_seal_at'', ''remaining_evidence'']"

definition BINDING_REPORTS :: "(string \<times> string) list" where
  "BINDING_REPORTS = [(''apply_report_path'', ''apply_report_hash''), (''review_report_path'', ''review_report_hash''),
     (''audit_report_path'', ''audit_report_hash'')]"

definition BINDING_BEGIN :: string where "BINDING_BEGIN = ''<!-- kanban-closeout-binding:v1 -->''"
definition BINDING_END :: string where "BINDING_END = ''<!-- /kanban-closeout-binding -->''"

text \<open>\<open>str(v)\<close>.\<close>

definition py_str :: "(json \<Rightarrow> string) \<Rightarrow> json \<Rightarrow> string" where
  "py_str show_value v =
     (case v of JStr s \<Rightarrow> s | JNull \<Rightarrow> ''None'' | JBool b \<Rightarrow> if b then ''True'' else ''False'' | JInt i \<Rightarrow> str_of_int i
      | _ \<Rightarrow> show_value v)"

definition render_closeout_binding :: "(json \<Rightarrow> string) \<Rightarrow> (string \<times> json) list \<Rightarrow> string" where
  "render_closeout_binding show_value binding =
     join_with [nl] (BINDING_BEGIN # map (\<lambda>k. k @ '': '' @ py_str show_value (jget binding k)) BINDING_BLOCK_FIELDS @ [BINDING_END])"

section \<open>The gate\<close>

definition under :: "string \<Rightarrow> string \<Rightarrow> string" where
  "under base name = (if starts_with ''/'' name then name else base @ ''/'' @ name)"

definition artifact_at :: "board_env \<Rightarrow> string \<Rightarrow> json option" where
  "artifact_at E path =
     (case be_files E path of
        None \<Rightarrow> None
      | Some bytes \<Rightarrow> if utf8_valid bytes then (case read_yaml (universal_newlines bytes) of Inr v \<Rightarrow> Some v | Inl _ \<Rightarrow> None) else None)"

definition object_or :: "string \<Rightarrow> json option \<Rightarrow> (string \<times> json) list step" where
  "object_or reason v = (case v of Some (JObj kvs) \<Rightarrow> go kvs | _ \<Rightarrow> refuse reason)"

definition mismatch :: string where "mismatch = ''gate_binding_mismatch''"

definition embedded_task_summary :: "string \<Rightarrow> string option" where
  "embedded_task_summary source =
     (let marker = [nl] @ ''## Routing Decision'' @ [nl]; fence = ''```json'' @ [nl] in
      case find_sub marker source of
        None \<Rightarrow> None
      | Some i \<Rightarrow>
        let rest = drop (i + length marker) source in
        (case find_sub fence rest of
           None \<Rightarrow> None
         | Some start \<Rightarrow>
           (case find_sub ([nl] @ ''```'') (drop start rest) of
              None \<Rightarrow> None
            | Some stop \<Rightarrow>
              (case loads (drop (length fence) (take stop (drop start rest))) of
                 Some (JObj routing) \<Rightarrow> as_str (jget routing ''task_summary'')
               | _ \<Rightarrow> None))))"

fun closeout_used :: "kanban_event list \<Rightarrow> string \<Rightarrow> (kanban_error, bool) res" where
  "closeout_used [] i = Inr False"
| "closeout_used (e # es) i =
     (if \<not> accepted [''done''] e then closeout_used es i
      else let source = (case ke_delta e of None \<Rightarrow> ''{}'' | Some s \<Rightarrow> if s = [] then ''{}'' else s) in
        case loads source of
          None \<Rightarrow> closeout_used es i
        | Some (JObj delta) \<Rightarrow>
          (case jget delta ''binding'' of
             JObj binding \<Rightarrow> if jget binding ''closeout_task_id'' = JStr i then Inr True else closeout_used es i
           | _ \<Rightarrow> closeout_used es i)
        | Some _ \<Rightarrow> Inl KanbanAttributeError)"

definition same_json :: "(string \<times> json) list \<Rightarrow> (string \<times> json) list \<Rightarrow> bool" where
  "same_json a b \<longleftrightarrow> dumps (JObj a) = dumps (JObj b)"

text \<open>The decision artifact: the task it belongs to and what it says.\<close>

definition gate_decision :: "board_env \<Rightarrow> (string \<times> json) list \<Rightarrow> (string \<times> string \<times> (string \<times> json) list) step" where
  "gate_decision E payload =
     (let path = str_of (jget payload ''gate_decision_path''); supplied = str_of (jget payload ''gate_decision_hash'') in
      need (path \<noteq> [] \<and> is_file E path) ''gate_decision_missing''
       (need (supplied \<noteq> []) ''gate_decision_hash_missing''
         (need (map_option (be_sha E) (be_files E path) = Some supplied) ''gate_decision_hash_mismatch''
           (andthen (object_or ''gate_decision_invalid'' (artifact_at E path))
             (\<lambda>decision. let task = str_of (jget decision ''task_id'') in
               need (jget decision ''type'' = JStr ''stop_gate_decision'' \<and> task \<noteq> []) ''gate_decision_invalid''
                (need (be_resolve E path = be_resolve E (under (be_home E @ ''/tasks'') (task @ ''-gate-decision.yaml''))) mismatch
                  (need (jget decision ''decision'' = JStr ''ALLOW'') ''gate_not_decided'' (go (path, task, decision)))))))))"

text \<open>The task record and its routing: the same decided gate in both.\<close>

definition gate_records ::
  "board_env \<Rightarrow> string \<Rightarrow> string \<Rightarrow> (string \<times> json) list \<Rightarrow> ((string \<times> json) list \<times> (string \<times> json) list \<times> (string \<times> json) list) step" where
  "gate_records E path task decision =
     (let tasks = be_home E @ ''/tasks''; task_path = under tasks (task @ ''.yaml''); routing_path = under tasks (task @ ''-routing.yaml'') in
      need (is_file E task_path \<and> is_file E routing_path) mismatch
       (andthen (object_or mismatch (artifact_at E task_path))
         (\<lambda>record. andthen (object_or mismatch (artifact_at E routing_path))
          (\<lambda>routing.
            need (jget record ''task_id'' = JStr task \<and> jget routing ''task_id'' = JStr task) mismatch
             (need (jget routing ''stop_gate'' = JBool True) ''gate_not_required_route''
               (andthen (object_or mismatch (Some (jget record ''gate'')))
                 (\<lambda>task_gate. andthen (object_or mismatch (Some (jget routing ''gate'')))
                  (\<lambda>gate.
                    need (same_json task_gate gate \<and> jget gate ''type'' = JStr ''stop_gate'') mismatch
                     (need (jget gate ''status'' = JStr ''decided'' \<and> jget gate ''decision'' = JStr ''ALLOW''
                            \<and> jget gate ''stage'' = JStr ''done'' \<and> jget record ''stage'' = JStr ''done'') ''gate_not_decided''
                       (andthen (object_or mismatch (Some (jget record ''gate_decision'')))
                         (\<lambda>task_decision. andthen (object_or mismatch (Some (jget routing ''gate_decision'')))
                          (\<lambda>routing_decision.
                            need (same_json task_decision routing_decision \<and> same_json routing_decision decision) mismatch
                             (need (jget routing_decision ''final_stage'' = JStr ''done'') ''gate_not_decided''
                               (need (case jget routing_decision ''decision_artifact_path'' of
                                        JStr p \<Rightarrow> be_resolve E p = be_resolve E path | _ \<Rightarrow> False) mismatch
                                 (go (record, routing, gate))))))))))))))))"

text \<open>What the decision must repeat of the execution and the route.\<close>

definition gate_provenance :: "(string \<times> json) list \<Rightarrow> (string \<times> json) list \<Rightarrow> (string \<times> json) list \<Rightarrow> (string \<times> json) list" where
  "gate_provenance routing result execution =
     map (\<lambda>k. (k, jget result k))
       [''request_id'', ''processed_result_path'', ''controller_task_id'', ''controller_status'', ''controller_lifecycle_stage'']
     @ [(''pattern'', jget routing ''pattern''), (''profile'', jget execution ''profile''), (''executor'', jget routing ''executor''),
        (''reviewer'', jget routing ''reviewer''), (''route_source'', jget routing ''route_source'')]"

definition gate_execution ::
  "(string \<times> json) list \<Rightarrow> (string \<times> json) list \<Rightarrow> (string \<times> json) list \<Rightarrow> (string \<times> json) list \<Rightarrow> unit step" where
  "gate_execution decision record routing gate =
     andthen (object_or mismatch (Some (jget record ''execution_result'')))
      (\<lambda>task_result. andthen (object_or mismatch (Some (jget routing ''execution_result'')))
       (\<lambda>result.
         need (same_json task_result result \<and> jget result ''controller_lifecycle_stage'' = JStr ''done''
               \<and> jget result ''controller_status'' = JStr ''done'') mismatch
          (need (case jget result ''gate_required'' of
                   JBool True \<Rightarrow> jget result ''lifecycle_stage'' = JStr ''waiting_user''
                 | JBool False \<Rightarrow> py_eq (jget result ''lifecycle_stage'') (jget gate ''stage'') | _ \<Rightarrow> False) mismatch
            (andthen (object_or mismatch (Some (jget routing ''execution'')))
              (\<lambda>execution. need (list_all (\<lambda>(k, v). py_eq (jget decision k) v) (gate_provenance routing result execution)) mismatch
                (go ()))))))"

text \<open>The binding must stand in the summary the gate was decided on, and the decision must be younger than the candidate.\<close>

definition gate_summary :: "board_env \<Rightarrow> (json \<Rightarrow> string) \<Rightarrow> string \<Rightarrow> (string \<times> json) list \<Rightarrow> (string \<times> json) list \<Rightarrow> unit step" where
  "gate_summary E show_value task decision binding =
     (let path = under (be_home E @ ''/tasks'') (task @ ''-gate-review-input.md'');
          time = (\<lambda>v. case v of JStr s \<Rightarrow> if s = [] then None else be_instant E s | _ \<Rightarrow> None)
      in need (is_file E path) mismatch
       (bindR (read_text E path)
         (\<lambda>source. case embedded_task_summary source of
            None \<Rightarrow> refuse mismatch
          | Some summary \<Rightarrow>
            need (contains_sub (render_closeout_binding show_value binding) summary) mismatch
             (need (case (time (jget decision ''decided_at''), time (jget binding ''terminal_done_at''), time (jget binding ''last_seal_at'')) of
                      (Some decided, Some finished, Some sealed) \<Rightarrow> finished < decided \<and> sealed < decided
                    | _ \<Rightarrow> False) ''gate_stale_candidate'' (go ())))))"

definition validate_gate ::
  "board_env \<Rightarrow> (json \<Rightarrow> string) \<Rightarrow> board \<Rightarrow> (string \<times> json) list \<Rightarrow> (string \<times> json) list \<Rightarrow> unit step" where
  "validate_gate E show_value b payload binding =
     andthen (gate_decision E payload)
      (\<lambda>(path, task, decision). andthen (gate_records E path task decision)
       (\<lambda>(record, routing, gate). andthen (gate_execution decision record routing gate)
        (\<lambda>_. andthen (gate_summary E show_value task decision binding)
         (\<lambda>_. need (jget binding ''closeout_task_id'' = JStr task
                    \<and> JStr task \<notin> set [jget binding ''night_task_id'', jget binding ''night_request_id'']) mismatch
            (bindR (closeout_used (kb_events b) task) (\<lambda>used. need (\<not> used) ''closeout_task_id_reused'' (go ())))))))"

section \<open>The done predicates\<close>

definition approved_payload :: "board \<Rightarrow> card \<Rightarrow> (string \<times> json) list option" where
  "approved_payload b c =
     (case kc_approval_event c of
        None \<Rightarrow> None
      | Some i \<Rightarrow>
        (case find (\<lambda>e. ke_operation e = i \<and> accepted [''approve''] e) (kb_events b) of
           None \<Rightarrow> None
         | Some e \<Rightarrow>
           (case ke_payload e of
              None \<Rightarrow> None
            | Some s \<Rightarrow> if s = [] then None else (case loads s of Some (JObj kvs) \<Rightarrow> Some kvs | _ \<Rightarrow> None))))"

definition report_reason :: "board_env \<Rightarrow> (json \<Rightarrow> string) \<Rightarrow> (string \<times> json) list \<Rightarrow> string \<times> string \<Rightarrow> string option" where
  "report_reason E show_value binding f =
     (let (path_field, hash_field) = f; path = py_str show_value (jget binding path_field) in
      if \<not> truthy (jget binding hash_field) then Some ''report_hash_missing''
      else case be_files E path of
          None \<Rightarrow> Some ''report_missing''
        | Some bytes \<Rightarrow> if JStr (be_sha E bytes) \<noteq> jget binding hash_field then Some ''report_hash_mismatch'' else None)"

definition validate_reports :: "board_env \<Rightarrow> (json \<Rightarrow> string) \<Rightarrow> (string \<times> json) list \<Rightarrow> unit step" where
  "validate_reports E show_value binding =
     (case List.map_filter (report_reason E show_value binding) BINDING_REPORTS of [] \<Rightarrow> go () | r # _ \<Rightarrow> refuse r)"

text \<open>The binding against the card's own rows.\<close>

definition validate_binding :: "card \<Rightarrow> (string \<times> json) list \<Rightarrow> (string \<times> json) list \<Rightarrow> unit step" where
  "validate_binding c payload binding =
     (let supplied = jget payload ''final_candidate_fingerprint''; named = jget binding ''final_candidate_fingerprint'' in
      need (set (BINDING_BLOCK_FIELDS @ BINDING_EXTRA_FIELDS) \<subseteq> set (keys binding)) ''binding_incomplete''
       (need (jget binding ''card_id'' = JStr (kc_id c)) ''binding_mismatch''
         (need (kc_generation c \<noteq> 0 \<and> kc_approval_event c \<noteq> None) ''card_never_approved''
           (need (py_eq (jget binding ''approval_generation'') (JInt (kc_generation c))) ''binding_mismatch''
             (need (jget binding ''approval_hash'' = jopt_str (kc_approval_hash c)) ''binding_mismatch''
               (need (is_str supplied \<and> supplied \<noteq> JStr []) ''final_candidate_missing''
                 (need (truthy named) ''final_candidate_missing''
                   (need (supplied = named) ''final_candidate_mismatch''
                     (need (list_all (\<lambda>k. truthy (jget binding k)) [''review_seal_hash'', ''audit_seal_hash'', ''input_hash'', ''profile_hash''])
                        ''seal_missing''
                       (need (jget binding ''profile_hash'' = jopt_str (kc_profile_hash c)) ''binding_mismatch'' (go ())))))))))))"

definition validate_done ::
  "board_env \<Rightarrow> (json \<Rightarrow> string) \<Rightarrow> board \<Rightarrow> card \<Rightarrow> (string \<times> json) list \<Rightarrow> (string \<times> json) list step" where
  "validate_done E show_value b c payload =
     andthen (object_or ''binding_required'' (Some (jget payload ''binding'')))
      (\<lambda>binding. andthen (validate_binding c payload binding)
       (\<lambda>_. andthen (validate_reports E show_value binding)
        (\<lambda>_. andthen (case jget binding ''remaining_evidence'' of
                        JArr xs \<Rightarrow> need (xs = []) ''remaining_evidence_incomplete'' (go ())
                      | _ \<Rightarrow> refuse ''binding_incomplete'')
         (\<lambda>_. case approved_payload b c of
            None \<Rightarrow> refuse ''card_never_approved''
          | Some approval \<Rightarrow>
            if truthy (jget approval ''gate_required'')
            then andthen (validate_gate E show_value b payload binding) (\<lambda>_. go binding) else go binding))))"

end
