(* ===== verification/Commands.thy ===== *)
theory Commands
  imports Closeout
begin

text \<open>
  The card commands of \<open>orchestrator/kanban/commands.py\<close>, the quota commands of \<open>quota.py\<close> and the CLI observation of
  \<open>observation.py\<close>, up to \<open>handle_request\<close>.  A command runs inside one transaction: it returns the outcome and the new
  tables, or raises, and then the tables are what they were.  \<open>now n\<close> is what the \<open>n\<close>-th reading of the clock during the
  command returns.
\<close>

section \<open>Outcomes\<close>

record outcome =
  oc_command :: string
  oc_operation :: string
  oc_card :: json
  oc_result :: string
  oc_reason :: "string option"
  oc_revision :: "int option"
  oc_recorded :: bool
  oc_replayed :: bool
  oc_extra :: "(string \<times> json) list"

record request =
  rq_command :: string
  rq_operation :: string
  rq_digest :: string
  rq_payload :: "(string \<times> json) list"

type_synonym written = "(kanban_error, outcome \<times> board) res"

definition actor_of :: "request \<Rightarrow> string" where
  "actor_of q = str_of (jget (rq_payload q) ''actor'')"

definition outcome_of :: "request \<Rightarrow> json \<Rightarrow> string \<Rightarrow> string option \<Rightarrow> int option \<Rightarrow> outcome" where
  "outcome_of q i result reason revision =
     \<lparr>oc_command = rq_command q, oc_operation = rq_operation q, oc_card = i, oc_result = result, oc_reason = reason,
      oc_revision = revision, oc_recorded = True, oc_replayed = False, oc_extra = []\<rparr>"

definition event_of :: "request \<Rightarrow> string option \<Rightarrow> int option \<Rightarrow> int option \<Rightarrow> int \<Rightarrow> string option \<Rightarrow> string \<Rightarrow> string option \<Rightarrow> kanban_event" where
  "event_of q i expected revision at reason payload delta =
     \<lparr>ke_operation = rq_operation q, ke_hash = rq_digest q, ke_kind = rq_command q, ke_card = i, ke_expected = expected,
      ke_revision = revision, ke_actor = actor_of q, ke_at = at,
      ke_result = (if reason = None then ''accepted'' else ''rejected''), ke_reason = reason, ke_payload = Some payload,
      ke_delta = delta\<rparr>"

definition reject :: "request \<Rightarrow> int \<Rightarrow> json \<Rightarrow> bool \<Rightarrow> string \<Rightarrow> board \<Rightarrow> written" where
  "reject q at i card_exists reason b =
     (let expected = jget (rq_payload q) ''expected_revision'' in
      bindR (insert_kanban_event (event_of q (if card_exists then as_str i else None)
               (if valid_revision expected then as_int expected else None) None at (Some reason) (spaced (JObj (rq_payload q))) None) b)
       (\<lambda>b'. Inr (outcome_of q i ''rejected'' (Some reason) None, b')))"

definition accept_with :: "request \<Rightarrow> int \<Rightarrow> string \<Rightarrow> int \<Rightarrow> string \<Rightarrow> (string \<times> json) list \<Rightarrow> board \<Rightarrow> written" where
  "accept_with q at i revision payload delta b =
     bindR (insert_kanban_event (event_of q (Some i) (as_int (jget (rq_payload q) ''expected_revision'')) (Some revision) at None payload
              (Some (spaced (JObj delta)))) b)
      (\<lambda>b'. Inr (outcome_of q (JStr i) ''accepted'' None (Some revision), b'))"

definition accept :: "request \<Rightarrow> int \<Rightarrow> string \<Rightarrow> int \<Rightarrow> (string \<times> json) list \<Rightarrow> board \<Rightarrow> written" where
  "accept q at i revision delta b = accept_with q at i revision (spaced (JObj (rq_payload q))) delta b"

definition with_extra :: "(string \<times> json) list \<Rightarrow> written \<Rightarrow> written" where
  "with_extra kvs w = bindR w (\<lambda>(oc, b). Inr (oc\<lparr>oc_extra := kvs\<rparr>, b))"

section \<open>Cards\<close>

definition find_card :: "board \<Rightarrow> json \<Rightarrow> card option" where
  "find_card b i = (case i of JStr s \<Rightarrow> if s = [] then None else find (\<lambda>c. kc_id c = s) (kb_cards b) | _ \<Rightarrow> None)"

definition cas_update :: "int \<Rightarrow> string \<Rightarrow> int \<Rightarrow> (card \<Rightarrow> card) \<Rightarrow> board \<Rightarrow> (kanban_error, board option) res" where
  "cas_update at i expected f b =
     bindR (update_cards i expected (\<lambda>c. (f c)\<lparr>kc_revision := expected + 1, kc_updated := at\<rparr>) b)
      (\<lambda>(b', n). Inr (if n = 1 then Some b' else None))"

definition KANBAN_TERMINAL :: "string list" where "KANBAN_TERMINAL = [''done'', ''archived'']"

text \<open>The shared guard: the card, if there is one, and the reason for refusing.\<close>

definition guard_reason :: "card \<Rightarrow> (string \<times> json) list \<Rightarrow> bool \<Rightarrow> bool \<Rightarrow> string option" where
  "guard_reason c payload allow_terminal allow_claimed =
     (case jget payload ''expected_revision'' of
        JInt expected \<Rightarrow>
          if \<not> valid_revision (JInt expected) then Some ''invalid_expected_revision''
          else if expected \<noteq> kc_revision c then Some ''revision_conflict''
          else if expected = MAX_REVISION then Some ''revision_exhausted''
          else if \<not> allow_terminal \<and> kc_state c \<in> set KANBAN_TERMINAL then Some ''card_is_terminal''
          else if kc_task c \<noteq> None \<and> \<not> allow_claimed then Some ''card_is_claimed''
          else None
      | _ \<Rightarrow> Some ''expected_revision_required'')"

definition card_id_of :: "request \<Rightarrow> json" where
  "card_id_of q = jget (rq_payload q) ''card_id''"

text \<open>A rejection names the card as the request named it, if that was a text.\<close>

definition named_card :: "request \<Rightarrow> json" where
  "named_card q = (if is_str (card_id_of q) then card_id_of q else JNull)"

definition guarded :: "request \<Rightarrow> (nat \<Rightarrow> int) \<Rightarrow> bool \<Rightarrow> bool \<Rightarrow> json \<Rightarrow> board \<Rightarrow> (card \<Rightarrow> int \<Rightarrow> written) \<Rightarrow> written" where
  "guarded q now allow_terminal allow_claimed i b body =
     (case find_card b (card_id_of q) of
        None \<Rightarrow> reject q (now 0) i False ''card_not_found'' b
      | Some c \<Rightarrow>
        (case guard_reason c (rq_payload q) allow_terminal allow_claimed of
           Some reason \<Rightarrow> reject q (now 0) i True reason b
         | None \<Rightarrow> body c (int_of (jget (rq_payload q) ''expected_revision''))))"

text \<open>Update the card, then record the event; a lost comparison is a rejection.\<close>

definition move_card ::
  "request \<Rightarrow> (nat \<Rightarrow> int) \<Rightarrow> json \<Rightarrow> card \<Rightarrow> int \<Rightarrow> (card \<Rightarrow> card) \<Rightarrow> string \<Rightarrow> (string \<times> json) list \<Rightarrow> board \<Rightarrow> written" where
  "move_card q now i c expected f payload delta b =
     bindR (cas_update (now 0) (kc_id c) expected f b)
      (\<lambda>moved. case moved of
         None \<Rightarrow> reject q (now 1) i True ''revision_conflict'' b
       | Some b' \<Rightarrow> accept_with q (now 1) (kc_id c) (expected + 1) payload delta b')"

text \<open>Record the event, then update the card; a lost comparison is an error.\<close>

definition record_then_move ::
  "request \<Rightarrow> (nat \<Rightarrow> int) \<Rightarrow> nat \<Rightarrow> card \<Rightarrow> int \<Rightarrow> (card \<Rightarrow> card) \<Rightarrow> string \<Rightarrow> (string \<times> json) list \<Rightarrow> string \<Rightarrow> board \<Rightarrow> written" where
  "record_then_move q now n c expected f payload delta lost b =
     bindR (accept_with q (now 0) (kc_id c) (expected + 1) payload delta b)
      (\<lambda>(oc, b1). bindR (cas_update (now n) (kc_id c) expected f b1)
        (\<lambda>moved. case moved of None \<Rightarrow> Inl (KanbanError lost) | Some b2 \<Rightarrow> Inr (oc, b2)))"

definition clear_approval :: "card \<Rightarrow> card" where
  "clear_approval c = c\<lparr>kc_approval_hash := None, kc_approval_actor := None, kc_approval_at := None, kc_approval_event := None,
     kc_spec_hash := None, kc_acceptance_hash := None, kc_profile_hash := None\<rparr>"

definition own_payload :: "request \<Rightarrow> string" where
  "own_payload q = spaced (JObj (rq_payload q))"

section \<open>Create and edit\<close>

definition new_card :: "string \<Rightarrow> int \<Rightarrow> (string \<times> string option) list \<Rightarrow> card" where
  "new_card i at ps = set_fields ps
     \<lparr>kc_id = i, kc_revision = 0, kc_state = ''inbox'', kc_fields = (\<lambda>k. None), kc_spec_hash = None, kc_acceptance_hash = None,
      kc_profile_hash = None, kc_generation = 0, kc_approval_actor = None, kc_approval_at = None, kc_approval_hash = None,
      kc_approval_event = None, kc_task = None, kc_request = None, kc_reason = None, kc_evidence = None, kc_created = at, kc_updated = at\<rparr>"

definition priority_ok :: "json \<Rightarrow> bool" where
  "priority_ok v \<longleftrightarrow> one_of v PRIORITIES"

definition title_ok :: "json \<Rightarrow> bool" where
  "title_ok v \<longleftrightarrow> (case v of JStr s \<Rightarrow> strip s \<noteq> [] | _ \<Rightarrow> False)"

text \<open>The fields of a new card, or the reason for refusing them.\<close>

definition create_fields :: "(string \<times> json) list \<Rightarrow> (string, (string \<times> json) list) res" where
  "create_fields payload =
     (let expected_given = ''expected_revision'' \<in> set (keys payload) in
      check (\<not> expected_given \<or> valid_revision (jget payload ''expected_revision'')) ''invalid_expected_revision''
       (bindR (read_fields (jget payload ''fields'') EDITABLE_FIELDS)
         (\<lambda>fs. check (title_ok (jget fs ''title'')) ''title_required''
           (let priority = (case map_of fs ''priority'' of None \<Rightarrow> JStr ''normal'' | Some v \<Rightarrow> v) in
            check (priority_ok priority) ''invalid_priority''
             (let all = dict_set ''priority'' priority fs in
              check (\<not> marker_in_fields all) ''unsupported_input_framing'' (Inr all))))))"

definition create :: "request \<Rightarrow> (nat \<Rightarrow> int) \<Rightarrow> board \<Rightarrow> written" where
  "create q now b =
     (let i = str_of (card_id_of q) in
      if i = [] then reject q (now 0) (named_card q) False ''card_id_required'' b
      else if find_card b (JStr i) \<noteq> None then reject q (now 0) (named_card q) True ''card_exists'' b
      else case create_fields (rq_payload q) of
          Inl reason \<Rightarrow> reject q (now 0) (named_card q) False reason b
        | Inr fs \<Rightarrow>
          bindR (insert_card (new_card i (now 0) (storable fs)) b)
           (accept q (now 1) i 0
             (dict_update [(''manual_state'', JStr ''inbox'')] (stored_json (storable fs) @ [(''queue_location'', JStr ''backlog'')]))))"

definition edit_fields :: "(string \<times> json) list \<Rightarrow> (string, (string \<times> json) list) res" where
  "edit_fields payload =
     bindR (read_fields (jget payload ''fields'') EDITABLE_FIELDS)
      (\<lambda>fs. check (fs \<noteq> []) ''no_fields''
        (check (''title'' \<notin> set (keys fs) \<or> title_ok (jget fs ''title'')) ''title_required''
          (check (''priority'' \<notin> set (keys fs) \<or> priority_ok (jget fs ''priority'')) ''invalid_priority''
            (check (\<not> marker_in_fields fs) ''unsupported_input_framing'' (Inr fs)))))"

definition scope_touched :: "(string \<times> json) list \<Rightarrow> string list" where
  "scope_touched fs = sorted_set (filter (\<lambda>k. k \<in> set SCOPE_FIELDS) (keys fs))"

definition edited :: "(string \<times> json) list \<Rightarrow> card \<Rightarrow> card" where
  "edited fs c =
     (let c1 = set_fields (storable fs) c; touched = scope_touched fs \<noteq> [];
          c2 = (if touched \<and> kc_approval_hash c \<noteq> None then clear_approval c1 else c1);
          c3 = (if touched \<and> kc_state c = ''ready'' then c2\<lparr>kc_state := ''inbox''\<rparr> else c2)
      in if touched then c3\<lparr>kc_reason := Some ''scope_edited''\<rparr> else c3)"

definition edit_delta :: "(string \<times> json) list \<Rightarrow> card \<Rightarrow> (string \<times> json) list" where
  "edit_delta fs c =
     (let touched = scope_touched fs in
      stored_json (storable fs)
      @ (if touched \<noteq> [] \<and> kc_approval_hash c \<noteq> None then [(''approval_revoked'', JBool True)] else [])
      @ (if touched \<noteq> [] \<and> kc_state c = ''ready'' then [(''manual_state'', JStr ''inbox'')] else [])
      @ [(''scope_fields_changed'', JArr (map JStr touched))])"

definition edit :: "request \<Rightarrow> (nat \<Rightarrow> int) \<Rightarrow> board \<Rightarrow> written" where
  "edit q now b = guarded q now False False (named_card q) b
     (\<lambda>c expected. case edit_fields (rq_payload q) of
        Inl reason \<Rightarrow> reject q (now 0) (named_card q) True reason b
      | Inr fs \<Rightarrow> move_card q now (named_card q) c expected (edited fs) (own_payload q) (edit_delta fs c) b)"

section \<open>Approve, withdraw, return, archive, pause, done\<close>

definition approved :: "board_env \<Rightarrow> request \<Rightarrow> int \<Rightarrow> (string \<times> json) list \<Rightarrow> card \<Rightarrow> card" where
  "approved E q at frozen c = c\<lparr>kc_state := ''ready'', kc_generation := int_of (jget frozen ''approval_generation''),
     kc_approval_actor := Some (actor_of q), kc_approval_at := Some at, kc_approval_hash := Some (approval_hash (be_sha E) frozen),
     kc_approval_event := Some (rq_operation q), kc_spec_hash := as_str (jget frozen ''spec_hash''),
     kc_acceptance_hash := as_str (jget frozen ''acceptance_hash''), kc_profile_hash := as_str (jget frozen ''profile_hash''),
     kc_reason := None\<rparr>"

definition approve :: "board_env \<Rightarrow> request \<Rightarrow> (nat \<Rightarrow> int) \<Rightarrow> board \<Rightarrow> written" where
  "approve E q now b = guarded q now False False (named_card q) b
     (\<lambda>c expected.
       if kc_state c = ''ready'' \<and> kc_approval_hash c \<noteq> None then reject q (now 0) (named_card q) True ''already_approved'' b
       else bindR (build_approval_payload E c)
        (\<lambda>r. case r of
           Inl reason \<Rightarrow> reject q (now 0) (named_card q) True reason b
         | Inr frozen \<Rightarrow>
           let digest = JStr (approval_hash (be_sha E) frozen); generation = jget frozen ''approval_generation'';
               gate = jget frozen ''gate_required''
           in with_extra [(''approval_hash'', digest), (''approval_generation'', generation), (''gate_required'', gate)]
               (record_then_move q now 2 c expected (approved E q (now 1) frozen) (dumps (JObj frozen))
                 [(''manual_state'', JStr ''ready''), (''approval_generation'', generation), (''approval_hash'', digest), (''gate_required'', gate)]
                 ''kanban approve lost a CAS that cannot race'' b)))"

definition invalidated :: "string \<Rightarrow> string \<Rightarrow> card \<Rightarrow> card" where
  "invalidated state reason c = (clear_approval c)\<lparr>kc_state := state, kc_reason := Some reason\<rparr>"

definition invalidate :: "request \<Rightarrow> (nat \<Rightarrow> int) \<Rightarrow> string \<Rightarrow> bool \<Rightarrow> string \<Rightarrow> board \<Rightarrow> written" where
  "invalidate q now state require_approval reason b = guarded q now False False (named_card q) b
     (\<lambda>c expected.
       if require_approval \<and> kc_approval_hash c = None then reject q (now 0) (named_card q) True ''not_approved'' b
       else move_card q now (named_card q) c expected (invalidated state reason) (own_payload q)
         [(''manual_state'', JStr state), (''approval_revoked'', JBool (kc_approval_hash c \<noteq> None)), (''last_reason'', JStr reason)] b)"

definition withdraw :: "request \<Rightarrow> (nat \<Rightarrow> int) \<Rightarrow> board \<Rightarrow> written" where
  "withdraw q now b = invalidate q now ''inbox'' True ''approval_withdrawn'' b"

definition return_card :: "request \<Rightarrow> (nat \<Rightarrow> int) \<Rightarrow> board \<Rightarrow> written" where
  "return_card q now b = invalidate q now ''returned'' False ''manually_returned'' b"

definition archive :: "request \<Rightarrow> (nat \<Rightarrow> int) \<Rightarrow> board \<Rightarrow> written" where
  "archive q now b = guarded q now False False (named_card q) b
     (\<lambda>c expected. move_card q now (named_card q) c expected
        (\<lambda>c. c\<lparr>kc_state := ''archived'', kc_reason := Some ''manually_archived''\<rparr>) (own_payload q)
        [(''manual_state'', JStr ''archived''), (''success_claimed'', JBool False)] b)"

definition pause :: "request \<Rightarrow> (nat \<Rightarrow> int) \<Rightarrow> board \<Rightarrow> written" where
  "pause q now b = guarded q now False False (named_card q) b
     (\<lambda>c expected.
       let told = [(''pending'', JBool True), (''applies_at'', JStr ''next_stage_boundary''), (''manual_state'', JStr (kc_state c))];
           w = move_card q now (named_card q) c expected (\<lambda>c. c\<lparr>kc_reason := Some ''manual_pause_pending''\<rparr>) (own_payload q)
             (told @ [(''last_reason'', JStr ''manual_pause_pending'')]) b
       in bindR w (\<lambda>(oc, b'). Inr (if oc_result oc = ''accepted'' then oc\<lparr>oc_extra := told\<rparr> else oc, b')))"

definition done_card :: "board_env \<Rightarrow> (json \<Rightarrow> string) \<Rightarrow> request \<Rightarrow> (nat \<Rightarrow> int) \<Rightarrow> board \<Rightarrow> written" where
  "done_card E show_value q now b = guarded q now False False (named_card q) b
     (\<lambda>c expected. bindR (validate_done E show_value b c (rq_payload q))
       (\<lambda>r. case r of
          Inl reason \<Rightarrow> reject q (now 0) (named_card q) True reason b
        | Inr binding \<Rightarrow>
          record_then_move q now 1 c expected
            (\<lambda>c. c\<lparr>kc_state := ''done'', kc_reason := Some ''manually_accepted'', kc_evidence := Some (rq_operation q)\<rparr>) (own_payload q)
            [(''manual_state'', JStr ''done''), (''binding'', JObj binding),
             (''gate_decision_path'', jget (rq_payload q) ''gate_decision_path''),
             (''gate_decision_hash'', jget (rq_payload q) ''gate_decision_hash''), (''deployed'', JBool False)]
            ''kanban done lost a CAS that cannot race'' b))"

section \<open>Progress reports\<close>

definition progress_reason :: "(string \<times> json) list \<Rightarrow> string option" where
  "progress_reason p =
     (let refs = (if ''source_refs'' \<in> set (keys p) then jget p ''source_refs'' else JArr []) in
      if \<not> set (keys p) \<subseteq> set PROGRESS_KEYS then Some ''unsupported_progress_fields''
      else if \<not> one_of (jget p ''report_status'') PROGRESS_STATUSES then Some ''invalid_report_status''
      else if \<not> title_ok (jget p ''summary'') then Some ''summary_required''
      else if \<not> list_all (\<lambda>k. short_or_null (jget p k)) REPORT_TEXTS then Some ''invalid_progress_text''
      else if \<not> refs_shape refs then Some ''invalid_source_refs''
      else if framed p (items_of refs) then Some ''unsupported_input_framing''
      else if 500 < length (str_of (jget p ''actor'')) then Some ''invalid_progress_actor''
      else None)"

definition refs_given :: "(string \<times> json) list \<Rightarrow> json" where
  "refs_given p = (if ''source_refs'' \<in> set (keys p) then jget p ''source_refs'' else JArr [])"

definition attempt_used :: "kanban_event list \<Rightarrow> string \<Rightarrow> json \<Rightarrow> bool" where
  "attempt_used es i attempt \<longleftrightarrow> list_ex (\<lambda>e. ke_card e = Some i \<and> accepted [''report-progress''] e
     \<and> (case sql_json (ke_payload e) of
          Some (JObj p) \<Rightarrow> field (jget p ''worker_observation'') ''attempt_id'' = attempt | _ \<Rightarrow> False)) es"

definition opaque_after :: "int \<Rightarrow> kanban_event list \<Rightarrow> bool" where
  "opaque_after start es \<longleftrightarrow> list_ex (\<lambda>e. accepted [''edit''] e
     \<and> (case ke_revision e of None \<Rightarrow> True
        | Some r \<Rightarrow> start < r \<and> (case column_json (ke_delta e) of Inr (JObj _) \<Rightarrow> False | _ \<Rightarrow> True))) es"

definition differ :: "string list \<Rightarrow> (string \<times> json) list \<Rightarrow> (string \<times> json) list \<Rightarrow> bool" where
  "differ ks a b \<longleftrightarrow> list_ex (\<lambda>k. \<not> json_eq (jget a k) (jget b k)) ks"

text \<open>The next observation of the attempt observed last.\<close>

definition same_attempt ::
  "(string \<Rightarrow> string) \<Rightarrow> card \<Rightarrow> kanban_event list \<Rightarrow> (string \<times> json) list \<Rightarrow> (string \<times> json) list \<Rightarrow> (string \<times> json) list \<Rightarrow>
   (worker_error, unit) res" where
  "same_attempt H c events o' previous binding =
     (let before = jget previous ''handoff''; after = jget o' ''handoff''; bad = (\<lambda>s. WorkerReason s) in
      check (\<not> differ [''supersedes_attempt_id'', ''provider'', ''thread_id'', ''coordinator''] o' previous
             \<and> (jget previous ''turn_id'' = JNull \<or> \<not> differ [''turn_id''] o' previous)) (bad ''worker_identity_conflict'')
       (bindR (worker_scope_current H c binding events (int_of (jget binding ''started_revision'')))
         (\<lambda>current. check (current \<or> terminal_observation o') (bad ''worker_scope_reconciliation_required'')
           (if terminal_observation previous
            then check (\<not> differ (filter (\<lambda>k. k \<notin> set [''handoff'', ''previous_observation_operation_id'']) OBSERVATION_KEYS) o' previous)
                   (bad ''worker_terminal_immutable'')
              (check (\<not> (field before ''state'' = JStr ''acknowledged'' \<and> \<not> json_eq after before)
                      \<and> list_all (\<lambda>k. field before k = JNull \<or> field before k = field after k) [''owner'', ''next_step'', ''result_source_ref''])
                 (bad ''worker_handoff_regression'') (Inr ()))
            else check (jget o' ''state'' \<noteq> JStr ''submitted'' \<or> jget previous ''state'' = JStr ''submitted'') (bad ''worker_state_regression'')
                   (Inr ())))))"

definition fresh_binding :: "(string \<Rightarrow> string) \<Rightarrow> card \<Rightarrow> json" where
  "fresh_binding H c = JObj [(''schema_version'', JInt 1), (''approval_generation'', JInt (kc_generation c)),
     (''scope_digest'', JStr (progress_scope_digest H c)), (''started_revision'', JInt (kc_revision c + 1))]"

definition worker_binding ::
  "(string \<Rightarrow> string) \<Rightarrow> board \<Rightarrow> card \<Rightarrow> (string \<times> json) list \<Rightarrow> (worker_error, json) res" where
  "worker_binding H b c o' =
     (let s = summary_of H b c; bad = (\<lambda>s. WorkerReason s);
          fresh = check (\<not> attempt_used (kb_events b) (kc_id c) (jget o' ''attempt_id'')) (bad ''worker_attempt_reused'')
                    (Inr (fresh_binding H c))
      in check (\<not> (sm_bad_card s \<or> sm_bad_revision s \<or> sm_bad_edit s \<or> sm_bad_worker s)) (bad ''worker_history_unknown'')
       (bindR (latest_worker_event c (sm_events s))
         (\<lambda>latest. case latest of
            None \<Rightarrow>
              check (jget o' ''supersedes_attempt_id'' = JNull \<and> jget o' ''previous_observation_operation_id'' = JNull
                     \<and> jget o' ''state'' = JStr ''submitted'') (bad ''worker_initial_submission_required'') fresh
          | Some (e, p) \<Rightarrow>
            let previous = entries (jget p ''worker_observation''); binding = jget p ''worker_binding'' in
            check (\<not> opaque_after (int_of (field binding ''started_revision'')) (sm_events s)) (bad ''worker_history_unknown'')
             (check (jget o' ''previous_observation_operation_id'' = JStr (ke_operation e)) (bad ''worker_observation_conflict'')
               (if jget o' ''attempt_id'' = jget previous ''attempt_id''
                then bindR (same_attempt H c (sm_events s) o' previous (entries binding)) (\<lambda>_. Inr binding)
                else check (jget o' ''supersedes_attempt_id'' = jget previous ''attempt_id'' \<and> jget o' ''state'' = JStr ''submitted'')
                       (bad ''worker_supersession_required'')
                  (check (terminal_observation previous \<and> field (jget previous ''handoff'') ''state'' = JStr ''acknowledged'')
                     (bad ''worker_handoff_required'') fresh))))))"

definition worker_reason :: "board_env \<Rightarrow> worker_error \<Rightarrow> string" where
  "worker_reason E e = (case e of WorkerReason s \<Rightarrow> s | WorkerJson s \<Rightarrow> be_decode_message E s | WorkerOther \<Rightarrow> ''worker_history_unknown'')"

text \<open>The event of a report: the payload with its sources and bindings.\<close>

definition report_event :: "board_env \<Rightarrow> board \<Rightarrow> card \<Rightarrow> (string \<times> json) list \<Rightarrow> (string, (string \<times> json) list) res" where
  "report_event E b c p =
     (let H = be_sha E;
          event = dict_update p [(''source_refs'', refs_given p),
            (''progress_binding'', JObj [(''schema_version'', JInt 1), (''approval_generation'', JInt (kc_generation c)),
               (''scope_digest'', JStr (progress_scope_digest H c))])]
      in if ''worker_observation'' \<notin> set (keys p) then Inr event
         else case bindR (validate_worker_observation (jget p ''worker_observation'') (items_of (refs_given p)))
                     (\<lambda>_. worker_binding H b c (entries (jget p ''worker_observation''))) of
             Inl e \<Rightarrow> Inl (worker_reason E e)
           | Inr binding \<Rightarrow> Inr (dict_update event [(''worker_binding'', binding)]))"

definition report_progress :: "board_env \<Rightarrow> request \<Rightarrow> (nat \<Rightarrow> int) \<Rightarrow> board \<Rightarrow> written" where
  "report_progress E q now b = guarded q now True True (named_card q) b
     (\<lambda>c expected.
       case progress_reason (rq_payload q) of
         Some reason \<Rightarrow> reject q (now 0) (named_card q) True reason b
       | None \<Rightarrow>
         (case report_event E b c (rq_payload q) of
            Inl reason \<Rightarrow> reject q (now 0) (named_card q) True reason b
          | Inr event \<Rightarrow>
            move_card q now (named_card q) c expected (\<lambda>c. c) (spaced (JObj event))
              [(''progress_reported'', JBool True), (''execution_verified'', JBool False)] b))"

section \<open>Placement\<close>

definition place_shape :: "card \<Rightarrow> (string \<times> json) list \<Rightarrow> (kanban_error, string option) res" where
  "place_shape c p =
     (if kc_state c = ''archived'' then Inr (Some ''card_is_archived'')
      else if set (keys p) \<noteq> set [''card_id'', ''expected_revision'', ''actor'', ''destination'', ''user_request'']
      then Inr (Some ''invalid_place_payload'')
      else if unhashable (jget p ''destination'') then Inl KanbanTypeError
      else if \<not> one_of (jget p ''destination'') [''board'', ''backlog''] then Inr (Some ''invalid_destination'')
      else if \<not> bounded_text (jget p ''user_request'') 4000 False \<or> 500 < length (str_of (jget p ''actor''))
           \<or> has_marker (str_of (jget p ''actor'')) then Inr (Some ''explicit_user_request_required'')
      else Inr None)"

text \<open>Whether the card is effectively pending, or waits for a decision that placement may postpone.\<close>

definition backlog_unsafe :: "board \<Rightarrow> card \<Rightarrow> task_row option \<Rightarrow> standing \<Rightarrow> bool" where
  "backlog_unsafe b c task s \<longleftrightarrow>
     (let status = (case task of None \<Rightarrow> [] | Some t \<Rightarrow> t_status t);
          reported = list_ex (accepted [''report-progress'']) (events_of_card b (kc_id c));
          shown = (case sd_report s of CurrentReport _ \<Rightarrow> True | _ \<Rightarrow> False)
      in sd_anomalies s \<or> (reported \<and> \<not> shown) \<or> status \<in> set [''queued'', ''running''] \<or> pause_pending c task
         \<or> list_ex (\<lambda>n. kn_phase n \<in> set [''reserved'', ''submitted'']) (nights_of_card b (kc_id c))
         \<or> kc_state c = ''done'' \<or> status \<in> set [''done'', ''UserReview'', ''user_review'']
         \<or> reports (sd_report s) [''in_progress'', ''reported_done''])"

definition backlog_decision :: "card \<Rightarrow> task_row option \<Rightarrow> standing \<Rightarrow> bool" where
  "backlog_decision c task s \<longleftrightarrow>
     sd_group s = Decision \<and> (case task of None \<Rightarrow> True | Some t \<Rightarrow> t_status t \<in> set [''blocked'', ''waiting_user''])
     \<and> (kc_state c \<in> set [''needs_clarification'', ''returned''] \<or> task \<noteq> None
         \<or> reports (sd_report s) [''blocked'', ''needs_decision''])"

definition backlog_allowed :: "board_env \<Rightarrow> board \<Rightarrow> card \<Rightarrow> bool" where
  "backlog_allowed E b c \<longleftrightarrow>
     (let task = (case kc_task c of None \<Rightarrow> None | Some i \<Rightarrow> find_task (be_tasks E) i);
          s = standing_of (be_sha E) b c task (summary_of (be_sha E) b c)
      in \<not> backlog_unsafe b c task s \<and> (sd_group s = Pending \<or> backlog_decision c task s))"

definition place :: "board_env \<Rightarrow> request \<Rightarrow> (nat \<Rightarrow> int) \<Rightarrow> board \<Rightarrow> written" where
  "place E q now b = guarded q now True True (card_id_of q) b
     (\<lambda>c expected. bindR (place_shape c (rq_payload q))
       (\<lambda>r. case r of
          Some reason \<Rightarrow> reject q (now 0) (card_id_of q) True reason b
        | None \<Rightarrow>
          let destination = jget (rq_payload q) ''destination'' in
          if destination = JStr ''backlog'' \<and> \<not> backlog_allowed E b c
          then reject q (now 0) (card_id_of q) True ''backlog_requires_effective_pending'' b
          else move_card q now (card_id_of q) c expected (\<lambda>c. c) (own_payload q) [(''queue_location'', destination)] b))"

section \<open>Quota commands\<close>

definition quota_event :: "request \<Rightarrow> int \<Rightarrow> string option \<Rightarrow> (string \<times> json) list \<Rightarrow> board \<Rightarrow> written" where
  "quota_event q at reason metadata b =
     bindR (insert_kanban_event (event_of q None None None at reason (own_payload q)
              (if metadata = [] then None else Some (spaced (JObj metadata)))) b)
      (\<lambda>b'. Inr ((outcome_of q JNull (if reason = None then ''accepted'' else ''rejected'') reason None)\<lparr>oc_extra := metadata\<rparr>, b'))"

definition ACTIVE_OR_UNKNOWN_PHASES :: "string list" where
  "ACTIVE_OR_UNKNOWN_PHASES = [''reserved'', ''submitted'', ''unknown'']"

text \<open>The first claim on the pool that a new observation would not be allowed to cover.\<close>

fun claim_reason :: "board \<Rightarrow> string \<Rightarrow> int \<Rightarrow> night list \<Rightarrow> string option" where
  "claim_reason b pool observed [] = None"
| "claim_reason b pool observed (n # ns) =
     (case loads (kn_pool_claims n) of
        None \<Rightarrow> Some ''quota_invalid''
      | Some claim \<Rightarrow>
        if pool \<notin> set (keys (entries claim)) then claim_reason b pool observed ns
        else let safe_stop_at = (case kn_stop_event n of None \<Rightarrow> None | Some i \<Rightarrow> map_option ke_at (find_event b i)) in
          if kn_phase n \<in> set ACTIVE_OR_UNKNOWN_PHASES then Some ''quota_claim_active''
          else (case safe_stop_at of
                  None \<Rightarrow> Some ''quota_claim_stop_unverified''
                | Some stopped \<Rightarrow>
                  if kn_phase n \<noteq> ''stopped'' then Some ''quota_claim_stop_unverified''
                  else if observed < stopped then Some ''quota_observation_before_claim_stopped''
                  else claim_reason b pool observed ns))"

definition snapshot_reason :: "board \<Rightarrow> (string \<times> json) list \<Rightarrow> int \<Rightarrow> string option" where
  "snapshot_reason b p recorded =
     (if \<not> valid_pool_key (jget p ''pool_key'') \<or> \<not> SNAPSHOT_ID (str_of (jget p ''snapshot_id'')) then Some ''quota_invalid''
      else case (as_int (jget p ''weekly_remaining_bp''), as_int (jget p ''observed_at''), as_int (jget p ''reset_at'')) of
          (Some remaining, Some observed, Some reset) \<Rightarrow>
            if remaining < 0 \<or> 10000 < remaining \<or> recorded < observed \<or> reset \<le> observed \<or> observed + WEEK_MS < reset
            then Some ''quota_invalid''
            else claim_reason b (str_of (jget p ''pool_key'')) observed (nights_by_seq b)
        | _ \<Rightarrow> Some ''quota_invalid'')"

definition highest_claim :: "board \<Rightarrow> int" where
  "highest_claim b = fold max (map kn_claim_seq (kb_nights b)) (if kb_nights b = [] then 0 else kn_claim_seq (hd (kb_nights b)))"

definition snapshot_command :: "request \<Rightarrow> (nat \<Rightarrow> int) \<Rightarrow> board \<Rightarrow> written" where
  "snapshot_command q now b =
     (let p = rq_payload q; pool = str_of (jget p ''pool_key''); i = str_of (jget p ''snapshot_id''); covered = highest_claim b in
      case snapshot_reason b p (now 0) of
        Some reason \<Rightarrow> quota_event q (now 1) (Some reason) [] b
      | None \<Rightarrow>
        (case insert_snapshot \<lparr>kq_id = i, kq_pool = pool, kq_remaining = int_of (jget p ''weekly_remaining_bp''),
             kq_observed = int_of (jget p ''observed_at''), kq_recorded = now 0, kq_reset = int_of (jget p ''reset_at''),
             kq_operator = actor_of q, kq_covered = covered, kq_stale = False, kq_stale_event = None\<rparr> b of
           Inl _ \<Rightarrow> quota_event q (now 1) (Some ''snapshot_id_conflict'') [] b
         | Inr b' \<Rightarrow> quota_event q (now 1) None
             [(''snapshot_id'', JStr i), (''pool_key'', JStr pool), (''covered_claim_seq'', JInt covered)] b'))"

definition invalidate_command :: "request \<Rightarrow> (nat \<Rightarrow> int) \<Rightarrow> board \<Rightarrow> written" where
  "invalidate_command q now b =
     (let i = str_of (jget (rq_payload q) ''snapshot_id'') in
      case find (\<lambda>r. i \<noteq> [] \<and> kq_id r = i) (kb_quota b) of
        None \<Rightarrow> quota_event q (now 0) (Some ''quota_missing'') [] b
      | Some row \<Rightarrow>
        if kq_stale row then quota_event q (now 0) (Some ''quota_stale'') [] b
        else bindR (quota_event q (now 0) None
                 [(''snapshot_id'', JStr i), (''pool_key'', JStr (kq_pool row)), (''stale'', JBool True)] b)
          (\<lambda>(oc, b1). bindR (update_quota (\<lambda>r. kq_id r = i \<and> \<not> kq_stale r)
               (\<lambda>r. r\<lparr>kq_stale := True, kq_stale_event := Some (rq_operation q)\<rparr>) b1)
            (\<lambda>b2. Inr (oc, b2))))"

section \<open>The CLI observation\<close>

definition timestamp :: "json \<Rightarrow> bool" where
  "timestamp v \<longleftrightarrow> (case v of JInt i \<Rightarrow> 0 < i \<and> i \<le> MAX_TIMESTAMP_MS | _ \<Rightarrow> False)"

definition ATTEMPT_BASE :: "string list" where
  "ATTEMPT_BASE = [''actor'', ''source'', ''attempted_at_ms'', ''outcome'', ''error'']"
definition ATTEMPT_SUCCESS :: "string list" where
  "ATTEMPT_SUCCESS = [''observed_at_ms'', ''remaining_percent'', ''reset_at_ms'']"

definition validate_attempt :: "(string \<times> json) list \<Rightarrow> bool" where
  "validate_attempt p \<longleftrightarrow>
     jget p ''actor'' = JStr ''quota-updater'' \<and> jget p ''source'' = JStr ''codex-cli'' \<and> timestamp (jget p ''attempted_at_ms'')
     \<and> (if jget p ''outcome'' = JStr ''failed'' then set (keys p) = set ATTEMPT_BASE \<and> one_of (jget p ''error'') CLI_ERRORS
         else jget p ''outcome'' = JStr ''ok'' \<and> set (keys p) = set (ATTEMPT_BASE @ ATTEMPT_SUCCESS) \<and> jget p ''error'' = JNull
           \<and> timestamp (jget p ''observed_at_ms'') \<and> timestamp (jget p ''reset_at_ms'')
           \<and> int_of (jget p ''observed_at_ms'') \<le> int_of (jget p ''attempted_at_ms'')
           \<and> int_of (jget p ''observed_at_ms'') < int_of (jget p ''reset_at_ms'')
           \<and> int_of (jget p ''reset_at_ms'') \<le> int_of (jget p ''observed_at_ms'') + WEEK_MS
           \<and> (case jget p ''remaining_percent'' of JInt r \<Rightarrow> 0 \<le> r \<and> r \<le> 100 | _ \<Rightarrow> False))"

definition attempt_stale :: "cli_row option \<Rightarrow> (string \<times> json) list \<Rightarrow> bool" where
  "attempt_stale row p \<longleftrightarrow>
     (case row of
        None \<Rightarrow> False
      | Some r \<Rightarrow> int_of (jget p ''attempted_at_ms'') \<le> ko_attempted r
          \<or> (jget p ''outcome'' = JStr ''ok'' \<and> (case ko_observed r of None \<Rightarrow> False | Some seen \<Rightarrow> int_of (jget p ''observed_at_ms'') \<le> seen)))"

text \<open>A failed attempt keeps the last observation.\<close>

definition merged_cli :: "cli_row option \<Rightarrow> (string \<times> json) list \<Rightarrow> cli_row" where
  "merged_cli row p =
     (let success = (jget p ''outcome'' = JStr ''ok'');
          keep = (\<lambda>k old. if success then Some (int_of (jget p k)) else case row of None \<Rightarrow> None | Some r \<Rightarrow> old r)
      in \<lparr>ko_attempted = int_of (jget p ''attempted_at_ms''), ko_outcome = str_of (jget p ''outcome''), ko_error = as_str (jget p ''error''),
          ko_observed = keep ''observed_at_ms'' ko_observed, ko_remaining = keep ''remaining_percent'' ko_remaining,
          ko_reset = keep ''reset_at_ms'' ko_reset\<rparr>)"

definition attempt_command :: "request \<Rightarrow> (nat \<Rightarrow> int) \<Rightarrow> board \<Rightarrow> written" where
  "attempt_command q now b =
     (let p = rq_payload q; stale = attempt_stale (kb_cli b) p; reason = (if stale then Some ''stale_attempt'' else None) in
      check (int_of (jget p ''attempted_at_ms'') \<le> now 0) (KanbanError ''future CLI quota attempt'')
       (bindR (if stale then Inr b else put_cli (merged_cli (kb_cli b) p) b)
         (\<lambda>b'. quota_event q (now 1) reason [] b')))"

section \<open>The handler\<close>

definition KANBAN_COMMANDS :: "string list" where
  "KANBAN_COMMANDS = [''create'', ''edit'', ''approve'', ''withdraw'', ''return'', ''pause'', ''done'', ''archive'', ''quota-cli-attempt'',
     ''quota-snapshot'', ''quota-invalidate'', ''report-progress'', ''place'']"

definition dispatch :: "board_env \<Rightarrow> (json \<Rightarrow> string) \<Rightarrow> request \<Rightarrow> (nat \<Rightarrow> int) \<Rightarrow> board \<Rightarrow> written" where
  "dispatch E show_value q now b =
     (let command = rq_command q in
      if command = ''quota-cli-attempt'' then attempt_command q now b
      else if command = ''quota-snapshot'' then snapshot_command q now b
      else if command = ''quota-invalidate'' then invalidate_command q now b
      else if command = ''create'' then create q now b
      else if command = ''edit'' then edit q now b
      else if command = ''approve'' then approve E q now b
      else if command = ''withdraw'' then withdraw q now b
      else if command = ''return'' then return_card q now b
      else if command = ''pause'' then pause q now b
      else if command = ''done'' then done_card E show_value q now b
      else if command = ''archive'' then archive q now b
      else if command = ''report-progress'' then report_progress E q now b
      else place E q now b)"

text \<open>The recorded result of an operation that was used before.\<close>

definition replay :: "kanban_event \<Rightarrow> string \<Rightarrow> outcome" where
  "replay e digest =
     (let same = (ke_hash e = digest) in
      \<lparr>oc_command = ke_kind e, oc_operation = ke_operation e, oc_card = jopt_str (ke_card e),
       oc_result = (if same then ke_result e else ''rejected''),
       oc_reason = (if same then ke_reason e else Some ''idempotency_conflict''),
       oc_revision = (if same then ke_revision e else None), oc_recorded = same, oc_replayed = same, oc_extra = []\<rparr>)"

text \<open>What the handler asks of a request before it opens the transaction.\<close>

definition read_request :: "(string \<Rightarrow> string) \<Rightarrow> (string \<times> json) list \<Rightarrow> (kanban_error, request) res" where
  "read_request H r =
     (let command = jget r ''command''; operation = jget r ''operation_id''; actor = field (jget r ''payload'') ''actor'' in
      check (one_of command KANBAN_COMMANDS) (KanbanError ''unsupported kanban command'')
       (check (is_str operation \<and> operation \<noteq> JStr []) (KanbanError ''kanban request requires an operation_id'')
         (check (canonical_uuid (str_of operation)) (KanbanError ''invalid operation_id'')
           (case jget r ''payload'' of
              JObj p \<Rightarrow>
                check (command \<noteq> JStr ''quota-cli-attempt''
                       \<or> set (keys r) = set [''request_id'', ''action'', ''command'', ''operation_id'', ''payload''] \<and> validate_attempt p)
                  (KanbanError ''invalid CLI quota attempt'')
                 (check (case actor of JStr a \<Rightarrow> strip a \<noteq> [] | _ \<Rightarrow> False) (KanbanError ''kanban request requires an actor'')
                   (Inr \<lparr>rq_command = str_of command, rq_operation = str_of operation,
                        rq_digest = payload_hash H (str_of command) (JObj p), rq_payload = p\<rparr>))
            | _ \<Rightarrow> Inl (KanbanError ''kanban request requires a payload object'')))))"

definition handle_request ::
  "board_env \<Rightarrow> (json \<Rightarrow> string) \<Rightarrow> (string \<times> json) list \<Rightarrow> (nat \<Rightarrow> int) \<Rightarrow> board \<Rightarrow> (kanban_error, outcome) res \<times> board" where
  "handle_request E show_value r now b =
     (case read_request (be_sha E) r of
        Inl e \<Rightarrow> (Inl e, b)
      | Inr q \<Rightarrow>
        (case find_event b (rq_operation q) of
           Some e \<Rightarrow> (Inr (replay e (rq_digest q)), b)
         | None \<Rightarrow>
           (case dispatch E show_value q now b of
              Inl e \<Rightarrow> (Inl e, b)
            | Inr (oc, b') \<Rightarrow> (Inr oc, b'))))"

end
