(* ===== verification/BoardSteps.thy ===== *)
theory BoardSteps
  imports Commands
begin

text \<open>
  The handler as a step relation.  Every request that uses a new operation either raises and changes nothing or takes exactly one
  step: it appends one event, and a rejected one changes nothing else.  An accepted card command creates a card or moves one
  card to its next revision in one of the ways \<open>moves\<close> lists.
\<close>

section \<open>Steps\<close>

definition bumped :: "int \<Rightarrow> card \<Rightarrow> card" where
  "bumped at c = c\<lparr>kc_revision := kc_revision c + 1, kc_updated := at\<rparr>"

inductive moves :: "(string \<Rightarrow> string) \<Rightarrow> kanban_event \<Rightarrow> card \<Rightarrow> card \<Rightarrow> bool" for H e c where
  noted: "ke_kind e \<in> {''report-progress'', ''place''} \<Longrightarrow> moves H e c (bumped at c)"
| edited: "kc_state c \<notin> set KANBAN_TERMINAL \<Longrightarrow> ke_kind e = ''edit'' \<Longrightarrow> moves H e c (bumped at (edited fs c))"
| approved: "kc_state c \<notin> set KANBAN_TERMINAL \<Longrightarrow> ke_kind e = ''approve'' \<Longrightarrow> be_sha E = H \<Longrightarrow> build_approval_payload E c = go frozen
    \<Longrightarrow> ke_payload e = Some (dumps (JObj frozen)) \<Longrightarrow> rq_operation q = ke_operation e
    \<Longrightarrow> moves H e c (bumped at (approved E q at' frozen c))"
| invalidated: "kc_state c \<notin> set KANBAN_TERMINAL \<Longrightarrow> ke_kind e \<in> {''withdraw'', ''return''} \<Longrightarrow> state \<in> {''inbox'', ''returned''}
    \<Longrightarrow> moves H e c (bumped at (invalidated state reason c))"
| archived: "kc_state c \<notin> set KANBAN_TERMINAL \<Longrightarrow> ke_kind e = ''archive'' \<Longrightarrow> moves H e c (bumped at (c\<lparr>kc_state := ''archived'', kc_reason := Some reason\<rparr>))"
| paused: "kc_state c \<notin> set KANBAN_TERMINAL \<Longrightarrow> ke_kind e = ''pause'' \<Longrightarrow> moves H e c (bumped at (c\<lparr>kc_reason := Some reason\<rparr>))"
| finished: "kc_state c \<notin> set KANBAN_TERMINAL \<Longrightarrow> ke_kind e = ''done'' \<Longrightarrow> i = ke_operation e
    \<Longrightarrow> moves H e c (bumped at (c\<lparr>kc_state := ''done'', kc_reason := Some reason, kc_evidence := Some i\<rparr>))"

definition tells :: "request \<Rightarrow> outcome \<Rightarrow> kanban_event \<Rightarrow> bool" where
  "tells q oc e \<longleftrightarrow> ke_operation e = rq_operation q \<and> ke_hash e = rq_digest q \<and> ke_kind e = rq_command q
     \<and> ke_result e = oc_result oc \<and> ke_reason e = oc_reason oc \<and> ke_revision e = oc_revision oc \<and> ke_actor e = actor_of q
     \<and> oc_command oc = rq_command q \<and> oc_operation oc = rq_operation q \<and> oc_recorded oc \<and> \<not> oc_replayed oc"

definition moved_to :: "card \<Rightarrow> card \<Rightarrow> card list \<Rightarrow> card list" where
  "moved_to c c' cs = map (\<lambda>x. if kc_id x = kc_id c then c' else x) cs"

definition CARD_COMMANDS :: "string list" where
  "CARD_COMMANDS = [''create'', ''edit'', ''approve'', ''withdraw'', ''return'', ''pause'', ''done'', ''archive'', ''report-progress'', ''place'']"

inductive kstep :: "(string \<Rightarrow> string) \<Rightarrow> request \<Rightarrow> outcome \<Rightarrow> board \<Rightarrow> board \<Rightarrow> bool" for H q oc b where
  refused: "tells q oc e \<Longrightarrow> ke_result e = ''rejected'' \<Longrightarrow> kstep H q oc b (b\<lparr>kb_events := kb_events b @ [e]\<rparr>)"
| created: "tells q oc e \<Longrightarrow> ke_result e = ''accepted'' \<Longrightarrow> ke_kind e = ''create'' \<Longrightarrow> ke_card e = Some i \<Longrightarrow> ke_revision e = Some 0
    \<Longrightarrow> i \<notin> kc_id ` set (kb_cards b)
    \<Longrightarrow> kstep H q oc b (b\<lparr>kb_cards := kb_cards b @ [new_card i at ps], kb_events := kb_events b @ [e]\<rparr>)"
| moved: "tells q oc e \<Longrightarrow> ke_result e = ''accepted'' \<Longrightarrow> c \<in> set (kb_cards b) \<Longrightarrow> ke_card e = Some (kc_id c)
    \<Longrightarrow> ke_revision e = Some (kc_revision c + 1) \<Longrightarrow> ke_expected e = Some (kc_revision c)
    \<Longrightarrow> jget (rq_payload q) ''expected_revision'' = JInt (kc_revision c) \<Longrightarrow> jget (rq_payload q) ''card_id'' = JStr (kc_id c)
    \<Longrightarrow> kc_id c \<noteq> [] \<Longrightarrow> kc_revision c < MAX_REVISION \<Longrightarrow> moves H e c c'
    \<Longrightarrow> kstep H q oc b (b\<lparr>kb_cards := moved_to c c' (kb_cards b), kb_events := kb_events b @ [e]\<rparr>)"
| counted: "tells q oc e \<Longrightarrow> ke_result e = ''accepted'' \<Longrightarrow> ke_card e = None \<Longrightarrow> ke_kind e \<notin> set CARD_COMMANDS
    \<Longrightarrow> kb_cards b' = kb_cards b \<Longrightarrow> kb_nights b' = kb_nights b \<Longrightarrow> kb_events b' = kb_events b @ [e] \<Longrightarrow> kstep H q oc b b'"

section \<open>The commands take steps\<close>

definition steps :: "(string \<Rightarrow> string) \<Rightarrow> request \<Rightarrow> board \<Rightarrow> written \<Rightarrow> bool" where
  "steps H q b w \<longleftrightarrow> (\<forall>oc b'. w = Inr (oc, b') \<longrightarrow> kstep H q oc b b' \<and> board_ok b')"

lemma steps_Inl [intro]: "steps H q b (Inl e)"
  by (simp add: steps_def)

lemma tells_event:
  "tells q (outcome_of q i (if reason = None then ''accepted'' else ''rejected'') reason revision)
     (event_of q j expected revision at reason payload delta)"
  by (simp add: tells_def outcome_of_def event_of_def)

lemma steps_reject [intro]: "steps H q b (reject q at i ex reason b)"
  using tells_event [of q i "Some reason" None]
  by (auto simp: steps_def reject_def Let_def res_simps insert_kanban_event_def event_of_def intro!: kstep.refused)

text \<open>The comparison finds its card and no other.\<close>

lemma filter_unique:
  "distinct (map f xs) \<Longrightarrow> x \<in> set xs \<Longrightarrow> P x \<Longrightarrow> filter (\<lambda>y. f y = f x \<and> P y) xs = [x]"
proof (induction xs)
  case (Cons y ys)
  have none: "filter (\<lambda>z. f z = f y \<and> P z) ys = []"
    using Cons.prems(1) by (auto simp: filter_empty_conv) (metis imageI)
  show ?case
  proof (cases "x = y")
    case True
    then show ?thesis using none Cons.prems by simp
  next
    case False
    then have "f y \<noteq> f x" using Cons.prems by auto
    then show ?thesis using False Cons by auto
  qed
qed simp

lemma hit_ids: "board_ok b \<Longrightarrow> c \<in> set (kb_cards b) \<Longrightarrow>
    map (\<lambda>x. if kc_id x = kc_id c \<and> kc_revision x = kc_revision c then f x else x) (kb_cards b) = moved_to c (f c) (kb_cards b)"
proof -
  assume "board_ok b" "c \<in> set (kb_cards b)"
  then have "x = c" if "x \<in> set (kb_cards b)" "kc_id x = kc_id c" for x
    using that by (auto simp: board_ok_def distinct_map inj_on_def)
  then show ?thesis by (auto simp: moved_to_def)
qed

lemma cas_Inr:
  assumes ok: "board_ok b" and c: "c \<in> set (kb_cards b)"
  shows "cas_update at (kc_id c) (kc_revision c) f b = Inr moved \<longleftrightarrow>
    moved = Some (b\<lparr>kb_cards := moved_to c ((f c)\<lparr>kc_revision := kc_revision c + 1, kc_updated := at\<rparr>) (kb_cards b)\<rparr>)
    \<and> board_ok (b\<lparr>kb_cards := moved_to c ((f c)\<lparr>kc_revision := kc_revision c + 1, kc_updated := at\<rparr>) (kb_cards b)\<rparr>)"
proof -
  have "filter (\<lambda>x. kc_id x = kc_id c \<and> kc_revision x = kc_revision c) (kb_cards b) = [c]"
    using ok c by (intro filter_unique) (auto simp: board_ok_def)
  then show ?thesis
    using hit_ids [OF ok c, of "\<lambda>c. (f c)\<lparr>kc_revision := kc_revision c + 1, kc_updated := at\<rparr>"]
    unfolding cas_update_def update_cards_def Let_def
    by (auto simp: res_simps hit_ids [OF ok c])
qed

lemma tells_ok: "reason = None \<Longrightarrow> tells q (outcome_of q i ''accepted'' None revision) (event_of q j expected revision at None payload delta)"
  using tells_event [of q i None revision] by simp

text \<open>A guard that lets the command through has found the card at its current revision.\<close>

definition admitted :: "request \<Rightarrow> board \<Rightarrow> card \<Rightarrow> bool" where
  "admitted q b c \<longleftrightarrow> c \<in> set (kb_cards b) \<and> card_id_of q = JStr (kc_id c) \<and> kc_id c \<noteq> []
     \<and> jget (rq_payload q) ''expected_revision'' = JInt (kc_revision c) \<and> kc_revision c < MAX_REVISION"

lemma find_card_Some: "find_card b i = Some c \<Longrightarrow> c \<in> set (kb_cards b) \<and> i = JStr (kc_id c) \<and> kc_id c \<noteq> []"
  by (auto simp: find_card_def find_Some_iff split: json.splits if_splits)

lemma guard_reason_None:
  "guard_reason c p t a = None \<Longrightarrow> jget p ''expected_revision'' = JInt (kc_revision c) \<and> kc_revision c < MAX_REVISION"
  by (auto simp: guard_reason_def valid_revision_def split: json.splits if_splits)

lemma steps_guarded:
  assumes body: "\<And>c. admitted q b c \<Longrightarrow> \<not> t \<longrightarrow> kc_state c \<notin> set KANBAN_TERMINAL \<Longrightarrow> steps H q b (body c (kc_revision c))"
  shows "steps H q b (guarded q now t a i b body)"
proof (cases "find_card b (card_id_of q)")
  case None
  then show ?thesis by (auto simp: guarded_def)
next
  case (Some c)
  show ?thesis
  proof (cases "guard_reason c (rq_payload q) t a")
    case None
    have "admitted q b c"
      using find_card_Some [OF Some] guard_reason_None [OF None] by (auto simp: admitted_def)
    moreover have "\<not> t \<longrightarrow> kc_state c \<notin> set KANBAN_TERMINAL"
      using None by (auto simp: guard_reason_def split: json.splits if_splits)
    ultimately show ?thesis
      using body Some None by (simp add: guarded_def admitted_def int_of_def)
  qed (auto simp: guarded_def Some)
qed

lemma cards_after_events: "b\<lparr>kb_events := es, kb_cards := cs\<rparr> = b\<lparr>kb_cards := cs, kb_events := es\<rparr>"
  by simp

lemma steps_moved:
  assumes ok: "board_ok b" and adm: "admitted q b c"
    and mv: "\<And>at e. ke_kind e = rq_command q \<Longrightarrow> ke_operation e = rq_operation q \<Longrightarrow> ke_payload e = Some payload
        \<Longrightarrow> moves H e c (bumped at (f c))"
    and rev: "kc_revision (f c) = kc_revision c"
  shows "steps H q b (move_card q now i c (kc_revision c) f payload delta b)"
    "steps H q b (record_then_move q now n c (kc_revision c) f payload delta lost b)"
proof -
  let ?e = "\<lambda>at. event_of q (Some (kc_id c)) (Some (kc_revision c)) (Some (kc_revision c + 1)) at None payload (Some (spaced (JObj delta)))"
  let ?oc = "outcome_of q (JStr (kc_id c)) ''accepted'' None (Some (kc_revision c + 1))"
  have c: "c \<in> set (kb_cards b)" and i: "card_id_of q = JStr (kc_id c)"
    and x: "jget (rq_payload q) ''expected_revision'' = JInt (kc_revision c)" and lt: "kc_id c \<noteq> []" "kc_revision c < MAX_REVISION"
    using adm by (auto simp: admitted_def)
  have step: "kstep H q ?oc b (b\<lparr>kb_cards := moved_to c (bumped at (f c)) (kb_cards b), kb_events := kb_events b @ [?e at']\<rparr>)" for at at'
    using c i x lt by (intro kstep.moved tells_ok mv) (auto simp: event_of_def card_id_of_def)
  have bump: "(f c)\<lparr>kc_revision := kc_revision c + 1, kc_updated := at\<rparr> = bumped at (f c)" for at
    by (simp add: bumped_def rev)
  show "steps H q b (move_card q now i c (kc_revision c) f payload delta b)"
    using step [of "now 1" "now 0"]
    by (auto simp: steps_def move_card_def res_simps cas_Inr [OF ok c] accept_with_def insert_kanban_event_def x bump)
  show "steps H q b (record_then_move q now n c (kc_revision c) f payload delta lost b)"
    using step [of "now 0" "now n"]
    by (auto simp: steps_def record_then_move_def res_simps accept_with_def insert_kanban_event_def x cas_Inr bump c cards_after_events)
qed

section \<open>Each command\<close>

lemma fresh_id: "find_card b (JStr i) = None \<Longrightarrow> i \<noteq> [] \<Longrightarrow> i \<notin> kc_id ` set (kb_cards b)"
  by (auto simp: find_card_def find_None_iff)

lemma steps_inserted:
  assumes "rq_command q = ''create''" "i \<notin> kc_id ` set (kb_cards b)"
  shows "steps H q b (bindR (insert_card (new_card i at ps) b) (accept q at' i 0 delta))"
  using assms unfolding steps_def accept_def accept_with_def insert_card_def insert_kanban_event_def
  by (auto simp: res_simps event_of_def tells_def outcome_of_def intro!: kstep.created)

lemma steps_create: "rq_command q = ''create'' \<Longrightarrow> steps H q b (create q now b)"
  unfolding create_def Let_def
  using fresh_id [of b "str_of (card_id_of q)"]
  by (auto split: sum.splits intro: steps_inserted)

lemma tells_extra [simp]: "tells q (oc\<lparr>oc_extra := kvs\<rparr>) e = tells q oc e"
  by (simp add: tells_def)

lemma kstep_extra:
  assumes "kstep H q oc b b'"
  shows "kstep H q (oc\<lparr>oc_extra := kvs\<rparr>) b b'"
  using assms
proof (cases rule: kstep.cases)
  case refused
  show ?thesis unfolding refused(1) using refused(2-) by (intro kstep.refused) simp_all
next
  case created
  show ?thesis unfolding created(1) using created(2-) by (intro kstep.created) simp_all
next
  case moved
  show ?thesis unfolding moved(1) using moved(2-) by (intro kstep.moved) simp_all
next
  case counted
  show ?thesis using counted by (intro kstep.counted) simp_all
qed

lemma steps_extra:
  "steps H q b w \<Longrightarrow> (\<And>oc. g oc = oc \<or> g oc = oc\<lparr>oc_extra := kvs\<rparr>)
   \<Longrightarrow> steps H q b (bindR w (\<lambda>(oc, b). Inr (g oc, b)))"
  by (auto simp: steps_def res_simps) (metis kstep_extra)

lemma steps_edit: "board_ok b \<Longrightarrow> rq_command q = ''edit'' \<Longrightarrow> steps H q b (edit q now b)"
  unfolding edit_def
  by (intro steps_guarded, cases "edit_fields (rq_payload q)")
    (auto intro!: steps_moved moves.edited simp: edited_def set_fields_def clear_approval_def Let_def)

lemma steps_invalidate:
  "board_ok b \<Longrightarrow> rq_command q \<in> {''withdraw'', ''return''} \<Longrightarrow> state \<in> {''inbox'', ''returned''}
   \<Longrightarrow> steps H q b (invalidate q now state r reason b)"
  unfolding invalidate_def
  by (intro steps_guarded) (auto intro!: steps_moved moves.invalidated simp: invalidated_def clear_approval_def Let_def)

lemma steps_approve: "board_ok b \<Longrightarrow> rq_command q = ''approve'' \<Longrightarrow> steps (be_sha E) q b (approve E q now b)"
  unfolding approve_def with_extra_def
  apply (intro steps_guarded)
  subgoal for c
    by (cases "build_approval_payload E c")
      (auto split: sum.splits intro!: steps_extra steps_moved moves.approved simp: approved_def Let_def go_def)
  done

lemma steps_archive: "board_ok b \<Longrightarrow> rq_command q = ''archive'' \<Longrightarrow> steps H q b (archive q now b)"
  unfolding archive_def by (intro steps_guarded steps_moved moves.archived) auto

lemma steps_pause: "board_ok b \<Longrightarrow> rq_command q = ''pause'' \<Longrightarrow> steps H q b (pause q now b)"
  unfolding pause_def Let_def by (intro steps_guarded steps_extra steps_moved moves.paused) auto

lemma steps_done: "board_ok b \<Longrightarrow> rq_command q = ''done'' \<Longrightarrow> steps H q b (done_card E sv q now b)"
  unfolding done_card_def
  apply (intro steps_guarded)
  subgoal for c
    by (cases "validate_done E sv b c (rq_payload q)") (auto split: sum.splits intro!: steps_moved moves.finished)
  done

lemma steps_report: "board_ok b \<Longrightarrow> rq_command q = ''report-progress'' \<Longrightarrow> steps H q b (report_progress E q now b)"
  unfolding report_progress_def
  by (intro steps_guarded) (auto split: option.splits sum.splits intro!: steps_moved moves.noted)

lemma steps_place: "board_ok b \<Longrightarrow> rq_command q = ''place'' \<Longrightarrow> steps H q b (place E q now b)"
  unfolding place_def Let_def
  apply (intro steps_guarded)
  subgoal for c
    by (cases "place_shape c (rq_payload q)") (auto split: option.splits intro!: steps_moved moves.noted)
  done

lemma quota_event_Inr:
  "quota_event q at reason kvs b = Inr (oc, b') \<Longrightarrow>
   (\<exists>e. tells q oc e \<and> ke_card e = None \<and> ke_kind e = rq_command q \<and> (ke_result e = ''accepted'' \<longleftrightarrow> reason = None) \<and> (ke_result e = ''rejected'' \<longleftrightarrow> reason \<noteq> None)
      \<and> b' = b\<lparr>kb_events := kb_events b @ [e]\<rparr> \<and> board_ok b')"
  using tells_event [of q JNull reason None]
  by (fastforce simp: quota_event_def res_simps insert_kanban_event_def event_of_def)

lemma steps_quota:
  assumes "rq_command q \<notin> set CARD_COMMANDS" "kb_cards b1 = kb_cards b" "kb_nights b1 = kb_nights b" "kb_events b1 = kb_events b" "reason = None \<or> b1 = b"
  shows "steps H q b (quota_event q at reason kvs b1)"
  using assms unfolding steps_def
  by (auto dest!: quota_event_Inr intro: kstep.refused kstep.counted)

lemma steps_snapshot: "rq_command q \<notin> set CARD_COMMANDS \<Longrightarrow> steps H q b (snapshot_command q now b)"
  unfolding snapshot_command_def Let_def
  by (auto split: option.splits sum.splits simp: insert_snapshot_def intro!: steps_quota)

lemma steps_invalidate_quota: "rq_command q \<notin> set CARD_COMMANDS \<Longrightarrow> steps H q b (invalidate_command q now b)"
proof -
  assume q: "rq_command q \<notin> set CARD_COMMANDS"
  have "steps H q b (bindR (quota_event q at None kvs b) (\<lambda>(oc, b1). bindR (update_quota hit f b1) (\<lambda>b2. Inr (oc, b2))))" for at kvs hit f
    using q by (auto simp: steps_def res_simps update_quota_def dest!: quota_event_Inr intro: kstep.counted)
  then show ?thesis
    unfolding invalidate_command_def Let_def by (auto split: option.splits intro!: steps_quota q)
qed

lemma steps_attempt: "rq_command q \<notin> set CARD_COMMANDS \<Longrightarrow> steps H q b (attempt_command q now b)"
proof -
  assume q: "rq_command q \<notin> set CARD_COMMANDS"
  have "steps H q b (bindR (put_cli r b) (quota_event q at None []))" for r at
    by (auto simp: put_cli_def stored_board_def intro!: steps_quota q)
  then show ?thesis
    unfolding attempt_command_def Let_def by (auto simp: check_def intro!: steps_quota q)
qed

text \<open>Whatever the command, the handler takes one step or leaves the tables alone.\<close>

lemma steps_dispatch:
  assumes "board_ok b" "rq_command q \<in> set KANBAN_COMMANDS"
  shows "steps (be_sha E) q b (dispatch E sv q now b)"
proof -
  consider "rq_command q \<in> {''create'', ''edit'', ''approve'', ''withdraw'', ''return'', ''pause''}"
    | "rq_command q \<in> {''done'', ''archive'', ''report-progress'', ''place''}"
    | "rq_command q \<in> {''quota-cli-attempt'', ''quota-snapshot'', ''quota-invalidate''}"
    using assms(2) unfolding KANBAN_COMMANDS_def by auto
  then show ?thesis
  proof cases
    case 1
    then show ?thesis
      by (auto simp: dispatch_def Let_def withdraw_def return_card_def steps_create steps_edit [OF assms(1)] steps_approve [OF assms(1)]
          steps_pause [OF assms(1)] intro!: steps_invalidate [OF assms(1)])
  next
    case 2
    then show ?thesis
      by (auto simp: dispatch_def Let_def steps_done [OF assms(1)] steps_archive [OF assms(1)] steps_report [OF assms(1)]
          steps_place [OF assms(1)])
  next
    case 3
    then show ?thesis
      by (auto simp: dispatch_def Let_def CARD_COMMANDS_def intro!: steps_snapshot steps_invalidate_quota steps_attempt)
  qed
qed

lemma read_request_command: "read_request H r = Inr q \<Longrightarrow> rq_command q \<in> set KANBAN_COMMANDS"
proof -
  assume "read_request H r = Inr q"
  then have "one_of (jget r ''command'') KANBAN_COMMANDS" "rq_command q = str_of (jget r ''command'')"
    unfolding read_request_def Let_def check_Inr_iff by (cases "jget r ''payload''"; force simp only: check_Inr_iff json.case sum.simps request.simps)+
  then show ?thesis by (auto simp: one_of_def str_of_def)
qed

lemma handled_step:
  assumes "board_ok b" "read_request (be_sha E) r = Inr q" "find_event b (rq_operation q) = None"
    "handle_request E sv r now b = (Inr oc, b')"
  shows "kstep (be_sha E) q oc b b' \<and> board_ok b'"
  using steps_dispatch [OF assms(1) read_request_command [OF assms(2)], of E sv now] assms
  by (auto simp: handle_request_def steps_def split: sum.splits prod.splits)

lemma handled_error: "handle_request E sv r now b = (Inl e, b') \<Longrightarrow> b' = b"
  by (auto simp: handle_request_def split: sum.splits option.splits prod.splits)

end
