(* ===== verification/BoardLaws.thy ===== *)
theory BoardLaws
  imports BoardSteps
begin

text \<open>
  What holds of every run of the handler: the history of a card is complete, two requests never win the same revision, a resent
  request changes nothing, a finished card stays finished, and an approval always covers the card as it stands.
\<close>

section \<open>Journals\<close>

text \<open>The revisions a log records for a key, in order.\<close>

fun revisions :: "('e \<Rightarrow> ('k \<times> int) option) \<Rightarrow> 'k \<Rightarrow> 'e list \<Rightarrow> int list" where
  "revisions entry k [] = []"
| "revisions entry k (e # es) =
     (case entry e of
        None \<Rightarrow> revisions entry k es
      | Some (i, n) \<Rightarrow> if i = k then n # revisions entry k es else revisions entry k es)"

lemma revisions_append [simp]: "revisions entry k (es @ es') = revisions entry k es @ revisions entry k es'"
  by (induction es) (auto split: option.splits)

definition upto_rev :: "int option \<Rightarrow> int list" where
  "upto_rev r = (case r of None \<Rightarrow> [] | Some n \<Rightarrow> [0..n])"

definition next_rev :: "int option \<Rightarrow> int" where
  "next_rev r = (case r of None \<Rightarrow> 0 | Some n \<Rightarrow> n + 1)"

text \<open>
  The contract of a store whose changes are its log: a step changes nothing or appends one entry, and an entry writes the next
  revision of its key.
\<close>

locale journal =
  fixes ok :: "'s \<Rightarrow> bool"
    and step :: "'s \<Rightarrow> 's \<Rightarrow> bool"
    and logged :: "'s \<Rightarrow> 'e list"
    and entry :: "'e \<Rightarrow> ('k \<times> int) option"
    and rev_of :: "'s \<Rightarrow> 'k \<Rightarrow> int option"
  assumes kept: "ok s \<Longrightarrow> step s s' \<Longrightarrow> ok s'"
    and nonneg: "ok s \<Longrightarrow> rev_of s k = Some n \<Longrightarrow> 0 \<le> n"
    and appends: "ok s \<Longrightarrow> step s s' \<Longrightarrow> s' = s \<or> (\<exists>e. logged s' = logged s @ [e]
      \<and> (case entry e of
           None \<Rightarrow> rev_of s' = rev_of s
         | Some (k, n) \<Rightarrow> n = next_rev (rev_of s k) \<and> rev_of s' = (rev_of s)(k \<mapsto> n)))"
begin

lemma runs_kept: "step\<^sup>*\<^sup>* s s' \<Longrightarrow> ok s \<Longrightarrow> ok s'"
  by (induction rule: rtranclp_induct) (auto intro: kept)

lemma log_grows: "step\<^sup>*\<^sup>* s s' \<Longrightarrow> ok s \<Longrightarrow> \<exists>es. logged s' = logged s @ es"
proof (induction rule: rtranclp_induct)
  case (step s' s'')
  then show ?case using appends [OF runs_kept [OF step.hyps(1) step.prems] step.hyps(2)] by fastforce
qed simp

lemma step_cases:
  assumes "ok s" "step s s'"
  obtains (same) "s' = s"
    | (plain) e where "logged s' = logged s @ [e]" "entry e = None" "rev_of s' = rev_of s"
    | (wrote) e i where "logged s' = logged s @ [e]" "entry e = Some (i, next_rev (rev_of s i))"
        "rev_of s' = (rev_of s)(i \<mapsto> next_rev (rev_of s i))"
  using appends [OF assms] by (fastforce split: option.splits prod.splits)

lemma revisions_step:
  assumes "ok s" "step s s'" "revisions entry k (logged s) = upto_rev (rev_of s k)"
  shows "revisions entry k (logged s') = upto_rev (rev_of s' k)"
  using assms(1,2)
proof (cases rule: step_cases)
  case (wrote e i)
  have "upto_rev (rev_of s i) @ [next_rev (rev_of s i)] = upto_rev (Some (next_rev (rev_of s i)))"
  proof (cases "rev_of s i")
    case (Some n)
    then show ?thesis
      using nonneg [OF assms(1) Some] upto_rec2 [of 0 "n + 1"] by (simp add: upto_rev_def next_rev_def)
  qed (simp add: upto_rev_def next_rev_def)
  then show ?thesis using wrote assms(3) by auto
qed (use assms(3) in auto)

lemma revisions_complete:
  assumes "ok s" "step\<^sup>*\<^sup>* s s'" "revisions entry k (logged s) = upto_rev (rev_of s k)"
  shows "revisions entry k (logged s') = upto_rev (rev_of s' k)"
  using assms(2,1,3)
proof (induction rule: rtranclp_induct)
  case (step s' s'')
  then show ?case using revisions_step [OF runs_kept [OF step.hyps(1) step.prems(1)] step.hyps(2)] by blast
qed simp

lemma rev_grows:
  assumes "ok s" "step\<^sup>*\<^sup>* s s'" "rev_of s k = Some n"
  shows "\<exists>m. rev_of s' k = Some m \<and> n \<le> m"
  using assms(2,1,3)
proof (induction rule: rtranclp_induct)
  case (step s' s'')
  then obtain m where m: "rev_of s' k = Some m" "n \<le> m" by blast
  show ?case
    using runs_kept [OF step.hyps(1) step.prems(1)] step.hyps(2)
  proof (cases rule: step_cases)
    case (wrote e i)
    with m show ?thesis by (cases "i = k") (auto simp: next_rev_def)
  qed (use m in auto)
qed simp

end

section \<open>The board as a journal\<close>

definition khandled :: "(string \<Rightarrow> string) \<Rightarrow> board \<Rightarrow> board \<Rightarrow> bool" where
  "khandled H b b' \<longleftrightarrow> (\<exists>E sv r now. be_sha E = H \<and> b' = snd (handle_request E sv r now b))"

lemma khandled_cases:
  assumes "board_ok b" "khandled H b b'"
  shows "b' = b \<or> (\<exists>q oc. kstep H q oc b b' \<and> board_ok b' \<and> find_event b (rq_operation q) = None)"
proof -
  obtain E sv r now where H: "be_sha E = H" and b': "b' = snd (handle_request E sv r now b)"
    using assms(2) by (auto simp: khandled_def)
  show ?thesis
  proof (cases "\<exists>q. read_request (be_sha E) r = Inr q \<and> find_event b (rq_operation q) = None")
    case True
    then obtain q where q: "read_request (be_sha E) r = Inr q" "find_event b (rq_operation q) = None" by blast
    show ?thesis
    proof (cases "handle_request E sv r now b")
      case (Pair w b'')
      show ?thesis
      proof (cases w)
        case (Inl e)
        then show ?thesis using handled_error [of E sv r now b e b''] Pair b' by simp
      next
        case (Inr oc)
        then have "kstep H q oc b b' \<and> board_ok b'" using handled_step [OF assms(1) q, of sv now oc b''] Pair b' H by simp
        then show ?thesis using q(2) by blast
      qed
    qed
  qed (auto simp: handle_request_def b' split: sum.splits option.splits)
qed

definition event_entry :: "kanban_event \<Rightarrow> (string \<times> int) option" where
  "event_entry e =
     (if ke_result e = ''accepted'' then case (ke_card e, ke_revision e) of (Some i, Some n) \<Rightarrow> Some (i, n) | _ \<Rightarrow> None else None)"

definition card_at :: "board \<Rightarrow> string \<Rightarrow> card option" where
  "card_at b i = find (\<lambda>c. kc_id c = i) (kb_cards b)"

definition revision_at :: "board \<Rightarrow> string \<Rightarrow> int option" where
  "revision_at b i = map_option kc_revision (card_at b i)"

lemma moves_bump: "moves H e c c' \<Longrightarrow> kc_id c' = kc_id c \<and> kc_revision c' = kc_revision c + 1"
  by (cases rule: moves.cases)
    (auto simp: bumped_def edited_def approved_def invalidated_def clear_approval_def set_fields_def Let_def)

lemma find_moved:
  assumes "kc_id c' = kc_id c" "c \<in> set cs"
  shows "find (\<lambda>x. kc_id x = i) (moved_to c c' cs) = (if i = kc_id c then Some c' else find (\<lambda>x. kc_id x = i) cs)"
proof -
  have "find (\<lambda>x. kc_id x = i) (moved_to c c' cs)
      = (if i = kc_id c \<and> kc_id c \<in> kc_id ` set cs then Some c' else find (\<lambda>x. kc_id x = i) cs)"
    using assms(1) unfolding moved_to_def by (induction cs) auto
  then show ?thesis using assms(2) by auto
qed

lemma card_at_member: "board_ok b \<Longrightarrow> c \<in> set (kb_cards b) \<Longrightarrow> card_at b (kc_id c) = Some c"
proof -
  assume ok: "board_ok b" and c: "c \<in> set (kb_cards b)"
  obtain x where x: "card_at b (kc_id c) = Some x"
    using c by (cases "card_at b (kc_id c)") (auto simp: card_at_def find_None_iff)
  then have "x \<in> set (kb_cards b)" "kc_id x = kc_id c" by (auto simp: card_at_def find_Some_iff)
  with ok c have "x = c" by (auto simp: board_ok_def distinct_map inj_on_def)
  with x show ?thesis by simp
qed

lemma card_at_Some: "card_at b i = Some c \<Longrightarrow> c \<in> set (kb_cards b) \<and> kc_id c = i"
  by (auto simp: card_at_def find_Some_iff)

text \<open>What a step does to a card: nothing, or one move of that card.\<close>

lemma kstep_card_at:
  assumes "kstep H q oc b b'" "board_ok b"
  shows "(\<exists>e. kb_events b' = kb_events b @ [e] \<and> tells q oc e \<and>
     ((event_entry e = None \<and> kb_cards b' = kb_cards b)
      \<or> (\<exists>i at ps. ke_kind e = ''create'' \<and> event_entry e = Some (i, 0) \<and> card_at b i = None \<and> card_at b' = (card_at b)(i \<mapsto> new_card i at ps))
      \<or> (\<exists>c c'. event_entry e = Some (kc_id c, kc_revision c + 1) \<and> card_at b (kc_id c) = Some c \<and> moves H e c c'
           \<and> ke_result e = ''accepted'' \<and> ke_card e = Some (kc_id c) \<and> ke_expected e = Some (kc_revision c)
           \<and> card_at b' = (card_at b)(kc_id c \<mapsto> c'))))"
  using assms(1)
proof (cases rule: kstep.cases)
  case (refused e)
  then show ?thesis by (intro exI [of _ e]) (auto simp: event_entry_def)
next
  case (created e i at ps)
  then have "card_at b i = None" by (auto simp: card_at_def find_None_iff)
  moreover have "kc_id (new_card i at ps) = i" by (simp add: new_card_def set_fields_def)
  ultimately have "card_at b' = (card_at b)(i \<mapsto> new_card i at ps)"
    using created(1) by (auto simp: card_at_def find_append fun_eq_iff split: option.splits)
  then show ?thesis using created \<open>card_at b i = None\<close> by (intro exI [of _ e]) (auto simp: event_entry_def)
next
  case (moved e c c')
  have "card_at b' = (card_at b)(kc_id c \<mapsto> c')"
    using moved(1,4) moves_bump [OF moved(12)] by (auto simp: card_at_def find_moved fun_eq_iff)
  then show ?thesis
    using moved card_at_member [OF assms(2) moved(4)] by (intro exI [of _ e]) (auto simp: event_entry_def)
next
  case (counted e)
  then show ?thesis by (intro exI [of _ e]) (auto simp: event_entry_def)
qed

lemma revision_at_upd: "card_at b' = (card_at b)(i \<mapsto> c) \<Longrightarrow> revision_at b' = (revision_at b)(i \<mapsto> kc_revision c)"
  by (auto simp: revision_at_def fun_eq_iff)

lemma same_cards: "kb_cards b' = kb_cards b \<Longrightarrow> card_at b' = card_at b"
  by (simp add: card_at_def fun_eq_iff)

lemma khandled_card_at:
  assumes "board_ok b" "khandled H b b'"
  obtains (same) "b' = b"
    | (plain) e where "kb_events b' = kb_events b @ [e]" "event_entry e = None" "card_at b' = card_at b"
    | (made) e i at ps where "kb_events b' = kb_events b @ [e]" "event_entry e = Some (i, 0)" "card_at b i = None"
        "card_at b' = (card_at b)(i \<mapsto> new_card i at ps)"
    | (moved) e c c' where "kb_events b' = kb_events b @ [e]" "event_entry e = Some (kc_id c, kc_revision c + 1)" "card_at b (kc_id c) = Some c"
        "moves H e c c'" "ke_result e = ''accepted''" "ke_card e = Some (kc_id c)" "card_at b' = (card_at b)(kc_id c \<mapsto> c')"
proof (cases "b' = b")
  case False
  then obtain q oc where st: "kstep H q oc b b'" using khandled_cases [OF assms] by blast
  then obtain e where e: "kb_events b' = kb_events b @ [e]"
    and did: "(event_entry e = None \<and> kb_cards b' = kb_cards b)
      \<or> (\<exists>i at ps. event_entry e = Some (i, 0) \<and> card_at b i = None \<and> card_at b' = (card_at b)(i \<mapsto> new_card i at ps))
      \<or> (\<exists>c c'. event_entry e = Some (kc_id c, kc_revision c + 1) \<and> card_at b (kc_id c) = Some c \<and> moves H e c c'
           \<and> ke_result e = ''accepted'' \<and> ke_card e = Some (kc_id c) \<and> card_at b' = (card_at b)(kc_id c \<mapsto> c'))"
    using kstep_card_at [OF st assms(1)] by fast
  from did show thesis
    apply (elim disjE exE conjE)
      apply (rule plain [OF e], assumption, erule same_cards)
     apply (rule made [OF e]; assumption)
    apply (rule moved [OF e]; assumption)
    done
qed (rule same)

interpretation kb: journal board_ok "khandled H" kb_events event_entry revision_at for H
proof unfold_locales
  fix s s' assume ok: "board_ok s" and st: "khandled H s s'"
  show "board_ok s'" using khandled_cases [OF ok st] ok by blast
  show "s' = s \<or> (\<exists>e. kb_events s' = kb_events s @ [e]
      \<and> (case event_entry e of None \<Rightarrow> revision_at s' = revision_at s
         | Some (k, n) \<Rightarrow> n = next_rev (revision_at s k) \<and> revision_at s' = (revision_at s)(k \<mapsto> n)))"
    using ok st
  proof (cases rule: khandled_card_at)
    case (plain e)
    then show ?thesis by (auto simp: revision_at_def fun_eq_iff)
  next
    case (made e i at ps)
    then have "next_rev (revision_at s i) = 0" by (simp add: revision_at_def next_rev_def)
    then show ?thesis using made revision_at_upd [OF made(4)] by (simp add: new_card_def set_fields_def)
  next
    case (moved e c c')
    then have "next_rev (revision_at s (kc_id c)) = kc_revision c + 1" by (simp add: revision_at_def next_rev_def)
    then show ?thesis using moved revision_at_upd [OF moved(7)] moves_bump [OF moved(4)] by simp
  qed simp
next
  fix s k n assume "board_ok s" "revision_at s k = Some n"
  then show "0 \<le> n" by (auto simp: board_ok_def list_all_iff card_checks_def revision_at_def dest!: card_at_Some)
qed

section \<open>Reachable boards\<close>

definition kreach :: "(string \<Rightarrow> string) \<Rightarrow> board \<Rightarrow> bool" where
  "kreach H b \<longleftrightarrow> (\<exists>b0. board_ok b0 \<and> kb_cards b0 = [] \<and> kb_events b0 = [] \<and> (khandled H)\<^sup>*\<^sup>* b0 b)"

lemma kreach_ok: "kreach H b \<Longrightarrow> board_ok b"
  by (auto simp: kreach_def intro: kb.runs_kept)

lemma kreach_history:
  assumes "kreach H b" "card_at b i = Some c"
  shows "revisions event_entry i (kb_events b) = [0..kc_revision c]"
proof -
  obtain b0 where b0: "board_ok b0" "kb_cards b0 = []" "kb_events b0 = []" "(khandled H)\<^sup>*\<^sup>* b0 b"
    using assms(1) by (auto simp: kreach_def)
  then have "revisions event_entry i (kb_events b) = upto_rev (revision_at b i)"
    by (intro kb.revisions_complete [OF b0(1,4)]) (simp add: revision_at_def card_at_def upto_rev_def)
  then show ?thesis using assms(2) by (simp add: revision_at_def upto_rev_def)
qed

text \<open>An invariant of cards: it holds of a new card and every move keeps it.\<close>

lemma card_invariant:
  assumes reach: "kreach H b" and card: "card_at b i = Some c"
    and grow: "\<And>es es' c. P es c \<Longrightarrow> P (es @ es') c"
    and new: "\<And>es i at ps. P es (new_card i at ps)"
    and move: "\<And>es e c c'. P es c \<Longrightarrow> moves H e c c' \<Longrightarrow> ke_result e = ''accepted'' \<Longrightarrow> ke_card e = Some (kc_id c) \<Longrightarrow> P (es @ [e]) c'"
  shows "P (kb_events b) c"
proof -
  obtain b0 where b0: "board_ok b0" "kb_cards b0 = []" and run: "(khandled H)\<^sup>*\<^sup>* b0 b"
    using reach by (auto simp: kreach_def)
  from run have "\<forall>i c. card_at b i = Some c \<longrightarrow> P (kb_events b) c"
  proof (induction rule: rtranclp_induct)
    case base
    then show ?case using b0 by (simp add: card_at_def)
  next
    case (step b1 b2)
    show ?case
      using kb.runs_kept [OF step.hyps(1) b0(1)] step.hyps(2)
    proof (cases rule: khandled_card_at)
      case (plain e)
      then show ?thesis using step.IH grow by simp
    next
      case (made e i at ps)
      then show ?thesis using step.IH grow new by simp
    next
      case (moved e c c')
      then have "P (kb_events b2) c'" using step.IH by (auto intro: move [of _ c e c'])
      then show ?thesis using moved(1,7) step.IH grow by simp
    qed (use step.IH in simp)
  qed
  then show ?thesis using card by blast
qed

section \<open>Frozen approvals\<close>

lemma column_cong: "kc_fields c' k = kc_fields c k \<Longrightarrow> column c' k = column c k"
  by (simp add: column_def)

definition scope_like :: "card \<Rightarrow> card \<Rightarrow> bool" where
  "scope_like c' c \<longleftrightarrow> kc_id c' = kc_id c \<and> kc_generation c' = kc_generation c
     \<and> (\<forall>k\<in>set SCOPE_FIELDS. kc_fields c' k = kc_fields c k)"

lemma payload_of_scope:
  assumes "scope_like c' c"
  shows "build_approval_payload E c' = build_approval_payload E c"
proof -
  have same: "kc_fields c' k = kc_fields c k" if "k \<in> set SCOPE_FIELDS" for k
    using assms that unfolding scope_like_def by blast
  note f = same column_cong [OF same]
  have scope:
    "''repo_path'' \<in> set SCOPE_FIELDS"
    "''worktree_path'' \<in> set SCOPE_FIELDS"
    "''git_common_dir'' \<in> set SCOPE_FIELDS"
    "''change_name'' \<in> set SCOPE_FIELDS"
    "''spec_path'' \<in> set SCOPE_FIELDS"
    "''acceptance_path'' \<in> set SCOPE_FIELDS"
    "''spec_review_pointer'' \<in> set SCOPE_FIELDS"
    "''spec_review_hash'' \<in> set SCOPE_FIELDS"
    "''base_head'' \<in> set SCOPE_FIELDS"
    "''candidate_fingerprint'' \<in> set SCOPE_FIELDS"
    "''risk'' \<in> set SCOPE_FIELDS"
    "''estimate_by_pool'' \<in> set SCOPE_FIELDS"
    "''allowed_commands'' \<in> set SCOPE_FIELDS"
    "''profile_name'' \<in> set SCOPE_FIELDS"
    "''provider'' \<in> set SCOPE_FIELDS"
    "''model'' \<in> set SCOPE_FIELDS"
    "''effort'' \<in> set SCOPE_FIELDS"
    "''routing_digest'' \<in> set SCOPE_FIELDS"
    "''config_digest'' \<in> set SCOPE_FIELDS"
    by (simp_all add: SCOPE_FIELDS_def)
  note fs = scope [THEN same] scope [THEN column_cong [OF same]]
  have req: "find (\<lambda>k. column c' k = []) REQUIRED_APPROVAL_FIELDS = find (\<lambda>k. column c k = []) REQUIRED_APPROVAL_FIELDS"
    by (intro find_cong) (auto simp: REQUIRED_APPROVAL_FIELDS_def f)
  have dir: "find (\<lambda>k. \<not> be_dir E (column c' k)) [''repo_path'', ''worktree_path'', ''git_common_dir'']
      = find (\<lambda>k. \<not> be_dir E (column c k)) [''repo_path'', ''worktree_path'', ''git_common_dir'']"
    unfolding find.simps fs by (rule refl)
  have src: "approval_sources E c' = approval_sources E c"
    unfolding approval_sources_def fs by (rule refl)
  have con: "approval_contract c' = approval_contract c"
    unfolding approval_contract_def fs by (rule refl)
  have fro: "frozen_payload E c' so co = frozen_payload E c so co" for so co
    using assms unfolding frozen_payload_def Let_def fs by (simp only: scope_like_def)
  show ?thesis
    unfolding build_approval_payload_def req dir src con fro by (rule refl)
qed

text \<open>The approval a card carries covers the card as it stands.\<close>

definition approval_covers :: "(string \<Rightarrow> string) \<Rightarrow> kanban_event list \<Rightarrow> card \<Rightarrow> bool" where
  "approval_covers H es c \<longleftrightarrow> (\<forall>h. kc_approval_hash c = Some h \<longrightarrow>
     (\<exists>E frozen e. be_sha E = H \<and> build_approval_payload E (c\<lparr>kc_generation := kc_generation c - 1\<rparr>) = go frozen
        \<and> h = approval_hash H frozen \<and> e \<in> set es \<and> kc_approval_event c = Some (ke_operation e) \<and> ke_kind e = ''approve''
        \<and> ke_result e = ''accepted'' \<and> ke_card e = Some (kc_id c) \<and> ke_payload e = Some (dumps (JObj frozen))))
   \<and> (kc_state c = ''ready'' \<longrightarrow> kc_approval_hash c \<noteq> None)"

lemma covers_kept:
  assumes "approval_covers H es c" "scope_like c' c" "kc_approval_hash c' = kc_approval_hash c"
    "kc_approval_event c' = kc_approval_event c" "kc_state c' = ''ready'' \<longrightarrow> kc_state c = ''ready''"
  shows "approval_covers H (es @ es') c'"
proof -
  have "scope_like (c'\<lparr>kc_generation := kc_generation c' - 1\<rparr>) (c\<lparr>kc_generation := kc_generation c - 1\<rparr>)"
    using assms(2) by (simp add: scope_like_def)
  note same = payload_of_scope [OF this]
  have i: "kc_id c' = kc_id c" using assms(2) by (simp add: scope_like_def)
  show ?thesis
    using assms(1,5) unfolding approval_covers_def same assms(3,4) i set_append Un_iff by blast
qed

lemma covers_none: "kc_approval_hash c = None \<Longrightarrow> kc_state c \<noteq> ''ready'' \<Longrightarrow> approval_covers H es c"
  by (simp add: approval_covers_def)

lemma set_fields_other: "k \<notin> fst ` set ps \<Longrightarrow> kc_fields (set_fields ps c) k = kc_fields c k"
proof -
  assume k: "k \<notin> fst ` set ps"
  have "fold (\<lambda>(k, v) f. f(k := v)) ps f k = f k" for f :: "string \<Rightarrow> string option"
    using k by (induction ps arbitrary: f) auto
  then show ?thesis by (simp add: set_fields_def)
qed

lemma scope_touched_empty: "scope_touched fs = [] \<longleftrightarrow> (\<forall>k\<in>set SCOPE_FIELDS. k \<notin> fst ` set (storable fs))"
proof -
  have "fst ` set (storable fs) = set (keys fs)" by (force simp: storable_def keys_def)
  moreover have "sorted_set xs = [] \<longleftrightarrow> xs = []" for xs :: "string list"
    unfolding sorted_set_def by (metis set_empty set_remdups set_sort)
  ultimately show ?thesis by (auto simp: scope_touched_def filter_empty_conv)
qed

lemma edited_covers: "approval_covers H es c \<Longrightarrow> approval_covers H (es @ es') (bumped at (edited fs c))"
proof (cases "scope_touched fs = []")
  case True
  then have "scope_like (set_fields (storable fs) c) c"
    unfolding scope_touched_empty by (simp add: scope_like_def set_fields_other) (simp add: set_fields_def)
  then have "scope_like (bumped at (edited fs c)) c" using True by (simp add: scope_like_def edited_def bumped_def Let_def)
  moreover assume "approval_covers H es c"
  ultimately show ?thesis
    using True by (rule_tac covers_kept) (auto simp: edited_def bumped_def set_fields_def Let_def)
next
  case False
  assume "approval_covers H es c"
  show ?thesis
    using False by (intro covers_none) (auto simp: edited_def bumped_def set_fields_def clear_approval_def Let_def)
qed

lemma andthen_go: "andthen m f = go y \<longleftrightarrow> (\<exists>x. m = go x \<and> f x = go y)"
proof (cases m)
  case (Inr r)
  then show ?thesis by (cases r) (auto simp: andthen_def go_def refuse_def)
qed (simp add: andthen_def go_def)

lemma payload_frozen:
  assumes "build_approval_payload E c = go frozen"
  shows "\<exists>so co. frozen = frozen_payload E c so co"
proof -
  have "\<exists>so co. go (frozen_payload E c so co) = go frozen"
    using assms unfolding build_approval_payload_def
    by (auto simp: andthen_go simp del: find.simps split: option.splits) (auto simp: go_def refuse_def)
  then show ?thesis by (auto simp: go_def)
qed

lemma payload_generation: "build_approval_payload E c = go frozen \<Longrightarrow> jget frozen ''approval_generation'' = JInt (kc_generation c + 1)"
  by (drule payload_frozen) (auto simp: frozen_payload_def Let_def jget_def)

lemma approved_covers:
  assumes "build_approval_payload E c = go frozen" "be_sha E = H" "rq_operation q = ke_operation e" "ke_kind e = ''approve''"
    "ke_result e = ''accepted''" "ke_card e = Some (kc_id c)" "ke_payload e = Some (dumps (JObj frozen))"
  shows "approval_covers H (es @ [e]) (bumped at (approved E q at' frozen c))"
proof -
  have "scope_like (c'\<lparr>kc_generation := kc_generation c' - 1\<rparr>) c" if "c' = bumped at (approved E q at' frozen c)" for c'
    unfolding that by (simp add: payload_generation [OF assms(1)] scope_like_def bumped_def approved_def int_of_def)
  note same = payload_of_scope [OF this [OF refl], of E] 
  show ?thesis
    unfolding approval_covers_def
    using assms same by (auto simp: bumped_def approved_def intro!: exI [of _ E] exI [of _ frozen] exI [of _ e])
qed

lemma moves_covers:
  assumes cov: "approval_covers H es c" and mv: "moves H e c c'" and e: "ke_result e = ''accepted''" "ke_card e = Some (kc_id c)"
  shows "approval_covers H (es @ [e]) c'"
  using mv
proof (cases rule: moves.cases)
  case edited
  then show ?thesis using edited_covers [OF cov] by simp
next
  case approved
  then show ?thesis using approved_covers e by simp
next
  case invalidated
  then show ?thesis by (auto intro!: covers_none simp: bumped_def invalidated_def clear_approval_def)
qed (auto intro!: covers_kept [OF cov] simp: bumped_def scope_like_def)

lemma kreach_covers: "kreach H b \<Longrightarrow> card_at b i = Some c \<Longrightarrow> approval_covers H (kb_events b) c"
proof (erule card_invariant, assumption)
  fix es es' c assume "approval_covers H es c"
  then show "approval_covers H (es @ es') c" by (rule covers_kept) (auto simp: scope_like_def)
qed (auto intro: moves_covers covers_none simp: new_card_def set_fields_def)

section \<open>Finished cards\<close>

definition same_but_revision :: "card \<Rightarrow> card \<Rightarrow> bool" where
  "same_but_revision c' c \<longleftrightarrow> c' = c\<lparr>kc_revision := kc_revision c', kc_updated := kc_updated c'\<rparr>"

lemma moves_final: "moves H e c c' \<Longrightarrow> kc_state c \<in> set KANBAN_TERMINAL \<Longrightarrow> same_but_revision c' c"
  by (cases rule: moves.cases) (auto simp: bumped_def same_but_revision_def)

lemma same_but_revision_trans: "same_but_revision c'' c' \<Longrightarrow> same_but_revision c' c \<Longrightarrow> same_but_revision c'' c"
  unfolding same_but_revision_def by (cases c; cases c'; cases c'') simp

lemma same_state: "same_but_revision c' c \<Longrightarrow> kc_state c' = kc_state c"
  unfolding same_but_revision_def by (drule arg_cong [where f = kc_state]) simp

lemma final_kept:
  assumes "board_ok b" "(khandled H)\<^sup>*\<^sup>* b b'" "card_at b i = Some c" "kc_state c \<in> set KANBAN_TERMINAL"
  shows "\<exists>c'. card_at b' i = Some c' \<and> same_but_revision c' c"
  using assms(2)
proof (induction rule: rtranclp_induct)
  case base
  then show ?case using assms(3) by (simp add: same_but_revision_def)
next
  case (step b1 b2)
  then obtain c1 where c1: "card_at b1 i = Some c1" "same_but_revision c1 c" by blast
  have fin: "kc_state c1 \<in> set KANBAN_TERMINAL"
    using same_state [OF c1(2)] assms(4) by simp
  show ?case
    using kb.runs_kept [OF step.hyps(1) assms(1)] step.hyps(2)
  proof (cases rule: khandled_card_at)
    case (moved e c2 c')
    show ?thesis
    proof (cases "kc_id c2 = i")
      case True
      then have "c2 = c1" using moved(3) c1(1) by simp
      then show ?thesis
        using moves_final [OF moved(4)] fin True moved(7) same_but_revision_trans [OF _ c1(2), of c'] by simp
    qed (use moved(7) c1 in auto)
  qed (use c1 in auto)
qed

section \<open>Resent requests\<close>

lemma find_event_grows: "find_event b i = Some e \<Longrightarrow> kb_events b' = kb_events b @ es \<Longrightarrow> find_event b' i = Some e"
  by (simp add: find_event_def find_append)

lemma recorded:
  assumes "kstep H q oc b b'" "find_event b (rq_operation q) = None"
  shows "\<exists>e. find_event b' (rq_operation q) = Some e \<and> tells q oc e"
proof -
  obtain e where "tells q oc e" "kb_events b' = kb_events b @ [e]"
    using assms(1) by (cases rule: kstep.cases) auto
  then show ?thesis using assms(2) by (auto simp: find_event_def find_append tells_def)
qed

lemma resent:
  assumes ok: "board_ok b" and q: "read_request (be_sha E) r = Inr q" and H: "be_sha E' = be_sha E"
    and first: "handle_request E sv r now b = (Inr oc, b1)" and later: "(khandled (be_sha E))\<^sup>*\<^sup>* b1 b2"
  shows "\<exists>oc'. handle_request E' sv' r now' b2 = (Inr oc', b2) \<and> oc_operation oc' = oc_operation oc \<and> oc_result oc' = oc_result oc
    \<and> oc_reason oc' = oc_reason oc \<and> oc_revision oc' = oc_revision oc \<and> oc_recorded oc' = oc_recorded oc \<and> oc_replayed oc' = oc_recorded oc'"
proof (cases "find_event b (rq_operation q)")
  case None
  have st: "kstep (be_sha E) q oc b b1 \<and> board_ok b1" using handled_step [OF ok q None first] .
  then obtain e where e: "find_event b1 (rq_operation q) = Some e" "tells q oc e" using recorded None by blast
  obtain es where "kb_events b2 = kb_events b1 @ es" using kb.log_grows [OF later] st by blast
  from find_event_grows [OF e(1) this] have "find_event b2 (rq_operation q) = Some e" .
  then show ?thesis using q H e(2) by (simp add: handle_request_def replay_def tells_def Let_def)
next
  case (Some e)
  then have b1: "b1 = b" "oc = replay e (rq_digest q)" using first q by (simp_all add: handle_request_def)
  obtain es where "kb_events b2 = kb_events b @ es" using kb.log_grows [OF later] ok b1 by blast
  from find_event_grows [OF Some this] have "find_event b2 (rq_operation q) = Some e" .
  then show ?thesis using q H b1 by (simp add: handle_request_def replay_def Let_def)
qed

section \<open>One winner\<close>

lemma card_command_guarded:
  assumes "rq_command q \<in> set CARD_COMMANDS" "rq_command q \<noteq> ''create''"
  shows "\<exists>t a i body. dispatch E sv q now b = guarded q now t a i b body \<and> i \<in> {named_card q, card_id_of q}"
  using assms
  by (auto simp: CARD_COMMANDS_def dispatch_def Let_def edit_def approve_def withdraw_def return_card_def invalidate_def pause_def
      done_card_def archive_def report_progress_def place_def)

lemma reject_stored:
  assumes "board_ok b" "find_event b (rq_operation q) = None" "card_at b i = Some c" "rq_command q \<noteq> ''stop_evidence''"
  shows "\<exists>oc e. reject q at (JStr i) True reason b = Inr (oc, b\<lparr>kb_events := kb_events b @ [e]\<rparr>) \<and> oc_result oc = ''rejected'' \<and> oc_reason oc = Some reason"
proof -
  have "rq_operation q \<notin> set (operations b)" using assms(2) by (auto simp: find_event_def find_None_iff operations_def)
  moreover have "i \<in> kc_id ` set (kb_cards b)" using card_at_Some [OF assms(3)] by auto
  ultimately show ?thesis
    using assms(1,4) unfolding reject_def insert_kanban_event_def stored_board_def
    by (auto simp: event_of_def outcome_of_def Let_def board_ok_def operations_def kanban_event_checks_def list_all_iff opt_all_def split: option.splits)
qed

lemma stale_conflicts:
  assumes ok: "board_ok b" and q: "read_request (be_sha E) r = Inr q" "find_event b (rq_operation q) = None"
    and cmd: "rq_command q \<in> set CARD_COMMANDS" "rq_command q \<noteq> ''create''"
    and c: "card_id_of q = JStr i" "i \<noteq> []" "card_at b i = Some c"
    and x: "jget (rq_payload q) ''expected_revision'' = JInt n" "0 \<le> n" "n \<le> MAX_REVISION" "n \<noteq> kc_revision c"
  shows "\<exists>oc e. handle_request E sv r now b = (Inr oc, b\<lparr>kb_events := kb_events b @ [e]\<rparr>) \<and> oc_result oc = ''rejected'' \<and> oc_reason oc = Some ''revision_conflict''"
proof -
  have "find_card b (card_id_of q) = Some c" using c by (simp add: find_card_def card_at_def)
  moreover have "guard_reason c (rq_payload q) t a = Some ''revision_conflict''" for t a
    using x by (simp add: guard_reason_def valid_revision_def)
  moreover obtain t a j body where "dispatch E sv q now b = guarded q now t a j b body" "j \<in> {named_card q, card_id_of q}"
    using card_command_guarded [OF cmd] by blast
  moreover have "named_card q = JStr i" using c(1) by (simp add: named_card_def)
  ultimately have "dispatch E sv q now b = reject q (now 0) (JStr i) True ''revision_conflict'' b"
    using c(1) by (auto simp: guarded_def)
  moreover have "rq_command q \<noteq> ''stop_evidence''" using cmd(1) by (auto simp: CARD_COMMANDS_def)
  ultimately show ?thesis
    using reject_stored [OF ok q(2) c(3), of "now 0" "''revision_conflict''"] q by (auto simp: handle_request_def)
qed

lemma accepted_moves:
  assumes st: "kstep H q oc b b'" and ok: "board_ok b" and cmd: "rq_command q \<in> set CARD_COMMANDS" "rq_command q \<noteq> ''create''"
    and won: "oc_result oc = ''accepted''"
  shows "\<exists>c. c \<in> set (kb_cards b) \<and> card_id_of q = JStr (kc_id c) \<and> kc_id c \<noteq> [] \<and> kc_revision c < MAX_REVISION
    \<and> jget (rq_payload q) ''expected_revision'' = JInt (kc_revision c) \<and> revision_at b' (kc_id c) = Some (kc_revision c + 1)"
  using st
proof (cases rule: kstep.cases)
  case (moved e c c')
  have "revision_at b' (kc_id c) = Some (kc_revision c')"
    using moved(1,4) moves_bump [OF moved(12)] by (simp add: revision_at_def card_at_def find_moved)
  then show ?thesis using moved moves_bump [OF moved(12)] by (auto simp: card_id_of_def)
qed (use cmd won in \<open>auto simp: tells_def\<close>)

end
