(* ===== verification/BoardSafety.thy ===== *)
theory BoardSafety
  imports BoardLaws
begin

text \<open>
  The properties of the handler: it refines the step relation, a resent request is answered from the record, revisions are complete
  and won once, approvals stay frozen and finished cards stay finished.
\<close>

text \<open>C2: Whatever a request with a new operation asks, \<open>handle_request\<close> raises and leaves the tables alone, or takes one step of
  the abstract board: one event that says what the answer says, and at most one card created at revision 0 or moved to its next
  revision in a way its command allows; the tables still satisfy every constraint of the schema.\<close>

theorem request_takes_a_step:
  assumes "board_ok b" "read_request (be_sha E) r = Inr q" "find_event b (rq_operation q) = None"
    "handle_request E sv r now b = (answer, b')"
  shows "case answer of Inl e \<Rightarrow> b' = b | Inr oc \<Rightarrow> kstep (be_sha E) q oc b b' \<and> board_ok b'"
  using handled_error [of E sv r now b _ b'] handled_step [OF assms(1,2,3), of sv now _ b'] assms(4) by (cases answer) auto

text \<open>C15: A request that was answered and is sent again later, after any other requests and whatever the files and the clock are by
  then, gets the recorded result, reason and revision and changes nothing; only a request that had not been recorded (its operation
  had been used with another payload) is again not recorded.\<close>

theorem request_once:
  assumes "board_ok b" "read_request (be_sha E) r = Inr q" "be_sha E' = be_sha E" "handle_request E sv r now b = (Inr oc, b1)"
    "(khandled (be_sha E))\<^sup>*\<^sup>* b1 b2"
  shows "\<exists>oc'. handle_request E' sv' r now' b2 = (Inr oc', b2) \<and> oc_operation oc' = oc_operation oc \<and> oc_result oc' = oc_result oc
    \<and> oc_reason oc' = oc_reason oc \<and> oc_revision oc' = oc_revision oc \<and> oc_recorded oc' = oc_recorded oc \<and> oc_replayed oc' = oc_recorded oc'"
  by (rule resent [OF assms])

text \<open>C14: On every board the handler can reach from an empty one, the accepted events that name a card carry exactly the revisions
  0, 1, and so on up to the card's own, in that order: the history of a card has no gap, no repetition and nothing that it does not
  tell.\<close>

theorem history_complete:
  assumes "kreach H b" "c \<in> set (kb_cards b)"
  shows "revisions event_entry (kc_id c) (kb_events b) = [0..kc_revision c]"
  using kreach_history [OF assms(1) card_at_member [OF kreach_ok [OF assms(1)] assms(2)]] .

text \<open>C13: Two commands that expect the same revision of a card have one winner: once a request is accepted, every later request on
  that card with the same expected revision, whatever happened in between, is recorded as rejected with \<open>revision_conflict\<close> and
  changes no card.\<close>

theorem one_winner:
  assumes ok: "board_ok b" and H: "be_sha E' = be_sha E"
    and q: "read_request (be_sha E) r = Inr q" "find_event b (rq_operation q) = None"
    and cmd: "rq_command q \<in> set CARD_COMMANDS" "rq_command q \<noteq> ''create''"
    and first: "handle_request E sv r now b = (Inr oc, b1)" "oc_result oc = ''accepted''"
    and later: "(khandled (be_sha E))\<^sup>*\<^sup>* b1 b2"
    and q': "read_request (be_sha E) r' = Inr q'" "find_event b2 (rq_operation q') = None"
    and cmd': "rq_command q' \<in> set CARD_COMMANDS" "rq_command q' \<noteq> ''create''"
    and same: "card_id_of q' = card_id_of q" "jget (rq_payload q') ''expected_revision'' = jget (rq_payload q) ''expected_revision''"
  shows "\<exists>oc' e. handle_request E' sv' r' now' b2 = (Inr oc', b2\<lparr>kb_events := kb_events b2 @ [e]\<rparr>)
    \<and> oc_result oc' = ''rejected'' \<and> oc_reason oc' = Some ''revision_conflict''"
proof -
  have st: "kstep (be_sha E) q oc b b1" and ok1: "board_ok b1" using handled_step [OF ok q first(1)] by auto
  obtain c where c: "c \<in> set (kb_cards b)" "card_id_of q = JStr (kc_id c)" "kc_id c \<noteq> []" "kc_revision c < MAX_REVISION"
    "jget (rq_payload q) ''expected_revision'' = JInt (kc_revision c)" "revision_at b1 (kc_id c) = Some (kc_revision c + 1)"
    using accepted_moves [OF st ok cmd first(2)] by blast
  obtain m where m: "revision_at b2 (kc_id c) = Some m" "kc_revision c + 1 \<le> m"
    using kb.rev_grows [OF ok1 later c(6)] by blast
  then obtain c2 where c2: "card_at b2 (kc_id c) = Some c2" "kc_revision c2 = m" by (auto simp: revision_at_def)
  have "0 \<le> kc_revision c" using kb.nonneg [OF ok, of "kc_id c"] card_at_member [OF ok c(1)] by (simp add: revision_at_def)
  then show ?thesis
    using stale_conflicts [of b2 E' r' q' "kc_id c" c2 "kc_revision c" sv' now'] kb.runs_kept [OF later ok1] q' cmd' c c2 m same H by simp
qed

text \<open>C3: On every reachable board a card that is ready, or carries an approval, carries the hash of exactly the payload that an
  accepted approve event recorded, and that payload is what \<open>build_approval_payload\<close> builds of the card as it stands now: no
  command after the approval has changed a field the approval covers.\<close>

theorem approval_frozen:
  assumes "kreach H b" "card_at b i = Some c" "kc_state c = ''ready'' \<or> kc_approval_hash c \<noteq> None"
  shows "\<exists>E frozen e. be_sha E = H \<and> build_approval_payload E (c\<lparr>kc_generation := kc_generation c - 1\<rparr>) = go frozen
    \<and> kc_approval_hash c = Some (approval_hash H frozen) \<and> e \<in> set (kb_events b) \<and> kc_approval_event c = Some (ke_operation e)
    \<and> ke_kind e = ''approve'' \<and> ke_result e = ''accepted'' \<and> ke_card e = Some (kc_id c) \<and> ke_payload e = Some (dumps (JObj frozen))"
  using kreach_covers [OF assms(1,2)] assms(3) unfolding approval_covers_def by (cases "kc_approval_hash c") auto

text \<open>C16: A card that is done or archived stays as it is whatever requests follow: only its revision and the time of its last update
  can change, which a progress report or a placement advances.\<close>

theorem finished_is_final:
  assumes "board_ok b" "(khandled H)\<^sup>*\<^sup>* b b'" "card_at b i = Some c" "kc_state c \<in> set KANBAN_TERMINAL"
  shows "\<exists>c'. card_at b' i = Some c' \<and> c' = c\<lparr>kc_revision := kc_revision c', kc_updated := kc_updated c'\<rparr>"
  using final_kept [OF assms] unfolding same_but_revision_def .

end
