(* ===== verification/BoardSample.thy ===== *)
theory BoardSample
  imports BoardSafety
begin

text \<open>A small board: a card is created, approved, given up and archived.  Hashes keep the first characters of what they hash.\<close>

section \<open>The desk\<close>

definition board_profile :: string where
  "board_profile = ''version: 1'' @ nl # ''type: bugfix'' @ nl # ''initial_stage: review'' @ nl # ''max_transitions: 2'' @ nl # ''stages:'' @ nl
     # ''  review:'' @ nl # ''    owner: claude'' @ nl # ''    attempt_cap: 1'' @ nl # ''    timeout: 60'' @ nl # ''    prompt: Review.'' @ nl
     # ''    outcomes:'' @ nl # ''      ok: end'' @ nl # ''  end:'' @ nl # ''    terminal: done'' @ nl # ''edge_caps:'' @ nl # ''  review.ok: 1'' @ [nl]"

definition desk :: board_env where
  "desk = \<lparr>be_sha = take 12,
     be_files = (\<lambda>p. if p = ''/s'' then Some ''Status: approved'' else if p = ''/p'' then Some board_profile
        else if p \<in> set [''/a'', ''/r''] then Some ''fine'' else None),
     be_dir = (\<lambda>p. p = ''/w''), be_resolve = (\<lambda>p. p), be_home = ''/h'', be_literal = (\<lambda>s. None), be_decode_message = (\<lambda>s. s),
     be_instant = (\<lambda>s. None), be_tasks = empty_db\<rparr>"

definition operation_no :: "char \<Rightarrow> string" where
  "operation_no c = ''00000000-0000-4000-8000-00000000000'' @ [c]"

definition given :: "(string \<times> json) list \<Rightarrow> (string \<times> json) list" where
  "given p = [(''card_id'', JStr ''k1''), (''actor'', JStr ''op'')] @ p"

definition ask :: "string \<Rightarrow> char \<Rightarrow> (string \<times> json) list \<Rightarrow> (string \<times> json) list" where
  "ask command c p = [(''command'', JStr command), (''operation_id'', JStr (operation_no c)), (''payload'', JObj (given p))]"

definition asked :: "string \<Rightarrow> char \<Rightarrow> (string \<times> json) list \<Rightarrow> request" where
  "asked command c p = \<lparr>rq_command = command, rq_operation = operation_no c, rq_digest = payload_hash (be_sha desk) command (JObj (given p)),
     rq_payload = given p\<rparr>"

lemma ask_read:
  assumes "command \<in> set CARD_COMMANDS" "c \<in> set ''123456789''"
  shows "read_request (be_sha desk) (ask command c p) = Inr (asked command c p)"
proof -
  have "list_all (\<lambda>c. canonical_uuid (operation_no c)) ''123456789''" by code_simp
  then have "canonical_uuid (operation_no c)" using assms(2) by (auto simp: list_all_iff)
  moreover have "list_all (\<lambda>k. one_of (JStr k) KANBAN_COMMANDS \<and> k \<noteq> ''quota-cli-attempt'') CARD_COMMANDS" by code_simp
  then have "one_of (JStr command) KANBAN_COMMANDS" "command \<noteq> ''quota-cli-attempt''"
    using assms(1) unfolding list_all_iff by blast+
  moreover have "strip ''op'' \<noteq> []" by code_simp
  ultimately show ?thesis
    by (simp add: read_request_def ask_def asked_def jget_def given_def field_def entries_def str_of_def operation_no_def)
qed

section \<open>The card\<close>

definition card_fields :: "(string \<times> json) list" where
  "card_fields = [(''title'', JStr ''t''), (''repo_path'', JStr ''/w''), (''worktree_path'', JStr ''/w''), (''git_common_dir'', JStr ''/w''),
     (''change_name'', JStr ''c''), (''spec_path'', JStr ''/s''), (''acceptance_path'', JStr ''/a''), (''spec_review_pointer'', JStr ''/r''),
     (''spec_review_hash'', JStr ''fine''), (''base_head'', JStr ''b''), (''candidate_fingerprint'', JStr ''f''),
     (''risk'', JObj (map (\<lambda>k. (k, JBool False)) REQUIRED_RISK_KEYS)), (''estimate_by_pool'', JObj [(''x'', JInt 1)]),
     (''allowed_commands'', JArr [JStr ''ls'']), (''profile_name'', JStr ''/p''), (''provider'', JStr ''p''), (''model'', JStr ''m''),
     (''effort'', JStr ''low''), (''routing_digest'', JStr ''d''), (''config_digest'', JStr ''e'')]"

definition card_columns :: "(string \<times> json) list" where
  "card_columns = card_fields @ [(''priority'', JStr ''normal'')]"

definition tick :: "nat \<Rightarrow> int" where "tick n = 5 + int n"

lemma columns_read: "create_fields (given [(''fields'', JObj card_fields)]) = Inr card_columns"
  by code_simp

definition card1 :: card where "card1 = new_card ''k1'' 5 (storable card_columns)"

definition create_request :: request where "create_request = asked ''create'' CHR ''1'' [(''fields'', JObj card_fields)]"

definition event1 :: kanban_event where
  "event1 = event_of create_request (Some ''k1'') None (Some 0) 6 None (own_payload create_request)
     (Some (spaced (JObj (dict_update [(''manual_state'', JStr ''inbox'')] (stored_json (storable card_columns) @ [(''queue_location'', JStr ''backlog'')])))))"

definition board1 :: board where "board1 = empty_board\<lparr>kb_cards := [card1], kb_events := [event1]\<rparr>"

lemma card1_checks: "card_checks card1"
  by code_simp

lemma card1_facts: "kc_id card1 = ''k1''" "kc_revision card1 = 0" "kc_state card1 = ''inbox''" "kc_approval_event card1 = None" "kc_evidence card1 = None"
    "kc_task card1 = None" "kc_approval_hash card1 = None" "kc_generation card1 = 0"
  by (simp_all add: card1_def new_card_def set_fields_def)

lemma created1:
  "handle_request desk sv (ask ''create'' CHR ''1'' [(''fields'', JObj card_fields)]) tick empty_board
   = (Inr (outcome_of create_request (JStr ''k1'') ''accepted'' None (Some 0)), board1)"
proof -
  have read: "read_request (be_sha desk) (ask ''create'' CHR ''1'' [(''fields'', JObj card_fields)]) = Inr create_request"
    unfolding create_request_def by (rule ask_read) (simp_all add: CARD_COMMANDS_def)
  have p: "rq_payload create_request = given [(''fields'', JObj card_fields)]" "rq_command create_request = ''create''"
    by (simp_all add: create_request_def asked_def)
  have i: "card_id_of create_request = JStr ''k1''" "jget (rq_payload create_request) ''expected_revision'' = JNull"
    by (simp_all add: p card_id_of_def given_def jget_def)
  have none: "kb_cards empty_board = []" "kb_events empty_board = []" by (simp_all add: empty_board_def)
  have ok: "board_ok (empty_board\<lparr>kb_cards := [card1]\<rparr>)" "board_ok board1"
    using card1_checks card1_facts
    by (simp_all add: board_ok_def empty_board_def board1_def operations_def opt_all_def kanban_event_checks_def event1_def event_of_def p)
  have "create create_request tick empty_board = Inr (outcome_of create_request (JStr ''k1'') ''accepted'' None (Some 0), board1)"
    using ok [unfolded board1_def event1_def] unfolding create_def Let_def columns_read [folded p(1)] i
    by (simp add: find_card_def none insert_card_def accept_def accept_with_def insert_kanban_event_def i tick_def stored_board_def
        card1_def [symmetric] board1_def event1_def own_payload_def str_of_def)
  then show ?thesis
    unfolding handle_request_def read by (simp add: find_event_def empty_board_def dispatch_def p)
qed

section \<open>The approval\<close>

definition frozen1 :: "(string \<times> json) list" where
  "frozen1 = (case build_approval_payload desk card1 of Inr (Inr frozen) \<Rightarrow> frozen | _ \<Rightarrow> [])"

lemma approvable: "build_approval_payload desk card1 = go frozen1"
proof -
  have "(case build_approval_payload desk card1 of Inr (Inr frozen) \<Rightarrow> True | _ \<Rightarrow> False)" by code_simp
  then show ?thesis by (auto simp: frozen1_def go_def split: sum.splits)
qed

lemma frozen1_generation: "jget frozen1 ''approval_generation'' = JInt 1"
  using payload_generation [OF approvable] card1_facts by simp

definition approve_request :: request where "approve_request = asked ''approve'' CHR ''2'' [(''expected_revision'', JInt 0)]"

definition card2 :: card where "card2 = bumped 7 (approved desk approve_request 6 frozen1 card1)"

definition event2 :: kanban_event where
  "event2 = event_of approve_request (Some ''k1'') (Some 0) (Some 1) 5 None (dumps (JObj frozen1))
     (Some (spaced (JObj [(''manual_state'', JStr ''ready''), (''approval_generation'', jget frozen1 ''approval_generation''),
        (''approval_hash'', JStr (approval_hash (be_sha desk) frozen1)), (''gate_required'', jget frozen1 ''gate_required'')])))"

definition board2 :: board where "board2 = board1\<lparr>kb_cards := [card2], kb_events := [event1, event2]\<rparr>"

lemma approve_read: "read_request (be_sha desk) (ask ''approve'' CHR ''2'' [(''expected_revision'', JInt 0)]) = Inr approve_request"
  unfolding approve_request_def by (rule ask_read) (simp_all add: CARD_COMMANDS_def)

lemma approve_facts: "rq_command approve_request = ''approve''" "rq_operation approve_request = operation_no CHR ''2''"
    "card_id_of approve_request = JStr ''k1''" "jget (rq_payload approve_request) ''expected_revision'' = JInt 0"
  by (simp_all add: approve_request_def asked_def card_id_of_def given_def jget_def)

lemma event1_facts: "ke_operation event1 = operation_no CHR ''1''" "kanban_event_checks event1" "ke_card event1 = Some ''k1''"
    "event_entry event1 = Some (''k1'', 0)"
  by (simp_all add: event1_def event_of_def create_request_def asked_def kanban_event_checks_def event_entry_def)

lemma event2_facts: "ke_operation event2 = operation_no CHR ''2''" "kanban_event_checks event2" "ke_card event2 = Some ''k1''"
  by (simp_all add: event2_def event_of_def approve_facts kanban_event_checks_def)

lemma card2_facts: "kc_id card2 = ''k1''" "kc_revision card2 = 1" "kc_state card2 = ''ready''" "kc_approval_event card2 = Some (operation_no CHR ''2'')"
    "kc_evidence card2 = None" "kc_approval_hash card2 = Some (approval_hash (be_sha desk) frozen1)" "kc_task card2 = None"
  by (simp_all add: card2_def bumped_def approved_def card1_facts approve_facts)

lemma card2_checks: "card_checks card2"
  using card1_checks frozen1_generation
  by (simp add: card2_def bumped_def approved_def card_checks_def approval_whole_def int_of_def MANUAL_STATES_def)

lemma boards_ok: "board_ok board1" "board_ok (board1\<lparr>kb_events := [event1, event2]\<rparr>)" "board_ok board2"
  using card1_checks card2_checks
  by (simp_all add: board1_def board2_def empty_board_def board_ok_def operations_def opt_all_def event1_facts event2_facts card1_facts card2_facts
      operation_no_def)

lemma approved2:
  "handle_request desk sv (ask ''approve'' CHR ''2'' [(''expected_revision'', JInt 0)]) tick board1
   = (Inr ((outcome_of approve_request (JStr ''k1'') ''accepted'' None (Some 1))
        \<lparr>oc_extra := [(''approval_hash'', JStr (approval_hash (be_sha desk) frozen1)), (''approval_generation'', jget frozen1 ''approval_generation''),
           (''gate_required'', jget frozen1 ''gate_required'')]\<rparr>), board2)"
proof -
  have none: "kb_cards board1 = [card1]" "kb_events board1 = [event1]" by (simp_all add: board1_def)
  have guard: "guard_reason card1 (rq_payload approve_request) False False = None"
    by (simp add: guard_reason_def approve_facts card1_facts valid_revision_def MAX_REVISION_def KANBAN_TERMINAL_def)
  have rev: "kc_revision (approved desk approve_request 6 frozen1 card1) = 0" by (simp add: approved_def card1_facts)
  have b2: "board2 = board1\<lparr>kb_events := [event1, event2], kb_cards := [card2]\<rparr>" by (simp add: board2_def)
  have "approve desk approve_request tick board1 = Inr ((outcome_of approve_request (JStr ''k1'') ''accepted'' None (Some 1))
        \<lparr>oc_extra := [(''approval_hash'', JStr (approval_hash (be_sha desk) frozen1)), (''approval_generation'', jget frozen1 ''approval_generation''),
           (''gate_required'', jget frozen1 ''gate_required'')]\<rparr>, board2)"
    using boards_ok [unfolded b2 event2_def card2_def bumped_def] rev unfolding approve_def guarded_def approve_facts
    by (simp add: find_card_def none card1_facts guard approvable go_def record_then_move_def accept_with_def approve_facts
        insert_kanban_event_def stored_board_def cas_update_def update_cards_def with_extra_def tick_def card2_def bumped_def b2 event2_def int_of_def
        Let_def)
  then show ?thesis
    unfolding handle_request_def approve_read
    by (simp add: find_event_def none event1_facts approve_facts operation_no_def dispatch_def)
qed

section \<open>The properties on the sample\<close>

lemma sample_run: "(khandled (be_sha desk))\<^sup>*\<^sup>* empty_board board1" "(khandled (be_sha desk))\<^sup>*\<^sup>* board1 board2"
proof -
  have "khandled (be_sha desk) empty_board board1" using created1 [of "\<lambda>v. []"] unfolding khandled_def by (metis snd_conv)
  then show "(khandled (be_sha desk))\<^sup>*\<^sup>* empty_board board1" by blast
  have "khandled (be_sha desk) board1 board2" using approved2 [of "\<lambda>v. []"] unfolding khandled_def by (metis snd_conv)
  then show "(khandled (be_sha desk))\<^sup>*\<^sup>* board1 board2" by blast
qed

lemma sample_reached: "kreach (be_sha desk) board2"
  unfolding kreach_def using board_ok_empty rtranclp_trans [OF sample_run] by (intro exI [of _ empty_board]) (simp add: empty_board_def)

lemma create_read: "read_request (be_sha desk) (ask ''create'' CHR ''1'' [(''fields'', JObj card_fields)]) = Inr create_request"
  unfolding create_request_def by (rule ask_read) (simp_all add: CARD_COMMANDS_def)

lemma nothing_recorded: "find_event empty_board i = None"
  by (simp add: find_event_def empty_board_def)

lemma request_takes_a_step_witness:
  "kstep (be_sha desk) create_request (outcome_of create_request (JStr ''k1'') ''accepted'' None (Some 0)) empty_board board1"
  using request_takes_a_step [OF board_ok_empty create_read nothing_recorded created1] by simp

lemma request_once_witness:
  "\<exists>oc. handle_request desk (\<lambda>v. []) (ask ''create'' CHR ''1'' [(''fields'', JObj card_fields)]) tick board2 = (Inr oc, board2)
     \<and> oc_result oc = ''accepted'' \<and> oc_revision oc = Some 0 \<and> oc_replayed oc"
proof -
  have "\<exists>oc. handle_request desk (\<lambda>v. []) (ask ''create'' CHR ''1'' [(''fields'', JObj card_fields)]) tick board2 = (Inr oc, board2)
      \<and> oc_operation oc = rq_operation create_request \<and> oc_result oc = ''accepted'' \<and> oc_reason oc = None
      \<and> oc_revision oc = Some 0 \<and> oc_recorded oc = True \<and> oc_replayed oc = oc_recorded oc"
    using request_once [OF board_ok_empty create_read refl created1 sample_run(2), of "\<lambda>v. []" tick] by (simp add: outcome_of_def)
  then show ?thesis by auto
qed

lemma history_complete_witness: "revisions event_entry ''k1'' (kb_events board2) = [0, 1]"
  using history_complete [OF sample_reached, of card2] upto_rec1 [of 0 1] by (simp add: board2_def card2_facts)

lemma one_winner_witness:
  "\<exists>oc e. handle_request desk (\<lambda>v. []) (ask ''archive'' CHR ''3'' [(''expected_revision'', JInt 0)]) tick board2
      = (Inr oc, board2\<lparr>kb_events := kb_events board2 @ [e]\<rparr>)
    \<and> oc_result oc = ''rejected'' \<and> oc_reason oc = Some ''revision_conflict''"
proof -
  let ?q = "asked ''archive'' CHR ''3'' [(''expected_revision'', JInt 0)]"
  have read: "read_request (be_sha desk) (ask ''archive'' CHR ''3'' [(''expected_revision'', JInt 0)]) = Inr ?q"
    by (rule ask_read) (simp_all add: CARD_COMMANDS_def)
  have fresh: "find_event board1 (rq_operation approve_request) = None" "find_event board2 (rq_operation ?q) = None"
    by (simp_all add: find_event_def board1_def board2_def event1_facts event2_facts approve_facts asked_def operation_no_def)
  show ?thesis
    by (rule one_winner [OF boards_ok(1) refl approve_read fresh(1) _ _ approved2 _ rtranclp.rtrancl_refl read fresh(2)])
      (simp_all add: approve_request_def outcome_of_def CARD_COMMANDS_def asked_def card_id_of_def given_def jget_def)
qed

lemma approval_frozen_witness:
  "\<exists>e. e \<in> set (kb_events board2) \<and> ke_kind e = ''approve'' \<and> kc_approval_event card2 = Some (ke_operation e)"
proof -
  have c: "card_at board2 ''k1'' = Some card2" by (simp add: card_at_def board2_def card2_facts)
  show ?thesis using approval_frozen [OF sample_reached c] card2_facts(3) by auto
qed

definition shelved :: card where "shelved = card2\<lparr>kc_state := ''archived''\<rparr>"

lemma finished_is_final_witness:
  "\<exists>c. card_at (snd (handle_request desk (\<lambda>v. []) (ask ''place'' CHR ''4'' []) tick (board2\<lparr>kb_cards := [shelved]\<rparr>))) ''k1'' = Some c
     \<and> kc_state c = ''archived''"
proof -
  let ?b = "board2\<lparr>kb_cards := [shelved]\<rparr>"
  have ok: "board_ok ?b"
    using boards_ok(3) card2_checks
    by (simp add: board_ok_def board2_def shelved_def operations_def card_checks_def approval_whole_def MANUAL_STATES_def)
  have "khandled (be_sha desk) ?b (snd (handle_request desk (\<lambda>v. []) (ask ''place'' CHR ''4'' []) tick ?b))"
    unfolding khandled_def by blast
  from finished_is_final [OF ok r_into_rtranclp [of "khandled (be_sha desk)", OF this], of "''k1''" shelved]
  obtain c where c: "card_at (snd (handle_request desk (\<lambda>v. []) (ask ''place'' CHR ''4'' []) tick ?b)) ''k1'' = Some c"
    "c = shelved\<lparr>kc_revision := kc_revision c, kc_updated := kc_updated c\<rparr>"
    by (auto simp: card_at_def shelved_def card2_facts KANBAN_TERMINAL_def)
  have "kc_state c = kc_state (shelved\<lparr>kc_revision := kc_revision c, kc_updated := kc_updated c\<rparr>)" by (rule arg_cong [OF c(2)])
  with c(1) show ?thesis by (simp add: shelved_def)
qed

end
