(* ===== verification/Review.thy ===== *)
theory Review
  imports Classify Execution Approval
begin

text \<open>
  The evidence bundle of a review and the three-axis verdict of \<open>orchestrator/review_contract.py\<close>, and what
  \<open>orchestrator/execution_runner.py\<close> makes of a configured reviewer's run.  Git, the files below the workspace, the message of a
  \<open>TypeError\<close> and the run of the provider itself are parameters.
\<close>

definition REVIEW_BEGIN :: string where "REVIEW_BEGIN = ''<!-- orch-review-result -->''"
definition REVIEW_END :: string where "REVIEW_END = ''<!-- /orch-review-result -->''"
definition MAX_BUNDLE_BYTES :: nat where "MAX_BUNDLE_BYTES = 2 * 1024 * 1024"

definition review_digest :: "(string \<Rightarrow> string) \<Rightarrow> json \<Rightarrow> string" where
  "review_digest H v = H (dumps v)"

text \<open>\<open>ExecutionConfigError\<close> with its message, or any other exception.\<close>

datatype review_error = ReviewRejected string | ReviewTypeError json | ReviewRaises

section \<open>The bundle\<close>

record workspace =
  ws_git :: "string list \<Rightarrow> string option"
  ws_symlink :: "string \<Rightarrow> string option"
  ws_file :: "string \<Rightarrow> string option"

record report_file =
  rf_symlink :: bool
  rf_bytes :: string

definition text_file :: "string \<Rightarrow> (review_error, string) res" where
  "text_file bytes = (if utf8_valid bytes then Inr (universal_newlines bytes) else Inl ReviewRaises)"

definition git_text :: "workspace \<Rightarrow> string list \<Rightarrow> (review_error, string) res" where
  "git_text w args = (case ws_git w args of None \<Rightarrow> Inl ReviewRaises | Some s \<Rightarrow> if utf8_valid s then Inr s else Inl ReviewRaises)"

definition untracked_entry :: "workspace \<Rightarrow> string \<Rightarrow> (review_error, string \<times> json) res" where
  "untracked_entry w name =
     (if \<not> utf8_valid name then Inl ReviewRaises
      else case ws_symlink w name of
        Some link \<Rightarrow> Inr (name, JObj [(''symlink'', JStr link)])
      | None \<Rightarrow>
        (case ws_file w name of
           None \<Rightarrow> Inl (ReviewRejected ''unreadable or oversized candidate file'')
         | Some bytes \<Rightarrow>
           check (length bytes \<le> MAX_BUNDLE_BYTES) (ReviewRejected ''unreadable or oversized candidate file'')
            (bindR (text_file bytes) (\<lambda>s. Inr (name, JObj [(''text'', JStr s)])))))"

definition implementation_evidence :: "workspace \<Rightarrow> report_file option \<Rightarrow> (review_error, (string \<times> json) list) res" where
  "implementation_evidence w rep =
     bindR (git_text w [''rev-parse'', ''HEAD''])
      (\<lambda>head. bindR (git_text w [''diff'', ''--no-ext-diff'', ''--binary'', ''HEAD'', ''--''])
       (\<lambda>diff. bindR (case ws_git w [''ls-files'', ''--others'', ''--exclude-standard'', ''-z''] of None \<Rightarrow> Inl ReviewRaises | Some s \<Rightarrow> Inr s)
        (\<lambda>listed. bindR (mapR (untracked_entry w) (filter (\<lambda>n. n \<noteq> []) (sort (split_char CHR 0x00 listed))))
         (\<lambda>untracked.
           bindR (case rep of
                    None \<Rightarrow> Inr []
                  | Some f \<Rightarrow>
                    check (\<not> rf_symlink f \<and> length (rf_bytes f) \<le> MAX_BUNDLE_BYTES) (ReviewRejected ''unsafe implementation report'')
                     (bindR (text_file (rf_bytes f)) (\<lambda>s. Inr [(''executor_report'', JStr s)])))
            (\<lambda>extra. Inr ([(''head'', JStr (strip head)), (''diff'', JStr diff), (''untracked'', JObj (dict_update [] untracked))] @ extra))))))"

definition build_packet ::
  "(string \<Rightarrow> string) \<Rightarrow> json \<Rightarrow> workspace option \<Rightarrow> report_file option \<Rightarrow> (review_error, (string \<times> json) list) res" where
  "build_packet H context w rep =
     (case context of
        JObj kvs \<Rightarrow>
          let kind = jget kvs ''kind''; spec = jget kvs ''spec_text'' in
          check (set (keys kvs) = set [''kind'', ''spec_text'', ''spec_sha256'']) (ReviewRejected ''review context is missing or malformed'')
           (check (\<not> unhashable kind) (ReviewTypeError kind)
             (check (one_of kind [''spec'', ''implementation''] \<and> is_str spec) (ReviewRejected ''invalid review kind/spec'')
               (check (JStr (H (str_of spec)) = jget kvs ''spec_sha256'') (ReviewRejected ''review spec hash mismatch'')
                 (bindR (if kind \<noteq> JStr ''implementation'' then Inr []
                         else case w of None \<Rightarrow> Inl (ReviewRejected ''implementation review requires a workspace'')
                            | Some ws \<Rightarrow> implementation_evidence ws rep)
                   (\<lambda>extra. let candidate = JObj (kvs @ extra) in
                     check (length (dumps candidate) \<le> MAX_BUNDLE_BYTES) (ReviewRejected ''review bundle too large; narrow the task'')
                      (Inr [(''candidate_sha256'', JStr (review_digest H candidate)), (''evidence'', candidate)]))))))
      | _ \<Rightarrow> Inl (ReviewRejected ''review context is missing or malformed''))"

section \<open>The verdict\<close>

definition AXIS_VALUES :: "string list" where "AXIS_VALUES = [''PASS'', ''FAIL'', ''UNKNOWN'']"

definition FINDING_TEXTS :: "string list" where
  "FINDING_TEXTS = [''id'', ''evidence'', ''minimal_correction'', ''evidence_that_would_reverse'']"

definition filled :: "json \<Rightarrow> bool" where
  "filled v \<longleftrightarrow> (case v of JStr s \<Rightarrow> strip s \<noteq> [] | _ \<Rightarrow> False)"

definition packet_kind :: "(string \<times> json) list \<Rightarrow> json" where
  "packet_kind packet = field (jget packet ''evidence'') ''kind''"

definition verification_values :: "json \<Rightarrow> string list" where
  "verification_values kind = AXIS_VALUES @ (if kind = JStr ''implementation'' then [''DEFERRED''] else [])"

definition axes_ok :: "json \<Rightarrow> json \<Rightarrow> bool" where
  "axes_ok kind axes \<longleftrightarrow>
     (case axes of
        JObj kvs \<Rightarrow> set (keys kvs) = set [''product_spec'', ''constraints'', ''verification'']
          \<and> one_of (jget kvs ''product_spec'') AXIS_VALUES \<and> one_of (jget kvs ''constraints'') AXIS_VALUES
          \<and> one_of (jget kvs ''verification'') (verification_values kind)
      | _ \<Rightarrow> False)"

definition check_finding :: "json \<Rightarrow> (review_error, unit) res" where
  "check_finding f =
     check (is_obj f \<and> list_all (\<lambda>k. filled (field f k)) FINDING_TEXTS) (ReviewRejected ''finding lacks actionable evidence'')
      (check (\<not> unhashable (field f ''severity'')) (ReviewTypeError (field f ''severity''))
        (check (one_of (field f ''severity'') [''High'', ''Medium'', ''Low''] \<and> is_bool (field f ''blocking''))
           (ReviewRejected ''invalid finding severity/blocking'') (Inr ())))"

definition evidence_keys :: "json \<Rightarrow> string list" where
  "evidence_keys kind = [''owner'', ''check''] @ (if kind = JStr ''implementation'' then [''gate''] else [])"

definition owned :: "json \<Rightarrow> json \<Rightarrow> bool" where
  "owned kind item \<longleftrightarrow> is_obj item \<and> list_all (\<lambda>k. filled (field item k)) (evidence_keys kind)"

text \<open>The text between the markers.\<close>

definition review_block :: "string \<Rightarrow> string" where
  "review_block s =
     (let (_, _, rest) = partition_sub REVIEW_BEGIN s; (block, _, _) = partition_sub REVIEW_END rest in block)"

definition says_ready :: "string \<Rightarrow> bool" where
  "says_ready s \<longleftrightarrow> last (splitlines (rstrip s)) = ''ORCHESTRATOR_OUTCOME: ready''"

definition ready_axes :: "json \<Rightarrow> (string \<times> json) list \<Rightarrow> bool" where
  "ready_axes kind axes \<longleftrightarrow> jget axes ''product_spec'' = JStr ''PASS'' \<and> jget axes ''constraints'' = JStr ''PASS''
     \<and> one_of (jget axes ''verification'') (if kind = JStr ''implementation'' then [''PASS'', ''DEFERRED''] else [''PASS''])"

definition blocking_finding :: "json list \<Rightarrow> bool" where
  "blocking_finding fs \<longleftrightarrow> list_ex (\<lambda>f. field f ''blocking'' = JBool True) fs"

definition check_remaining :: "json \<Rightarrow> (string \<times> json) list \<Rightarrow> json list \<Rightarrow> (review_error, unit) res" where
  "check_remaining kind axes remaining =
     (let unknown = JStr ''UNKNOWN'' \<in> snd ` set axes; deferred = (jget axes ''verification'' = JStr ''DEFERRED'') in
      check (\<not> unknown \<or> remaining \<noteq> []) (ReviewRejected ''UNKNOWN has no evidence owner'')
       (check (list_all (owned kind) remaining) (ReviewRejected (''remaining evidence lacks '' @ join_with ''/'' (evidence_keys kind)))
         (check (\<not> deferred \<or> remaining \<noteq> []) (ReviewRejected ''DEFERRED has no evidence owner/gate'')
           (check (remaining = [] \<or> unknown \<or> deferred) (ReviewRejected ''remaining evidence requires UNKNOWN or DEFERRED'') (Inr ())))))"

definition check_record :: "string \<Rightarrow> json \<Rightarrow> (string \<times> json) list \<Rightarrow> (review_error, (string \<times> json) list) res" where
  "check_record s kind record =
     (let axes = entries (jget record ''axes'') in
      check (axes_ok kind (jget record ''axes'')) (ReviewRejected ''invalid review axes'')
       (case (jget record ''findings'', jget record ''remaining_evidence'') of
          (JArr findings, JArr remaining) \<Rightarrow>
            bindR (mapR check_finding findings)
             (\<lambda>_. check (distinct (map (\<lambda>f. field f ''id'') findings)) (ReviewRejected ''duplicate finding identity'')
               (bindR (check_remaining kind axes remaining)
                 (\<lambda>_. check (\<not> says_ready s \<or> (ready_axes kind axes \<and> \<not> blocking_finding findings))
                        (ReviewRejected ''ready contradicts review evidence'') (Inr record))))
        | _ \<Rightarrow> Inl (ReviewRejected ''missing review findings/evidence'')))"

definition validate_review :: "string \<Rightarrow> (string \<times> json) list \<Rightarrow> (review_error, (string \<times> json) list) res" where
  "validate_review s packet =
     check (count_sub REVIEW_BEGIN s = 1 \<and> count_sub REVIEW_END s = 1) (ReviewRejected ''review result must contain one three-axis block'')
      (case loads_unique (review_block s) of
         None \<Rightarrow> Inl (ReviewRejected ''invalid review JSON'')
       | Some (JObj record) \<Rightarrow>
           check (jget record ''candidate_sha256'' = jget packet ''candidate_sha256''
                  \<and> jget record ''spec_sha256'' = field (jget packet ''evidence'') ''spec_sha256'')
             (ReviewRejected ''review candidate/spec mismatch'')
            (check_record s (packet_kind packet) record)
       | Some _ \<Rightarrow> Inl (ReviewRejected ''review candidate/spec mismatch''))"

section \<open>The provider's result\<close>

definition provider_result :: "json \<Rightarrow> bool" where
  "provider_result v \<longleftrightarrow> is_obj v \<and> field v ''type'' = JStr ''result''"

definition provider_json :: "string \<Rightarrow> (review_error, json) res" where
  "provider_json output =
     bindR (case loads_unique output of
              Some v \<Rightarrow> Inr v
            | None \<Rightarrow>
              (case filter provider_result (List.map_filter loads_unique (splitlines output)) of
                 [v] \<Rightarrow> Inr v
               | _ \<Rightarrow> Inl (ReviewRejected ''missing or ambiguous native result JSON'')))
      (\<lambda>v. check (provider_result v) (ReviewRejected ''not a provider result'') (Inr v))"

section \<open>The command\<close>

text \<open>The arguments after the first two: the model and the effort at most once each, and one known flag.\<close>

fun configured_flags :: "bool \<Rightarrow> string list \<Rightarrow> string list \<Rightarrow> (review_error, unit) res" where
  "configured_flags codex seen [] = Inr ()"
| "configured_flags codex seen (item # items) =
     (let (key, equal, v) = partition_sub ''='' item; known = (if codex then ''--approve-for-me'' else ''--dangerously-skip-permissions'');
          canonical = (if key = ''--effort'' then ''effort'' else ''model'')
      in if key \<in> set [''--model'', ''-m'', ''--effort'']
         then check (canonical \<notin> set seen) (ReviewRejected (''duplicate configured '' @ canonical))
          (if \<not> equal
           then (case items of
                   [] \<Rightarrow> Inl (ReviewRejected (''missing configured '' @ canonical))
                 | a # rest \<Rightarrow> check (\<not> starts_with ''-'' a) (ReviewRejected (''missing configured '' @ canonical))
                     (configured_flags codex (canonical # seen) rest))
           else check (v \<noteq> []) (ReviewRejected (''empty configured '' @ canonical)) (configured_flags codex (canonical # seen) items))
         else check (item = known) (ReviewRejected (''unsupported configured argument: '' @ item))
          (check (item \<notin> set seen) (ReviewRejected ''duplicate execution flag'') (configured_flags codex (item # seen) items)))"

definition configured_command :: "string list \<Rightarrow> exec_choice \<Rightarrow> (review_error, string list) res" where
  "configured_command base c =
     (let codex = (ec_provider c = ''codex''); native = (if codex then ''codex'' else ''claude'');
          quote = [CHR 0x22]
      in check (base \<noteq> [] \<and> path_name (hd base) \<in> set [native, native @ ''.exe''])
           (ReviewRejected ''execution config requires a native provider executable'')
          (check (2 \<le> length base \<and> base ! 1 \<in> set (if codex then [''exec''] else [''-p'', ''--print'']))
             (ReviewRejected (''execution config requires '' @ native @ '' '' @ (if codex then ''exec'' else ''-p'')))
            (bindR (configured_flags codex [] (drop 2 base))
              (\<lambda>_. Inr (if ec_role c = ''reviewer''
                 then [hd base, ''-p'', ''--model'', ec_model c, ''--effort'', ec_effort c, ''--safe-mode'', ''--tools'', '''',
                       ''--output-format'', ''json'']
                 else [hd base, ''exec'', ''--model'', ec_model c, ''-c'', ''model_reasoning_effort='' @ quote @ ec_effort c @ quote,
                       ''--sandbox'', ''danger-full-access'', ''-c'', ''approval_policy='' @ quote @ ''never'' @ quote])))))"

section \<open>A configured run\<close>

record configured =
  cf_choice :: exec_choice
  cf_plan_digest :: string
  cf_command :: "string list"
  cf_packet :: "(string \<times> json) list option"
  cf_session :: "(string \<times> json) list option"

definition first_receipt :: "configured \<Rightarrow> run_result \<Rightarrow> (string \<times> json) list" where
  "first_receipt c raw =
     dict_update [(''schema_version'', JInt 1), (''plan_digest'', JStr (cf_plan_digest c))]
      (entries (choice_to_dict (cf_choice c))
       @ [(''invoked_argv'', JArr (map JStr (cf_command c @ (case rr_capture_path raw of None \<Rightarrow> [] | Some p \<Rightarrow> [''--output-last-message'', p])))),
          (''invocation_verified'', JBool (rr_containment_stop raw = None \<and> rr_started_at_ms raw \<noteq> None)),
          (''provider_reported_model'', JNull), (''provider_effort_unreported'', JBool True), (''provider_session_id'', JNull),
          (''session_binding'', case cf_session c of None \<Rightarrow> JNull | Some b \<Rightarrow> JObj b),
          (''sandbox_policy'', JStr (if ec_role (cf_choice c) = ''executor'' then ''orch-l1-required-v1'' else ''tool-less-review-v1''))])"

text \<open>The text of a reviewer, when the provider reports the model and the session that were asked for.\<close>

definition reviewer_text :: "configured \<Rightarrow> json \<Rightarrow> (review_error, string) res" where
  "reviewer_text c payload =
     (let usage = field payload ''modelUsage''; model = ec_model (cf_choice c) in
      check (field payload ''is_error'' = JBool False \<and> field payload ''subtype'' = JStr ''success'') (ReviewRejected ''provider did not succeed'')
       (check (is_obj usage \<and> model \<in> set (keys (entries usage))) (ReviewRejected ''requested reviewer model was not reported'')
         (check (is_obj (field usage model) \<and> field (field usage model) ''canonicalModel'' = JStr model)
            (ReviewRejected ''reviewer model identity mismatch'')
           (check (filled (field payload ''result'')) (ReviewRejected ''empty reviewer result'')
             (check (case cf_session c of None \<Rightarrow> True | Some [] \<Rightarrow> True | Some b \<Rightarrow> field payload ''session_id'' = jget b ''session_id'')
                (ReviewRejected ''resume_failed: provider session mismatch'')
               (Inr (str_of (field payload ''result'')))))))) "

definition error_text :: "(json \<Rightarrow> string) \<Rightarrow> review_error \<Rightarrow> string" where
  "error_text unhashable_text e = (case e of ReviewRejected m \<Rightarrow> m | ReviewTypeError v \<Rightarrow> unhashable_text v | ReviewRaises \<Rightarrow> [])"

definition with_response :: "run_result \<Rightarrow> string option \<Rightarrow> string option \<Rightarrow> (string \<times> json) list \<Rightarrow> run_result" where
  "with_response raw response problem receipt =
     raw\<lparr>rr_final_response := response, rr_final_response_source := Some CLAUDE_JSON_PROTOCOL, rr_final_response_error := problem,
         rr_execution_receipt := JObj receipt\<rparr>"

text \<open>A verdict that breaks the contract is kept as the response, and the receipt says that it was rejected.\<close>

definition judged_review ::
  "(json \<Rightarrow> string) \<Rightarrow> configured \<Rightarrow> run_result \<Rightarrow> (string \<times> json) list \<Rightarrow> string \<Rightarrow> run_result" where
  "judged_review unhashable_text c raw receipt response =
     (case cf_packet c of
        None \<Rightarrow> with_response raw (Some response) None receipt
      | Some packet \<Rightarrow>
        (case validate_review response packet of
           Inr record \<Rightarrow> with_response raw (Some response) None
             (dict_update receipt [(''review'', JObj record), (''candidate_sha256'', jget packet ''candidate_sha256'')])
         | Inl e \<Rightarrow>
           let told = dict_set ''verification_error'' (JStr (error_text unhashable_text e)) receipt in
           (case e of
              ReviewRejected _ \<Rightarrow> with_response raw (Some response) None (dict_set ''review_contract_error'' (JStr REVIEW_CONTRACT_REJECTED) told)
            | _ \<Rightarrow> with_response raw None (Some FINAL_RESPONSE_UNREADABLE) told)))"

definition finish_run :: "(json \<Rightarrow> string) \<Rightarrow> configured \<Rightarrow> run_result \<Rightarrow> run_result" where
  "finish_run unhashable_text c raw =
     (let receipt = first_receipt c raw in
      if ec_role (cf_choice c) \<noteq> ''reviewer'' then raw\<lparr>rr_execution_receipt := JObj receipt\<rparr>
      else case bindR (provider_json (rr_output raw)) (\<lambda>v. bindR (reviewer_text c v) (\<lambda>s. Inr (v, s))) of
          Inl e \<Rightarrow> with_response raw None (Some FINAL_RESPONSE_UNREADABLE)
            (dict_set ''verification_error'' (JStr (error_text unhashable_text e)) receipt)
        | Inr (payload, response) \<Rightarrow>
          judged_review unhashable_text c raw
            (dict_update receipt [(''provider_reported_model'', JStr (ec_model (cf_choice c))),
               (''provider_session_id'', field payload ''session_id''), (''usage_basis'', JStr ''cumulative'')]) response)"

end
