(* ===== verification/ReviewLaws.thy ===== *)
theory ReviewLaws
  imports Review
begin

text \<open>
  What a review that the controller takes as a success has been checked for, and the spelling of \<open>ready\<close> the check does not see.
\<close>

section \<open>The record\<close>

text \<open>What an accepted record says, when the text says that the candidate is ready.\<close>

definition passes :: "(string \<times> json) list \<Rightarrow> (string \<times> json) list \<Rightarrow> bool" where
  "passes packet record \<longleftrightarrow> jget record ''candidate_sha256'' = jget packet ''candidate_sha256''
     \<and> ready_axes (packet_kind packet) (entries (jget record ''axes''))
     \<and> (\<exists>findings. jget record ''findings'' = JArr findings \<and> \<not> blocking_finding findings \<and> list_all (\<lambda>f. check_finding f = Inr ()) findings)"

lemma mapR_unit: "mapR f xs = Inr ys \<Longrightarrow> list_all (\<lambda>x. f x = Inr ()) xs"
  by (induction xs arbitrary: ys) (auto simp: res_simps)

lemma accepted_ready: "validate_review s packet = Inr record \<Longrightarrow> says_ready s \<Longrightarrow> passes packet record"
  unfolding validate_review_def check_record_def Let_def passes_def
  by (auto simp: res_simps split: option.splits json.splits dest: mapR_unit)

section \<open>The run\<close>

lemma judged_cases:
  assumes "cf_packet c = Some packet" "rr_final_response_error (judged_review msg c raw receipt response) = None"
    "\<not> receipt_rejected (Some (judged_review msg c raw receipt response))"
  shows "rr_final_response (judged_review msg c raw receipt response) = Some response \<and> (\<exists>record. validate_review response packet = Inr record)"
proof (cases "validate_review response packet")
  case (Inl e)
  then show ?thesis using assms
    by (cases e) (simp_all add: judged_review_def with_response_def receipt_rejected_def jget_def Let_def)
next
  case (Inr accepted)
  then show ?thesis using assms(1) by (simp add: judged_review_def with_response_def)
qed

lemma reviewer_success:
  assumes "ec_role (cf_choice c) = ''reviewer''" "cf_packet c = Some packet"
    "rr_classification (classify_result ec out al t (Some (finish_run msg c raw))) = ''success''"
  shows "\<exists>response record oc. rr_final_response (finish_run msg c raw) = Some response \<and> validate_review response packet = Inr record
    \<and> rr_outcome (classify_result ec out al t (Some (finish_run msg c raw))) = Some oc \<and> oc \<in> set al \<and> names_outcome response oc"
proof -
  let ?r = "finish_run msg c raw"
  have ok: "rr_final_response_error ?r = None" "\<not> receipt_rejected (Some ?r)"
    and oc: "\<exists>oc. oc \<in> set al \<and> rr_outcome (classify_result ec out al t (Some ?r)) = Some oc \<and> names_outcome (authoritative_text (?r\<lparr>rr_output := out\<rparr>)) oc"
    using assms(3) unfolding success_iff by blast+
  obtain receipt response where "?r = judged_review msg c raw receipt response"
    using ok(1) assms(1) unfolding finish_run_def Let_def
    by (auto simp: with_response_def split: sum.splits prod.splits)
  with judged_cases [OF assms(2), of msg raw receipt response] ok
  have r: "rr_final_response ?r = Some response" "\<exists>record. validate_review response packet = Inr record" by auto
  then have "authoritative_text (?r\<lparr>rr_output := out\<rparr>) = response" by (simp add: authoritative_text_def)
  with r oc show ?thesis by auto
qed

end
