(* ===== verification/ReviewSample.thy ===== *)
theory ReviewSample
  imports ReviewLaws JsonLaws
begin

text \<open>
  A review that passes, the run that carries it, and a review that fails and is taken as ready.
\<close>

definition sample_packet :: "(string \<times> json) list" where
  "sample_packet = [(''candidate_sha256'', JStr ''c1''),
     (''evidence'', JObj [(''kind'', JStr ''spec''), (''spec_sha256'', JStr ''s1'')])]"

definition review_record :: "string \<Rightarrow> (string \<times> json) list" where
  "review_record verdict = [(''axes'', JObj [(''constraints'', JStr ''PASS''), (''product_spec'', JStr verdict), (''verification'', JStr ''PASS'')]),
     (''candidate_sha256'', JStr ''c1''), (''findings'', JArr []), (''remaining_evidence'', JArr []), (''spec_sha256'', JStr ''s1'')]"

definition review_text :: "string \<Rightarrow> string \<Rightarrow> string" where
  "review_text verdict ending = REVIEW_BEGIN @ dumps (JObj (review_record verdict)) @ REVIEW_END @ [nl] @ ending"

definition ready_text :: string where
  "ready_text = review_text ''PASS'' ''ORCHESTRATOR_OUTCOME: ready''"

definition spaced_text :: string where
  "spaced_text = review_text ''FAIL'' ''ORCHESTRATOR_OUTCOME:  ready''"

lemma ready_text_accepted: "validate_review ready_text sample_packet = Inr (review_record ''PASS'')"
  by code_simp

lemma ready_text_says_ready: "says_ready ready_text"
  by code_simp

lemma ready_text_marker: "final_outcome_marker ready_text = Some ''ready''"
  by code_simp

lemma spaced_text_accepted: "validate_review spaced_text sample_packet = Inr (review_record ''FAIL'')"
  by code_simp

lemma spaced_text_marker: "final_outcome_marker spaced_text = Some ''ready''"
  by code_simp

section \<open>The runs\<close>

definition sample_reviewer :: configured where
  "sample_reviewer = \<lparr>cf_choice = \<lparr>ec_role = ''reviewer'', ec_provider = ''claude'', ec_requested_model = None, ec_requested_effort = None,
     ec_model = ''m'', ec_effort = ''high''\<rparr>, cf_plan_digest = ''p1'', cf_command = [''claude''], cf_packet = Some sample_packet, cf_session = None\<rparr>"

definition sample_payload :: "string \<Rightarrow> json" where
  "sample_payload t = JObj [(''is_error'', JBool False), (''modelUsage'', JObj [(''m'', JObj [(''canonicalModel'', JStr ''m'')])]),
     (''result'', JStr t), (''subtype'', JStr ''success''), (''type'', JStr ''result'')]"

definition sample_raw :: "string \<Rightarrow> run_result" where
  "sample_raw t = base_result (Some 0) (dumps (sample_payload t)) None ''blocked'' ''r'' False"

lemma provider_json_sample: "provider_json (rr_output (sample_raw t)) = Inr (sample_payload t)"
proof -
  have w: "wf_json (sample_payload t)" "no_reals (sample_payload t)"
    by (simp_all add: sample_payload_def)
  have "sort_keys (sample_payload t) = sample_payload t"
    by (simp add: sample_payload_def sort_keys_obj keyed_def)
  with loads_dumps(2) [OF w] show ?thesis
    by (simp add: provider_json_def sample_raw_def base_result_def provider_result_def sample_payload_def jget_def)
qed

lemma jget_dict_update:
  "k \<notin> fst ` set ps \<Longrightarrow> jget (dict_update d ps) k = jget d k"
  unfolding dict_update_def
  by (induction ps arbitrary: d) (auto simp: jget_def)

lemma finish_sample:
  assumes "strip t \<noteq> []" "validate_review t sample_packet = Inr r"
  shows "\<exists>receipt. jget receipt ''review_contract_error'' = JNull
    \<and> finish_run msg sample_reviewer (sample_raw t) = with_response (sample_raw t) (Some t) None receipt"
proof -
  have "reviewer_text sample_reviewer (sample_payload t) = Inr t"
    using assms(1) by (simp add: reviewer_text_def sample_reviewer_def sample_payload_def entries_def jget_def filled_def keys_def str_of_def)
  then have "finish_run msg sample_reviewer (sample_raw t) = judged_review msg sample_reviewer (sample_raw t)
     (dict_update (first_receipt sample_reviewer (sample_raw t)) [(''provider_reported_model'', JStr ''m''),
        (''provider_session_id'', field (sample_payload t) ''session_id''), (''usage_basis'', JStr ''cumulative'')]) t"
    using provider_json_sample [of t] by (simp add: finish_run_def sample_reviewer_def)
  moreover have fresh: "jget (first_receipt sample_reviewer (sample_raw t)) ''review_contract_error'' = JNull"
    by (simp add: first_receipt_def dict_update_def sample_reviewer_def choice_to_dict_def entries_def jget_def)
  moreover have "judged_review msg sample_reviewer raw receipt t = with_response raw (Some t) None
      (dict_update receipt [(''review'', JObj r), (''candidate_sha256'', JStr ''c1'')])" for raw receipt
    using assms(2) by (simp add: judged_review_def sample_reviewer_def) (simp add: sample_packet_def jget_def)
  moreover have "jget (dict_update (dict_update (first_receipt sample_reviewer (sample_raw t)) [(''provider_reported_model'', JStr ''m''),
        (''provider_session_id'', v), (''usage_basis'', JStr ''cumulative'')]) [(''review'', JObj r), (''candidate_sha256'', JStr ''c1'')])
      ''review_contract_error'' = JNull" for v
    using fresh by (simp add: jget_dict_update)
  ultimately show ?thesis by metis
qed

lemma run_sample:
  assumes "strip t \<noteq> []" "validate_review t sample_packet = Inr r" "final_outcome_marker t = Some ''ready''"
  shows "typed_verdict (classify_result (Some 0) out [''ready''] False (Some (finish_run msg sample_reviewer (sample_raw t))))
    = (Some ''ready'', ''success'', ''success'')"
proof -
  obtain receipt where r: "jget receipt ''review_contract_error'' = JNull"
    "finish_run msg sample_reviewer (sample_raw t) = with_response (sample_raw t) (Some t) None receipt"
    using finish_sample [OF assms(1,2)] by blast
  show ?thesis using assms(3) r(1) unfolding r(2)
    by (simp add: typed_verdict_def classify_result_def with_response_def sample_raw_def base_result_def classify_plain_sel
      verdict_of_def source_error_def receipt_rejected_def outcome_verdict_def)
qed

lemma ready_text_run:
  "typed_verdict (classify_result (Some 0) out [''ready''] False (Some (finish_run msg sample_reviewer (sample_raw ready_text))))
    = (Some ''ready'', ''success'', ''success'')"
  by (rule run_sample [OF _ ready_text_accepted ready_text_marker]) code_simp

lemma spaced_text_run:
  "typed_verdict (classify_result (Some 0) out [''ready''] False (Some (finish_run msg sample_reviewer (sample_raw spaced_text))))
    = (Some ''ready'', ''success'', ''success'')"
  by (rule run_sample [OF _ spaced_text_accepted spaced_text_marker]) code_simp

section \<open>Properties\<close>

text \<open>C1: The gate of a configured review.  A reviewer's run is classified a success only when its final response is a text the
  review contract accepts against the bundle the run was given, and the outcome it carries is an allowed one which that text, not the
  display stream, names.  When the last line of the text is the ready marker, the accepted record names the bundle's candidate, passes
  all three axes (an implementation may defer its verification), and none of its findings blocks.\<close>

theorem review_gate:
  assumes "ec_role (cf_choice c) = ''reviewer''" "cf_packet c = Some packet"
    "rr_classification (classify_result ec out al t (Some (finish_run msg c raw))) = ''success''"
  shows "\<exists>response record oc. rr_final_response (finish_run msg c raw) = Some response
    \<and> validate_review response packet = Inr record
    \<and> rr_outcome (classify_result ec out al t (Some (finish_run msg c raw))) = Some oc \<and> oc \<in> set al \<and> names_outcome response oc
    \<and> (says_ready response \<longrightarrow> passes packet record)"
  using reviewer_success [OF assms] accepted_ready by blast

lemma review_gate_witness:
  "\<exists>response record. rr_final_response (finish_run (\<lambda>_. []) sample_reviewer (sample_raw ready_text)) = Some response
    \<and> validate_review response sample_packet = Inr record \<and> says_ready ready_text
    \<and> (says_ready response \<longrightarrow> passes sample_packet record)"
proof -
  have "ec_role (cf_choice sample_reviewer) = ''reviewer''" "cf_packet sample_reviewer = Some sample_packet"
    by (simp_all add: sample_reviewer_def)
  moreover have "rr_classification (classify_result (Some 0) [] [''ready''] False
      (Some (finish_run (\<lambda>_. []) sample_reviewer (sample_raw ready_text)))) = ''success''"
    using ready_text_run [of "[]" "\<lambda>_. []"] by (simp add: typed_verdict_def)
  ultimately show ?thesis using review_gate ready_text_says_ready by blast
qed

text \<open>C1: The gate reads the marker by one exact spelling and the classification by any spacing.  There is a review whose product axis
  says \<open>FAIL\<close>, which the contract nevertheless accepts, and whose run is a success with the outcome \<open>ready\<close>: its marker has a second
  space after the colon.\<close>

theorem ready_bypass:
  "\<exists>c packet raw response record.
     ec_role (cf_choice c) = ''reviewer'' \<and> cf_packet c = Some packet
   \<and> rr_final_response (finish_run msg c raw) = Some response
   \<and> validate_review response packet = Inr record
   \<and> jget (entries (jget record ''axes'')) ''product_spec'' = JStr ''FAIL''
   \<and> typed_verdict (classify_result (Some 0) out [''ready''] False (Some (finish_run msg c raw))) = (Some ''ready'', ''success'', ''success'')"
proof -
  have "strip spaced_text \<noteq> []" by code_simp
  from finish_sample [OF this spaced_text_accepted, of msg]
  have "rr_final_response (finish_run msg sample_reviewer (sample_raw spaced_text)) = Some spaced_text"
    by (auto simp: with_response_def)
  moreover have "ec_role (cf_choice sample_reviewer) = ''reviewer''" "cf_packet sample_reviewer = Some sample_packet"
    by (simp_all add: sample_reviewer_def)
  moreover have "jget (entries (jget (review_record ''FAIL'') ''axes'')) ''product_spec'' = JStr ''FAIL''"
    by (simp add: review_record_def entries_def jget_def)
  ultimately show ?thesis using spaced_text_accepted spaced_text_run by blast
qed

end
