(* ===== verification/Spec2Isabelle.thy ===== *)
theory Spec2Isabelle
  imports Sample TrajSample RecordSample ReplaySample QuotaLaws ArtifactLaws BoardSample ReviewSample
begin

text \<open>
  A verification development for \<open>agent-orch\<close> (\<open>src/orchestrator\<close>).
\<close>

end
